(* ===== verification/Prelude.thy ===== *)
theory Prelude
  imports Main "HOL-Library.Word"
begin

text \<open>
  Shared vocabulary of the development: the machine types of the C++ sources
  (\<open>std::size_t\<close> on a 64 bit target, \<open>std::string\<close> as a list of characters), the
  collections of simplification and introduction rules that the component theories fill, and
  the generic facts on lists, options and words they share.
\<close>

section \<open>Collections\<close>

named_theorems inv_intros \<open>introduction rules for component invariants\<close>

section \<open>Machine types\<close>

type_synonym size_t = "64 word"
type_synonym u16 = "16 word"

abbreviation size_max :: nat where
  "size_max \<equiv> 2 ^ 64"

definition size_of :: "'a list \<Rightarrow> size_t" where
  "size_of xs = of_nat (length xs)"

lemma unat_size_of: "length xs < size_max \<Longrightarrow> unat (size_of xs) = length xs"
  by (simp add: size_of_def unat_of_nat)

lemma size_of_eq_0_iff: "length xs < size_max \<Longrightarrow> size_of xs = 0 \<longleftrightarrow> xs = []"
  by (metis length_0_conv unat_0 unat_eq_zero unat_size_of)

lemma size_of_Nil [simp]: "size_of [] = 0"
  by (simp add: size_of_def)

section \<open>Exceptions and string views\<close>

datatype cpp_exception =
    OutOfRange
  | InvalidArgument
  | ContractViolation
  | ErrorException string
  | AsioException string

text \<open>
  A \<open>std::string_view\<close> is a pointer and a length: the memory that begins at the pointer, and
  how much of it is the view. \<open>data()\<close> handed to a function that takes a C string is read up to
  the first zero character of the memory.
\<close>

record string_view =
  sv_mem :: string
  sv_len :: nat

definition sv_chars :: "string_view \<Rightarrow> string" where
  "sv_chars v = take (sv_len v) (sv_mem v)"

definition sv_c_str :: "string_view \<Rightarrow> string" where
  "sv_c_str v = takeWhile (\<lambda>c. c \<noteq> CHR 0x00) (sv_mem v)"

definition sv_of_literal :: "string \<Rightarrow> string_view" where
  "sv_of_literal s = \<lparr>sv_mem = s @ [CHR 0x00], sv_len = length s\<rparr>"

lemma sv_of_literal_simps:
  "sv_chars (sv_of_literal s) = s"
  "CHR 0x00 \<notin> set s \<Longrightarrow> sv_c_str (sv_of_literal s) = s"
  by (auto simp: sv_chars_def sv_c_str_def sv_of_literal_def takeWhile_append)

section \<open>Lists\<close>

definition remove_nth :: "nat \<Rightarrow> 'a list \<Rightarrow> 'a list" where
  "remove_nth i xs = take i xs @ drop (Suc i) xs"

lemma remove_nth_0 [simp]: "remove_nth 0 (x # xs) = xs"
  by (simp add: remove_nth_def)

lemma length_remove_nth: "i < length xs \<Longrightarrow> length (remove_nth i xs) = length xs - 1"
  by (simp add: remove_nth_def)

lemma split_at_nth: "i < length xs \<Longrightarrow> xs = take i xs @ [xs ! i] @ drop (Suc i) xs"
  using id_take_nth_drop by fastforce

lemma filter_remove_nth_neg:
  assumes "i < length xs" and "\<not> P (xs ! i)"
  shows "filter P (remove_nth i xs) = filter P xs"
proof -
  have "filter P xs = filter P (take i xs @ [xs ! i] @ drop (Suc i) xs)"
    using assms(1) split_at_nth by metis
  with assms(2) show ?thesis by (simp add: remove_nth_def)
qed

lemma filter_remove_nth_single:
  assumes "i < length xs" and "P (xs ! i)" and "filter P xs = [y]"
  shows "xs ! i = y" and "filter P (remove_nth i xs) = []"
proof -
  have "filter P xs = filter P (take i xs @ [xs ! i] @ drop (Suc i) xs)"
    using assms(1) split_at_nth by metis
  with assms have *: "filter P (take i xs) @ xs ! i # filter P (drop (Suc i) xs) = [y]"
    by simp
  then show "xs ! i = y" and "filter P (remove_nth i xs) = []"
    by (auto simp: remove_nth_def append_eq_Cons_conv)
qed

lemma concat_map_Nil [simp]: "concat (map (\<lambda>_. []) xs) = []"
  by (induction xs) auto

lemma upt_Suc_Cons: "[u..<Suc (u + m)] = u # [Suc u..<Suc (u + m)]"
  by (simp add: upt_conv_Cons del: upt_Suc)

lemma filter_nonempty_concat: "concat (filter (\<lambda>w. w \<noteq> []) ws) = concat ws"
  by (induction ws) auto

end
