(* ===== verification/Events.thy ===== *)
theory Events
  imports Prelude
begin

text \<open>
  The error events of \<^verbatim>\<open>include/asyncgi/events.h\<close> and the event handler proxy of
  \<^verbatim>\<open>include/asyncgi/detail/eventhandlerproxy.h\<close> and \<^verbatim>\<open>src/eventhandlerproxy.cpp\<close>.
\<close>

section \<open>Error events\<close>

datatype error_event =
    ConnectionError
  | SocketReadError
  | SocketWriteError
  | SocketCloseError
  | RequestProcessingError
  | RouteParametersError

text \<open>
  The C++ type is an unscoped enumeration: its enumerators have the values 0, 1, \<dots> in order
  of declaration and compare as these integers.
\<close>

fun event_code :: "error_event \<Rightarrow> nat" where
  "event_code ConnectionError = 0"
| "event_code SocketReadError = 1"
| "event_code SocketWriteError = 2"
| "event_code SocketCloseError = 3"
| "event_code RequestProcessingError = 4"
| "event_code RouteParametersError = 5"

lemma event_code_inject: "event_code a = event_code b \<longleftrightarrow> a = b"
  by (cases a; cases b) simp_all

instantiation error_event :: linorder
begin

definition less_eq_error_event :: "error_event \<Rightarrow> error_event \<Rightarrow> bool" where
  "less_eq_error_event a b \<longleftrightarrow> event_code a \<le> event_code b"

definition less_error_event :: "error_event \<Rightarrow> error_event \<Rightarrow> bool" where
  "less_error_event a b \<longleftrightarrow> event_code a < event_code b"

instance
  by standard
    (auto simp: less_eq_error_event_def less_error_event_def event_code_inject[symmetric])

end

section \<open>The event handler proxy\<close>

text \<open>
  \<open>errorHandler_\<close> is a \<open>std::function\<close>; what the user's handler does is a transformer of
  the user's own state \<open>'u\<close>. The default member initialiser is the handler that does nothing.
\<close>

record 'u event_handler_proxy =
  errorHandler :: "error_event \<Rightarrow> string \<Rightarrow> 'u \<Rightarrow> 'u"

definition default_proxy :: "'u event_handler_proxy" where
  "default_proxy = \<lparr>errorHandler = (\<lambda>_ _ u. u)\<rparr>"

definition proxy_of :: "(error_event \<Rightarrow> string \<Rightarrow> 'u \<Rightarrow> 'u) \<Rightarrow> 'u event_handler_proxy" where
  "proxy_of eventHandler = \<lparr>errorHandler = eventHandler\<rparr>"

definition proxy_call :: "'u event_handler_proxy \<Rightarrow> error_event \<Rightarrow> string \<Rightarrow> 'u \<Rightarrow> 'u" where
  "proxy_call p event message = errorHandler p event message"

end
