(* ===== verification/Sockets.thy ===== *)
theory Sockets
  imports Events
begin

text \<open>
  What the connection classes share: the members \<open>writeBuffer_\<close>, \<open>nextWriteBuffer_\<close>,
  \<open>bytesToWrite_\<close> and \<open>disconnectRequested_\<close> that \<^verbatim>\<open>src/connection.h\<close> and
  \<^verbatim>\<open>src/clientconnection.h\<close> both declare, and the calls they make to asio.

  asio is not part of the repository. A call to it is an entry of the object's \<open>trace\<close>; what
  asio answers (the error of \<open>close\<close>, the result of \<open>is_open\<close>) is a parameter, a function
  of the calls made so far, so that any behaviour of asio is some value of the parameter. A
  completion handler that asio invokes is a function of its own, applied by the environment.

  The second half of the theory is the interface of a buffered write channel, as a locale: the
  laws a connection class keeps between these members, and what follows from them for the byte
  stream that reaches the peer.
\<close>

section \<open>Calls to asio\<close>

datatype action =
    AsyncConnect string
  | AsyncReadSome
  | AsyncWrite string
  | Shutdown
  | Close
  | Report error_event string

text \<open>
  An error code as the handlers use it: its message, and whether its value is
  \<open>asio::error::operation_aborted\<close>.
\<close>

datatype io_error =
    OperationAborted (message: string)
  | OtherError (message: string)

record asio_env =
  closeError :: "action list \<Rightarrow> string option"
  isOpen :: "action list \<Rightarrow> bool"

record sock_buf =
  writeBuffer :: string
  nextWriteBuffer :: string
  bytesToWrite :: size_t
  disconnectRequested :: bool
  trace :: "action list"

definition emit :: "action \<Rightarrow> 'a sock_buf_scheme \<Rightarrow> 'a sock_buf_scheme" where
  "emit a c = c\<lparr>trace := trace c @ [a]\<rparr>"

lemma emit_simps [simp]:
  "writeBuffer (emit a c) = writeBuffer c"
  "nextWriteBuffer (emit a c) = nextWriteBuffer c"
  "bytesToWrite (emit a c) = bytesToWrite c"
  "disconnectRequested (emit a c) = disconnectRequested c"
  "trace (emit a c) = trace c @ [a]"
  "sock_buf.more (emit a c) = sock_buf.more c"
  by (simp_all add: emit_def)

text \<open>
  The virtual methods of the FastCGI library's classes that send and disconnect: the library
  calls them on the connection that derives from it.
\<close>

datatype out_call =
    CallSendData string
  | CallDisconnect

text \<open>The buffers handed to \<open>asio::async_write\<close> so far, and the number of \<open>close\<close> calls.\<close>

fun started_write :: "action \<Rightarrow> string list" where
  "started_write (AsyncWrite d) = [d]"
| "started_write _ = []"

definition started :: "'a sock_buf_scheme \<Rightarrow> string list" where
  "started c = concat (map started_write (trace c))"

definition closes :: "'a sock_buf_scheme \<Rightarrow> nat" where
  "closes c = count_list (trace c) Close"

lemma started_emit [simp]: "started (emit a c) = started c @ started_write a"
  by (simp add: started_def)

lemma closes_emit [simp]: "closes (emit a c) = closes c + (if a = Close then 1 else 0)"
  by (simp add: closes_def)

lemma started_upd [simp]:
  "started (c\<lparr>writeBuffer := x\<rparr>) = started c"
  "started (c\<lparr>nextWriteBuffer := y\<rparr>) = started c"
  "started (c\<lparr>bytesToWrite := n\<rparr>) = started c"
  "started (c\<lparr>disconnectRequested := b\<rparr>) = started c"
  by (simp_all add: started_def)

lemma closes_upd [simp]:
  "closes (c\<lparr>writeBuffer := x\<rparr>) = closes c"
  "closes (c\<lparr>nextWriteBuffer := y\<rparr>) = closes c"
  "closes (c\<lparr>bytesToWrite := n\<rparr>) = closes c"
  "closes (c\<lparr>disconnectRequested := b\<rparr>) = closes c"
  by (simp_all add: closes_def)

text \<open>The value the members have when an object is constructed.\<close>

definition fresh :: "'a sock_buf_scheme \<Rightarrow> bool" where
  "fresh c \<longleftrightarrow> writeBuffer c = [] \<and> nextWriteBuffer c = [] \<and> bytesToWrite c = 0 \<and>
     \<not> disconnectRequested c \<and> trace c = []"

definition sock_buf_init :: sock_buf where
  "sock_buf_init = \<lparr>writeBuffer = [], nextWriteBuffer = [], bytesToWrite = 0,
     disconnectRequested = False, trace = []\<rparr>"

lemma fresh_init [simp]: "fresh sock_buf_init"
  by (simp add: fresh_def sock_buf_init_def)

end
