(* ===== verification/Write_Channel.thy ===== *)
theory Write_Channel
  imports Sockets
begin

text \<open>
  The interface of a buffered, asynchronous write channel: the contract that the write paths of
  \<open>Connection\<close> and \<open>ClientConnection\<close> share. A link is one end of a connection together with
  what asio holds for it: the writes in flight and the bytes the peer has received.

  Documented behaviour of \<open>asio::async_write\<close> used here: the buffer is a view of the caller's
  memory, read until the operation completes; the handler runs once per operation; an operation
  that completes without an error has transferred the whole buffer. Operations complete in any
  order (an empty write completes at once), so the event names the operation that completes.
\<close>

section \<open>Links and their events\<close>

record 'c link =
  side :: 'c
  inflight :: "string list"
  wire :: string

datatype chan_event =
    Sent string
  | Finished
  | Completed nat

fun sent :: "chan_event list \<Rightarrow> string" where
  "sent [] = []"
| "sent (Sent d # es) = d @ sent es"
| "sent (_ # es) = sent es"

lemma sent_append [simp]: "sent (es @ fs) = sent es @ sent fs"
  by (induction es rule: sent.induct) auto

lemma sent_completed [simp]: "sent (replicate n (Completed i)) = []"
  by (induction n) auto

definition link_init :: "'c \<Rightarrow> 'c link" where
  "link_init c = \<lparr>side = c, inflight = [], wire = []\<rparr>"

definition relink :: "('c \<Rightarrow> string list) \<Rightarrow> 'c \<Rightarrow> 'c link \<Rightarrow> 'c link" where
  "relink starts c l =
     l\<lparr>side := c, inflight := inflight l @ drop (length (starts (side l))) (starts c)\<rparr>"

text \<open>
  A completed write has transferred the bytes that its view of the memory \<open>buf\<close> holds at that
  moment, which need not be the bytes that were there when the write began.
\<close>

fun link_step :: "(string \<Rightarrow> 'c \<Rightarrow> 'c) \<Rightarrow> (size_t \<Rightarrow> 'c \<Rightarrow> 'c) \<Rightarrow> ('c \<Rightarrow> 'c) \<Rightarrow>
    ('c \<Rightarrow> string) \<Rightarrow> ('c \<Rightarrow> string list) \<Rightarrow> chan_event \<Rightarrow> 'c link \<Rightarrow> 'c link" where
  "link_step send written finish buf starts (Sent d) l = relink starts (send d (side l)) l"
| "link_step send written finish buf starts Finished l = relink starts (finish (side l)) l"
| "link_step send written finish buf starts (Completed i) l =
     (if i < length (inflight l)
      then relink starts (written (size_of (inflight l ! i)) (side l))
        (l\<lparr>inflight := remove_nth i (inflight l),
           wire := wire l @ take (length (inflight l ! i)) (buf (side l))\<rparr>)
      else l)"

definition link_run :: "(string \<Rightarrow> 'c \<Rightarrow> 'c) \<Rightarrow> (size_t \<Rightarrow> 'c \<Rightarrow> 'c) \<Rightarrow> ('c \<Rightarrow> 'c) \<Rightarrow>
    ('c \<Rightarrow> string) \<Rightarrow> ('c \<Rightarrow> string list) \<Rightarrow> chan_event list \<Rightarrow> 'c link \<Rightarrow> 'c link" where
  "link_run send written finish buf starts es l =
     fold (link_step send written finish buf starts) es l"

lemma link_run_simps [simp]:
  "link_run send written finish buf starts [] l = l"
  "link_run send written finish buf starts (e # es) l =
     link_run send written finish buf starts es (link_step send written finish buf starts e l)"
  by (simp_all add: link_run_def)

lemma link_run_append:
  "link_run send written finish buf starts (es @ fs) l =
     link_run send written finish buf starts fs (link_run send written finish buf starts es l)"
  by (simp add: link_run_def)

text \<open>A sequence of completions, each of an operation that is in flight.\<close>

fun completions :: "(chan_event \<Rightarrow> 'c link \<Rightarrow> 'c link) \<Rightarrow> 'c link \<Rightarrow> chan_event list \<Rightarrow> bool" where
  "completions step l [] = True"
| "completions step l (Completed i # es) =
     (i < length (inflight l) \<and> completions step (step (Completed i) l) es)"
| "completions step l (_ # es) = False"

definition nonempty :: "string list \<Rightarrow> string list" where
  "nonempty ws = filter (\<lambda>w. w \<noteq> []) ws"

lemma concat_nonempty: "concat ws = concat (nonempty ws)"
  by (simp add: nonempty_def filter_nonempty_concat)

lemma take_append_drop: "take n xs @ ys = xs \<Longrightarrow> ys = drop n xs"
  using append_take_drop_id[of n xs] same_append_eq[of "take n xs" ys "drop n xs"] by simp

section \<open>The abstract stream\<close>

text \<open>
  What the peer of a channel may rely on, without buffers and operations: bytes that were accepted
  and not delivered, in order, and a request to close that is carried out when none is left.
\<close>

record stream =
  st_delivered :: string
  st_pending :: string
  st_closing :: bool
  st_closed :: nat

datatype stream_event =
    Accept string
  | RequestClose
  | Deliver nat

fun stream_close :: "stream \<Rightarrow> stream" where
  "stream_close s =
     (if st_closing s \<and> st_pending s = []
      then s\<lparr>st_closing := False, st_closed := Suc (st_closed s)\<rparr> else s)"

fun stream_step :: "stream_event \<Rightarrow> stream \<Rightarrow> stream" where
  "stream_step (Accept d) s = s\<lparr>st_pending := st_pending s @ d\<rparr>"
| "stream_step RequestClose s = stream_close (s\<lparr>st_closing := True\<rparr>)"
| "stream_step (Deliver n) s =
     stream_close (s\<lparr>st_delivered := st_delivered s @ take n (st_pending s),
       st_pending := drop n (st_pending s)\<rparr>)"

lemma stream_deliver:
  "st_delivered s' = st_delivered s @ take n (st_pending s) \<Longrightarrow>
   st_pending s' = drop n (st_pending s) \<Longrightarrow>
   st_closing s' = (st_closing s \<and> st_pending s' \<noteq> []) \<Longrightarrow>
   st_closed s' = st_closed s + (if st_closing s \<and> st_pending s' = [] then 1 else 0) \<Longrightarrow>
   s' = stream_step (Deliver n) s"
  by (cases s; cases s') auto

definition stream_new :: stream where
  "stream_new = \<lparr>st_delivered = [], st_pending = [], st_closing = False, st_closed = 0\<rparr>"

definition stream_of :: "('c \<Rightarrow> string) \<Rightarrow> ('c \<Rightarrow> bool) \<Rightarrow> ('c \<Rightarrow> nat) \<Rightarrow> 'c link \<Rightarrow> stream" where
  "stream_of queued closing closed l =
     \<lparr>st_delivered = wire l, st_pending = concat (inflight l) @ queued (side l),
      st_closing = closing (side l), st_closed = closed (side l)\<rparr>"

text \<open>The event of the stream that an event of the link is.\<close>

fun abs_event :: "'c link \<Rightarrow> chan_event \<Rightarrow> stream_event" where
  "abs_event l (Sent d) = Accept d"
| "abs_event l Finished = RequestClose"
| "abs_event l (Completed i) =
     Deliver (if i < length (inflight l) then length (inflight l ! i) else 0)"

fun abs_events :: "(chan_event \<Rightarrow> 'c link \<Rightarrow> 'c link) \<Rightarrow> 'c link \<Rightarrow> chan_event list \<Rightarrow>
    stream_event list" where
  "abs_events step l [] = []"
| "abs_events step l (e # es) = abs_event l e # abs_events step (step e l) es"

section \<open>The contract\<close>

locale write_channel =
  fixes send :: "string \<Rightarrow> 'c \<Rightarrow> 'c"
    and written :: "size_t \<Rightarrow> 'c \<Rightarrow> 'c"
    and finish :: "'c \<Rightarrow> 'c"
    and buf :: "'c \<Rightarrow> string"
    and queued :: "'c \<Rightarrow> string"
    and todo :: "'c \<Rightarrow> size_t"
    and closing :: "'c \<Rightarrow> bool"
    and starts :: "'c \<Rightarrow> string list"
    and closed :: "'c \<Rightarrow> nat"
  assumes send_busy: "todo c \<noteq> 0 \<Longrightarrow> buf (send d c) = buf c \<and> queued (send d c) = queued c @ d \<and>
      todo (send d c) = todo c \<and> starts (send d c) = starts c"
    and send_idle: "todo c = 0 \<Longrightarrow> buf (send d c) = queued c @ d \<and> queued (send d c) = [] \<and>
      todo (send d c) = size_of (queued c @ d) \<and> starts (send d c) = starts c @ [queued c @ d]"
    and send_closing: "closing (send d c) = closing c \<and> closed (send d c) = closed c"
    and written_partly: "n \<noteq> todo c \<Longrightarrow> buf (written n c) = buf c \<and> queued (written n c) = queued c \<and>
      todo (written n c) = todo c - n \<and> starts (written n c) = starts c \<and>
      closing (written n c) = closing c \<and> closed (written n c) = closed c"
    and written_next: "n = todo c \<Longrightarrow> queued c \<noteq> [] \<Longrightarrow> buf (written n c) = queued c \<and>
      queued (written n c) = [] \<and> todo (written n c) = size_of (queued c) \<and>
      starts (written n c) = starts c @ [queued c] \<and>
      closing (written n c) = closing c \<and> closed (written n c) = closed c"
    and written_last: "n = todo c \<Longrightarrow> queued c = [] \<Longrightarrow> buf (written n c) = buf c \<and>
      queued (written n c) = [] \<and> todo (written n c) = 0 \<and> starts (written n c) = starts c \<and>
      \<not> closing (written n c) \<and> closed (written n c) = closed c + (if closing c then 1 else 0)"
    and finish_frame: "buf (finish c) = buf c \<and> queued (finish c) = queued c \<and>
      todo (finish c) = todo c \<and> starts (finish c) = starts c"
    and finish_busy: "todo c \<noteq> 0 \<Longrightarrow> closing (finish c) \<and> closed (finish c) = closed c"
    and finish_idle: "todo c = 0 \<Longrightarrow> \<not> closing (finish c) \<and> closed (finish c) = Suc (closed c)"
begin

abbreviation step :: "chan_event \<Rightarrow> 'c link \<Rightarrow> 'c link" where
  "step \<equiv> link_step send written finish buf starts"

abbreviation run :: "chan_event list \<Rightarrow> 'c link \<Rightarrow> 'c link" where
  "run \<equiv> link_run send written finish buf starts"

text \<open>
  The invariant of a link that has accepted the bytes \<open>a\<close> and seen no write error: at most one
  write with data is in flight, it is a view of the whole buffer, and the bytes on the wire, in
  the buffer and in the queue are the accepted bytes in order.
\<close>

definition good :: "string \<Rightarrow> 'c link \<Rightarrow> bool" where
  "good a l \<longleftrightarrow>
     (if todo (side l) = 0
      then nonempty (inflight l) = [] \<and> queued (side l) = [] \<and> a = wire l \<and> \<not> closing (side l)
      else nonempty (inflight l) = [buf (side l)] \<and> todo (side l) = size_of (buf (side l)) \<and>
        a = wire l @ buf (side l) @ queued (side l))"

lemma good_idle:
  "todo (side l) = 0 \<Longrightarrow> good a l \<longleftrightarrow> nonempty (inflight l) = [] \<and> queued (side l) = [] \<and>
     a = wire l \<and> \<not> closing (side l)"
  by (simp add: good_def)

lemma good_busy:
  "todo (side l) \<noteq> 0 \<Longrightarrow> good a l \<longleftrightarrow> nonempty (inflight l) = [buf (side l)] \<and>
     todo (side l) = size_of (buf (side l)) \<and> a = wire l @ buf (side l) @ queued (side l)"
  by (simp add: good_def)

lemma good_init:
  "todo c = 0 \<Longrightarrow> queued c = [] \<Longrightarrow> \<not> closing c \<Longrightarrow> good [] (link_init c)"
  by (simp add: good_def link_init_def nonempty_def)

lemma relink_fields [simp]:
  "side (relink starts c l) = c" "wire (relink starts c l) = wire l"
  by (simp_all add: relink_def)

lemma nonempty_relink_same:
  "starts c = starts (side l) \<Longrightarrow> inflight (relink starts c l) = inflight l"
  by (simp add: relink_def)

lemma inflight_relink_new:
  "starts c = starts (side l) @ [w] \<Longrightarrow> inflight (relink starts c l) = inflight l @ [w]"
  by (simp add: relink_def)

lemma good_send:
  assumes "good a l" and "length (a @ d) < size_max"
  shows "good (a @ d) (step (Sent d) l)"
proof (cases "todo (side l) = 0")
  case True
  note s = send_idle[OF True, of d]
  have q: "queued (side l) = []" and "a = wire l" and "nonempty (inflight l) = []"
    and "\<not> closing (side l)"
    using assms(1) True by (simp_all add: good_idle)
  moreover have "length d < size_max" using assms(2) by simp
  ultimately show ?thesis
    using s send_closing[of d "side l"]
    by (cases "d = []") (auto simp: good_def nonempty_def inflight_relink_new size_of_eq_0_iff)
next
  case False
  then show ?thesis
    using assms send_busy[OF False, of d] by (simp add: good_def nonempty_relink_same)
qed

lemma good_finish: "good a l \<Longrightarrow> good a (step Finished l)"
  using finish_frame[of "side l"] finish_idle[of "side l"]
  by (auto simp: good_def nonempty_relink_same)

lemma good_completed_empty:
  assumes "good a l" and i: "i < length (inflight l)" and w: "inflight l ! i = []"
  shows "good a (step (Completed i) l)"
proof -
  have ne: "nonempty (remove_nth i (inflight l)) = nonempty (inflight l)"
    using i w by (simp add: nonempty_def filter_remove_nth_neg)
  show ?thesis
  proof (cases "todo (side l) = 0")
    case True
    then show ?thesis
      using assms(1) written_last[of 0 "side l"] i w ne
      by (simp add: good_def nonempty_relink_same)
  next
    case False
    then show ?thesis
      using assms(1) written_partly[of 0 "side l"] i w ne
      by (simp add: good_def nonempty_relink_same)
  qed
qed

lemma good_completed_data:
  assumes g: "good a l" and i: "i < length (inflight l)" and w: "inflight l ! i \<noteq> []"
    and len: "length a < size_max"
  shows "good a (step (Completed i) l)" and "inflight l ! i = buf (side l)"
proof -
  have busy: "todo (side l) \<noteq> 0"
  proof
    assume "todo (side l) = 0"
    with g have "nonempty (inflight l) = []" by (simp add: good_idle)
    then show False using i w by (auto simp: nonempty_def filter_empty_conv)
  qed
  with g have f: "nonempty (inflight l) = [buf (side l)]"
    and t: "todo (side l) = size_of (buf (side l))"
    and a: "a = wire l @ buf (side l) @ queued (side l)"
    by (simp_all add: good_busy)
  show wb: "inflight l ! i = buf (side l)"
    using filter_remove_nth_single(1)[OF i _ f[unfolded nonempty_def]] w by simp
  have r: "nonempty (remove_nth i (inflight l)) = []"
    using filter_remove_nth_single(2)[OF i _ f[unfolded nonempty_def]] w
    by (simp add: nonempty_def)
  show "good a (step (Completed i) l)"
  proof (cases "queued (side l) = []")
    case True
    then show ?thesis
      using written_last[OF t[symmetric] True] i r a wb
      by (simp add: good_def nonempty_relink_same)
  next
    case False
    then have "size_of (queued (side l)) \<noteq> 0"
      using len a by (simp add: size_of_eq_0_iff)
    then show ?thesis
      using written_next[OF t[symmetric] False] False i r a wb
      by (simp add: good_def inflight_relink_new) (simp add: nonempty_def)
  qed
qed

lemma good_step:
  assumes "good a l" and "length (a @ sent [e]) < size_max"
  shows "good (a @ sent [e]) (step e l)"
proof (cases e)
  case (Sent d)
  with assms good_send[of a l d] show ?thesis by simp
next
  case Finished
  with assms(1) good_finish[of a l] show ?thesis by simp
next
  case (Completed i)
  with assms good_completed_empty[of a l i] good_completed_data(1)[of a l i] show ?thesis
    by (cases "i < length (inflight l)"; cases "inflight l ! i = []") simp_all
qed

lemma good_run:
  "good a l \<Longrightarrow> length (a @ sent es) < size_max \<Longrightarrow> good (a @ sent es) (run es l)"
proof (induction es arbitrary: a l)
  case Nil
  then show ?case by simp
next
  case (Cons e es)
  have sp: "sent (e # es) = sent [e] @ sent es"
    using sent_append[of "[e]" es] by simp
  have "good (a @ sent [e]) (step e l)"
    using Cons.prems by (intro good_step) (auto simp: sp)
  from Cons.IH[OF this] Cons.prems(2) show ?case
    by (simp add: sp)
qed

text \<open>
  Consequences. No byte is lost, duplicated or reordered; the memory a write in flight views is
  not written to; a close never cuts off accepted bytes; and completing what is in flight
  delivers everything and then performs the requested close.
\<close>

lemma good_stream:
  assumes "good a l"
  shows "a = wire l @ concat (inflight l) @ queued (side l)"
proof -
  have "concat (inflight l) = (if todo (side l) = 0 then [] else buf (side l))"
    using assms by (simp add: concat_nonempty[of "inflight l"] good_def split: if_splits)
  then show ?thesis using assms by (simp add: good_def split: if_splits)
qed

lemma good_memory:
  assumes "good a l" and "w \<in> set (inflight l)"
  shows "w = [] \<or> w = buf (side l)"
proof -
  have "w \<noteq> [] \<Longrightarrow> w \<in> set (nonempty (inflight l))"
    using assms(2) by (simp add: nonempty_def)
  then show ?thesis using assms(1) by (auto simp: good_def split: if_splits)
qed

lemma good_single: "good a l \<Longrightarrow> length (nonempty (inflight l)) \<le> 1"
  by (simp add: good_def split: if_splits)

lemma completed_accounts:
  assumes "good a l" and "length a < size_max"
  shows "closed (side (step (Completed i) l)) + (if closing (side (step (Completed i) l)) then 1 else 0)
    = closed (side l) + (if closing (side l) then 1 else 0)"
proof (cases "i < length (inflight l)")
  case True
  let ?n = "size_of (inflight l ! i)"
  show ?thesis
  proof (cases "?n = todo (side l)")
    case eq: True
    show ?thesis
      using True written_next[OF eq] written_last[OF eq]
      by (cases "queued (side l) = []") simp_all
  next
    case False
    with True written_partly[OF False] show ?thesis by simp
  qed
qed simp

lemma close_is_drained:
  assumes g: "good a l" and len: "length (a @ sent [e]) < size_max"
    and closes_now: "closed (side (step e l)) \<noteq> closed (side l)"
  shows "wire (step e l) = a @ sent [e]" and "concat (inflight (step e l)) = []"
    and "queued (side (step e l)) = []"
proof -
  have g': "good (a @ sent [e]) (step e l)"
    using g len by (rule good_step)
  have "todo (side (step e l)) = 0"
  proof (cases e)
    case (Sent d)
    with closes_now send_closing[of d "side l"] show ?thesis by simp
  next
    case Finished
    with closes_now finish_busy[of "side l"] finish_frame[of "side l"] show ?thesis
      by (cases "todo (side l) = 0") simp_all
  next
    case (Completed i)
    let ?n = "size_of (inflight l ! i)"
    have i: "i < length (inflight l)" using closes_now Completed by (auto split: if_splits)
    with closes_now Completed written_partly[of ?n "side l"] have eq: "?n = todo (side l)"
      by auto
    from closes_now Completed i written_next[OF eq] have "queued (side l) = []" by auto
    with Completed i written_last[OF eq] show ?thesis by simp
  qed
  with g' have "nonempty (inflight (step e l)) = []" "queued (side (step e l)) = []"
    "wire (step e l) = a @ sent [e]"
    by (simp_all add: good_idle)
  then show "wire (step e l) = a @ sent [e]" "concat (inflight (step e l)) = []"
    "queued (side (step e l)) = []"
    using concat_nonempty[of "inflight (step e l)"] by simp_all
qed

definition backlog :: "'c link \<Rightarrow> nat" where
  "backlog l = length (inflight l) + (if queued (side l) = [] then 0 else 1)"

lemma good_backlog_0:
  assumes "good a l" and "inflight l = []"
  shows "todo (side l) = 0"
  using assms by (auto simp: good_def nonempty_def split: if_splits)

lemma completed_backlog:
  assumes i: "i < length (inflight l)"
  shows "Suc (backlog (step (Completed i) l)) = backlog l"
proof (cases "size_of (inflight l ! i) = todo (side l)")
  case eq: True
  then show ?thesis
    using i written_last[OF eq] written_next[OF eq]
    by (cases "queued (side l) = []")
      (simp_all add: backlog_def nonempty_relink_same inflight_relink_new length_remove_nth)
next
  case False
  then show ?thesis
    using i written_partly[OF False] by (simp add: backlog_def nonempty_relink_same length_remove_nth)
qed

text \<open>
  Completions in any order: each takes one off the backlog, so that there are as many of them as
  the backlog, and then everything is delivered and the requested close performed.
\<close>

lemma completions_good:
  assumes "good a l" and "length a < size_max" and "completions step l es"
  shows "good a (run es l) \<and> length es + backlog (run es l) = backlog l
    \<and> closed (side (run es l)) + (if closing (side (run es l)) then 1 else 0)
      = closed (side l) + (if closing (side l) then 1 else 0)"
  using assms
proof (induction es arbitrary: l)
  case (Cons e es)
  then obtain i where e: "e = Completed i" "i < length (inflight l)"
    and c: "completions step (step (Completed i) l) es"
    by (cases e) auto
  have "good a (step (Completed i) l)"
    using good_step[of a l "Completed i"] Cons.prems by simp
  from Cons.IH[OF this Cons.prems(2) c] show ?case
    using e completed_backlog[of i l] completed_accounts[OF Cons.prems(1,2), of i] by simp
qed simp

lemma good_backlog_zero:
  assumes "good a l"
  shows "backlog l = 0 \<longleftrightarrow> inflight l = []"
  using assms good_backlog_0[OF assms] by (auto simp: backlog_def good_def)

lemma completions_end:
  assumes g: "good a l" and len: "length a < size_max" and c: "completions step l es"
  shows "length es \<le> backlog l \<and> (inflight (run es l) = [] \<longleftrightarrow> length es = backlog l)
    \<and> (inflight (run es l) = [] \<longrightarrow> wire (run es l) = a \<and> queued (side (run es l)) = []
        \<and> closed (side (run es l)) = closed (side l) + (if closing (side l) then 1 else 0))"
proof -
  note r = completions_good[OF assms]
  then have g': "good a (run es l)" by blast
  show ?thesis
    using r good_backlog_zero[OF g'] good_backlog_0[OF g'] good_idle[of "run es l" a] g' by auto
qed

lemma drain:
  assumes "good a l" and "length a < size_max" and "n = backlog l"
  shows "inflight (run (replicate n (Completed 0)) l) = []
    \<and> queued (side (run (replicate n (Completed 0)) l)) = []
    \<and> wire (run (replicate n (Completed 0)) l) = a
    \<and> closed (side (run (replicate n (Completed 0)) l)) =
        closed (side l) + (if closing (side l) then 1 else 0)"
  using assms
proof (induction n arbitrary: l)
  case 0
  then have "inflight l = []" and "queued (side l) = []"
    by (auto simp: backlog_def split: if_splits)
  with "0.prems"(1) good_backlog_0[of a l] show ?case by (simp add: good_idle)
next
  case (Suc n)
  have ne: "inflight l \<noteq> []"
  proof
    assume e: "inflight l = []"
    then have "todo (side l) = 0" using Suc.prems(1) good_backlog_0 by blast
    then show False using Suc.prems e by (simp add: good_idle backlog_def)
  qed
  let ?l = "step (Completed 0) l"
  have "good a ?l"
    using good_step[of a l "Completed 0"] Suc.prems by simp
  moreover have "n = backlog ?l"
    using completed_backlog[of 0 l] ne Suc.prems(3) by simp
  ultimately show ?case
    using Suc.IH[of ?l] Suc.prems(2) completed_accounts[OF Suc.prems(1,2), of 0] by simp
qed

text \<open>
  The channel refines the stream: every event of the link is an event of the stream, on the
  abstraction of the link's state.
\<close>

abbreviation abs_link :: "'c link \<Rightarrow> stream" where
  "abs_link \<equiv> stream_of queued closing closed"

lemma good_pending:
  assumes "good a l"
  shows "concat (inflight l) = (if todo (side l) = 0 then [] else buf (side l))"
  using assms by (simp add: concat_nonempty[of "inflight l"] good_def split: if_splits)

lemma good_abs:
  assumes "good a l"
  shows "abs_link l = \<lparr>st_delivered = wire l,
    st_pending = (if todo (side l) = 0 then [] else buf (side l) @ queued (side l)),
    st_closing = closing (side l), st_closed = closed (side l)\<rparr>"
  using good_pending[OF assms] assms by (simp add: stream_of_def good_def)

lemma good_todo:
  assumes "good a l" and "length a < size_max"
  shows "todo (side l) = 0 \<longleftrightarrow> st_pending (abs_link l) = []"
  using assms by (auto simp: good_abs good_def size_of_eq_0_iff split: if_splits)

lemma refines_sent:
  assumes g: "good a l" and len: "length (a @ d) < size_max"
  shows "abs_link (step (Sent d) l) = stream_step (Accept d) (abs_link l)"
proof -
  note g' = good_send[OF g len]
  have "wire (step (Sent d) l) @ st_pending (abs_link (step (Sent d) l)) = a @ d"
    using good_stream[OF g'] by (simp add: stream_of_def)
  moreover have "wire l @ st_pending (abs_link l) = a"
    using good_stream[OF g] by (simp add: stream_of_def)
  ultimately have "st_pending (abs_link (step (Sent d) l)) = st_pending (abs_link l) @ d"
    by (metis append.assoc link_step.simps(1) relink_fields(2) same_append_eq)
  then show ?thesis
    using send_closing[of d "side l"] by (simp add: stream_of_def)
qed

lemma refines_finish:
  assumes g: "good a l" and len: "length a < size_max"
  shows "abs_link (step Finished l) = stream_step RequestClose (abs_link l)"
proof (cases "todo (side l) = 0")
  case True
  then have "st_pending (abs_link l) = []" using good_todo[OF g len] by blast
  then show ?thesis
    using finish_idle[OF True] finish_frame[of "side l"] by (simp add: stream_of_def relink_def)
next
  case False
  then have "st_pending (abs_link l) \<noteq> []" using good_todo[OF g len] by blast
  then show ?thesis
    using finish_busy[OF False] finish_frame[of "side l"] by (auto simp: stream_of_def relink_def)
qed

lemma refines_completed:
  assumes g: "good a l" and len: "length a < size_max" and i: "i < length (inflight l)"
  shows "abs_link (step (Completed i) l) = stream_step (Deliver (length (inflight l ! i))) (abs_link l)"
proof -
  let ?l = "step (Completed i) l" and ?n = "size_of (inflight l ! i)"
  have "good a ?l" using good_step[OF g, of "Completed i"] len by simp
  from good_stream[OF this] good_stream[OF g]
  have p: "wire ?l @ st_pending (abs_link ?l) = wire l @ st_pending (abs_link l)"
    by (simp add: stream_of_def)
  have w: "wire ?l = wire l @ take (length (inflight l ! i)) (st_pending (abs_link l))"
  proof (cases "inflight l ! i = []")
    case False
    then have "todo (side l) \<noteq> 0"
      using g i by (auto simp: good_idle nonempty_def filter_empty_conv)
    then show ?thesis
      using good_completed_data(2)[OF g i False len] good_abs[OF g] i by simp
  qed (use i in simp)
  have d: "st_pending (abs_link ?l) = drop (length (inflight l ! i)) (st_pending (abs_link l))"
    using p[unfolded w append.assoc same_append_eq] by (rule take_append_drop)
  have pend: "todo (side ?l) = 0 \<longleftrightarrow> st_pending (abs_link ?l) = []"
    using good_todo[OF \<open>good a ?l\<close> len] .
  have sel: "st_delivered (abs_link x) = wire x" "st_closing (abs_link x) = closing (side x)"
    "st_closed (abs_link x) = closed (side x)" for x
    by (simp_all add: stream_of_def)
  note eq = stream_deliver[of "abs_link ?l" "abs_link l", unfolded sel, OF w d]
  show ?thesis
  proof (cases "?n = todo (side l)")
    case True
    then show ?thesis
    proof (cases "queued (side l) = []")
      case q: True
      with written_last[OF True q] i pend show ?thesis by (intro eq) (simp_all only: pend[symmetric], simp_all)
    next
      case False
      then have "todo (side l) \<noteq> 0" using g by (auto simp: good_idle)
      with False g len have "size_of (queued (side l)) \<noteq> 0"
        by (simp add: good_busy size_of_eq_0_iff)
      with written_next[OF True False] i pend show ?thesis by (intro eq) (simp_all only: pend[symmetric], simp_all)
    qed
  next
    case False
    have "inflight l ! i = []"
    proof (rule ccontr)
      assume w: "inflight l ! i \<noteq> []"
      then have "todo (side l) \<noteq> 0"
        using g i by (auto simp: good_idle nonempty_def filter_empty_conv)
      then show False using False good_completed_data(2)[OF g i w len] g by (simp add: good_busy)
    qed
    with False good_todo[OF g len] d have "st_pending (abs_link ?l) \<noteq> []" by simp
    with written_partly[OF False] i show ?thesis by (intro eq) (simp_all only: pend[symmetric], simp_all)
  qed
qed

lemma refines_step:
  assumes "good a l" and "length (a @ sent [e]) < size_max"
  shows "abs_link (step e l) = stream_step (abs_event l e) (abs_link l)"
proof (cases e)
  case (Completed i)
  have "abs_link l = stream_step (Deliver 0) (abs_link l)"
    using good_todo[OF assms(1)] assms by (cases "todo (side l) = 0")
      (simp_all add: stream_of_def good_def)
  with Completed assms refines_completed[of a l i] show ?thesis by (cases "i < length (inflight l)") simp_all
qed (use assms refines_sent[of a l] refines_finish[of a l] in simp_all)

lemma refines_run:
  "good a l \<Longrightarrow> length (a @ sent es) < size_max \<Longrightarrow>
   abs_link (run es l) = fold stream_step (abs_events step l es) (abs_link l)"
proof (induction es arbitrary: a l)
  case (Cons e es)
  have sp: "sent (e # es) = sent [e] @ sent es"
    using sent_append[of "[e]" es] by simp
  have "good (a @ sent [e]) (step e l)"
    using Cons.prems by (intro good_step) (auto simp: sp)
  then show ?case
    using Cons.IH[of "a @ sent [e]" "step e l"] refines_step[of a l e] Cons.prems by (simp add: sp)
qed simp

end

end
