(* ===== verification/Connection_IO.thy ===== *)
theory Connection_IO
  imports Write_Channel
begin

text \<open>
  The socket side of the server's connection, \<^verbatim>\<open>src/connection.cpp\<close>: reading, writing,
  disconnecting and closing. The operations are polymorphic in the rest of the object
  (\<open>'a sock_buf_scheme\<close>), which the theory \<^verbatim>\<open>Connection\<close> adds. Handlers passed to asio are
  functions of their own (\<open>conn_onWriteComplete\<close>); the error an asio handler receives is
  \<open>None\<close> for no error.
\<close>

section \<open>Operations\<close>

definition conn_process :: "'a sock_buf_scheme \<Rightarrow> 'a sock_buf_scheme" where
  "conn_process c = emit AsyncReadSome c"

definition conn_close :: "asio_env \<Rightarrow> 'a sock_buf_scheme \<Rightarrow> 'a sock_buf_scheme" where
  "conn_close env c =
     (let c = emit Shutdown c;
          c = emit Close c;
          c = (case closeError env (trace c) of
                 Some msg \<Rightarrow> emit (Report SocketCloseError msg) c
               | None \<Rightarrow> c)
      in c\<lparr>disconnectRequested := False\<rparr>)"

definition conn_sendData :: "string \<Rightarrow> 'a sock_buf_scheme \<Rightarrow> 'a sock_buf_scheme" where
  "conn_sendData data c =
     (if bytesToWrite c \<noteq> 0 then c\<lparr>nextWriteBuffer := nextWriteBuffer c @ data\<rparr>
      else
        let c = (if nextWriteBuffer c \<noteq> []
                 then c\<lparr>writeBuffer := nextWriteBuffer c @ data, nextWriteBuffer := []\<rparr>
                 else c\<lparr>writeBuffer := data\<rparr>);
            c = c\<lparr>bytesToWrite := bytesToWrite c + size_of (writeBuffer c)\<rparr>
        in emit (AsyncWrite (writeBuffer c)) c)"

definition conn_onBytesWritten ::
    "asio_env \<Rightarrow> size_t \<Rightarrow> 'a sock_buf_scheme \<Rightarrow> 'a sock_buf_scheme" where
  "conn_onBytesWritten env numOfBytes c =
     (let c = c\<lparr>bytesToWrite := bytesToWrite c - numOfBytes\<rparr>
      in if bytesToWrite c \<noteq> 0 then c
         else if nextWriteBuffer c \<noteq> [] then conn_sendData [] c
         else if disconnectRequested c then conn_close env c
         else c)"

definition conn_onWriteComplete ::
    "asio_env \<Rightarrow> io_error option \<Rightarrow> size_t \<Rightarrow> 'a sock_buf_scheme \<Rightarrow> 'a sock_buf_scheme" where
  "conn_onWriteComplete env error bytesWritten c =
     (case error of
        Some e \<Rightarrow> conn_close env (emit (Report SocketWriteError (message e)) c)
      | None \<Rightarrow> conn_onBytesWritten env bytesWritten c)"

definition conn_disconnect :: "asio_env \<Rightarrow> 'a sock_buf_scheme \<Rightarrow> 'a sock_buf_scheme" where
  "conn_disconnect env c =
     (let c = c\<lparr>disconnectRequested := True\<rparr>
      in if bytesToWrite c > 0 then c else conn_close env c)"

text \<open>The part of the read handler that does not reach the FastCGI library.\<close>

definition conn_onReadError ::
    "asio_env \<Rightarrow> io_error \<Rightarrow> 'a sock_buf_scheme \<Rightarrow> 'a sock_buf_scheme" where
  "conn_onReadError env e c =
     (case e of
        OperationAborted _ \<Rightarrow> c
      | OtherError msg \<Rightarrow> conn_close env (emit (Report SocketReadError msg) c))"

text \<open>Dispatch of the virtual calls the FastCGI responder makes on the connection.\<close>

fun conn_call :: "asio_env \<Rightarrow> out_call \<Rightarrow> 'a sock_buf_scheme \<Rightarrow> 'a sock_buf_scheme" where
  "conn_call env (CallSendData data) c = conn_sendData data c"
| "conn_call env CallDisconnect c = conn_disconnect env c"

definition conn_calls ::
    "asio_env \<Rightarrow> out_call list \<Rightarrow> 'a sock_buf_scheme \<Rightarrow> 'a sock_buf_scheme" where
  "conn_calls env calls c = fold (conn_call env) calls c"

section \<open>Effect of the operations\<close>

lemma conn_close_fields [simp]:
  "writeBuffer (conn_close env c) = writeBuffer c"
  "nextWriteBuffer (conn_close env c) = nextWriteBuffer c"
  "bytesToWrite (conn_close env c) = bytesToWrite c"
  "disconnectRequested (conn_close env c) = False"
  "started (conn_close env c) = started c"
  "closes (conn_close env c) = Suc (closes c)"
  by (simp_all add: conn_close_def Let_def split: option.split)

lemma conn_sendData_busy [simp]:
  "bytesToWrite c \<noteq> 0 \<Longrightarrow> conn_sendData d c = c\<lparr>nextWriteBuffer := nextWriteBuffer c @ d\<rparr>"
  by (simp add: conn_sendData_def)

lemma conn_sendData_idle:
  assumes "bytesToWrite c = 0"
  shows "writeBuffer (conn_sendData d c) = nextWriteBuffer c @ d"
    "nextWriteBuffer (conn_sendData d c) = []"
    "bytesToWrite (conn_sendData d c) = size_of (nextWriteBuffer c @ d)"
    "disconnectRequested (conn_sendData d c) = disconnectRequested c"
    "started (conn_sendData d c) = started c @ [nextWriteBuffer c @ d]"
    "closes (conn_sendData d c) = closes c"
  using assms by (simp_all add: conn_sendData_def)

lemma conn_onBytesWritten_cases:
  "n \<noteq> bytesToWrite c \<Longrightarrow>
     conn_onBytesWritten env n c = c\<lparr>bytesToWrite := bytesToWrite c - n\<rparr>"
  "n = bytesToWrite c \<Longrightarrow> nextWriteBuffer c \<noteq> [] \<Longrightarrow>
     conn_onBytesWritten env n c = conn_sendData [] (c\<lparr>bytesToWrite := 0\<rparr>)"
  "n = bytesToWrite c \<Longrightarrow> nextWriteBuffer c = [] \<Longrightarrow> disconnectRequested c \<Longrightarrow>
     conn_onBytesWritten env n c = conn_close env (c\<lparr>bytesToWrite := 0\<rparr>)"
  "n = bytesToWrite c \<Longrightarrow> nextWriteBuffer c = [] \<Longrightarrow> \<not> disconnectRequested c \<Longrightarrow>
     conn_onBytesWritten env n c = c\<lparr>bytesToWrite := 0\<rparr>"
  by (auto simp: conn_onBytesWritten_def Let_def)

lemma conn_disconnect_cases:
  "bytesToWrite c \<noteq> 0 \<Longrightarrow> conn_disconnect env c = c\<lparr>disconnectRequested := True\<rparr>"
  "bytesToWrite c = 0 \<Longrightarrow>
     conn_disconnect env c = conn_close env (c\<lparr>disconnectRequested := True\<rparr>)"
  by (auto simp: conn_disconnect_def Let_def word_gt_0)

interpretation conn_channel: write_channel conn_sendData "conn_onBytesWritten env"
    "conn_disconnect env" writeBuffer nextWriteBuffer bytesToWrite disconnectRequested
    started closes for env
proof (unfold_locales, goal_cases)
  case (4 n c)
  then show ?case by (simp add: conn_onBytesWritten_cases)
next
  case (6 n c)
  then show ?case
    by (cases "disconnectRequested c") (simp_all add: conn_onBytesWritten_cases)
next
  case (7 c)
  then show ?case by (cases "bytesToWrite c = 0") (simp_all add: conn_disconnect_cases)
next
  case (3 d c)
  then show ?case by (cases "bytesToWrite c = 0") (simp_all add: conn_sendData_idle)
qed (simp_all add: conn_sendData_idle conn_onBytesWritten_cases conn_disconnect_cases)

section \<open>Runs of the write path\<close>

definition conn_link_step ::
    "asio_env \<Rightarrow> chan_event \<Rightarrow> 'a sock_buf_scheme link \<Rightarrow> 'a sock_buf_scheme link" where
  "conn_link_step env =
     link_step conn_sendData (conn_onBytesWritten env) (conn_disconnect env) writeBuffer started"

definition conn_link_run ::
    "asio_env \<Rightarrow> chan_event list \<Rightarrow> 'a sock_buf_scheme link \<Rightarrow> 'a sock_buf_scheme link" where
  "conn_link_run env =
     link_run conn_sendData (conn_onBytesWritten env) (conn_disconnect env) writeBuffer started"

lemma conn_good_run:
  assumes "fresh c" and "length (sent es) < size_max"
  shows "conn_channel.good (sent es) (conn_link_run env es (link_init c))"
  using assms conn_channel.good_run[of "[]" "link_init c" es env] conn_channel.good_init[of c]
  by (simp add: fresh_def conn_link_run_def)

text \<open>With bytes outstanding, the virtual calls only queue data and record the request to close.\<close>

lemma conn_calls_busy:
  "bytesToWrite c \<noteq> 0 \<Longrightarrow> bytesToWrite (conn_calls env calls c) = bytesToWrite c \<and>
     trace (conn_calls env calls c) = trace c"
proof (induction calls arbitrary: c)
  case Nil
  then show ?case by (simp add: conn_calls_def)
next
  case (Cons x xs)
  have "bytesToWrite (conn_call env x c) = bytesToWrite c \<and> trace (conn_call env x c) = trace c"
    using Cons.prems by (cases x) (simp_all add: conn_disconnect_cases)
  with Cons.IH[of "conn_call env x c"] Cons.prems show ?case
    by (simp add: conn_calls_def)
qed

section \<open>Properties\<close>

text \<open>
  Stream integrity of the server connection. From a newly constructed connection, under any
  sequence of \<open>sendData\<close>, \<open>disconnect\<close> and successful write completions in any order, the
  concatenation of everything passed to \<open>sendData\<close> is exactly the bytes the peer has received,
  followed by the bytes of the writes in flight, followed by \<open>nextWriteBuffer_\<close>.
\<close>

theorem conn_stream:
  assumes "fresh c" and "length (sent es) < size_max"
  shows "sent es = wire (conn_link_run env es (link_init c))
    @ concat (inflight (conn_link_run env es (link_init c)))
    @ nextWriteBuffer (side (conn_link_run env es (link_init c)))"
  using conn_good_run[OF assms] by (rule conn_channel.good_stream)

theorem conn_stream_witness:
  "sent [Sent ''ab'', Sent ''c'', Completed 0, Finished] =
    wire (conn_link_run \<lparr>closeError = (\<lambda>_. None), isOpen = (\<lambda>_. True)\<rparr>
      [Sent ''ab'', Sent ''c'', Completed 0, Finished] (link_init sock_buf_init))
    @ concat (inflight (conn_link_run \<lparr>closeError = (\<lambda>_. None), isOpen = (\<lambda>_. True)\<rparr>
      [Sent ''ab'', Sent ''c'', Completed 0, Finished] (link_init sock_buf_init)))
    @ nextWriteBuffer (side (conn_link_run \<lparr>closeError = (\<lambda>_. None), isOpen = (\<lambda>_. True)\<rparr>
      [Sent ''ab'', Sent ''c'', Completed 0, Finished] (link_init sock_buf_init)))"
  by (rule conn_stream) simp_all

text \<open>
  C5. Refinement. The write path refines the abstract stream of accepted bytes: each event of a new
  connection's life is an event of the stream (a \<open>sendData\<close> accepts bytes, a \<open>disconnect\<close> asks for
  the close, a completion delivers as many of the oldest bytes as it wrote), and after any run the
  state of the connection and its operations is, seen through \<open>stream_of\<close>, the stream after those
  events; so whatever holds of all streams holds of the buffers and operations.
\<close>

theorem conn_refines_stream:
  assumes "fresh c" and "length (sent es) < size_max"
  shows "stream_of nextWriteBuffer disconnectRequested closes (conn_link_run env es (link_init c)) =
    fold stream_step (abs_events (conn_link_step env) (link_init c) es) stream_new"
proof -
  have "conn_channel.good [] (link_init c)"
    using assms(1) by (intro conn_channel.good_init) (simp_all add: fresh_def)
  moreover have "stream_of nextWriteBuffer disconnectRequested closes (link_init c) = stream_new"
    using assms(1) by (simp add: stream_of_def stream_new_def link_init_def fresh_def closes_def)
  ultimately show ?thesis
    using conn_channel.refines_run[of "[]" "link_init c" es env] assms(2)
    by (simp add: conn_link_run_def conn_link_step_def)
qed

theorem conn_refines_stream_witness:
  "stream_of nextWriteBuffer disconnectRequested closes
      (conn_link_run \<lparr>closeError = (\<lambda>_. None), isOpen = (\<lambda>_. True)\<rparr>
        [Sent ''ab'', Sent ''c'', Finished, Completed 0] (link_init sock_buf_init)) =
    fold stream_step [Accept ''ab'', Accept ''c'', RequestClose, Deliver (Suc (Suc 0))] stream_new"
  using conn_refines_stream[of sock_buf_init "[Sent ''ab'', Sent ''c'', Finished, Completed 0]"
      "\<lparr>closeError = (\<lambda>_. None), isOpen = (\<lambda>_. True)\<rparr>"]
  by (simp add: conn_link_step_def link_init_def sock_buf_init_def relink_def started_def
      conn_sendData_def conn_disconnect_def conn_onBytesWritten_def closes_def
      emit_def size_of_def fresh_def remove_nth_def del: stream_step.simps)

text \<open>
  C21. Memory of a write in flight. asio reads \<open>writeBuffer_\<close> until the write completes; at every
  moment at most one write that carries data is in flight, and \<open>writeBuffer_\<close> still holds exactly
  the bytes it was started with.
\<close>

theorem conn_write_memory:
  assumes "fresh c" and "length (sent es) < size_max"
    and "w \<in> set (inflight (conn_link_run env es (link_init c)))"
  shows "(w = [] \<or> w = writeBuffer (side (conn_link_run env es (link_init c))))
    \<and> length (nonempty (inflight (conn_link_run env es (link_init c)))) \<le> 1"
  using conn_good_run[OF assms(1,2)] assms(3)
  by (metis conn_channel.good_memory conn_channel.good_single)

theorem conn_write_memory_witness:
  "(''ab'' = [] \<or> ''ab'' = writeBuffer (side (conn_link_run
      \<lparr>closeError = (\<lambda>_. None), isOpen = (\<lambda>_. True)\<rparr>
      [Sent ''ab'', Sent ''c''] (link_init sock_buf_init))))
    \<and> length (nonempty (inflight (conn_link_run
      \<lparr>closeError = (\<lambda>_. None), isOpen = (\<lambda>_. True)\<rparr>
      [Sent ''ab'', Sent ''c''] (link_init sock_buf_init)))) \<le> 1"
  by (rule conn_write_memory)
    (simp_all add: conn_link_run_def link_init_def sock_buf_init_def relink_def started_def
      conn_sendData_def emit_def size_of_def fresh_def)

text \<open>
  Graceful close. A step of the write path closes the socket only at a moment when every byte
  ever passed to \<open>sendData\<close> has reached the peer: nothing is in flight and nothing is queued.
\<close>

theorem conn_close_after_flush:
  assumes "fresh c" and "length (sent (es @ [e])) < size_max"
    and "closes (side (conn_link_run env (es @ [e]) (link_init c)))
      \<noteq> closes (side (conn_link_run env es (link_init c)))"
  shows "wire (conn_link_run env (es @ [e]) (link_init c)) = sent (es @ [e])
    \<and> concat (inflight (conn_link_run env (es @ [e]) (link_init c))) = []
    \<and> nextWriteBuffer (side (conn_link_run env (es @ [e]) (link_init c))) = []"
proof -
  have "length (sent es) < size_max" using assms(2) by simp
  note g = conn_good_run[OF assms(1) this, of env]
  show ?thesis
    using conn_channel.close_is_drained[OF g, of e env] assms(2,3)
    by (simp add: conn_link_run_def link_run_append)
qed

theorem conn_close_after_flush_witness:
  "wire (conn_link_run \<lparr>closeError = (\<lambda>_. None), isOpen = (\<lambda>_. True)\<rparr>
      ([Sent ''ab'', Finished] @ [Completed 0]) (link_init sock_buf_init)) = ''ab''
    \<and> concat (inflight (conn_link_run \<lparr>closeError = (\<lambda>_. None), isOpen = (\<lambda>_. True)\<rparr>
      ([Sent ''ab'', Finished] @ [Completed 0]) (link_init sock_buf_init))) = []
    \<and> nextWriteBuffer (side (conn_link_run \<lparr>closeError = (\<lambda>_. None), isOpen = (\<lambda>_. True)\<rparr>
      ([Sent ''ab'', Finished] @ [Completed 0]) (link_init sock_buf_init))) = []"
  using conn_close_after_flush[of sock_buf_init "[Sent ''ab'', Finished]" "Completed 0"
      "\<lparr>closeError = (\<lambda>_. None), isOpen = (\<lambda>_. True)\<rparr>"]
  by (simp add: conn_link_run_def link_init_def sock_buf_init_def relink_def started_def
      conn_sendData_def conn_disconnect_def conn_onBytesWritten_def conn_close_def closes_def
      emit_def size_of_def fresh_def remove_nth_def)

text \<open>
  Delivery. However a connection got where it is, completing what is in flight, and then what
  that starts, takes a fixed number of completions (one per operation in flight, one more when
  data is queued); after them every accepted byte has reached the peer, nothing is in flight or
  queued, and a requested disconnect has closed the socket exactly once.
\<close>

theorem conn_drain:
  assumes "fresh c" and "length (sent es) < size_max"
    and "l = conn_link_run env es (link_init c)"
    and "n = length (inflight l) + (if nextWriteBuffer (side l) = [] then 0 else 1)"
    and "l' = conn_link_run env (replicate n (Completed 0)) l"
  shows "wire l' = sent es \<and> inflight l' = [] \<and> nextWriteBuffer (side l') = []
    \<and> closes (side l') = closes (side l) + (if disconnectRequested (side l) then 1 else 0)"
  using conn_channel.drain[OF conn_good_run[OF assms(1,2), of env] assms(2), of n env] assms(3-5)
  by (simp add: conn_channel.backlog_def conn_link_run_def)

theorem conn_drain_witness:
  "\<exists>l n l'. l = conn_link_run \<lparr>closeError = (\<lambda>_. None), isOpen = (\<lambda>_. True)\<rparr>
      [Sent ''ab'', Sent ''c'', Finished] (link_init sock_buf_init)
    \<and> l' = conn_link_run \<lparr>closeError = (\<lambda>_. None), isOpen = (\<lambda>_. True)\<rparr>
        (replicate n (Completed 0)) l
    \<and> wire l' = ''abc'' \<and> inflight l' = [] \<and> nextWriteBuffer (side l') = []
    \<and> closes (side l') = closes (side l) + (if disconnectRequested (side l) then 1 else 0)"
  using conn_drain[of sock_buf_init "[Sent ''ab'', Sent ''c'', Finished]", OF _ _ refl refl refl]
  by fastforce

text \<open>
  C15. Termination. However a connection got where it is, write completions come to an end, in whatever
  order the operations in flight complete: there are never more of them than operations in flight,
  plus one when data is queued. When nothing is in flight any more it has been exactly that many,
  every accepted byte has reached the peer, nothing is queued, and a requested disconnect has
  closed the socket exactly once.
\<close>

theorem conn_completions_terminate:
  assumes "fresh c" and "length (sent es) < size_max"
    and "l = conn_link_run env es (link_init c)"
    and "n = length (inflight l) + (if nextWriteBuffer (side l) = [] then 0 else 1)"
    and "completions (conn_link_step env) l cs"
    and "l' = conn_link_run env cs l"
  shows "length cs \<le> n \<and> (inflight l' = [] \<longleftrightarrow> length cs = n)
    \<and> (length cs = n \<longrightarrow> wire l' = sent es \<and> nextWriteBuffer (side l') = []
        \<and> closes (side l') = closes (side l) + (if disconnectRequested (side l) then 1 else 0))"
  using conn_channel.completions_end[OF conn_good_run[OF assms(1,2), of env] assms(2), of env cs]
    assms(3-6)
  by (simp add: conn_channel.backlog_def conn_link_run_def conn_link_step_def)

theorem conn_completions_terminate_witness:
  "\<exists>l l'. l = conn_link_run \<lparr>closeError = (\<lambda>_. None), isOpen = (\<lambda>_. True)\<rparr>
      [Sent [], Sent ''ab'', Sent ''c'', Finished] (link_init sock_buf_init)
    \<and> l' = conn_link_run \<lparr>closeError = (\<lambda>_. None), isOpen = (\<lambda>_. True)\<rparr>
        [Completed 1, Completed 1, Completed 0] l
    \<and> wire l' = ''abc'' \<and> inflight l' = [] \<and> closes (side l') = Suc (closes (side l))"
proof -
  let ?env = "\<lparr>closeError = (\<lambda>_. None), isOpen = (\<lambda>_. True)\<rparr>"
  let ?l = "conn_link_run ?env [Sent [], Sent ''ab'', Sent ''c'', Finished] (link_init sock_buf_init)"
  have "completions (conn_link_step ?env) ?l [Completed 1, Completed 1, Completed 0]"
    "length (inflight ?l) = 2" "nextWriteBuffer (side ?l) = ''c''" "disconnectRequested (side ?l)"
    by code_simp+
  then show ?thesis
    using conn_completions_terminate[of sock_buf_init "[Sent [], Sent ''ab'', Sent ''c'', Finished]",
        OF _ _ refl refl, of ?env "[Completed 1, Completed 1, Completed 0]", OF _ _ _ refl]
    by fastforce
qed

text \<open>
  Write errors. When a write that carries data fails, the error is reported, the socket is
  closed exactly once (a failure of the close itself is reported too), and whatever the FastCGI library sends or disconnects afterwards makes no
  further call to asio: no write is started on the closed socket and it is not closed again.
\<close>

theorem conn_write_error:
  assumes "bytesToWrite c \<noteq> 0"
  shows "trace (conn_calls env calls (conn_onWriteComplete env (Some e) n c)) =
    trace c @ [Report SocketWriteError (message e), Shutdown, Close] @
    (case closeError env (trace c @ [Report SocketWriteError (message e), Shutdown, Close]) of
       Some m \<Rightarrow> [Report SocketCloseError m]
     | None \<Rightarrow> [])"
  using assms
    conn_calls_busy[of "conn_close env (emit (Report SocketWriteError (message e)) c)" env calls]
  by (simp add: conn_onWriteComplete_def) (simp add: conn_close_def Let_def split: option.split)

theorem conn_write_error_witness:
  "trace (conn_calls \<lparr>closeError = (\<lambda>_. None), isOpen = (\<lambda>_. True)\<rparr>
      [CallSendData ''x'', CallDisconnect]
      (conn_onWriteComplete \<lparr>closeError = (\<lambda>_. None), isOpen = (\<lambda>_. True)\<rparr>
        (Some (OtherError ''Broken pipe'')) 0 (conn_sendData ''ab'' sock_buf_init)))
    = [AsyncWrite ''ab'', Report SocketWriteError ''Broken pipe'', Shutdown, Close]"
  using conn_write_error[of "conn_sendData ''ab'' sock_buf_init"
      "\<lparr>closeError = (\<lambda>_. None), isOpen = (\<lambda>_. True)\<rparr>"
      "[CallSendData ''x'', CallDisconnect]" "OtherError ''Broken pipe''" 0]
  by (simp add: conn_sendData_def sock_buf_init_def size_of_def emit_def)

end
