(* ===== verification/Client_Connection.thy ===== *)
theory Client_Connection
  imports Connection_IO
begin

text \<open>
  The client's connection, \<^verbatim>\<open>src/clientconnection.cpp\<close>. It derives from the FastCGI library's
  \<open>fcgi::Requester\<close>, which is a parameter (\<open>requester_api\<close>): its state is the field
  \<open>requester\<close>, and a call to it returns the virtual calls it makes on the connection and, for
  received data, the calls it makes to the response handler. Each client connection is made for
  one request, so there is one response handler.
\<close>

section \<open>The requester library\<close>

record response_data =
  rd_data :: string
  rd_errorMsg :: string

datatype client_call =
    Out out_call
  | Respond "response_data option"

record ('f, 'h) requester_api =
  api_sendRequest :: "'f \<Rightarrow> (string \<rightharpoonup> string) \<Rightarrow> string \<Rightarrow> 'f \<times> out_call list \<times> 'h option"
  api_receiveData :: "'f \<Rightarrow> string \<Rightarrow> 'f \<times> client_call list"
  api_cancelRequest :: "'f \<Rightarrow> 'h \<Rightarrow> 'f \<times> client_call list"

record 'f client_connection = sock_buf +
  requester :: 'f

text \<open>\<open>fastcgi::Request\<close> of \<^verbatim>\<open>include/asyncgi/types.h\<close>.\<close>

record fastcgi_request =
  params :: "string \<rightharpoonup> string"
  stdIn :: string

section \<open>Operations\<close>

definition cc_close :: "asio_env \<Rightarrow> 'a sock_buf_scheme \<Rightarrow> 'a sock_buf_scheme" where
  "cc_close env c =
     (let c = emit Shutdown c;
          c = emit Close c;
          c = (case closeError env (trace c) of
                 Some msg \<Rightarrow> emit (Report SocketCloseError msg) c
               | None \<Rightarrow> c)
      in c\<lparr>disconnectRequested := False\<rparr>)"

definition cc_sendData :: "string \<Rightarrow> 'a sock_buf_scheme \<Rightarrow> 'a sock_buf_scheme" where
  "cc_sendData data c =
     (if bytesToWrite c \<noteq> 0 then c\<lparr>nextWriteBuffer := nextWriteBuffer c @ data\<rparr>
      else
        let c = (if nextWriteBuffer c \<noteq> []
                 then c\<lparr>writeBuffer := nextWriteBuffer c @ data, nextWriteBuffer := []\<rparr>
                 else c\<lparr>writeBuffer := data\<rparr>);
            c = c\<lparr>bytesToWrite := bytesToWrite c + size_of (writeBuffer c)\<rparr>
        in emit (AsyncWrite (writeBuffer c)) c)"

definition cc_onBytesWritten ::
    "asio_env \<Rightarrow> size_t \<Rightarrow> 'a sock_buf_scheme \<Rightarrow> 'a sock_buf_scheme" where
  "cc_onBytesWritten env numOfBytes c =
     (let c = c\<lparr>bytesToWrite := bytesToWrite c - numOfBytes\<rparr>
      in if bytesToWrite c \<noteq> 0 then c
         else if nextWriteBuffer c \<noteq> [] then cc_sendData [] c
         else if disconnectRequested c then cc_close env c
         else c)"

text \<open>Unlike the server's connection, the client's write handler does not close the socket.\<close>

definition cc_onWriteComplete ::
    "asio_env \<Rightarrow> io_error option \<Rightarrow> size_t \<Rightarrow> 'a sock_buf_scheme \<Rightarrow> 'a sock_buf_scheme" where
  "cc_onWriteComplete env error bytesWritten c =
     (case error of
        Some e \<Rightarrow> emit (Report SocketWriteError (message e)) c
      | None \<Rightarrow> cc_onBytesWritten env bytesWritten c)"

definition cc_disconnect :: "asio_env \<Rightarrow> 'a sock_buf_scheme \<Rightarrow> 'a sock_buf_scheme" where
  "cc_disconnect env c =
     (let c = c\<lparr>disconnectRequested := True\<rparr>
      in if bytesToWrite c > 0 then c else cc_close env c)"

definition cc_processReading :: "asio_env \<Rightarrow> 'a sock_buf_scheme \<Rightarrow> 'a sock_buf_scheme" where
  "cc_processReading env c =
     (if \<not> isOpen env (trace c) then c else emit AsyncReadSome c)"

fun cc_call :: "asio_env \<Rightarrow> out_call \<Rightarrow> 'a sock_buf_scheme \<Rightarrow> 'a sock_buf_scheme" where
  "cc_call env (CallSendData data) c = cc_sendData data c"
| "cc_call env CallDisconnect c = cc_disconnect env c"

definition cc_calls ::
    "asio_env \<Rightarrow> out_call list \<Rightarrow> 'a sock_buf_scheme \<Rightarrow> 'a sock_buf_scheme" where
  "cc_calls env calls c = fold (cc_call env) calls c"

text \<open>The calls made while data is received: the connection's state and the responses, in order.\<close>

fun cc_client_calls :: "asio_env \<Rightarrow> client_call list \<Rightarrow> 'a sock_buf_scheme \<Rightarrow>
    'a sock_buf_scheme \<times> response_data option list" where
  "cc_client_calls env [] c = (c, [])"
| "cc_client_calls env (Out x # xs) c = cc_client_calls env xs (cc_call env x c)"
| "cc_client_calls env (Respond r # xs) c =
     (let (c, rs) = cc_client_calls env xs c in (c, r # rs))"

definition cc_receiveData :: "asio_env \<Rightarrow> ('f, 'h) requester_api \<Rightarrow> string \<Rightarrow>
    'f client_connection \<Rightarrow> 'f client_connection \<times> response_data option list" where
  "cc_receiveData env api data c =
     (let (f, calls) = api_receiveData api (requester c) data
      in cc_client_calls env calls (c\<lparr>requester := f\<rparr>))"

definition cc_readData :: "asio_env \<Rightarrow> ('f, 'h) requester_api \<Rightarrow> string \<Rightarrow>
    'f client_connection \<Rightarrow> 'f client_connection \<times> response_data option list" where
  "cc_readData env api data c =
     (let (c, rs) = cc_receiveData env api data c
      in (cc_processReading env c, rs))"

definition cc_onRead :: "asio_env \<Rightarrow> ('f, 'h) requester_api \<Rightarrow> io_error option \<Rightarrow> string \<Rightarrow>
    'f client_connection \<Rightarrow> 'f client_connection \<times> response_data option list" where
  "cc_onRead env api error data c =
     (case error of
        Some (OperationAborted _) \<Rightarrow> (c, [])
      | Some (OtherError msg) \<Rightarrow> (emit (Report SocketReadError msg) c, [])
      | None \<Rightarrow> cc_readData env api data c)"

definition cc_makeRequest :: "string \<Rightarrow> 'a sock_buf_scheme \<Rightarrow> 'a sock_buf_scheme" where
  "cc_makeRequest socketPath c = emit (AsyncConnect socketPath) c"

text \<open>
  The handler of \<open>async_connect\<close>. Its result is the new connection, the handle it stored in
  \<open>*cancelRequestOnTimeout\<close> (if any) and the calls of the response handler.
\<close>

definition cc_onConnect :: "asio_env \<Rightarrow> ('f, 'h) requester_api \<Rightarrow> fastcgi_request \<Rightarrow>
    io_error option \<Rightarrow> 'f client_connection \<Rightarrow>
    'f client_connection \<times> 'h option \<times> response_data option list" where
  "cc_onConnect env api request error_code c =
     (case error_code of
        Some _ \<Rightarrow> (c, None, [None])
      | None \<Rightarrow>
          let c = cc_processReading env c;
              (f, calls, requestHandle) =
                api_sendRequest api (requester c) (params request) (stdIn request);
              c = cc_calls env calls (c\<lparr>requester := f\<rparr>)
          in (case requestHandle of
                Some h \<Rightarrow> (c, Some h, [])
              | None \<Rightarrow> (c, None, [None])))"

definition cc_cancelRequest :: "asio_env \<Rightarrow> ('f, 'h) requester_api \<Rightarrow> 'h \<Rightarrow>
    'f client_connection \<Rightarrow> 'f client_connection \<times> response_data option list" where
  "cc_cancelRequest env api h c =
     (let (f, calls) = api_cancelRequest api (requester c) h
      in cc_client_calls env calls (c\<lparr>requester := f\<rparr>))"

definition cc_destroy :: "asio_env \<Rightarrow> 'a sock_buf_scheme \<Rightarrow> 'a sock_buf_scheme" where
  "cc_destroy env c = cc_close env c"

section \<open>The write path is that of the server connection\<close>

lemma cc_close_eq: "cc_close = conn_close"
  by (intro ext) (simp add: cc_close_def conn_close_def)

lemma cc_sendData_eq: "cc_sendData = conn_sendData"
  by (intro ext) (simp add: cc_sendData_def conn_sendData_def)

lemma cc_onBytesWritten_eq: "cc_onBytesWritten = conn_onBytesWritten"
  by (intro ext)
    (simp add: cc_onBytesWritten_def conn_onBytesWritten_def Let_def cc_sendData_eq cc_close_eq)

lemma cc_disconnect_eq: "cc_disconnect = conn_disconnect"
  by (intro ext) (simp add: cc_disconnect_def conn_disconnect_def Let_def cc_close_eq)

lemma cc_call_eq: "cc_call = conn_call"
proof (intro ext)
  fix env x c
  show "cc_call env x c = conn_call env x c"
    by (cases x) (simp_all add: cc_sendData_eq cc_disconnect_eq)
qed

lemmas cc_as_conn = cc_close_eq cc_sendData_eq cc_onBytesWritten_eq cc_disconnect_eq cc_call_eq

interpretation cc_channel: write_channel cc_sendData "cc_onBytesWritten env"
    "cc_disconnect env" writeBuffer nextWriteBuffer bytesToWrite disconnectRequested
    started closes for env
  unfolding cc_as_conn by (rule conn_channel.write_channel_axioms)

definition cc_link_run ::
    "asio_env \<Rightarrow> chan_event list \<Rightarrow> 'a sock_buf_scheme link \<Rightarrow> 'a sock_buf_scheme link" where
  "cc_link_run env =
     link_run cc_sendData (cc_onBytesWritten env) (cc_disconnect env) writeBuffer started"

lemma cc_good_run:
  assumes "fresh c" and "length (sent es) < size_max"
  shows "cc_channel.good (sent es) (cc_link_run env es (link_init c))"
  using assms cc_channel.good_run[of "[]" "link_init c" es env] cc_channel.good_init[of c]
  by (simp add: fresh_def cc_link_run_def)

lemma cc_calls_eq: "cc_calls = conn_calls"
  by (intro ext) (simp add: cc_calls_def conn_calls_def cc_call_eq)

section \<open>Properties\<close>

text \<open>
  C34. Stream integrity and delivery of the client connection. Everything passed to \<open>sendData\<close> is
  on the wire, in flight or queued, in order; and the completions the backlog needs put all of it
  on the wire and perform a requested disconnect.
\<close>

theorem cc_stream_and_drain:
  assumes "fresh c" and "length (sent es) < size_max"
    and "l = cc_link_run env es (link_init c)"
    and "n = length (inflight l) + (if nextWriteBuffer (side l) = [] then 0 else 1)"
    and "l' = cc_link_run env (replicate n (Completed 0)) l"
  shows "sent es = wire l @ concat (inflight l) @ nextWriteBuffer (side l)
    \<and> wire l' = sent es \<and> inflight l' = [] \<and> nextWriteBuffer (side l') = []
    \<and> closes (side l') = closes (side l) + (if disconnectRequested (side l) then 1 else 0)"
proof -
  note g = cc_good_run[OF assms(1,2), of env]
  show ?thesis
    using cc_channel.good_stream[OF g] cc_channel.drain[OF g assms(2), of n env] assms(3-5)
    by (simp add: cc_channel.backlog_def cc_link_run_def)
qed

theorem cc_stream_and_drain_witness:
  "\<exists>l n l'. l = cc_link_run \<lparr>closeError = (\<lambda>_. None), isOpen = (\<lambda>_. True)\<rparr>
      [Sent ''ab'', Sent ''c'', Finished] (link_init sock_buf_init)
    \<and> l' = cc_link_run \<lparr>closeError = (\<lambda>_. None), isOpen = (\<lambda>_. True)\<rparr>
        (replicate n (Completed 0)) l
    \<and> wire l' = ''abc'' \<and> inflight l' = [] \<and> nextWriteBuffer (side l') = []
    \<and> closes (side l') = closes (side l) + (if disconnectRequested (side l) then 1 else 0)"
  using cc_stream_and_drain[of sock_buf_init "[Sent ''ab'', Sent ''c'', Finished]",
      OF _ _ refl refl refl]
  by fastforce

text \<open>
  C35. A failed write leaves the client's socket open. After a write that carries data fails, no
  sequence of \<open>sendData\<close> and \<open>disconnect\<close> calls starts another write or closes the socket: the
  trace ends with the error report, and \<open>disconnect\<close> only sets a flag that nothing acts on.
\<close>

theorem cc_write_error_stays_open:
  assumes "bytesToWrite c \<noteq> 0"
  shows "trace (cc_calls env calls (cc_onWriteComplete env (Some e) n c)) =
      trace c @ [Report SocketWriteError (message e)]
    \<and> closes (cc_calls env calls (cc_onWriteComplete env (Some e) n c)) = closes c"
  using conn_calls_busy[of "emit (Report SocketWriteError (message e)) c" env calls] assms
  by (simp add: cc_calls_eq cc_onWriteComplete_def closes_def)

theorem cc_write_error_stays_open_witness:
  "trace (cc_calls \<lparr>closeError = (\<lambda>_. None), isOpen = (\<lambda>_. True)\<rparr>
      [CallSendData ''x'', CallDisconnect]
      (cc_onWriteComplete \<lparr>closeError = (\<lambda>_. None), isOpen = (\<lambda>_. True)\<rparr>
        (Some (OtherError ''Broken pipe'')) 0 (cc_sendData ''ab'' sock_buf_init)))
    = [AsyncWrite ''ab'', Report SocketWriteError ''Broken pipe'']"
  using cc_write_error_stays_open[of "cc_sendData ''ab'' sock_buf_init"
      "\<lparr>closeError = (\<lambda>_. None), isOpen = (\<lambda>_. True)\<rparr>"
      "[CallSendData ''x'', CallDisconnect]" "OtherError ''Broken pipe''" 0]
  by (simp add: cc_sendData_def sock_buf_init_def size_of_def emit_def)

end
