(* ===== verification/Queue_Client.thy ===== *)
theory Queue_Client
  imports Prelude
begin

text \<open>
  The contract between an asynchronous service and whaleroute's request processor queue: the
  service calls \<open>stop\<close> on the queue of the request when it begins an operation and \<open>launch\<close>
  when the operation has ended, if it is attached to a queue at all. Timers, clients and
  dispatchers keep it; the queue itself is a flag and does not count.
\<close>

datatype queue_op = Stop | Launch

fun queue_stopped :: "bool \<Rightarrow> queue_op list \<Rightarrow> bool" where
  "queue_stopped b [] = b"
| "queue_stopped b (Stop # xs) = queue_stopped True xs"
| "queue_stopped b (Launch # xs) = queue_stopped False xs"

lemma queue_stopped_append [simp]:
  "queue_stopped b (xs @ ys) = queue_stopped (queue_stopped b xs) ys"
  by (induction b xs rule: queue_stopped.induct) auto

locale queue_client =
  fixes suspend :: "'i \<Rightarrow> 's \<Rightarrow> 's"
    and resume :: "'j \<Rightarrow> 's \<Rightarrow> 's"
    and qops :: "'s \<Rightarrow> queue_op list"
    and attached :: "'s \<Rightarrow> bool"
  assumes suspend_ops: "qops (suspend i s) = qops s @ (if attached s then [Stop] else [])"
    and resume_ops: "qops (resume j s) = qops s @ (if attached s then [Launch] else [])"
    and suspend_attached: "attached (suspend i s) = attached s"
    and resume_attached: "attached (resume j s) = attached s"
begin

definition episode :: "'i option \<Rightarrow> 'j \<Rightarrow> 's \<Rightarrow> 's" where
  "episode oi j s = (case oi of Some i \<Rightarrow> suspend i s | None \<Rightarrow> resume j s)"

text \<open>Every suspension and every resumption shows on the queue, in order and exactly once.\<close>

lemma episodes_ops:
  "qops (fold (\<lambda>oi. episode oi j) ois s) =
     qops s @ (if attached s then map (\<lambda>oi. if oi = None then Launch else Stop) ois else [])"
proof (induction ois arbitrary: s)
  case Nil
  then show ?case by simp
next
  case (Cons oi ois)
  have "attached (episode oi j s) = attached s"
    by (cases oi) (simp_all add: episode_def suspend_attached resume_attached)
  moreover have "qops (episode oi j s) =
      qops s @ (if attached s then [if oi = None then Launch else Stop] else [])"
    by (cases oi) (simp_all add: episode_def suspend_ops resume_ops)
  ultimately show ?case using Cons.IH[of "episode oi j s"] by simp
qed

text \<open>Two overlapping operations: the first to end resumes the queue.\<close>

lemma overlap_resumes:
  "attached s \<Longrightarrow> \<not> queue_stopped b (qops (resume j (suspend i' (suspend i s))))"
  by (simp add: suspend_ops resume_ops suspend_attached)

lemma detached_silent:
  "\<not> attached s \<Longrightarrow> qops (suspend i s) = qops s \<and> qops (resume j s) = qops s"
  by (simp add: suspend_ops resume_ops)

end

end
