(* ===== verification/Service_Holder.thy ===== *)
theory Service_Holder
  imports Prelude
begin

text \<open>
  \<open>ServiceHolder<T>\<close> of \<^verbatim>\<open>src/serviceholder.cpp\<close>: a facade (timer, client, dispatcher) owns
  its service, or refers to the one of a request's connection, or, when the request is gone, has
  none. Services are objects with an identity \<open>'p\<close>; a store maps identities to their states.
  The locale is the contract of a facade operation; every facade operation interprets it.
\<close>

record 'p service_holder =
  service :: "'p option"
  serviceOptionalRef :: "'p option"

definition holder_own :: "'p \<Rightarrow> 'p service_holder" where
  "holder_own p = \<lparr>service = Some p, serviceOptionalRef = None\<rparr>"

definition holder_ref :: "'p option \<Rightarrow> 'p service_holder" where
  "holder_ref r = \<lparr>service = None, serviceOptionalRef = r\<rparr>"

text \<open>\<open>None\<close> stands for the undefined behaviour of dereferencing an empty reference.\<close>

definition holder_get :: "'p service_holder \<Rightarrow> 'p option" where
  "holder_get h =
     (case service h of Some p \<Rightarrow> Some p | None \<Rightarrow> serviceOptionalRef h)"

definition holder_has_value :: "'p service_holder \<Rightarrow> bool" where
  "holder_has_value h \<longleftrightarrow> service h \<noteq> None \<or> serviceOptionalRef h \<noteq> None"

lemma holder_get_defined: "holder_has_value h \<longleftrightarrow> holder_get h \<noteq> None"
  by (auto simp: holder_has_value_def holder_get_def split: option.split)

lemma holder_simps [simp]:
  "holder_get (holder_own p) = Some p" "holder_has_value (holder_own p)"
  "holder_get (holder_ref r) = r" "holder_has_value (holder_ref r) \<longleftrightarrow> r \<noteq> None"
  by (simp_all add: holder_own_def holder_ref_def holder_get_def holder_has_value_def)

text \<open>The shape of every facade operation: an early return, then a call on the service.\<close>

definition with_service ::
    "'p service_holder \<Rightarrow> ('s \<Rightarrow> 's) \<Rightarrow> ('p \<Rightarrow> 's) \<Rightarrow> 'p \<Rightarrow> 's" where
  "with_service h f store =
     (if \<not> holder_has_value h then store
      else case holder_get h of
             Some p \<Rightarrow> store(p := f (store p))
           | None \<Rightarrow> store)"

lemma with_service_keeps:
  "P s \<Longrightarrow> P (f s) \<Longrightarrow> P (with_service h f (\<lambda>_. s) p)"
  by (simp add: with_service_def split: option.split)

locale service_facade =
  fixes call :: "'p service_holder \<Rightarrow> ('p \<Rightarrow> 's) \<Rightarrow> 'p \<Rightarrow> 's"
    and inner :: "'s \<Rightarrow> 's"
  assumes call_missing: "\<not> holder_has_value h \<Longrightarrow> call h store = store"
    and call_present: "holder_get h = Some p \<Longrightarrow> call h store = store(p := inner (store p))"
begin

lemma call_total: "call h store = store \<or> (\<exists>p. call h store = store(p := inner (store p)))"
  using call_missing call_present holder_get_defined by fastforce

lemma call_frame: "holder_get h \<noteq> Some p \<Longrightarrow> call h store p = store p"
proof (cases "holder_get h")
  case None
  then show ?thesis using call_missing holder_get_defined by fastforce
next
  case (Some p')
  moreover assume "holder_get h \<noteq> Some p"
  ultimately show ?thesis using call_present[OF Some] by simp
qed

lemma call_effect: "holder_get h = Some p \<Longrightarrow> call h store p = inner (store p)"
  using call_present by simp

end

lemma with_service_facade: "service_facade (\<lambda>h. with_service h f) f"
  by unfold_locales (auto simp: with_service_def holder_get_defined)

end
