(* ===== verification/Timers.thy ===== *)
theory Timers
  imports Queue_Client Service_Holder
begin

text \<open>
  Timers: \<^verbatim>\<open>src/timerservice.cpp\<close>, \<^verbatim>\<open>src/timerprovider.cpp\<close>, \<^verbatim>\<open>src/timer.cpp\<close> and the
  template \<open>Timer::waitFuture\<close> of \<^verbatim>\<open>include/asyncgi/timer.h\<close>.

  \<open>asio::steady_timer\<close> and whaleroute's request processor queue are not part of the repository;
  a call to one of them is an entry of the timer's trace. A callback is named by a value of type
  \<open>'cb\<close>; what the user's callback does to the timer that runs it is a parameter, the list of
  calls it makes (\<open>body\<close>).
\<close>

section \<open>The timer service\<close>

datatype 'cb timer_handler =
    OnceHandler 'cb
  | PeriodicHandler int 'cb

datatype ('q, 'cb) timer_action =
    QueueStop 'q
  | QueueLaunch 'q
  | ExpiresAfter int
  | AsyncWait "'cb timer_handler"
  | CancelWait
  | RunTask 'cb

record ('q, 'cb) timer_service =
  ts_queue :: "'q option"
  ts_trace :: "('q, 'cb) timer_action list"

definition ts_emit ::
    "('q, 'cb) timer_action \<Rightarrow> ('q, 'cb) timer_service \<Rightarrow> ('q, 'cb) timer_service" where
  "ts_emit a t = t\<lparr>ts_trace := ts_trace t @ [a]\<rparr>"

definition ts_new :: "'q option \<Rightarrow> ('q, 'cb) timer_service" where
  "ts_new queue = \<lparr>ts_queue = queue, ts_trace = []\<rparr>"

definition ts_queue_stop :: "('q, 'cb) timer_service \<Rightarrow> ('q, 'cb) timer_service" where
  "ts_queue_stop t = (case ts_queue t of Some q \<Rightarrow> ts_emit (QueueStop q) t | None \<Rightarrow> t)"

definition ts_queue_launch :: "('q, 'cb) timer_service \<Rightarrow> ('q, 'cb) timer_service" where
  "ts_queue_launch t = (case ts_queue t of Some q \<Rightarrow> ts_emit (QueueLaunch q) t | None \<Rightarrow> t)"

definition ts_start ::
    "int \<Rightarrow> 'cb \<Rightarrow> ('q, 'cb) timer_service \<Rightarrow> ('q, 'cb) timer_service" where
  "ts_start time callback t =
     ts_emit (AsyncWait (OnceHandler callback)) (ts_emit (ExpiresAfter time) (ts_queue_stop t))"

definition ts_startPeriodic ::
    "int \<Rightarrow> 'cb \<Rightarrow> ('q, 'cb) timer_service \<Rightarrow> ('q, 'cb) timer_service" where
  "ts_startPeriodic time callback t =
     ts_emit (AsyncWait (PeriodicHandler time callback))
       (ts_emit (ExpiresAfter time) (ts_queue_stop t))"

definition ts_stop :: "('q, 'cb) timer_service \<Rightarrow> ('q, 'cb) timer_service" where
  "ts_stop t = ts_queue_launch (ts_emit CancelWait t)"

text \<open>The calls a callback can make on its timer, and the handlers that asio runs.\<close>

datatype 'cb timer_cmd =
    CmdStart int 'cb
  | CmdStartPeriodic int 'cb
  | CmdStop

fun ts_cmd :: "'cb timer_cmd \<Rightarrow> ('q, 'cb) timer_service \<Rightarrow> ('q, 'cb) timer_service" where
  "ts_cmd (CmdStart time callback) t = ts_start time callback t"
| "ts_cmd (CmdStartPeriodic time callback) t = ts_startPeriodic time callback t"
| "ts_cmd CmdStop t = ts_stop t"

definition ts_run_task :: "('cb \<Rightarrow> 'cb timer_cmd list) \<Rightarrow> 'cb \<Rightarrow>
    ('q, 'cb) timer_service \<Rightarrow> ('q, 'cb) timer_service" where
  "ts_run_task body task t = fold ts_cmd (body task) (ts_emit (RunTask task) t)"

fun ts_fire :: "('cb \<Rightarrow> 'cb timer_cmd list) \<Rightarrow> 'cb timer_handler \<Rightarrow> bool \<Rightarrow>
    ('q, 'cb) timer_service \<Rightarrow> ('q, 'cb) timer_service" where
  "ts_fire body (OnceHandler task) ec t =
     (if ec then t else ts_stop (ts_run_task body task t))"
| "ts_fire body (PeriodicHandler time task) ec t =
     (if ec then t else ts_startPeriodic time task (ts_run_task body task t))"

section \<open>What the trace means\<close>

text \<open>
  Documented behaviour of \<open>asio::steady_timer\<close>: \<open>expires_after\<close> and \<open>cancel\<close> cancel every wait
  that is pending (its handler is then run with an error), \<open>async_wait\<close> adds one.
  A queue is suspended by \<open>stop\<close> and resumed by \<open>launch\<close>.
\<close>

fun wait_effect :: "('q, 'cb) timer_action \<Rightarrow> 'cb timer_handler list \<Rightarrow> 'cb timer_handler list" where
  "wait_effect (ExpiresAfter _) ws = []"
| "wait_effect CancelWait ws = []"
| "wait_effect (AsyncWait h) ws = ws @ [h]"
| "wait_effect _ ws = ws"

definition waits :: "('q, 'cb) timer_service \<Rightarrow> 'cb timer_handler list" where
  "waits t = fold wait_effect (ts_trace t) []"

fun queue_effect :: "('q, 'cb) timer_action \<Rightarrow> bool \<Rightarrow> bool" where
  "queue_effect (QueueStop _) b = True"
| "queue_effect (QueueLaunch _) b = False"
| "queue_effect _ b = b"

definition suspended :: "('q, 'cb) timer_service \<Rightarrow> bool" where
  "suspended t = fold queue_effect (ts_trace t) False"

definition tasks_run :: "('q, 'cb) timer_service \<Rightarrow> 'cb list" where
  "tasks_run t = concat (map (\<lambda>a. case a of RunTask c \<Rightarrow> [c] | _ \<Rightarrow> []) (ts_trace t))"

lemma ts_emit_simps [simp]:
  "ts_queue (ts_emit a t) = ts_queue t"
  "waits (ts_emit a t) = wait_effect a (waits t)"
  "suspended (ts_emit a t) = queue_effect a (suspended t)"
  by (simp_all add: ts_emit_def waits_def suspended_def)

lemma tasks_run_emit [simp]:
  "tasks_run (ts_emit a t) = tasks_run t @ (case a of RunTask c \<Rightarrow> [c] | _ \<Rightarrow> [])"
  by (simp add: ts_emit_def tasks_run_def)

lemma ts_queue_ops [simp]:
  "ts_queue (ts_queue_stop t) = ts_queue t" "ts_queue (ts_queue_launch t) = ts_queue t"
  "waits (ts_queue_stop t) = waits t" "waits (ts_queue_launch t) = waits t"
  "tasks_run (ts_queue_stop t) = tasks_run t" "tasks_run (ts_queue_launch t) = tasks_run t"
  "suspended (ts_queue_stop t) = (ts_queue t \<noteq> None \<or> suspended t)"
  "suspended (ts_queue_launch t) = (ts_queue t = None \<and> suspended t)"
  by (simp_all add: ts_queue_stop_def ts_queue_launch_def split: option.split)

lemma ts_ops_simps [simp]:
  "ts_queue (ts_start n c t) = ts_queue t"
  "ts_queue (ts_startPeriodic n c t) = ts_queue t"
  "ts_queue (ts_stop t) = ts_queue t"
  "waits (ts_start n c t) = [OnceHandler c]"
  "waits (ts_startPeriodic n c t) = [PeriodicHandler n c]"
  "waits (ts_stop t) = []"
  "suspended (ts_start n c t) = (ts_queue t \<noteq> None \<or> suspended t)"
  "suspended (ts_startPeriodic n c t) = (ts_queue t \<noteq> None \<or> suspended t)"
  "suspended (ts_stop t) = (ts_queue t = None \<and> suspended t)"
  "tasks_run (ts_start n c t) = tasks_run t"
  "tasks_run (ts_startPeriodic n c t) = tasks_run t"
  "tasks_run (ts_stop t) = tasks_run t"
  by (simp_all add: ts_start_def ts_startPeriodic_def ts_stop_def)

lemma ts_cmds_simps [simp]:
  "ts_queue (fold ts_cmd cmds t) = ts_queue t"
  "tasks_run (fold ts_cmd cmds t) = tasks_run t"
proof (induction cmds arbitrary: t)
  case (Cons x xs)
  {
    case 1
    show ?case using Cons(1)[of "ts_cmd x t"] by (cases x) simp_all
  next
    case 2
    show ?case using Cons(2)[of "ts_cmd x t"] by (cases x) simp_all
  }
qed simp_all

lemma ts_run_task_simps [simp]:
  "ts_queue (ts_run_task body task t) = ts_queue t"
  "tasks_run (ts_run_task body task t) = tasks_run t @ [task]"
  by (simp_all add: ts_run_task_def)

lemma ts_no_queue_suspended:
  "ts_queue t = None \<Longrightarrow> suspended (fold ts_cmd cmds t) = suspended t"
proof (induction cmds arbitrary: t)
  case (Cons x xs)
  have "ts_queue (ts_cmd x t) = None" and "suspended (ts_cmd x t) = suspended t"
    using Cons.prems by (cases x; simp)+
  with Cons.IH show ?case by simp
qed simp

section \<open>The contract with the request queue\<close>

fun timer_queue_op :: "('q, 'cb) timer_action \<Rightarrow> queue_op list" where
  "timer_queue_op (QueueStop _) = [Stop]"
| "timer_queue_op (QueueLaunch _) = [Launch]"
| "timer_queue_op _ = []"

definition ts_qops :: "('q, 'cb) timer_service \<Rightarrow> queue_op list" where
  "ts_qops t = concat (map timer_queue_op (ts_trace t))"

lemma ts_qops_emit [simp]: "ts_qops (ts_emit a t) = ts_qops t @ timer_queue_op a"
  by (simp add: ts_qops_def ts_emit_def)

lemma ts_qops_simps [simp]:
  "ts_qops (ts_queue_stop t) = ts_qops t @ (if ts_queue t \<noteq> None then [Stop] else [])"
  "ts_qops (ts_queue_launch t) = ts_qops t @ (if ts_queue t \<noteq> None then [Launch] else [])"
  by (simp_all add: ts_queue_stop_def ts_queue_launch_def split: option.split)

interpretation timer_once: queue_client "\<lambda>(n, c). ts_start n c" "\<lambda>_::unit. ts_stop" ts_qops
    "\<lambda>t. ts_queue t \<noteq> None"
  by unfold_locales (auto simp: ts_start_def ts_stop_def split: prod.split)

interpretation timer_periodic: queue_client "\<lambda>(n, c). ts_startPeriodic n c" "\<lambda>_::unit. ts_stop"
    ts_qops "\<lambda>t. ts_queue t \<noteq> None"
  by unfold_locales (auto simp: ts_startPeriodic_def ts_stop_def split: prod.split)

section \<open>The timer provider\<close>

record ('q, 'cb) timer_provider =
  tp_timers :: "('q, 'cb) timer_service list"
  tp_queue :: "'q option"

definition tp_new :: "('q, 'cb) timer_provider" where
  "tp_new = \<lparr>tp_timers = [], tp_queue = None\<rparr>"

text \<open>
  \<open>std::deque::emplace_back\<close> keeps references to the elements valid, so a position in the list
  is the identity of a timer.
\<close>

definition emplaceTimer :: "('q, 'cb) timer_provider \<Rightarrow> ('q, 'cb) timer_provider \<times> nat" where
  "emplaceTimer p =
     (p\<lparr>tp_timers := tp_timers p @ [ts_new (tp_queue p)]\<rparr>, length (tp_timers p))"

definition tp_setRequestProcessorQueue ::
    "'q \<Rightarrow> ('q, 'cb) timer_provider \<Rightarrow> ('q, 'cb) timer_provider" where
  "tp_setRequestProcessorQueue queue p = p\<lparr>tp_queue := Some queue\<rparr>"

definition tp_update :: "nat \<Rightarrow> (('q, 'cb) timer_service \<Rightarrow> ('q, 'cb) timer_service) \<Rightarrow>
    ('q, 'cb) timer_provider \<Rightarrow> ('q, 'cb) timer_provider" where
  "tp_update i f p = p\<lparr>tp_timers := (tp_timers p)[i := f (tp_timers p ! i)]\<rparr>"

lemma emplaceTimer_simps [simp]:
  "snd (emplaceTimer p) = length (tp_timers p)"
  "length (tp_timers (fst (emplaceTimer p))) = Suc (length (tp_timers p))"
  "tp_queue (fst (emplaceTimer p)) = tp_queue p"
  "tp_timers (fst (emplaceTimer p)) ! length (tp_timers p) = ts_new (tp_queue p)"
  "i < length (tp_timers p) \<Longrightarrow> tp_timers (fst (emplaceTimer p)) ! i = tp_timers p ! i"
  by (simp_all add: emplaceTimer_def nth_append)

lemma tp_update_simps [simp]:
  "length (tp_timers (tp_update i f p)) = length (tp_timers p)"
  "tp_queue (tp_update i f p) = tp_queue p"
  "i < length (tp_timers p) \<Longrightarrow> tp_timers (tp_update i f p) ! i = f (tp_timers p ! i)"
  "i \<noteq> j \<Longrightarrow> tp_timers (tp_update i f p) ! j = tp_timers p ! j"
  by (simp_all add: tp_update_def)

section \<open>The timer facade\<close>

definition getTimerService ::
    "('q, 'cb) timer_provider option \<Rightarrow> ('q, 'cb) timer_provider option \<times> nat option" where
  "getTimerService context =
     (case context of
        Some provider \<Rightarrow> (let (provider, i) = emplaceTimer provider in (Some provider, Some i))
      | None \<Rightarrow> (None, None))"

definition timer_of_responder :: "('q, 'cb) timer_provider option \<Rightarrow>
    ('q, 'cb) timer_provider option \<times> nat service_holder" where
  "timer_of_responder context = (let (context, r) = getTimerService context
     in (context, holder_ref r))"

definition timer_of_io :: "'p \<Rightarrow> ('p \<Rightarrow> ('q, 'cb) timer_service) \<Rightarrow>
    ('p \<Rightarrow> ('q, 'cb) timer_service) \<times> 'p service_holder" where
  "timer_of_io p store = (store(p := ts_new None), holder_own p)"

definition timer_start :: "int \<Rightarrow> 'cb \<Rightarrow> 'p service_holder \<Rightarrow>
    ('p \<Rightarrow> ('q, 'cb) timer_service) \<Rightarrow> 'p \<Rightarrow> ('q, 'cb) timer_service" where
  "timer_start time callback h store = with_service h (ts_start time callback) store"

definition timer_startPeriodic :: "int \<Rightarrow> 'cb \<Rightarrow> 'p service_holder \<Rightarrow>
    ('p \<Rightarrow> ('q, 'cb) timer_service) \<Rightarrow> 'p \<Rightarrow> ('q, 'cb) timer_service" where
  "timer_startPeriodic time callback h store =
     with_service h (ts_startPeriodic time callback) store"

definition timer_stop :: "'p service_holder \<Rightarrow>
    ('p \<Rightarrow> ('q, 'cb) timer_service) \<Rightarrow> 'p \<Rightarrow> ('q, 'cb) timer_service" where
  "timer_stop h store = with_service h ts_stop store"

text \<open>The function \<open>stopSignal\<close> returns: it refers to the service, or does nothing.\<close>

definition timer_stopSignal :: "'p service_holder \<Rightarrow>
    ('p \<Rightarrow> ('q, 'cb) timer_service) \<Rightarrow> 'p \<Rightarrow> ('q, 'cb) timer_service" where
  "timer_stopSignal h =
     (if \<not> holder_has_value h then (\<lambda>store. store)
      else case holder_get h of
             Some timerService \<Rightarrow>
               (\<lambda>store. store(timerService := ts_stop (store timerService)))
           | None \<Rightarrow> (\<lambda>store. store))"

interpretation timer_start_facade: service_facade "timer_start time callback"
    "ts_start time callback" for time callback
  unfolding timer_start_def by (rule with_service_facade)

interpretation timer_startPeriodic_facade: service_facade "timer_startPeriodic time callback"
    "ts_startPeriodic time callback" for time callback
  unfolding timer_startPeriodic_def by (rule with_service_facade)

interpretation timer_stop_facade: service_facade timer_stop ts_stop
  unfolding timer_stop_def by (rule with_service_facade)

lemma timer_stopSignal_eq: "timer_stopSignal h = timer_stop h"
  by (rule ext) (simp add: timer_stopSignal_def timer_stop_def with_service_def
      split: option.split)

section \<open>Waiting for a future\<close>

text \<open>
  One run of \<open>timerCallback\<close>. The future is valid or has been consumed by \<open>get\<close>; \<open>promise\<close> is
  the value its shared state holds now, if any. \<open>wait_for\<close> on a future that is not valid is
  undefined behaviour (\<open>None\<close>). Otherwise: is the future still valid, what is \<open>func\<close> called
  with, and what does the callback do to the timer.
\<close>

definition waitFuture_callback ::
    "bool \<Rightarrow> 'v option \<Rightarrow> (bool \<times> 'v list \<times> 'cb timer_cmd list) option" where
  "waitFuture_callback valid promise =
     (if \<not> valid then None
      else case promise of
             Some v \<Rightarrow> Some (False, [v], [CmdStop])
           | None \<Rightarrow> Some (True, [], []))"

record ('q, 'v) wait_future =
  wf_timer :: "('q, unit) timer_service"
  wf_period :: int
  wf_valid :: bool
  wf_delivered :: "'v list"

definition timer_waitFuture ::
    "int \<Rightarrow> ('q, unit) timer_service \<Rightarrow> ('q, 'v) wait_future" where
  "timer_waitFuture checkPeriod t =
     \<lparr>wf_timer = ts_startPeriodic checkPeriod () t, wf_period = checkPeriod,
      wf_valid = True, wf_delivered = []\<rparr>"

definition wf_tick :: "'v option \<Rightarrow> ('q, 'v) wait_future \<Rightarrow> ('q, 'v) wait_future option" where
  "wf_tick promise w =
     (case waitFuture_callback (wf_valid w) promise of
        None \<Rightarrow> None
      | Some (valid, out, cmds) \<Rightarrow>
          Some (w\<lparr>wf_timer :=
                    ts_fire (\<lambda>_. cmds) (PeriodicHandler (wf_period w) ()) False (wf_timer w),
                  wf_valid := valid, wf_delivered := wf_delivered w @ out\<rparr>))"

fun wf_run :: "'v option list \<Rightarrow> ('q, 'v) wait_future \<Rightarrow> ('q, 'v) wait_future option" where
  "wf_run [] w = Some w"
| "wf_run (p # ps) w = (case wf_tick p w of None \<Rightarrow> None | Some w \<Rightarrow> wf_run ps w)"

lemma wf_run_append:
  "wf_run (ps @ qs) w = (case wf_run ps w of None \<Rightarrow> None | Some w \<Rightarrow> wf_run qs w)"
  by (induction ps arbitrary: w) (simp_all split: option.split)

lemma wf_run_pending:
  assumes "wf_valid w" and "waits (wf_timer w) = [PeriodicHandler (wf_period w) ()]"
  shows "\<exists>w'. wf_run (replicate k None) w = Some w' \<and> wf_valid w' \<and>
    wf_delivered w' = wf_delivered w \<and> wf_period w' = wf_period w \<and>
    waits (wf_timer w') = [PeriodicHandler (wf_period w) ()] \<and>
    ts_queue (wf_timer w') = ts_queue (wf_timer w)"
  using assms
proof (induction k arbitrary: w)
  case (Suc k)
  obtain w1 where w1: "wf_tick None w = Some w1" "wf_valid w1"
    "waits (wf_timer w1) = [PeriodicHandler (wf_period w1) ()]"
    "wf_delivered w1 = wf_delivered w" "wf_period w1 = wf_period w"
    "ts_queue (wf_timer w1) = ts_queue (wf_timer w)"
    using Suc.prems by (simp add: wf_tick_def waitFuture_callback_def)
  with Suc.IH[OF w1(2,3)] show ?case by simp
qed simp

lemma wf_run_pending_start:
  "\<exists>w. wf_run (replicate k None) (timer_waitFuture period t) = Some w \<and> wf_valid w \<and>
    wf_delivered w = [] \<and> wf_period w = period"
  using wf_run_pending[of "timer_waitFuture period t" k]
  by (auto simp: timer_waitFuture_def)

section \<open>Properties\<close>

text \<open>
  A one-shot timer that fires runs its callback once, leaves no wait pending and its queue
  running, whatever the callback did to the timer (a restart in the callback is cancelled too);
  a cancelled wait runs nothing.
\<close>

theorem ts_once_fires:
  "waits (ts_fire body (OnceHandler task) False t) = []
   \<and> tasks_run (ts_fire body (OnceHandler task) False t) = tasks_run t @ [task]
   \<and> suspended (ts_fire body (OnceHandler task) False t) = (ts_queue t = None \<and> suspended t)
   \<and> ts_fire body (OnceHandler task) True t = t"
  using ts_no_queue_suspended[of "ts_emit (RunTask task) t" "body task"]
  by (auto simp: ts_run_task_def)

text \<open>
  A periodic timer that fires is armed again with the same callback and leaves its queue
  stopped, whatever the callback did: a \<open>stop\<close> called from inside the callback has no lasting
  effect.
\<close>

theorem ts_periodic_rearms:
  "waits (ts_fire body (PeriodicHandler time task) False t) = [PeriodicHandler time task]
   \<and> suspended (ts_fire body (PeriodicHandler time task) False t) =
      (case ts_queue t of Some q \<Rightarrow> True | None \<Rightarrow> suspended t)
   \<and> tasks_run (ts_fire body (PeriodicHandler time task) False t) = tasks_run t @ [task]"
  using ts_no_queue_suspended[of "ts_emit (RunTask task) t" "body task"]
  by (auto simp: ts_run_task_def split: option.split)

text \<open>The events of a timer: calls from outside, and the pending wait expiring.\<close>

datatype 'cb timer_event =
    TimerCall "'cb timer_cmd"
  | TimerExpired

fun ts_event :: "('cb \<Rightarrow> 'cb timer_cmd list) \<Rightarrow> 'cb timer_event \<Rightarrow>
    ('q, 'cb) timer_service \<Rightarrow> ('q, 'cb) timer_service" where
  "ts_event body (TimerCall cmd) t = ts_cmd cmd t"
| "ts_event body TimerExpired t =
     (case waits t of [] \<Rightarrow> t | h # _ \<Rightarrow> ts_fire body h False t)"

lemma ts_event_single: "length (waits t) \<le> 1 \<Longrightarrow> length (waits (ts_event body e t)) \<le> 1"
proof (induction body e t rule: ts_event.induct)
  case (1 body cmd t)
  then show ?case by (cases cmd) simp_all
next
  case (2 body t)
  show ?case
  proof (cases "waits t")
    case (Cons h hs)
    then show ?thesis by (cases h) (simp_all add: ts_run_task_def)
  qed simp
qed

lemma ts_events_single:
  "length (waits t) \<le> 1 \<Longrightarrow> length (waits (fold (ts_event body) es t)) \<le> 1"
proof (induction es arbitrary: t)
  case (Cons e es)
  from Cons.IH[OF ts_event_single[OF Cons.prems]] show ?case by simp
qed simp

text \<open>
  Through any history of starts, stops and expirations, with callbacks that restart or stop
  the timer as they like, a timer never has more than one wait pending.
\<close>

theorem ts_single_wait: "length (waits (fold (ts_event body) es (ts_new q))) \<le> 1"
  by (rule ts_events_single) (simp add: ts_new_def waits_def)

text \<open>
  \<open>waitFuture\<close> delivers: while the future is pending nothing is called, and the first check
  that finds a value calls \<open>func\<close> with it, exactly once.
\<close>

theorem wf_delivers:
  fixes v :: 'v and t :: "('q, unit) timer_service"
  shows "\<exists>w. wf_run (replicate k None @ [Some v]) (timer_waitFuture period t) = Some w
     \<and> wf_delivered w = [v] \<and> \<not> wf_valid w"
proof -
  obtain w :: "('q, 'v) wait_future" where
    "wf_run (replicate k None) (timer_waitFuture period t) = Some w" "wf_valid w"
    "wf_delivered w = []" "wf_period w = period"
    using wf_run_pending_start by blast
  then show ?thesis
    by (simp add: wf_run_append wf_tick_def waitFuture_callback_def)
qed

text \<open>
  \<open>waitFuture\<close> does not stop. After the delivery the timer is armed again, and its next
  expiration calls \<open>wait_for\<close> on a future that \<open>get\<close> has emptied: undefined behaviour.
\<close>

lemma wf_not_stopped:
  fixes v :: 'v and t :: "('q, unit) timer_service"
  shows "(\<exists>w. wf_run (replicate k None @ [Some v]) (timer_waitFuture period t) = Some w
      \<and> waits (wf_timer w) = [PeriodicHandler period ()])
   \<and> wf_run (replicate k None @ [Some v, p]) (timer_waitFuture period t) = None"
proof -
  obtain w :: "('q, 'v) wait_future" where
    "wf_run (replicate k None) (timer_waitFuture period t) = Some w" "wf_valid w"
    "wf_delivered w = []" "wf_period w = period"
    using wf_run_pending_start by blast
  then show ?thesis
    by (simp add: wf_run_append wf_tick_def waitFuture_callback_def)
qed

end
