(* ===== verification/Client_Service.thy ===== *)
theory Client_Service
  imports Client_Connection Timers
begin

text \<open>
  FastCGI requests made by the application: \<^verbatim>\<open>src/clientservice.cpp\<close> and
  \<^verbatim>\<open>src/client.cpp\<close>. Each request has a connection of its own, a timeout timer and a
  response handler; the slot of a connection holds what the lambdas of \<open>makeRequest\<close> captured.
  The shared function \<open>*cancelRequestOnTimeout\<close> of a slot is \<open>cs_cancel\<close>: \<open>None\<close> is the function
  that does nothing, \<open>Some h\<close> the one that cancels the request with the handle \<open>h\<close>.
  Slots carry the identity under which the environment delivers their events. The user's
  handlers are named by values of type \<open>'k\<close>, and calling one is an entry of the trace: what it
  does in turn is not followed here.

  Parameters: the requester library, the initial state of a requester, asio's address parser,
  \<open>http::Request::toFcgiData\<close>. \<open>http::responseFromString\<close> is applied by the environment to the
  text an \<open>HttpResult\<close> carries.
\<close>

section \<open>State\<close>

record 'k request_closure =
  rq_timer :: nat
  rq_handler :: 'k
  rq_http :: bool
  rq_request :: fastcgi_request

record ('f, 'k) client_slot =
  slot_id :: nat
  slot_conn :: "'f client_connection"
  slot_closure :: "'k request_closure option"

datatype client_result =
    NoResult
  | FastcgiResult string string
  | HttpResult string

datatype ('q, 'k) client_action =
    CQueueStop 'q
  | CQueueLaunch 'q
  | CReport error_event string
  | CHandler 'k client_result
  | CDestroyed nat
  | CCancelOrphan nat
  | CUseAfterFree nat

record ('q, 'f, 'h, 'k) client_service =
  cs_timers :: "('q, nat) timer_provider"
  cs_local :: "('f, 'k) client_slot list"
  cs_tcp :: "('f, 'k) client_slot list"
  cs_dead :: "('f, 'k) client_slot list"
  cs_queue :: "'q option"
  cs_cancel :: "nat \<Rightarrow> 'h option"
  cs_next :: nat
  cs_trace :: "('q, 'k) client_action list"

definition cs_new :: "('q, 'f, 'h, 'k) client_service" where
  "cs_new = \<lparr>cs_timers = tp_new, cs_local = [], cs_tcp = [], cs_dead = [], cs_queue = None,
     cs_cancel = (\<lambda>_. None), cs_next = 0,
     cs_trace = []\<rparr>"

definition cs_emit :: "('q, 'k) client_action \<Rightarrow>
    ('q, 'f, 'h, 'k) client_service \<Rightarrow> ('q, 'f, 'h, 'k) client_service" where
  "cs_emit a s = s\<lparr>cs_trace := cs_trace s @ [a]\<rparr>"

definition new_client_connection :: "'f \<Rightarrow> 'f client_connection" where
  "new_client_connection f =
     \<lparr>writeBuffer = [], nextWriteBuffer = [], bytesToWrite = 0, disconnectRequested = False,
      trace = [], requester = f\<rparr>"

section \<open>Pieces of makeRequest\<close>

definition cs_queue_stop ::
    "('q, 'f, 'h, 'k) client_service \<Rightarrow> ('q, 'f, 'h, 'k) client_service" where
  "cs_queue_stop s = (case cs_queue s of Some q \<Rightarrow> cs_emit (CQueueStop q) s | None \<Rightarrow> s)"

definition cs_queue_launch ::
    "('q, 'f, 'h, 'k) client_service \<Rightarrow> ('q, 'f, 'h, 'k) client_service" where
  "cs_queue_launch s = (case cs_queue s of Some q \<Rightarrow> cs_emit (CQueueLaunch q) s | None \<Rightarrow> s)"

text \<open>The queue is stopped, then a timer is emplaced and started; its callback names the slot.\<close>

definition cs_arm :: "int \<Rightarrow>
    ('q, 'f, 'h, 'k) client_service \<Rightarrow> ('q, 'f, 'h, 'k) client_service \<times> nat" where
  "cs_arm timeout s =
     (let s = cs_queue_stop s;
          (timers, i) = emplaceTimer (cs_timers s);
          timers = tp_update i (ts_start timeout (cs_next s)) timers
      in (s\<lparr>cs_timers := timers\<rparr>, i))"

definition cs_timer_stop :: "nat \<Rightarrow>
    ('q, 'f, 'h, 'k) client_service \<Rightarrow> ('q, 'f, 'h, 'k) client_service" where
  "cs_timer_stop i s = s\<lparr>cs_timers := tp_update i ts_stop (cs_timers s)\<rparr>"

text \<open>The lambda \<open>onResponseReceived\<close> of the FastCGI and of the HTTP overloads.\<close>

definition cs_onFastcgiResponse :: "'k request_closure \<Rightarrow> response_data option \<Rightarrow>
    ('q, 'f, 'h, 'k) client_service \<Rightarrow> ('q, 'f, 'h, 'k) client_service" where
  "cs_onFastcgiResponse cl fcgiResponse s =
     (let s = cs_timer_stop (rq_timer cl) s;
          s = (case fcgiResponse of
                 Some r \<Rightarrow>
                   (let s = (if rd_errorMsg r \<noteq> []
                             then cs_emit (CReport RequestProcessingError (rd_errorMsg r)) s else s)
                    in cs_emit (CHandler (rq_handler cl)
                         (FastcgiResult (rd_data r) (rd_errorMsg r))) s)
               | None \<Rightarrow> cs_emit (CHandler (rq_handler cl) NoResult) s)
      in cs_queue_launch s)"

definition cs_onHttpResponse :: "'k request_closure \<Rightarrow> response_data option \<Rightarrow>
    ('q, 'f, 'h, 'k) client_service \<Rightarrow> ('q, 'f, 'h, 'k) client_service" where
  "cs_onHttpResponse cl fcgiResponse s =
     (let s = cs_timer_stop (rq_timer cl) s;
          s = (case fcgiResponse of
                 Some r \<Rightarrow>
                   (let s = (if rd_errorMsg r \<noteq> []
                             then cs_emit (CReport RequestProcessingError (rd_errorMsg r)) s else s)
                    in cs_emit (CHandler (rq_handler cl) (HttpResult (rd_data r))) s)
               | None \<Rightarrow> cs_emit (CHandler (rq_handler cl) NoResult) s)
      in cs_queue_launch s)"

definition cs_onResponse :: "'k request_closure \<Rightarrow> response_data option \<Rightarrow>
    ('q, 'f, 'h, 'k) client_service \<Rightarrow> ('q, 'f, 'h, 'k) client_service" where
  "cs_onResponse cl r s =
     (if rq_http cl then cs_onHttpResponse cl r s else cs_onFastcgiResponse cl r s)"

definition cs_closure :: "nat \<Rightarrow> 'k \<Rightarrow> bool \<Rightarrow> fastcgi_request \<Rightarrow> 'k request_closure" where
  "cs_closure timer handler http request =
     \<lparr>rq_timer = timer, rq_handler = handler, rq_http = http, rq_request = request\<rparr>"

section \<open>makeRequest\<close>

definition cs_makeRequest_local :: "'f \<Rightarrow> string \<Rightarrow> fastcgi_request \<Rightarrow> 'k \<Rightarrow> int \<Rightarrow>
    ('q, 'f, 'h, 'k) client_service \<Rightarrow> ('q, 'f, 'h, 'k) client_service" where
  "cs_makeRequest_local f0 socketPath request responseHandler timeout s =
     (let (s, timer) = cs_arm timeout s;
          conn = cc_makeRequest socketPath (new_client_connection f0)
      in s\<lparr>cs_local := cs_local s @ [\<lparr>slot_id = cs_next s, slot_conn = conn,
             slot_closure = Some (cs_closure timer responseHandler False request)\<rparr>],
           cs_next := Suc (cs_next s)\<rparr>)"

definition cs_makeHttpRequest_local :: "('w \<Rightarrow> fastcgi_request) \<Rightarrow> 'f \<Rightarrow> string \<Rightarrow> 'w \<Rightarrow> 'k \<Rightarrow> int \<Rightarrow>
    ('q, 'f, 'h, 'k) client_service \<Rightarrow> ('q, 'f, 'h, 'k) client_service" where
  "cs_makeHttpRequest_local toFcgiData f0 socketPath request responseHandler timeout s =
     (let (s, timer) = cs_arm timeout s;
          fcgiRequest = toFcgiData request;
          conn = cc_makeRequest socketPath (new_client_connection f0)
      in s\<lparr>cs_local := cs_local s @ [\<lparr>slot_id = cs_next s, slot_conn = conn,
             slot_closure = Some (cs_closure timer responseHandler True fcgiRequest)\<rparr>],
           cs_next := Suc (cs_next s)\<rparr>)"

text \<open>
  The TCP overloads emplace the connection before the address is parsed; when \<open>make_address\<close>
  throws, the connection stays behind with no request in it. The FastCGI overload parses
  \<open>ipAddress.data()\<close>, the HTTP overload the view itself.
\<close>

definition cs_emplace_tcp :: "'f \<Rightarrow>
    ('q, 'f, 'h, 'k) client_service \<Rightarrow> ('q, 'f, 'h, 'k) client_service" where
  "cs_emplace_tcp f0 s =
     s\<lparr>cs_tcp := cs_tcp s @ [\<lparr>slot_id = cs_next s, slot_conn = new_client_connection f0,
          slot_closure = None\<rparr>],
       cs_next := Suc (cs_next s)\<rparr>"

definition cs_connect_tcp :: "string \<Rightarrow> 'k request_closure \<Rightarrow>
    ('q, 'f, 'h, 'k) client_service \<Rightarrow> ('q, 'f, 'h, 'k) client_service" where
  "cs_connect_tcp endpoint cl s =
     s\<lparr>cs_tcp := butlast (cs_tcp s) @ [(last (cs_tcp s))
          \<lparr>slot_conn := cc_makeRequest endpoint (slot_conn (last (cs_tcp s))),
           slot_closure := Some cl\<rparr>]\<rparr>"

definition cs_makeRequest_tcp :: "(string \<Rightarrow> u16 \<Rightarrow> cpp_exception + string) \<Rightarrow> 'f \<Rightarrow>
    string_view \<Rightarrow> u16 \<Rightarrow> fastcgi_request \<Rightarrow> 'k \<Rightarrow> int \<Rightarrow>
    ('q, 'f, 'h, 'k) client_service \<Rightarrow>
    ('q, 'f, 'h, 'k) client_service \<times> cpp_exception option" where
  "cs_makeRequest_tcp make_endpoint f0 ipAddress port request responseHandler timeout s =
     (let (s, timer) = cs_arm timeout s;
          s = cs_emplace_tcp f0 s
      in case make_endpoint (sv_c_str ipAddress) port of
           Inl e \<Rightarrow> (s, Some e)
         | Inr ep \<Rightarrow>
             (cs_connect_tcp ep (cs_closure timer responseHandler False request) s, None))"

definition cs_makeHttpRequest_tcp :: "('w \<Rightarrow> fastcgi_request) \<Rightarrow>
    (string \<Rightarrow> u16 \<Rightarrow> cpp_exception + string) \<Rightarrow> 'f \<Rightarrow>
    string_view \<Rightarrow> u16 \<Rightarrow> 'w \<Rightarrow> 'k \<Rightarrow> int \<Rightarrow>
    ('q, 'f, 'h, 'k) client_service \<Rightarrow>
    ('q, 'f, 'h, 'k) client_service \<times> cpp_exception option" where
  "cs_makeHttpRequest_tcp toFcgiData make_endpoint f0 ipAddress port request responseHandler timeout s =
     (let (s, timer) = cs_arm timeout s;
          s = cs_emplace_tcp f0 s;
          fcgiRequest = toFcgiData request
      in case make_endpoint (sv_chars ipAddress) port of
           Inl e \<Rightarrow> (s, Some e)
         | Inr ep \<Rightarrow>
             (cs_connect_tcp ep (cs_closure timer responseHandler True fcgiRequest) s, None))"

section \<open>disconnect and the queue\<close>

text \<open>
  Clearing the vector destroys the connections, and a destructor closes the socket. The handlers
  of the operations that were pending outlive their connection; \<open>cs_dead\<close> keeps what their
  lambdas captured.
\<close>

definition cs_destroy_slot :: "asio_env \<Rightarrow> ('f, 'k) client_slot \<Rightarrow>
    ('q, 'f, 'h, 'k) client_service \<Rightarrow> ('q, 'f, 'h, 'k) client_service" where
  "cs_destroy_slot env slot s =
     (cs_emit (CDestroyed (slot_id slot)) s)
       \<lparr>cs_dead := cs_dead s @ [slot\<lparr>slot_conn := cc_destroy env (slot_conn slot)\<rparr>]\<rparr>"

definition cs_disconnect :: "asio_env \<Rightarrow>
    ('q, 'f, 'h, 'k) client_service \<Rightarrow> ('q, 'f, 'h, 'k) client_service" where
  "cs_disconnect env s = (fold (cs_destroy_slot env) (cs_local s) s)\<lparr>cs_local := []\<rparr>"

definition cs_setRequestProcessorQueue :: "'q \<Rightarrow>
    ('q, 'f, 'h, 'k) client_service \<Rightarrow> ('q, 'f, 'h, 'k) client_service" where
  "cs_setRequestProcessorQueue queue s = s\<lparr>cs_queue := Some queue\<rparr>"

section \<open>Events\<close>

definition cs_slot :: "nat \<Rightarrow> ('q, 'f, 'h, 'k) client_service \<Rightarrow> ('f, 'k) client_slot option" where
  "cs_slot i s = find (\<lambda>slot. slot_id slot = i) (cs_local s @ cs_tcp s)"

definition cs_dead_slot :: "nat \<Rightarrow> ('q, 'f, 'h, 'k) client_service \<Rightarrow> ('f, 'k) client_slot option" where
  "cs_dead_slot i s = find (\<lambda>slot. slot_id slot = i) (cs_dead s)"

text \<open>
  The handlers of a connection that has been destroyed: the one of \<open>async_connect\<close> uses only what
  it captured by value when it fails, the one of \<open>async_read_some\<close> ignores an aborted read, and
  every other path goes through the captured \<open>this\<close>.
\<close>

definition cs_dead_onConnect :: "nat \<Rightarrow> io_error option \<Rightarrow>
    ('q, 'f, 'h, 'k) client_service \<Rightarrow> ('q, 'f, 'h, 'k) client_service" where
  "cs_dead_onConnect i error_code s =
     (case cs_dead_slot i s of
        None \<Rightarrow> s
      | Some slot \<Rightarrow>
          (case error_code of
             None \<Rightarrow> cs_emit (CUseAfterFree i) s
           | Some _ \<Rightarrow>
               (case slot_closure slot of
                  Some cl \<Rightarrow> cs_onResponse cl None s
                | None \<Rightarrow> s)))"

definition cs_dead_onRead :: "nat \<Rightarrow> io_error option \<Rightarrow>
    ('q, 'f, 'h, 'k) client_service \<Rightarrow> ('q, 'f, 'h, 'k) client_service" where
  "cs_dead_onRead i error s =
     (case cs_dead_slot i s of
        None \<Rightarrow> s
      | Some slot \<Rightarrow>
          (case error of
             Some (OperationAborted _) \<Rightarrow> s
           | _ \<Rightarrow> cs_emit (CUseAfterFree i) s))"

definition cs_dead_onWrite :: "nat \<Rightarrow>
    ('q, 'f, 'h, 'k) client_service \<Rightarrow> ('q, 'f, 'h, 'k) client_service" where
  "cs_dead_onWrite i s =
     (case cs_dead_slot i s of
        None \<Rightarrow> s
      | Some slot \<Rightarrow> cs_emit (CUseAfterFree i) s)"

definition cs_set_conn :: "nat \<Rightarrow> 'f client_connection \<Rightarrow>
    ('q, 'f, 'h, 'k) client_service \<Rightarrow> ('q, 'f, 'h, 'k) client_service" where
  "cs_set_conn i conn s =
     s\<lparr>cs_local := map (\<lambda>slot. if slot_id slot = i then slot\<lparr>slot_conn := conn\<rparr> else slot) (cs_local s),
       cs_tcp := map (\<lambda>slot. if slot_id slot = i then slot\<lparr>slot_conn := conn\<rparr> else slot) (cs_tcp s)\<rparr>"

definition cs_onConnect :: "asio_env \<Rightarrow> ('f, 'h) requester_api \<Rightarrow> nat \<Rightarrow> io_error option \<Rightarrow>
    ('q, 'f, 'h, 'k) client_service \<Rightarrow> ('q, 'f, 'h, 'k) client_service" where
  "cs_onConnect env api i error_code s =
     (case cs_slot i s of
        Some slot \<Rightarrow>
          (case slot_closure slot of
             Some cl \<Rightarrow>
               (let (conn, h, rs) =
                      cc_onConnect env api (rq_request cl) error_code (slot_conn slot);
                    s = cs_set_conn i conn s;
                    s = (case h of Some h \<Rightarrow> s\<lparr>cs_cancel := (cs_cancel s)(i := Some h)\<rparr>
                         | None \<Rightarrow> s)
                in fold (cs_onResponse cl) rs s)
           | None \<Rightarrow> s)
      | None \<Rightarrow> cs_dead_onConnect i error_code s)"

definition cs_onRead :: "asio_env \<Rightarrow> ('f, 'h) requester_api \<Rightarrow> nat \<Rightarrow> io_error option \<Rightarrow> string \<Rightarrow>
    ('q, 'f, 'h, 'k) client_service \<Rightarrow> ('q, 'f, 'h, 'k) client_service" where
  "cs_onRead env api i error data s =
     (case cs_slot i s of
        Some slot \<Rightarrow>
          (case slot_closure slot of
             Some cl \<Rightarrow>
               (let (conn, rs) = cc_onRead env api error data (slot_conn slot)
                in fold (cs_onResponse cl) rs (cs_set_conn i conn s))
           | None \<Rightarrow> s)
      | None \<Rightarrow> cs_dead_onRead i error s)"

definition cs_onWrite :: "asio_env \<Rightarrow> nat \<Rightarrow> io_error option \<Rightarrow> size_t \<Rightarrow>
    ('q, 'f, 'h, 'k) client_service \<Rightarrow> ('q, 'f, 'h, 'k) client_service" where
  "cs_onWrite env i error n s =
     (case cs_slot i s of
        Some slot \<Rightarrow> cs_set_conn i (cc_onWriteComplete env error n (slot_conn slot)) s
      | None \<Rightarrow> cs_dead_onWrite i s)"

text \<open>The call \<open>(*cancelRequestOnTimeout)()\<close> of the timeout's callback.\<close>

definition cs_run_cancel :: "asio_env \<Rightarrow> ('f, 'h) requester_api \<Rightarrow> nat \<Rightarrow>
    ('q, 'f, 'h, 'k) client_service \<Rightarrow> ('q, 'f, 'h, 'k) client_service" where
  "cs_run_cancel env api i s =
     (case cs_cancel s i of
        None \<Rightarrow> s
      | Some h \<Rightarrow>
          (case cs_slot i s of
             None \<Rightarrow> cs_emit (CCancelOrphan i) s
           | Some slot \<Rightarrow>
               (let (conn, rs) = cc_cancelRequest env api h (slot_conn slot);
                    s = cs_set_conn i conn s
                in case slot_closure slot of
                     Some cl \<Rightarrow> fold (cs_onResponse cl) rs s
                   | None \<Rightarrow> s)))"

text \<open>Timer \<open>timer\<close>, started for slot \<open>i\<close>, expires: the callback runs, then the timer stops.\<close>

definition cs_onTimeout :: "asio_env \<Rightarrow> ('f, 'h) requester_api \<Rightarrow> nat \<Rightarrow> nat \<Rightarrow>
    ('q, 'f, 'h, 'k) client_service \<Rightarrow> ('q, 'f, 'h, 'k) client_service" where
  "cs_onTimeout env api timer i s =
     (let s = s\<lparr>cs_timers := tp_update timer (ts_emit (RunTask i)) (cs_timers s)\<rparr>;
          s = cs_run_cancel env api i s
      in cs_timer_stop timer s)"

section \<open>The facade\<close>

definition getClientService :: "'p option \<Rightarrow> 'p option" where
  "getClientService context = (case context of Some client \<Rightarrow> Some client | None \<Rightarrow> None)"

definition client_of_responder :: "'p option \<Rightarrow> 'p service_holder" where
  "client_of_responder context = holder_ref (getClientService context)"

definition client_of_io :: "'p \<Rightarrow> ('p \<Rightarrow> ('q, 'f, 'h, 'k) client_service) \<Rightarrow>
    ('p \<Rightarrow> ('q, 'f, 'h, 'k) client_service) \<times> 'p service_holder" where
  "client_of_io p store = (store(p := cs_new), holder_own p)"

definition client_makeRequest_local :: "'f \<Rightarrow> string \<Rightarrow> fastcgi_request \<Rightarrow> 'k \<Rightarrow> int \<Rightarrow>
    'p service_holder \<Rightarrow> ('p \<Rightarrow> ('q, 'f, 'h, 'k) client_service) \<Rightarrow>
    'p \<Rightarrow> ('q, 'f, 'h, 'k) client_service" where
  "client_makeRequest_local f0 socketPath request responseHandler timeout h store =
     with_service h (cs_makeRequest_local f0 socketPath request responseHandler timeout) store"

definition client_makeHttpRequest_local :: "('w \<Rightarrow> fastcgi_request) \<Rightarrow> 'f \<Rightarrow> string \<Rightarrow> 'w \<Rightarrow> 'k \<Rightarrow>
    int \<Rightarrow> 'p service_holder \<Rightarrow> ('p \<Rightarrow> ('q, 'f, 'h, 'k) client_service) \<Rightarrow>
    'p \<Rightarrow> ('q, 'f, 'h, 'k) client_service" where
  "client_makeHttpRequest_local toFcgiData f0 socketPath request responseHandler timeout h store =
     with_service h
       (cs_makeHttpRequest_local toFcgiData f0 socketPath request responseHandler timeout) store"

definition client_disconnect :: "asio_env \<Rightarrow> 'p service_holder \<Rightarrow>
    ('p \<Rightarrow> ('q, 'f, 'h, 'k) client_service) \<Rightarrow> 'p \<Rightarrow> ('q, 'f, 'h, 'k) client_service" where
  "client_disconnect env h store = with_service h (cs_disconnect env) store"

interpretation client_request_facade: service_facade
    "client_makeRequest_local f0 socketPath request responseHandler timeout"
    "cs_makeRequest_local f0 socketPath request responseHandler timeout"
    for f0 socketPath request responseHandler timeout
  unfolding client_makeRequest_local_def by (rule with_service_facade)

interpretation client_http_facade: service_facade
    "client_makeHttpRequest_local toFcgiData f0 socketPath request responseHandler timeout"
    "cs_makeHttpRequest_local toFcgiData f0 socketPath request responseHandler timeout"
    for toFcgiData f0 socketPath request responseHandler timeout
  unfolding client_makeHttpRequest_local_def by (rule with_service_facade)

interpretation client_disconnect_facade: service_facade "client_disconnect env" "cs_disconnect env" for env
  unfolding client_disconnect_def by (rule with_service_facade)

text \<open>The TCP overloads may throw: the store and the exception, if any.\<close>

definition client_makeRequest_tcp :: "(string \<Rightarrow> u16 \<Rightarrow> cpp_exception + string) \<Rightarrow> 'f \<Rightarrow>
    string_view \<Rightarrow> u16 \<Rightarrow> fastcgi_request \<Rightarrow> 'k \<Rightarrow> int \<Rightarrow>
    'p service_holder \<Rightarrow> ('p \<Rightarrow> ('q, 'f, 'h, 'k) client_service) \<Rightarrow>
    ('p \<Rightarrow> ('q, 'f, 'h, 'k) client_service) \<times> cpp_exception option" where
  "client_makeRequest_tcp make_endpoint f0 ipAddress port request responseHandler timeout h store =
     (if \<not> holder_has_value h then (store, None)
      else case holder_get h of
             Some p \<Rightarrow>
               (let (s, e) = cs_makeRequest_tcp make_endpoint f0 ipAddress port request
                      responseHandler timeout (store p)
                in (store(p := s), e))
           | None \<Rightarrow> (store, None))"

definition client_makeHttpRequest_tcp :: "('w \<Rightarrow> fastcgi_request) \<Rightarrow>
    (string \<Rightarrow> u16 \<Rightarrow> cpp_exception + string) \<Rightarrow> 'f \<Rightarrow>
    string_view \<Rightarrow> u16 \<Rightarrow> 'w \<Rightarrow> 'k \<Rightarrow> int \<Rightarrow>
    'p service_holder \<Rightarrow> ('p \<Rightarrow> ('q, 'f, 'h, 'k) client_service) \<Rightarrow>
    ('p \<Rightarrow> ('q, 'f, 'h, 'k) client_service) \<times> cpp_exception option" where
  "client_makeHttpRequest_tcp toFcgiData make_endpoint f0 ipAddress port request responseHandler
     timeout h store =
     (if \<not> holder_has_value h then (store, None)
      else case holder_get h of
             Some p \<Rightarrow>
               (let (s, e) = cs_makeHttpRequest_tcp toFcgiData make_endpoint f0 ipAddress port
                      request responseHandler timeout (store p)
                in (store(p := s), e))
           | None \<Rightarrow> (store, None))"

section \<open>Effect of the operations\<close>

fun client_queue_op :: "('q, 'k) client_action \<Rightarrow> queue_op list" where
  "client_queue_op (CQueueStop _) = [Stop]"
| "client_queue_op (CQueueLaunch _) = [Launch]"
| "client_queue_op _ = []"

definition cs_qops :: "('q, 'f, 'h, 'k) client_service \<Rightarrow> queue_op list" where
  "cs_qops s = concat (map client_queue_op (cs_trace s))"

fun handler_call :: "('q, 'k) client_action \<Rightarrow> ('k \<times> client_result) list" where
  "handler_call (CHandler k r) = [(k, r)]"
| "handler_call _ = []"

definition cs_handled :: "('q, 'f, 'h, 'k) client_service \<Rightarrow> ('k \<times> client_result) list" where
  "cs_handled s = concat (map handler_call (cs_trace s))"

lemma cs_emit_simps [simp]:
  "cs_timers (cs_emit a s) = cs_timers s" "cs_local (cs_emit a s) = cs_local s"
  "cs_tcp (cs_emit a s) = cs_tcp s" "cs_dead (cs_emit a s) = cs_dead s" "cs_queue (cs_emit a s) = cs_queue s"
  "cs_cancel (cs_emit a s) = cs_cancel s" "cs_next (cs_emit a s) = cs_next s"
  "cs_trace (cs_emit a s) = cs_trace s @ [a]"
  "cs_qops (cs_emit a s) = cs_qops s @ client_queue_op a"
  "cs_handled (cs_emit a s) = cs_handled s @ handler_call a"
  by (simp_all add: cs_emit_def cs_qops_def cs_handled_def)

lemma cs_trace_obs [simp]:
  "cs_qops (s\<lparr>cs_timers := t\<rparr>) = cs_qops s" "cs_handled (s\<lparr>cs_timers := t\<rparr>) = cs_handled s"
  "cs_qops (s\<lparr>cs_local := l\<rparr>) = cs_qops s" "cs_handled (s\<lparr>cs_local := l\<rparr>) = cs_handled s"
  "cs_qops (s\<lparr>cs_tcp := l\<rparr>) = cs_qops s" "cs_handled (s\<lparr>cs_tcp := l\<rparr>) = cs_handled s"
  "cs_qops (s\<lparr>cs_next := n\<rparr>) = cs_qops s" "cs_handled (s\<lparr>cs_next := n\<rparr>) = cs_handled s"
  "cs_qops (s\<lparr>cs_cancel := c\<rparr>) = cs_qops s" "cs_handled (s\<lparr>cs_cancel := c\<rparr>) = cs_handled s"
  "cs_qops (s\<lparr>cs_queue := q\<rparr>) = cs_qops s" "cs_handled (s\<lparr>cs_queue := q\<rparr>) = cs_handled s"
  by (simp_all add: cs_qops_def cs_handled_def)

lemma cs_queue_stop_simps [simp]:
  "cs_timers (cs_queue_stop s) = cs_timers s" "cs_local (cs_queue_stop s) = cs_local s"
  "cs_tcp (cs_queue_stop s) = cs_tcp s" "cs_queue (cs_queue_stop s) = cs_queue s" "cs_dead (cs_queue_stop s) = cs_dead s"
  "cs_cancel (cs_queue_stop s) = cs_cancel s" "cs_next (cs_queue_stop s) = cs_next s"
  "cs_qops (cs_queue_stop s) = cs_qops s @ (if cs_queue s \<noteq> None then [Stop] else [])"
  "cs_handled (cs_queue_stop s) = cs_handled s"
  by (simp_all add: cs_queue_stop_def split: option.split)

lemma cs_queue_launch_simps [simp]:
  "cs_timers (cs_queue_launch s) = cs_timers s" "cs_local (cs_queue_launch s) = cs_local s"
  "cs_tcp (cs_queue_launch s) = cs_tcp s" "cs_queue (cs_queue_launch s) = cs_queue s" "cs_dead (cs_queue_launch s) = cs_dead s"
  "cs_cancel (cs_queue_launch s) = cs_cancel s" "cs_next (cs_queue_launch s) = cs_next s"
  "cs_qops (cs_queue_launch s) = cs_qops s @ (if cs_queue s \<noteq> None then [Launch] else [])"
  "cs_handled (cs_queue_launch s) = cs_handled s"
  by (simp_all add: cs_queue_launch_def split: option.split)

lemma cs_timer_stop_simps [simp]:
  "cs_timers (cs_timer_stop i s) = tp_update i ts_stop (cs_timers s)"
  "cs_local (cs_timer_stop i s) = cs_local s"
  "cs_tcp (cs_timer_stop i s) = cs_tcp s" "cs_queue (cs_timer_stop i s) = cs_queue s" "cs_dead (cs_timer_stop i s) = cs_dead s"
  "cs_cancel (cs_timer_stop i s) = cs_cancel s" "cs_next (cs_timer_stop i s) = cs_next s"
  "cs_trace (cs_timer_stop i s) = cs_trace s"
  "cs_qops (cs_timer_stop i s) = cs_qops s" "cs_handled (cs_timer_stop i s) = cs_handled s"
  by (simp_all add: cs_timer_stop_def)

text \<open>What the application's handler receives.\<close>

definition result_of :: "bool \<Rightarrow> response_data option \<Rightarrow> client_result" where
  "result_of http r = (case r of
      None \<Rightarrow> NoResult
    | Some d \<Rightarrow> if http then HttpResult (rd_data d) else FastcgiResult (rd_data d) (rd_errorMsg d))"

lemma cs_onResponse_simps [simp]:
  "cs_timers (cs_onResponse cl r s) = tp_update (rq_timer cl) ts_stop (cs_timers s)"
  "cs_local (cs_onResponse cl r s) = cs_local s" "cs_tcp (cs_onResponse cl r s) = cs_tcp s"
  "cs_queue (cs_onResponse cl r s) = cs_queue s" "cs_dead (cs_onResponse cl r s) = cs_dead s" "cs_next (cs_onResponse cl r s) = cs_next s"
  "cs_cancel (cs_onResponse cl r s) = cs_cancel s"
  "cs_qops (cs_onResponse cl r s) = cs_qops s @ (if cs_queue s \<noteq> None then [Launch] else [])"
  "cs_handled (cs_onResponse cl r s) =
     cs_handled s @ [(rq_handler cl, result_of (rq_http cl) r)]"
  by (cases r; simp add: cs_onResponse_def cs_onFastcgiResponse_def cs_onHttpResponse_def Let_def
      result_of_def)+

lemma cs_arm_simps [simp]:
  "cs_local (fst (cs_arm t s)) = cs_local s" "cs_tcp (fst (cs_arm t s)) = cs_tcp s"
  "cs_queue (fst (cs_arm t s)) = cs_queue s" "cs_dead (fst (cs_arm t s)) = cs_dead s" "cs_next (fst (cs_arm t s)) = cs_next s"
  "cs_cancel (fst (cs_arm t s)) = cs_cancel s"
  "cs_qops (fst (cs_arm t s)) = cs_qops s @ (if cs_queue s \<noteq> None then [Stop] else [])"
  "cs_handled (fst (cs_arm t s)) = cs_handled s"
  "snd (cs_arm t s) = length (tp_timers (cs_timers s))"
  "cs_timers (fst (cs_arm t s)) = tp_update (length (tp_timers (cs_timers s)))
     (ts_start t (cs_next s)) (fst (emplaceTimer (cs_timers s)))"
  by (simp_all add: cs_arm_def Let_def split: prod.split) (simp_all add: emplaceTimer_def)

lemma cs_set_conn_simps [simp]:
  "cs_timers (cs_set_conn i c s) = cs_timers s" "cs_queue (cs_set_conn i c s) = cs_queue s" "cs_dead (cs_set_conn i c s) = cs_dead s"
  "cs_cancel (cs_set_conn i c s) = cs_cancel s" "cs_next (cs_set_conn i c s) = cs_next s"
  "cs_trace (cs_set_conn i c s) = cs_trace s" "cs_qops (cs_set_conn i c s) = cs_qops s"
  "cs_handled (cs_set_conn i c s) = cs_handled s"
  by (simp_all add: cs_set_conn_def)

lemma cs_responses_simps [simp]:
  "cs_queue (fold (cs_onResponse cl) rs s) = cs_queue s"
  "cs_qops (fold (cs_onResponse cl) rs s) =
     cs_qops s @ (if cs_queue s \<noteq> None then replicate (length rs) Launch else [])"
  "cs_handled (fold (cs_onResponse cl) rs s) =
     cs_handled s @ map (\<lambda>r. (rq_handler cl, result_of (rq_http cl) r)) rs"
  by (induction rs arbitrary: s) simp_all

lemma cs_makeRequest_local_simps [simp]:
  "cs_queue (cs_makeRequest_local f0 p rq k t s) = cs_queue s"
  "cs_qops (cs_makeRequest_local f0 p rq k t s) =
     cs_qops s @ (if cs_queue s \<noteq> None then [Stop] else [])"
  "cs_handled (cs_makeRequest_local f0 p rq k t s) = cs_handled s"
  by (simp_all add: cs_makeRequest_local_def Let_def case_prod_beta)

lemma cs_makeHttpRequest_local_simps [simp]:
  "cs_queue (cs_makeHttpRequest_local tf f0 p w k t s) = cs_queue s"
  "cs_qops (cs_makeHttpRequest_local tf f0 p w k t s) =
     cs_qops s @ (if cs_queue s \<noteq> None then [Stop] else [])"
  "cs_handled (cs_makeHttpRequest_local tf f0 p w k t s) = cs_handled s"
  by (simp_all add: cs_makeHttpRequest_local_def Let_def case_prod_beta)

lemma cs_tcp_pieces [simp]:
  "cs_queue (cs_emplace_tcp f0 s) = cs_queue s" "cs_queue (cs_connect_tcp ep cl s) = cs_queue s"
  "cs_qops (cs_emplace_tcp f0 s) = cs_qops s" "cs_qops (cs_connect_tcp ep cl s) = cs_qops s"
  "cs_handled (cs_emplace_tcp f0 s) = cs_handled s"
  "cs_handled (cs_connect_tcp ep cl s) = cs_handled s"
  "cs_timers (cs_emplace_tcp f0 s) = cs_timers s"
  "cs_timers (cs_connect_tcp ep cl s) = cs_timers s"
  by (simp_all add: cs_emplace_tcp_def cs_connect_tcp_def)

lemma cs_makeRequest_tcp_simps [simp]:
  "cs_queue (fst (cs_makeRequest_tcp me f0 ip port rq k t s)) = cs_queue s"
  "cs_qops (fst (cs_makeRequest_tcp me f0 ip port rq k t s)) =
     cs_qops s @ (if cs_queue s \<noteq> None then [Stop] else [])"
  "cs_handled (fst (cs_makeRequest_tcp me f0 ip port rq k t s)) = cs_handled s"
  by (simp_all add: cs_makeRequest_tcp_def Let_def case_prod_beta split: sum.split)

lemma cs_makeHttpRequest_tcp_simps [simp]:
  "cs_queue (fst (cs_makeHttpRequest_tcp tf me f0 ip port w k t s)) = cs_queue s"
  "cs_qops (fst (cs_makeHttpRequest_tcp tf me f0 ip port w k t s)) =
     cs_qops s @ (if cs_queue s \<noteq> None then [Stop] else [])"
  "cs_handled (fst (cs_makeHttpRequest_tcp tf me f0 ip port w k t s)) = cs_handled s"
  by (simp_all add: cs_makeHttpRequest_tcp_def Let_def case_prod_beta split: sum.split)

interpretation client_queue: queue_client
    "\<lambda>(f0, p, rq, k, t). cs_makeRequest_local f0 p rq k t"
    "\<lambda>(cl, r). cs_onResponse cl r" cs_qops "\<lambda>s. cs_queue s \<noteq> None"
  by unfold_locales (simp_all split: prod.split)

interpretation client_http_queue: queue_client
    "\<lambda>(tf, f0, p, w, k, t). cs_makeHttpRequest_local tf f0 p w k t"
    "\<lambda>(cl, r). cs_onResponse cl r" cs_qops "\<lambda>s. cs_queue s \<noteq> None"
  by unfold_locales (simp_all split: prod.split)

section \<open>Runs of events\<close>

datatype ('w, 'k) client_event =
    EvLocal string fastcgi_request 'k int
  | EvHttpLocal string 'w 'k int
  | EvTcp string_view u16 fastcgi_request 'k int
  | EvHttpTcp string_view u16 'w 'k int
  | EvDisconnect
  | EvConnect nat "io_error option"
  | EvRead nat "io_error option" string
  | EvWrite nat "io_error option" size_t
  | EvTimeout nat nat

record ('w, 'f, 'h) client_env =
  ce_toFcgiData :: "'w \<Rightarrow> fastcgi_request"
  ce_make_endpoint :: "string \<Rightarrow> u16 \<Rightarrow> cpp_exception + string"
  ce_init :: 'f
  ce_asio :: asio_env
  ce_api :: "('f, 'h) requester_api"

fun cs_step :: "('w, 'f, 'h) client_env \<Rightarrow> ('w, 'k) client_event \<Rightarrow>
    ('q, 'f, 'h, 'k) client_service \<Rightarrow> ('q, 'f, 'h, 'k) client_service" where
  "cs_step ce (EvLocal p rq k t) s = cs_makeRequest_local (ce_init ce) p rq k t s"
| "cs_step ce (EvHttpLocal p w k t) s =
     cs_makeHttpRequest_local (ce_toFcgiData ce) (ce_init ce) p w k t s"
| "cs_step ce (EvTcp ip port rq k t) s =
     fst (cs_makeRequest_tcp (ce_make_endpoint ce) (ce_init ce) ip port rq k t s)"
| "cs_step ce (EvHttpTcp ip port w k t) s =
     fst (cs_makeHttpRequest_tcp (ce_toFcgiData ce) (ce_make_endpoint ce) (ce_init ce) ip port w
       k t s)"
| "cs_step ce EvDisconnect s = cs_disconnect (ce_asio ce) s"
| "cs_step ce (EvConnect i e) s = cs_onConnect (ce_asio ce) (ce_api ce) i e s"
| "cs_step ce (EvRead i e d) s = cs_onRead (ce_asio ce) (ce_api ce) i e d s"
| "cs_step ce (EvWrite i e n) s = cs_onWrite (ce_asio ce) i e n s"
| "cs_step ce (EvTimeout timer i) s = cs_onTimeout (ce_asio ce) (ce_api ce) timer i s"

definition cs_run :: "('w, 'f, 'h) client_env \<Rightarrow> ('w, 'k) client_event list \<Rightarrow>
    ('q, 'f, 'h, 'k) client_service \<Rightarrow> ('q, 'f, 'h, 'k) client_service" where
  "cs_run ce es s = fold (cs_step ce) es s"

fun is_request :: "('w, 'k) client_event \<Rightarrow> bool" where
  "is_request (EvLocal _ _ _ _) = True"
| "is_request (EvHttpLocal _ _ _ _) = True"
| "is_request (EvTcp _ _ _ _ _) = True"
| "is_request (EvHttpTcp _ _ _ _ _) = True"
| "is_request _ = False"

text \<open>
  The balance of a state: requests begun are \<open>Stop\<close>s and calls of response handlers are
  \<open>Launch\<close>es on an attached queue, and there is nothing else on it.
\<close>

definition stops :: "queue_op list \<Rightarrow> nat" where
  "stops xs = length (filter (\<lambda>x. x = Stop) xs)"

definition launches :: "queue_op list \<Rightarrow> nat" where
  "launches xs = length (filter (\<lambda>x. x = Launch) xs)"

lemma stops_simps [simp]:
  "stops [] = 0" "stops (xs @ ys) = stops xs + stops ys" "stops [Stop] = 1" "stops [Launch] = 0"
  "stops (replicate n Launch) = 0"
  by (simp_all add: stops_def)

lemma launches_simps [simp]:
  "launches [] = 0" "launches (xs @ ys) = launches xs + launches ys" "launches [Stop] = 0"
  "launches [Launch] = 1" "launches (replicate n Launch) = n"
  by (simp_all add: launches_def)

definition balanced :: "nat \<Rightarrow> ('q, 'f, 'h, 'k) client_service \<Rightarrow>
    ('q, 'f, 'h, 'k) client_service \<Rightarrow> bool" where
  "balanced n s s' \<longleftrightarrow> cs_queue s' = cs_queue s \<and>
     (if cs_queue s = None then cs_qops s' = cs_qops s
      else stops (cs_qops s') = stops (cs_qops s) + n
         \<and> launches (cs_qops s') + length (cs_handled s)
             = launches (cs_qops s) + length (cs_handled s'))"

lemma balanced_refl [simp]: "balanced 0 s s"
  by (simp add: balanced_def)

lemma balanced_trans: "balanced m s t \<Longrightarrow> balanced n t u \<Longrightarrow> balanced (m + n) s u"
  by (auto simp: balanced_def split: if_splits)

lemma cs_disconnect_simps [simp]:
  "cs_queue (cs_disconnect env s) = cs_queue s" "cs_tcp (cs_disconnect env s) = cs_tcp s"
  "cs_local (cs_disconnect env s) = []" "cs_timers (cs_disconnect env s) = cs_timers s"
  "cs_cancel (cs_disconnect env s) = cs_cancel s" "cs_next (cs_disconnect env s) = cs_next s"
  "cs_qops (cs_disconnect env s) = cs_qops s" "cs_handled (cs_disconnect env s) = cs_handled s"
  "cs_trace (cs_disconnect env s) = cs_trace s @ map (CDestroyed \<circ> slot_id) (cs_local s)"
  "cs_dead (cs_disconnect env s) = cs_dead s
     @ map (\<lambda>slot. slot\<lparr>slot_conn := cc_destroy env (slot_conn slot)\<rparr>) (cs_local s)"
proof -
  have *: "cs_queue (fold (cs_destroy_slot env) xs s) = cs_queue s
    \<and> cs_tcp (fold (cs_destroy_slot env) xs s) = cs_tcp s
    \<and> cs_timers (fold (cs_destroy_slot env) xs s) = cs_timers s
    \<and> cs_cancel (fold (cs_destroy_slot env) xs s) = cs_cancel s
    \<and> cs_next (fold (cs_destroy_slot env) xs s) = cs_next s
    \<and> cs_qops (fold (cs_destroy_slot env) xs s) = cs_qops s
    \<and> cs_handled (fold (cs_destroy_slot env) xs s) = cs_handled s
    \<and> cs_trace (fold (cs_destroy_slot env) xs s) = cs_trace s @ map (CDestroyed \<circ> slot_id) xs
    \<and> cs_dead (fold (cs_destroy_slot env) xs s) = cs_dead s
     @ map (\<lambda>slot. slot\<lparr>slot_conn := cc_destroy env (slot_conn slot)\<rparr>) xs" for xs
    by (induction xs arbitrary: s) (simp_all add: cs_destroy_slot_def cs_qops_def cs_handled_def)
  show "cs_queue (cs_disconnect env s) = cs_queue s" "cs_tcp (cs_disconnect env s) = cs_tcp s"
    "cs_local (cs_disconnect env s) = []" "cs_timers (cs_disconnect env s) = cs_timers s"
    "cs_cancel (cs_disconnect env s) = cs_cancel s" "cs_next (cs_disconnect env s) = cs_next s"
    "cs_qops (cs_disconnect env s) = cs_qops s" "cs_handled (cs_disconnect env s) = cs_handled s"
    "cs_trace (cs_disconnect env s) = cs_trace s @ map (CDestroyed \<circ> slot_id) (cs_local s)"
    "cs_dead (cs_disconnect env s) = cs_dead s
     @ map (\<lambda>slot. slot\<lparr>slot_conn := cc_destroy env (slot_conn slot)\<rparr>) (cs_local s)"
    using * by (simp_all add: cs_disconnect_def)
qed

lemma balanced_responses: "balanced 0 s (fold (cs_onResponse cl) rs s)"
  by (simp add: balanced_def)

lemma balanced_responses_from:
  "cs_queue s' = cs_queue s \<Longrightarrow> cs_qops s' = cs_qops s \<Longrightarrow> cs_handled s' = cs_handled s \<Longrightarrow>
   balanced 0 s (fold (cs_onResponse cl) rs s')"
  by (simp add: balanced_def)

lemma balanced_dead:
  "balanced 0 s (cs_dead_onConnect i e s)" "balanced 0 s (cs_dead_onRead i e s)"
  "balanced 0 s (cs_dead_onWrite i s)"
  by (simp_all add: balanced_def cs_dead_onConnect_def cs_dead_onRead_def cs_dead_onWrite_def
      split: option.split io_error.split)

lemma balanced_onConnect: "balanced 0 s (cs_onConnect env api i e s)"
  by (auto simp: cs_onConnect_def Let_def balanced_dead
      intro!: balanced_responses_from split: option.split prod.split)

lemma balanced_onRead: "balanced 0 s (cs_onRead env api i e d s)"
  by (auto simp: cs_onRead_def Let_def balanced_dead
      intro!: balanced_responses_from split: option.split prod.split)

lemma balanced_onWrite: "balanced 0 s (cs_onWrite env i e n s)"
  by (auto simp: cs_onWrite_def balanced_dead split: option.split) (simp add: balanced_def)

lemma balanced_run_cancel: "balanced 0 s (cs_run_cancel env api i s)"
  by (auto simp: cs_run_cancel_def Let_def intro!: balanced_responses_from
      split: option.split prod.split) (simp_all add: balanced_def)

lemma balanced_onTimeout: "balanced 0 s (cs_onTimeout env api timer i s)"
  using balanced_run_cancel[of "s\<lparr>cs_timers := tp_update timer (ts_emit (RunTask i)) (cs_timers s)\<rparr>"
      env api i]
  by (cases "cs_queue s") (simp_all add: cs_onTimeout_def Let_def balanced_def)

lemma balanced_step: "balanced (if is_request ev then 1 else 0) s (cs_step ce ev s)"
proof (cases ev)
  case (EvDisconnect)
  then show ?thesis by (simp add: balanced_def)
qed (simp_all add: balanced_onConnect balanced_onRead balanced_onWrite balanced_onTimeout,
     (simp add: balanced_def)+)

end
