(* ===== verification/Dispatcher.thy ===== *)
theory Dispatcher
  imports Queue_Client Service_Holder
begin

text \<open>
  Posting tasks to asio: \<^verbatim>\<open>src/taskcontext.cpp\<close>, \<^verbatim>\<open>src/asiodispatcherservice.cpp\<close> and
  \<^verbatim>\<open>src/asiodispatcher.cpp\<close>. A task context is a reference counted \<open>PostAction\<close> whose
  destructor runs the action; the dispatcher's state holds the post actions made so far (their
  position is their identity) and the handlers posted to asio. The request queue is observed
  through \<open>std::weak_ptr\<close>: \<open>alive\<close> says which queues still exist when an operation runs.
\<close>

section \<open>State\<close>

record 'q post_action =
  pa_refs :: nat
  pa_observer :: "'q option"

datatype ('q, 'k) dispatch_action =
    DQueueStop 'q
  | DQueueLaunch 'q
  | Post 'k nat
  | RunPosted 'k nat

record ('q, 'k) dispatcher_service =
  ds_queue :: "'q option"
  ds_actions :: "'q post_action list"
  ds_posted :: "('k \<times> nat) list"
  ds_trace :: "('q, 'k) dispatch_action list"

definition ds_new :: "('q, 'k) dispatcher_service" where
  "ds_new = \<lparr>ds_queue = None, ds_actions = [], ds_posted = [], ds_trace = []\<rparr>"

definition ds_emit ::
    "('q, 'k) dispatch_action \<Rightarrow> ('q, 'k) dispatcher_service \<Rightarrow> ('q, 'k) dispatcher_service" where
  "ds_emit a s = s\<lparr>ds_trace := ds_trace s @ [a]\<rparr>"

definition weak_lock :: "('q \<Rightarrow> bool) \<Rightarrow> 'q option \<Rightarrow> 'q option" where
  "weak_lock alive w = (case w of Some q \<Rightarrow> if alive q then Some q else None | None \<Rightarrow> None)"

section \<open>Operations\<close>

definition ds_setRequestProcessorQueue ::
    "'q \<Rightarrow> ('q, 'k) dispatcher_service \<Rightarrow> ('q, 'k) dispatcher_service" where
  "ds_setRequestProcessorQueue queue s = s\<lparr>ds_queue := Some queue\<rparr>"

definition ds_postTask :: "('q \<Rightarrow> bool) \<Rightarrow> 'k \<Rightarrow>
    ('q, 'k) dispatcher_service \<Rightarrow> ('q, 'k) dispatcher_service" where
  "ds_postTask alive task s =
     (let s = (case weak_lock alive (ds_queue s) of
                 Some q \<Rightarrow> ds_emit (DQueueStop q) s
               | None \<Rightarrow> s);
          taskContext = length (ds_actions s);
          s = s\<lparr>ds_actions := ds_actions s @ [\<lparr>pa_refs = 1, pa_observer = ds_queue s\<rparr>],
                ds_posted := ds_posted s @ [(task, taskContext)]\<rparr>
      in ds_emit (Post task taskContext) s)"

text \<open>The lambda \<open>postTaskAction\<close>, and the destructor of \<open>PostAction\<close> that runs it.\<close>

definition ds_postTaskAction :: "('q \<Rightarrow> bool) \<Rightarrow> 'q option \<Rightarrow>
    ('q, 'k) dispatcher_service \<Rightarrow> ('q, 'k) dispatcher_service" where
  "ds_postTaskAction alive queueObserver s =
     (case weak_lock alive queueObserver of
        Some q \<Rightarrow> ds_emit (DQueueLaunch q) s
      | None \<Rightarrow> s)"

definition pa_set_refs ::
    "nat \<Rightarrow> nat \<Rightarrow> ('q, 'k) dispatcher_service \<Rightarrow> ('q, 'k) dispatcher_service" where
  "pa_set_refs i n s = s\<lparr>ds_actions := (ds_actions s)[i := (ds_actions s ! i)\<lparr>pa_refs := n\<rparr>]\<rparr>"

text \<open>
  Copying a task context shares its post action; destroying the last copy destroys the post
  action. A context that has been destroyed cannot be copied or destroyed again.
\<close>

definition ctx_copy :: "nat \<Rightarrow> ('q, 'k) dispatcher_service \<Rightarrow> ('q, 'k) dispatcher_service" where
  "ctx_copy i s =
     (if i < length (ds_actions s) \<and> pa_refs (ds_actions s ! i) > 0
      then pa_set_refs i (Suc (pa_refs (ds_actions s ! i))) s else s)"

definition ctx_destroy :: "('q \<Rightarrow> bool) \<Rightarrow> nat \<Rightarrow>
    ('q, 'k) dispatcher_service \<Rightarrow> ('q, 'k) dispatcher_service" where
  "ctx_destroy alive i s =
     (if i < length (ds_actions s) \<and> pa_refs (ds_actions s ! i) > 0
      then
        let n = pa_refs (ds_actions s ! i) - 1;
            s = pa_set_refs i n s
        in if n = 0 then ds_postTaskAction alive (pa_observer (ds_actions s ! i)) s else s
      else s)"

text \<open>
  asio runs the next posted handler: the task gets the context and keeps \<open>copies\<close> copies of it;
  then the handler, and the copy it holds, is destroyed.
\<close>

definition ds_run_posted :: "('q \<Rightarrow> bool) \<Rightarrow> nat \<Rightarrow>
    ('q, 'k) dispatcher_service \<Rightarrow> ('q, 'k) dispatcher_service" where
  "ds_run_posted alive copies s =
     (case ds_posted s of
        [] \<Rightarrow> s
      | (task, taskContext) # rest \<Rightarrow>
          let s = ds_emit (RunPosted task taskContext) (s\<lparr>ds_posted := rest\<rparr>);
              s = (ctx_copy taskContext ^^ copies) s
          in ctx_destroy alive taskContext s)"

section \<open>The facade\<close>

definition getAsioDispatcherService :: "'p option \<Rightarrow> 'p option" where
  "getAsioDispatcherService context =
     (case context of Some asioDispatcher \<Rightarrow> Some asioDispatcher | None \<Rightarrow> None)"

definition dispatcher_of_responder :: "'p option \<Rightarrow> 'p service_holder" where
  "dispatcher_of_responder context = holder_ref (getAsioDispatcherService context)"

definition dispatcher_of_io :: "'p \<Rightarrow> ('p \<Rightarrow> ('q, 'k) dispatcher_service) \<Rightarrow>
    ('p \<Rightarrow> ('q, 'k) dispatcher_service) \<times> 'p service_holder" where
  "dispatcher_of_io p store = (store(p := ds_new), holder_own p)"

definition dispatcher_postTask :: "('q \<Rightarrow> bool) \<Rightarrow> 'k \<Rightarrow> 'p service_holder \<Rightarrow>
    ('p \<Rightarrow> ('q, 'k) dispatcher_service) \<Rightarrow> 'p \<Rightarrow> ('q, 'k) dispatcher_service" where
  "dispatcher_postTask alive task h store = with_service h (ds_postTask alive task) store"

interpretation dispatcher_facade: service_facade "dispatcher_postTask alive task"
    "ds_postTask alive task" for alive task
  unfolding dispatcher_postTask_def by (rule with_service_facade)

section \<open>Effect of the operations\<close>

fun dispatch_queue_op :: "('q, 'k) dispatch_action \<Rightarrow> queue_op list" where
  "dispatch_queue_op (DQueueStop _) = [Stop]"
| "dispatch_queue_op (DQueueLaunch _) = [Launch]"
| "dispatch_queue_op _ = []"

definition ds_qops :: "('q, 'k) dispatcher_service \<Rightarrow> queue_op list" where
  "ds_qops s = concat (map dispatch_queue_op (ds_trace s))"

lemma ds_emit_simps [simp]:
  "ds_queue (ds_emit a s) = ds_queue s"
  "ds_actions (ds_emit a s) = ds_actions s"
  "ds_posted (ds_emit a s) = ds_posted s"
  "ds_trace (ds_emit a s) = ds_trace s @ [a]"
  "ds_qops (ds_emit a s) = ds_qops s @ dispatch_queue_op a"
  by (simp_all add: ds_emit_def ds_qops_def)

lemma ds_qops_frame [simp]:
  "ds_qops (s\<lparr>ds_actions := x\<rparr>) = ds_qops s"
  "ds_qops (s\<lparr>ds_posted := y\<rparr>) = ds_qops s"
  "ds_qops (pa_set_refs i n s) = ds_qops s"
  by (simp_all add: ds_qops_def pa_set_refs_def)

lemma pa_set_refs_simps [simp]:
  "ds_queue (pa_set_refs i n s) = ds_queue s"
  "ds_trace (pa_set_refs i n s) = ds_trace s"
  "ds_posted (pa_set_refs i n s) = ds_posted s"
  "length (ds_actions (pa_set_refs i n s)) = length (ds_actions s)"
  "i < length (ds_actions s) \<Longrightarrow>
     ds_actions (pa_set_refs i n s) ! i = (ds_actions s ! i)\<lparr>pa_refs := n\<rparr>"
  by (simp_all add: pa_set_refs_def)

lemma ds_postTaskAction_simps [simp]:
  "ds_queue (ds_postTaskAction alive w s) = ds_queue s"
  "ds_actions (ds_postTaskAction alive w s) = ds_actions s"
  "ds_posted (ds_postTaskAction alive w s) = ds_posted s"
  "ds_qops (ds_postTaskAction alive w s) =
     ds_qops s @ (if weak_lock alive w \<noteq> None then [Launch] else [])"
  by (auto simp: ds_postTaskAction_def split: option.split)

lemma ds_postTask_simps [simp]:
  "ds_queue (ds_postTask alive k s) = ds_queue s"
  "ds_actions (ds_postTask alive k s) =
     ds_actions s @ [\<lparr>pa_refs = 1, pa_observer = ds_queue s\<rparr>]"
  "ds_posted (ds_postTask alive k s) = ds_posted s @ [(k, length (ds_actions s))]"
  "ds_qops (ds_postTask alive k s) =
     ds_qops s @ (if weak_lock alive (ds_queue s) \<noteq> None then [Stop] else [])"
  by (auto simp: ds_postTask_def Let_def split: option.split)

interpretation dispatcher_queue: queue_client "ds_postTask alive"
    "\<lambda>_::unit. \<lambda>s. ds_postTaskAction alive (ds_queue s) s" ds_qops
    "\<lambda>s. weak_lock alive (ds_queue s) \<noteq> None" for alive
  by unfold_locales simp_all

lemma ctx_copy_simps [simp]:
  "ds_qops (ctx_copy i s) = ds_qops s"
  "length (ds_actions (ctx_copy i s)) = length (ds_actions s)"
  by (simp_all add: ctx_copy_def)

lemma ctx_destroy_length [simp]:
  "length (ds_actions (ctx_destroy alive i s)) = length (ds_actions s)"
  by (simp add: ctx_destroy_def Let_def)

text \<open>What happens to one context: copies of it are made and destroyed.\<close>

datatype ctx_event = CtxCopy | CtxDestroy

fun ctx_step :: "('q \<Rightarrow> bool) \<Rightarrow> nat \<Rightarrow> ctx_event \<Rightarrow>
    ('q, 'k) dispatcher_service \<Rightarrow> ('q, 'k) dispatcher_service" where
  "ctx_step alive i CtxCopy s = ctx_copy i s"
| "ctx_step alive i CtxDestroy s = ctx_destroy alive i s"

lemma ctx_event_launches:
  assumes "i < length (ds_actions s)" and "pa_observer (ds_actions s ! i) = w"
    and "s' = ctx_step alive i e s"
  shows "i < length (ds_actions s') \<and> pa_observer (ds_actions s' ! i) = w \<and>
    ds_qops s' = ds_qops s @
      (if pa_refs (ds_actions s ! i) > 0 \<and> pa_refs (ds_actions s' ! i) = 0 \<and>
          weak_lock alive w \<noteq> None then [Launch] else [])"
    and "pa_refs (ds_actions s ! i) = 0 \<Longrightarrow> pa_refs (ds_actions s' ! i) = 0"
  using assms by (cases e; simp add: ctx_copy_def ctx_destroy_def Let_def)+

lemma ctx_events_launches:
  assumes "i < length (ds_actions s)" and "pa_observer (ds_actions s ! i) = w"
  shows "ds_qops (fold (ctx_step alive i) es s) = ds_qops s @
    (if pa_refs (ds_actions s ! i) > 0 \<and>
        pa_refs (ds_actions (fold (ctx_step alive i) es s) ! i) = 0 \<and>
        weak_lock alive w \<noteq> None then [Launch] else [])
    \<and> (pa_refs (ds_actions s ! i) = 0 \<longrightarrow>
        pa_refs (ds_actions (fold (ctx_step alive i) es s) ! i) = 0)"
  using assms
proof (induction es arbitrary: s)
  case (Cons e es)
  let ?s = "ctx_step alive i e s"
  note one = ctx_event_launches[OF Cons.prems refl, of alive e]
  have "i < length (ds_actions ?s)" "pa_observer (ds_actions ?s ! i) = w"
    using one(1) by simp_all
  from Cons.IH[OF this] one show ?case by auto
qed auto

section \<open>Queues touched\<close>

fun touches :: "('q, 'k) dispatch_action \<Rightarrow> 'q set" where
  "touches (DQueueStop q) = {q}"
| "touches (DQueueLaunch q) = {q}"
| "touches _ = {}"

definition touched_since :: "('q, 'k) dispatcher_service \<Rightarrow> ('q, 'k) dispatcher_service \<Rightarrow> 'q set" where
  "touched_since s s' = \<Union> (touches ` set (drop (length (ds_trace s)) (ds_trace s')))"

definition safe_extension :: "('q \<Rightarrow> bool) \<Rightarrow>
    ('q, 'k) dispatcher_service \<Rightarrow> ('q, 'k) dispatcher_service \<Rightarrow> bool" where
  "safe_extension alive s s' \<longleftrightarrow>
     (\<exists>xs. ds_trace s' = ds_trace s @ xs \<and> \<Union> (touches ` set xs) \<subseteq> {q. alive q})"

lemma touched_since_safe: "safe_extension alive s s' \<Longrightarrow> touched_since s s' \<subseteq> {q. alive q}"
  by (fastforce simp: safe_extension_def touched_since_def)

lemma safe_extension_action: "safe_extension alive s (ds_postTaskAction alive w s)"
  by (auto simp: safe_extension_def ds_postTaskAction_def weak_lock_def split: option.split)

lemma safe_extension_postTask: "safe_extension alive s (ds_postTask alive task s)"
  by (auto simp: safe_extension_def ds_postTask_def weak_lock_def Let_def split: option.split)

lemma safe_extension_destroy: "safe_extension alive s (ctx_destroy alive i s)"
  using safe_extension_action[of alive "pa_set_refs i (pa_refs (ds_actions s ! i) - 1) s"]
  by (auto simp: safe_extension_def ctx_destroy_def Let_def)

lemma ctx_copies_trace [simp]: "ds_trace ((ctx_copy j ^^ n) s) = ds_trace s"
  by (induction n) (simp_all add: ctx_copy_def)

lemma safe_extension_run: "safe_extension alive s (ds_run_posted alive copies s)"
proof (cases "ds_posted s")
  case Nil
  then show ?thesis by (simp add: ds_run_posted_def safe_extension_def)
next
  case (Cons tc rest)
  obtain task c where tc: "tc = (task, c)" by (cases tc)
  let ?u = "(ctx_copy c ^^ copies) (ds_emit (RunPosted task c) (s\<lparr>ds_posted := rest\<rparr>))"
  have "ds_run_posted alive copies s = ctx_destroy alive c ?u"
    using Cons tc by (simp add: ds_run_posted_def Let_def)
  then show ?thesis
    using safe_extension_destroy[of alive ?u c] by (auto simp: safe_extension_def)
qed

section \<open>Properties\<close>

text \<open>
  C27. The request queue is resumed exactly when the last copy of the task context is gone.
  \<open>postTask\<close> stops the queue; through any sequence of copies and destructions of the context
  the queue has been launched once if no copy is left, and not at all otherwise.
\<close>

theorem dispatch_launch_once:
  assumes "ds_queue s = Some q" and "alive q"
    and "s' = fold (ctx_step alive (length (ds_actions s))) es (ds_postTask alive task s)"
  shows "ds_qops s' = ds_qops s @ [Stop] @
    (if pa_refs (ds_actions s' ! length (ds_actions s)) = 0 then [Launch] else [])"
  using ctx_events_launches[of "length (ds_actions s)" "ds_postTask alive task s" "Some q"
      alive es] assms
  by (simp add: weak_lock_def)

theorem dispatch_launch_once_witness:
  "ds_qops (fold (ctx_step (\<lambda>_. True) 0) [CtxCopy, CtxDestroy, CtxDestroy, CtxDestroy]
      (ds_postTask (\<lambda>_. True) ''task'' (ds_setRequestProcessorQueue (7::nat) ds_new)))
    = [Stop, Launch]"
  using dispatch_launch_once[of "ds_setRequestProcessorQueue (7::nat) ds_new" 7 "\<lambda>_. True" _
      "[CtxCopy, CtxDestroy, CtxDestroy, CtxDestroy]" "''task''", OF _ _ refl]
  by (simp add: ds_setRequestProcessorQueue_def ds_new_def ctx_copy_def ctx_destroy_def
      ds_qops_def weak_lock_def)

text \<open>
  C28. The dispatcher never touches a queue that no longer exists, whichever queues are alive
  when a task is posted, when a posted handler runs and when a context is destroyed.
\<close>

theorem dispatch_weak_safe:
  "touched_since s (ds_postTask alive task s) \<subseteq> {q. alive q}
   \<and> touched_since s (ctx_destroy alive i s) \<subseteq> {q. alive q}
   \<and> touched_since s (ds_run_posted alive copies s) \<subseteq> {q. alive q}"
  by (intro conjI touched_since_safe safe_extension_postTask safe_extension_destroy
      safe_extension_run)

end
