(* ===== verification/Responses.thy ===== *)
theory Responses
  imports Sockets
begin

text \<open>
  Answering a request: \<^verbatim>\<open>src/responsesender.cpp\<close> and the state of
  \<^verbatim>\<open>src/responsecontext.cpp\<close>, with what applications and routers can do in a request processor
  (\<^verbatim>\<open>include/asyncgi/requestprocessor.h\<close>).

  \<open>fcgi::Response\<close> is a parameter: a value with a validity test, setters, and a \<open>send\<close> that
  changes the state \<open>'l\<close> of the FastCGI library and makes calls on the connection.
\<close>

section \<open>The response sender\<close>

record ('x, 'l) response_api =
  xr_isValid :: "'x \<Rightarrow> bool"
  xr_setData :: "string \<Rightarrow> 'x \<Rightarrow> 'x"
  xr_setErrorMsg :: "string \<Rightarrow> 'x \<Rightarrow> 'x"
  xr_send :: "'x \<Rightarrow> 'l \<Rightarrow> 'x \<times> 'l \<times> out_call list"

record 'x response_sender =
  rs_response :: 'x

definition rs_new :: "'x \<Rightarrow> 'x response_sender" where
  "rs_new response = \<lparr>rs_response = response\<rparr>"

text \<open>
  The result of a send: the sender, the library's state, the calls the library made on the
  connection, and the calls of \<open>fcgi::Response::send\<close>, with the data and the error message set.
\<close>

type_synonym ('x, 'l) send_result =
  "'x response_sender \<times> 'l \<times> out_call list \<times> (string \<times> string) list"

definition rs_send_error :: "('x, 'l) response_api \<Rightarrow> string \<Rightarrow> string \<Rightarrow>
    'x response_sender \<Rightarrow> 'l \<Rightarrow> ('x, 'l) send_result" where
  "rs_send_error api data errorMsg s l =
     (if \<not> xr_isValid api (rs_response s) then (s, l, [], [])
      else
        let r = xr_setData api data (rs_response s);
            r = xr_setErrorMsg api errorMsg r;
            (r, l, calls) = xr_send api r l
        in (s\<lparr>rs_response := r\<rparr>, l, calls, [(data, errorMsg)]))"

definition rs_send :: "('x, 'l) response_api \<Rightarrow> string \<Rightarrow>
    'x response_sender \<Rightarrow> 'l \<Rightarrow> ('x, 'l) send_result" where
  "rs_send api data s l = rs_send_error api data [] s l"

definition rs_isSent :: "('x, 'l) response_api \<Rightarrow> 'x response_sender \<Rightarrow> bool" where
  "rs_isSent api s \<longleftrightarrow> \<not> xr_isValid api (rs_response s)"

text \<open>Documented behaviour of the library: a response that was sent is no longer valid.\<close>

definition send_invalidates :: "('x, 'l) response_api \<Rightarrow> bool" where
  "send_invalidates api \<longleftrightarrow> (\<forall>r l. \<not> xr_isValid api (fst (xr_send api r l)))"

lemma rs_send_error_sent:
  "rs_isSent api s \<Longrightarrow> rs_send_error api data e s l = (s, l, [], [])"
  by (simp add: rs_isSent_def rs_send_error_def)

lemma rs_send_error_sends:
  "snd (snd (snd (rs_send_error api data e s l))) = (if rs_isSent api s then [] else [(data, e)])"
  by (simp add: rs_isSent_def rs_send_error_def Let_def case_prod_beta)

lemma rs_send_error_isSent:
  "send_invalidates api \<Longrightarrow> rs_isSent api (fst (rs_send_error api data e s l))"
  by (auto simp: send_invalidates_def rs_isSent_def rs_send_error_def case_prod_beta Let_def)

section \<open>What a request processor does\<close>

text \<open>
  The code of a request processor is the application's: a tree of the calls it makes on its
  responder and on the timers, dispatchers and clients it creates from it, with the answer to
  \<open>isSent\<close> and the identity of a queue made by a router to continue on. It ends by returning, by
  throwing a \<open>std::exception\<close>, or by throwing something else. \<open>'w\<close> is \<open>http::Response\<close>, and
  values of \<open>'k\<close> name callbacks. A client's TCP overloads may throw; what they throw is not caught
  and ends the tree. The request of an HTTP overload of the client stands here as the
  FastCGI data that \<open>http::Request::toFcgiData\<close> makes of it.
\<close>

datatype ('w, 'k) prog =
    PDone
  | PThrow string
  | PThrowUnknown
  | PSendHttp 'w "('w, 'k) prog"
  | PSendFastcgi string string "('w, 'k) prog"
  | PIsSent "bool \<Rightarrow> ('w, 'k) prog"
  | PTimer int 'k "('w, 'k) prog"
  | PTimerPeriodic int 'k "('w, 'k) prog"
  | PPostTask 'k "('w, 'k) prog"
  | PClientRequest string "(string \<rightharpoonup> string) \<times> string" 'k int "('w, 'k) prog"
  | PClientHttp string "(string \<rightharpoonup> string) \<times> string" 'k int "('w, 'k) prog"
  | PClientTcp string_view u16 "(string \<rightharpoonup> string) \<times> string" 'k int "('w, 'k) prog"
  | PClientHttpTcp string_view u16 "(string \<rightharpoonup> string) \<times> string" 'k int "('w, 'k) prog"
  | PClientDisconnect "('w, 'k) prog"
  | PReport error_event string "('w, 'k) prog"
  | PMakeQueue "nat \<Rightarrow> ('w, 'k) prog"
  | PSetQueue nat "('w, 'k) prog"

datatype outcome =
    Returned
  | Threw string
  | ThrewUnknown

text \<open>
  A request processor is made from a function of the request and the responder, or from one that
  returns the response; the latter has no responder, and may throw instead of returning.
\<close>

datatype 'w returned =
    ReturnHttp 'w
  | ReturnFastcgi string string
  | ReturnThrow string
  | ReturnThrowUnknown

datatype ('r, 'w, 'k) request_processor =
    Handler "'r \<Rightarrow> ('w, 'k) prog"
  | Returning "'r \<Rightarrow> 'w returned"

fun invoke_processor :: "('r, 'w, 'k) request_processor \<Rightarrow> 'r \<Rightarrow> ('w, 'k) prog" where
  "invoke_processor (Handler f) request = f request"
| "invoke_processor (Returning f) request =
     (case f request of
        ReturnHttp w \<Rightarrow> PSendHttp w PDone
      | ReturnFastcgi d e \<Rightarrow> PSendFastcgi d e PDone
      | ReturnThrow what \<Rightarrow> PThrow what
      | ReturnThrowUnknown \<Rightarrow> PThrowUnknown)"

end
