(* ===== verification/Connection.thy ===== *)
theory Connection
  imports Connection_IO Client_Service Timers Dispatcher Responses
begin

text \<open>
  The server's connection as a whole, \<^verbatim>\<open>src/connection.cpp\<close>, with the response context
  (\<^verbatim>\<open>src/responsecontext.cpp\<close>), the responder (\<^verbatim>\<open>src/response.cpp\<close>) and the accessor a router
  uses (\<^verbatim>\<open>src/routeresponsecontextaccessor.cpp\<close>).

  The connection derives from the FastCGI library's \<open>fcgi::Responder\<close>, a parameter: receiving
  data is a tree \<open>lib_prog\<close> of what the library does, which reads and writes its own state, calls
  the connection's virtual functions and hands it requests. A responder holds a weak pointer to
  the response context; the connection holds the only strong one, so the identity of the context
  it holds decides whether a responder can lock its pointer. A queue made by a router is owned by
  the context; timers and clients refer to it without owning it.
\<close>

section \<open>State\<close>

datatype ('l, 'r, 'x) lib_prog =
    LDone
  | LGet "'l \<Rightarrow> ('l, 'r, 'x) lib_prog"
  | LPut 'l "('l, 'r, 'x) lib_prog"
  | LCall out_call "('l, 'r, 'x) lib_prog"
  | LRequest 'r 'x "('l, 'r, 'x) lib_prog"

record response_context =
  rc_id :: nat
  rc_queue :: "nat option"

record ('l, 'r, 'x, 'f, 'h, 'k) connection = sock_buf +
  cn_context :: "response_context option"
  cn_fcgiRequest :: "'r option"
  cn_sender :: "'x response_sender option"
  cn_dispatcher :: "(nat, 'k) dispatcher_service"
  cn_timers :: "(nat, 'k) timer_provider"
  cn_client :: "(nat, 'f, 'h, 'k) client_service"
  cn_library :: 'l
  cn_nextContext :: nat
  cn_nextQueue :: nat
  cn_answers :: "(string \<times> string) list"

text \<open>
  \<open>cn_answers\<close> is the trace of the calls of \<open>fcgi::Response::send\<close>: data and error message.
  The environment of a connection: asio, the FastCGI library's responses, the text of an
  \<open>http::Response\<close> in CGI mode, the response made from a status, a new requester, asio's endpoint
  for an address and a port, and \<open>what()\<close> of an exception.
\<close>

record ('l, 'x, 'w, 'f) conn_env =
  ve_asio :: asio_env
  ve_response :: "('x, 'l) response_api"
  ve_cgi :: "'w \<Rightarrow> string"
  ve_status :: "nat \<Rightarrow> 'w"
  ve_requester :: 'f
  ve_make_endpoint :: "string \<Rightarrow> u16 \<Rightarrow> cpp_exception + string"
  ve_what :: "cpp_exception \<Rightarrow> string"

definition connection_new :: "'l \<Rightarrow> ('l, 'r, 'x, 'f, 'h, 'k) connection" where
  "connection_new library =
     \<lparr>writeBuffer = [], nextWriteBuffer = [], bytesToWrite = 0, disconnectRequested = False,
      trace = [], cn_context = None, cn_fcgiRequest = None, cn_sender = None,
      cn_dispatcher = ds_new, cn_timers = tp_new, cn_client = cs_new, cn_library = library,
      cn_nextContext = 0, cn_nextQueue = 0, cn_answers = []\<rparr>"

section \<open>The response context\<close>

text \<open>\<open>responseContext_.lock()\<close> for the responder of the context \<open>rid\<close>.\<close>

definition conn_locked :: "nat \<Rightarrow> ('l, 'r, 'x, 'f, 'h, 'k) connection \<Rightarrow> bool" where
  "conn_locked rid c = (case cn_context c of Some ctx \<Rightarrow> rc_id ctx = rid | None \<Rightarrow> False)"

text \<open>The queues that exist: the one the context owns.\<close>

definition queue_alive :: "('l, 'r, 'x, 'f, 'h, 'k) connection \<Rightarrow> nat \<Rightarrow> bool" where
  "queue_alive c q = (case cn_context c of Some ctx \<Rightarrow> rc_queue ctx = Some q | None \<Rightarrow> False)"

text \<open>The context refers to members of its connection.\<close>

definition rc_responseSender :: "('l, 'r, 'x, 'f, 'h, 'k) connection \<Rightarrow> 'x response_sender option" where
  [simp]: "rc_responseSender c = cn_sender c"

definition rc_client :: "('l, 'r, 'x, 'f, 'h, 'k) connection \<Rightarrow> (nat, 'f, 'h, 'k) client_service" where
  [simp]: "rc_client c = cn_client c"

definition rc_asioDispatcher :: "('l, 'r, 'x, 'f, 'h, 'k) connection \<Rightarrow> (nat, 'k) dispatcher_service" where
  [simp]: "rc_asioDispatcher c = cn_dispatcher c"

definition rc_timerProvider :: "('l, 'r, 'x, 'f, 'h, 'k) connection \<Rightarrow> (nat, 'k) timer_provider" where
  [simp]: "rc_timerProvider c = cn_timers c"

definition rc_setRequestProcessorQueue :: "nat \<Rightarrow>
    ('l, 'r, 'x, 'f, 'h, 'k) connection \<Rightarrow> ('l, 'r, 'x, 'f, 'h, 'k) connection" where
  "rc_setRequestProcessorQueue queue c =
     c\<lparr>cn_context := map_option (\<lambda>ctx. ctx\<lparr>rc_queue := Some queue\<rparr>) (cn_context c),
       cn_client := cs_setRequestProcessorQueue queue (cn_client c),
       cn_dispatcher := ds_setRequestProcessorQueue queue (cn_dispatcher c),
       cn_timers := tp_setRequestProcessorQueue queue (cn_timers c)\<rparr>"

definition accessor_setRequestProcessorQueue :: "nat \<Rightarrow> nat \<Rightarrow>
    ('l, 'r, 'x, 'f, 'h, 'k) connection \<Rightarrow> ('l, 'r, 'x, 'f, 'h, 'k) connection" where
  "accessor_setRequestProcessorQueue rid queue c =
     (if conn_locked rid c then rc_setRequestProcessorQueue queue c else c)"

section \<open>The responder\<close>

text \<open>
  A call on the response sender. The library sends through the connection; the calls of
  \<open>fcgi::Response::send\<close> show in \<open>cn_answers\<close>.
\<close>

definition conn_send :: "('l, 'x, 'w, 'f) conn_env \<Rightarrow> string \<Rightarrow> string \<Rightarrow>
    ('l, 'r, 'x, 'f, 'h, 'k) connection \<Rightarrow> ('l, 'r, 'x, 'f, 'h, 'k) connection" where
  "conn_send env data errorMsg c =
     (case rc_responseSender c of
        None \<Rightarrow> c
      | Some s \<Rightarrow>
          (let (s, l, calls, sends) = rs_send_error (ve_response env) data errorMsg s (cn_library c)
           in conn_calls (ve_asio env) calls
                (c\<lparr>cn_sender := Some s, cn_library := l, cn_answers := cn_answers c @ sends\<rparr>)))"

text \<open>The same through the overload of \<open>ResponseSender::send\<close> without an error message.\<close>

definition conn_send_data :: "('l, 'x, 'w, 'f) conn_env \<Rightarrow> string \<Rightarrow>
    ('l, 'r, 'x, 'f, 'h, 'k) connection \<Rightarrow> ('l, 'r, 'x, 'f, 'h, 'k) connection" where
  "conn_send_data env data c =
     (case rc_responseSender c of
        None \<Rightarrow> c
      | Some s \<Rightarrow>
          (let (s, l, calls, sends) = rs_send (ve_response env) data s (cn_library c)
           in conn_calls (ve_asio env) calls
                (c\<lparr>cn_sender := Some s, cn_library := l, cn_answers := cn_answers c @ sends\<rparr>)))"

lemma conn_send_data_eq [simp]: "conn_send_data env data c = conn_send env data [] c"
  by (simp add: conn_send_data_def conn_send_def rs_send_def split: option.split)

definition responder_send_http :: "('l, 'x, 'w, 'f) conn_env \<Rightarrow> nat \<Rightarrow> 'w \<Rightarrow>
    ('l, 'r, 'x, 'f, 'h, 'k) connection \<Rightarrow> ('l, 'r, 'x, 'f, 'h, 'k) connection" where
  "responder_send_http env rid response c =
     (if conn_locked rid c then conn_send_data env (ve_cgi env response) c else c)"

definition responder_send_fastcgi :: "('l, 'x, 'w, 'f) conn_env \<Rightarrow> nat \<Rightarrow> string \<Rightarrow> string \<Rightarrow>
    ('l, 'r, 'x, 'f, 'h, 'k) connection \<Rightarrow> ('l, 'r, 'x, 'f, 'h, 'k) connection" where
  "responder_send_fastcgi env rid data errorMsg c =
     (if conn_locked rid c then conn_send env data errorMsg c else c)"

text \<open>The overload with the arguments of a constructor of \<open>http::Response\<close>.\<close>

definition responder_send_args :: "('l, 'x, 'w, 'f) conn_env \<Rightarrow> nat \<Rightarrow> ('a \<Rightarrow> 'w) \<Rightarrow> 'a \<Rightarrow>
    ('l, 'r, 'x, 'f, 'h, 'k) connection \<Rightarrow> ('l, 'r, 'x, 'f, 'h, 'k) connection" where
  "responder_send_args env rid construct args c =
     (let response = construct args in responder_send_http env rid response c)"

lemma responder_send_args_http [simp]:
  "responder_send_args env rid construct args c = responder_send_http env rid (construct args) c"
  by (simp add: responder_send_args_def)

definition responder_isSent :: "('l, 'x, 'w, 'f) conn_env \<Rightarrow> nat \<Rightarrow>
    ('l, 'r, 'x, 'f, 'h, 'k) connection \<Rightarrow> bool" where
  "responder_isSent env rid c =
     (if conn_locked rid c
      then (case rc_responseSender c of Some s \<Rightarrow> rs_isSent (ve_response env) s | None \<Rightarrow> True)
      else True)"

section \<open>Services made from a responder\<close>

definition conn_timer_start :: "nat \<Rightarrow> int \<Rightarrow> 'k \<Rightarrow>
    ('l, 'r, 'x, 'f, 'h, 'k) connection \<Rightarrow> ('l, 'r, 'x, 'f, 'h, 'k) connection" where
  "conn_timer_start rid time callback c =
     (let (provider, holder) =
            timer_of_responder (if conn_locked rid c then Some (rc_timerProvider c) else None)
      in case (provider, holder_get holder) of
           (Some p, Some i) \<Rightarrow> c\<lparr>cn_timers := tp_update i (ts_start time callback) p\<rparr>
         | _ \<Rightarrow> c)"

definition conn_timer_startPeriodic :: "nat \<Rightarrow> int \<Rightarrow> 'k \<Rightarrow>
    ('l, 'r, 'x, 'f, 'h, 'k) connection \<Rightarrow> ('l, 'r, 'x, 'f, 'h, 'k) connection" where
  "conn_timer_startPeriodic rid time callback c =
     (let (provider, holder) =
            timer_of_responder (if conn_locked rid c then Some (rc_timerProvider c) else None)
      in case (provider, holder_get holder) of
           (Some p, Some i) \<Rightarrow> c\<lparr>cn_timers := tp_update i (ts_startPeriodic time callback) p\<rparr>
         | _ \<Rightarrow> c)"

definition conn_post_task :: "nat \<Rightarrow> 'k \<Rightarrow>
    ('l, 'r, 'x, 'f, 'h, 'k) connection \<Rightarrow> ('l, 'r, 'x, 'f, 'h, 'k) connection" where
  "conn_post_task rid task c =
     c\<lparr>cn_dispatcher := dispatcher_postTask (queue_alive c) task
          (dispatcher_of_responder (if conn_locked rid c then Some () else None))
          (\<lambda>_. rc_asioDispatcher c) ()\<rparr>"

definition conn_client_request :: "('l, 'x, 'w, 'f) conn_env \<Rightarrow> nat \<Rightarrow> string \<Rightarrow>
    fastcgi_request \<Rightarrow> 'k \<Rightarrow> int \<Rightarrow>
    ('l, 'r, 'x, 'f, 'h, 'k) connection \<Rightarrow> ('l, 'r, 'x, 'f, 'h, 'k) connection" where
  "conn_client_request env rid socketPath request responseHandler timeout c =
     c\<lparr>cn_client := client_makeRequest_local (ve_requester env) socketPath request
          responseHandler timeout
          (client_of_responder (if conn_locked rid c then Some () else None))
          (\<lambda>_. rc_client c) ()\<rparr>"

definition conn_client_http :: "('l, 'x, 'w, 'f) conn_env \<Rightarrow> nat \<Rightarrow> string \<Rightarrow>
    fastcgi_request \<Rightarrow> 'k \<Rightarrow> int \<Rightarrow>
    ('l, 'r, 'x, 'f, 'h, 'k) connection \<Rightarrow> ('l, 'r, 'x, 'f, 'h, 'k) connection" where
  "conn_client_http env rid socketPath request responseHandler timeout c =
     c\<lparr>cn_client := client_makeHttpRequest_local (\<lambda>fcgiRequest. fcgiRequest) (ve_requester env)
          socketPath request responseHandler timeout
          (client_of_responder (if conn_locked rid c then Some () else None))
          (\<lambda>_. rc_client c) ()\<rparr>"

text \<open>The TCP overloads: the connection, and the exception if there was one.\<close>

definition conn_client_tcp :: "('l, 'x, 'w, 'f) conn_env \<Rightarrow> nat \<Rightarrow> string_view \<Rightarrow> u16 \<Rightarrow>
    fastcgi_request \<Rightarrow> 'k \<Rightarrow> int \<Rightarrow>
    ('l, 'r, 'x, 'f, 'h, 'k) connection \<Rightarrow>
    ('l, 'r, 'x, 'f, 'h, 'k) connection \<times> cpp_exception option" where
  "conn_client_tcp env rid ipAddress port request responseHandler timeout c =
     (let (store, e) = client_makeRequest_tcp (ve_make_endpoint env) (ve_requester env) ipAddress port
            request responseHandler timeout
            (client_of_responder (if conn_locked rid c then Some () else None)) (\<lambda>_. rc_client c)
      in (c\<lparr>cn_client := store ()\<rparr>, e))"

definition conn_client_http_tcp :: "('l, 'x, 'w, 'f) conn_env \<Rightarrow> nat \<Rightarrow> string_view \<Rightarrow> u16 \<Rightarrow>
    fastcgi_request \<Rightarrow> 'k \<Rightarrow> int \<Rightarrow>
    ('l, 'r, 'x, 'f, 'h, 'k) connection \<Rightarrow>
    ('l, 'r, 'x, 'f, 'h, 'k) connection \<times> cpp_exception option" where
  "conn_client_http_tcp env rid ipAddress port request responseHandler timeout c =
     (let (store, e) = client_makeHttpRequest_tcp (\<lambda>fcgiRequest. fcgiRequest) (ve_make_endpoint env)
            (ve_requester env) ipAddress port request responseHandler timeout
            (client_of_responder (if conn_locked rid c then Some () else None)) (\<lambda>_. rc_client c)
      in (c\<lparr>cn_client := store ()\<rparr>, e))"

text \<open>Both are the service's, for a responder whose request is the current one.\<close>

lemma conn_client_tcp_eq:
  "conn_client_tcp env rid ip port rq k n c =
     (if conn_locked rid c
      then apfst (\<lambda>s. c\<lparr>cn_client := s\<rparr>)
        (cs_makeRequest_tcp (ve_make_endpoint env) (ve_requester env) ip port rq k n (cn_client c))
      else (c, None))"
  "conn_client_http_tcp env rid ip port rq k n c =
     (if conn_locked rid c
      then apfst (\<lambda>s. c\<lparr>cn_client := s\<rparr>)
        (cs_makeHttpRequest_tcp (\<lambda>rq. rq) (ve_make_endpoint env) (ve_requester env) ip port rq k n
          (cn_client c))
      else (c, None))"
  by (simp_all add: conn_client_tcp_def client_makeRequest_tcp_def conn_client_http_tcp_def
      client_makeHttpRequest_tcp_def client_of_responder_def getClientService_def apfst_def map_prod_def
      case_prod_beta Let_def)

definition conn_client_disconnect :: "('l, 'x, 'w, 'f) conn_env \<Rightarrow> nat \<Rightarrow>
    ('l, 'r, 'x, 'f, 'h, 'k) connection \<Rightarrow> ('l, 'r, 'x, 'f, 'h, 'k) connection" where
  "conn_client_disconnect env rid c =
     c\<lparr>cn_client := client_disconnect (ve_asio env)
          (client_of_responder (if conn_locked rid c then Some () else None))
          (\<lambda>_. rc_client c) ()\<rparr>"

section \<open>Running a request processor\<close>

primrec run_prog :: "('l, 'x, 'w, 'f) conn_env \<Rightarrow> nat \<Rightarrow> ('w, 'k) prog \<Rightarrow>
    ('l, 'r, 'x, 'f, 'h, 'k) connection \<Rightarrow> ('l, 'r, 'x, 'f, 'h, 'k) connection \<times> outcome" where
  "run_prog env rid PDone c = (c, Returned)"
| "run_prog env rid (PThrow what) c = (c, Threw what)"
| "run_prog env rid PThrowUnknown c = (c, ThrewUnknown)"
| "run_prog env rid (PSendHttp w p) c = run_prog env rid p (responder_send_http env rid w c)"
| "run_prog env rid (PSendFastcgi d e p) c = run_prog env rid p (responder_send_fastcgi env rid d e c)"
| "run_prog env rid (PIsSent f) c = run_prog env rid (f (responder_isSent env rid c)) c"
| "run_prog env rid (PTimer n k p) c = run_prog env rid p (conn_timer_start rid n k c)"
| "run_prog env rid (PTimerPeriodic n k p) c =
     run_prog env rid p (conn_timer_startPeriodic rid n k c)"
| "run_prog env rid (PPostTask k p) c = run_prog env rid p (conn_post_task rid k c)"
| "run_prog env rid (PClientRequest path rq k n p) c =
     run_prog env rid p (conn_client_request env rid path
       \<lparr>params = fst rq, stdIn = snd rq\<rparr> k n c)"
| "run_prog env rid (PClientHttp path rq k n p) c =
     run_prog env rid p (conn_client_http env rid path
       \<lparr>params = fst rq, stdIn = snd rq\<rparr> k n c)"
| "run_prog env rid (PClientTcp ip port rq k n p) c =
     (let (c, e) = conn_client_tcp env rid ip port \<lparr>params = fst rq, stdIn = snd rq\<rparr> k n c
      in case e of None \<Rightarrow> run_prog env rid p c | Some e \<Rightarrow> (c, Threw (ve_what env e)))"
| "run_prog env rid (PClientHttpTcp ip port rq k n p) c =
     (let (c, e) = conn_client_http_tcp env rid ip port \<lparr>params = fst rq, stdIn = snd rq\<rparr> k n c
      in case e of None \<Rightarrow> run_prog env rid p c | Some e \<Rightarrow> (c, Threw (ve_what env e)))"
| "run_prog env rid (PClientDisconnect p) c =
     run_prog env rid p (conn_client_disconnect env rid c)"
| "run_prog env rid (PReport ev msg p) c = run_prog env rid p (emit (Report ev msg) c)"
| "run_prog env rid (PMakeQueue f) c =
     run_prog env rid (f (cn_nextQueue c)) (c\<lparr>cn_nextQueue := Suc (cn_nextQueue c)\<rparr>)"
| "run_prog env rid (PSetQueue q p) c =
     run_prog env rid p (accessor_setRequestProcessorQueue rid q c)"

section \<open>Receiving requests\<close>

definition conn_processRequest :: "('l, 'x, 'w, 'f) conn_env \<Rightarrow>
    ('r, 'w, 'k) request_processor \<Rightarrow> 'r \<Rightarrow> 'x \<Rightarrow>
    ('l, 'r, 'x, 'f, 'h, 'k) connection \<Rightarrow> ('l, 'r, 'x, 'f, 'h, 'k) connection" where
  "conn_processRequest env requestProcessor fcgiRequest fcgiResponse c =
     (let c = c\<lparr>cn_fcgiRequest := Some fcgiRequest, cn_sender := Some (rs_new fcgiResponse)\<rparr>;
          rid = cn_nextContext c;
          c = c\<lparr>cn_context := Some \<lparr>rc_id = rid, rc_queue = None\<rparr>, cn_nextContext := Suc rid\<rparr>;
          (c, result) = run_prog env rid (invoke_processor requestProcessor fcgiRequest) c
      in case result of
           Returned \<Rightarrow> c
         | Threw what \<Rightarrow>
             emit (Report RequestProcessingError what)
               (responder_send_args env rid (ve_status env) 500 c)
         | ThrewUnknown \<Rightarrow>
             emit (Report RequestProcessingError ''Unknown error'')
               (responder_send_args env rid (ve_status env) 500 c))"

primrec run_lib :: "('l, 'x, 'w, 'f) conn_env \<Rightarrow> ('r, 'w, 'k) request_processor \<Rightarrow>
    ('l, 'r, 'x) lib_prog \<Rightarrow>
    ('l, 'r, 'x, 'f, 'h, 'k) connection \<Rightarrow> ('l, 'r, 'x, 'f, 'h, 'k) connection" where
  "run_lib env proc LDone c = c"
| "run_lib env proc (LGet f) c = run_lib env proc (f (cn_library c)) c"
| "run_lib env proc (LPut l p) c = run_lib env proc p (c\<lparr>cn_library := l\<rparr>)"
| "run_lib env proc (LCall x p) c = run_lib env proc p (conn_call (ve_asio env) x c)"
| "run_lib env proc (LRequest r x p) c =
     run_lib env proc p (conn_processRequest env proc r x c)"

text \<open>\<open>receiveData\<close> is the library's: the tree for the data received.\<close>

definition conn_readData :: "('l, 'x, 'w, 'f) conn_env \<Rightarrow> ('r, 'w, 'k) request_processor \<Rightarrow>
    (string \<Rightarrow> ('l, 'r, 'x) lib_prog) \<Rightarrow> string \<Rightarrow>
    ('l, 'r, 'x, 'f, 'h, 'k) connection \<Rightarrow> ('l, 'r, 'x, 'f, 'h, 'k) connection" where
  "conn_readData env proc receiveData data c =
     conn_process (run_lib env proc (receiveData data) c)"

definition conn_onRead :: "('l, 'x, 'w, 'f) conn_env \<Rightarrow> ('r, 'w, 'k) request_processor \<Rightarrow>
    (string \<Rightarrow> ('l, 'r, 'x) lib_prog) \<Rightarrow> io_error option \<Rightarrow> string \<Rightarrow>
    ('l, 'r, 'x, 'f, 'h, 'k) connection \<Rightarrow> ('l, 'r, 'x, 'f, 'h, 'k) connection" where
  "conn_onRead env proc receiveData error data c =
     (case error of
        Some e \<Rightarrow> conn_onReadError (ve_asio env) e c
      | None \<Rightarrow> conn_readData env proc receiveData data c)"

text \<open>
  A callback of the application runs later: it is a tree too, on the responder of the request it
  was made for. An exception it throws leaves the handler and reaches whoever runs the context.
\<close>

definition conn_callback :: "('l, 'x, 'w, 'f) conn_env \<Rightarrow> nat \<Rightarrow> ('w, 'k) prog \<Rightarrow>
    ('l, 'r, 'x, 'f, 'h, 'k) connection \<Rightarrow> ('l, 'r, 'x, 'f, 'h, 'k) connection \<times> outcome" where
  "conn_callback env rid p c = run_prog env rid p c"

end
