(* ===== verification/Connection_Requests.thy ===== *)
theory Connection_Requests
  imports Connection
begin

text \<open>
  Properties of requests on a connection: what an operation of the socket side leaves alone, the
  invariant that a request is answered at most once, exceptions, responders that outlive their
  request, and the way from received data to the reply on the wire.
\<close>

section \<open>Frame\<close>

text \<open>Everything but the socket side.\<close>

definition conn_app where
  "conn_app c = (cn_context c, cn_fcgiRequest c, cn_sender c, cn_dispatcher c, cn_timers c,
     cn_client c, cn_library c, cn_nextContext c, cn_nextQueue c, cn_answers c)"

lemma conn_app_socket:
  fixes c :: "('l, 'r, 'x, 'f, 'h, 'k) connection"
  shows "conn_app (emit a c) = conn_app c" "conn_app (conn_close env c) = conn_app c"
    "conn_app (conn_sendData d c) = conn_app c" "conn_app (conn_disconnect env c) = conn_app c"
  by (simp_all add: conn_app_def emit_def conn_close_def conn_sendData_def conn_disconnect_def
      Let_def split: option.split)

lemma conn_app_calls:
  fixes c :: "('l, 'r, 'x, 'f, 'h, 'k) connection"
  shows "conn_app (conn_call env x c) = conn_app c" "conn_app (conn_calls env calls c) = conn_app c"
proof -
  show x: "conn_app (conn_call env x c) = conn_app c"
    for x and c :: "('l, 'r, 'x, 'f, 'h, 'k) connection"
    by (cases x) (simp_all add: conn_app_socket)
  show "conn_app (conn_calls env calls c) = conn_app c"
    unfolding conn_calls_def by (induction calls arbitrary: c) (simp_all add: x)
qed

lemmas conn_fields = conn_app_socket(1)[unfolded conn_app_def prod.inject]
  conn_app_calls[unfolded conn_app_def prod.inject]

lemma conn_locked_frame [simp]:
  fixes c :: "('l, 'r, 'x, 'f, 'h, 'k) connection"
  shows "conn_locked rid (emit a c) = conn_locked rid c"
    "conn_locked rid (conn_calls env calls c) = conn_locked rid c"
    "conn_locked rid (conn_send ve d e c) = conn_locked rid c"
  by (auto simp: conn_locked_def conn_fields conn_send_def Let_def split: option.split prod.split)

text \<open>What is on the trace stays there.\<close>

lemma conn_call_trace: "\<exists>ys. trace (conn_call env x c) = trace c @ ys"
  by (cases x) (auto simp: conn_sendData_def conn_disconnect_def conn_close_def Let_def
      split: option.split)

lemma conn_calls_trace: "\<exists>ys. trace (conn_calls env calls c) = trace c @ ys"
  unfolding conn_calls_def
proof (induction calls arbitrary: c)
  case (Cons x calls)
  then show ?case using conn_call_trace[of env x c] by (metis append_assoc fold_simps(2))
qed simp

lemma conn_send_trace: "\<exists>ys. trace (conn_send env d e c) = trace c @ ys"
proof (cases "cn_sender c")
  case (Some s)
  obtain s' l xs as where send:
      "rs_send_error (ve_response env) d e s (cn_library c) = (s', l, xs, as)"
    by (metis prod_cases4)
  show ?thesis
    using Some send conn_calls_trace[of "ve_asio env" xs "c\<lparr>cn_sender := Some s', cn_library := l,
        cn_answers := cn_answers c @ as\<rparr>"]
    by (simp add: conn_send_def)
qed (simp add: conn_send_def)

section \<open>At most one response\<close>

text \<open>
  The request whose response was \<open>v\<close>alid is unanswered since the answers were \<open>A\<close>, or has been
  answered once.
\<close>

definition unanswered :: "('l, 'x, 'w, 'f) conn_env \<Rightarrow> (string \<times> string) list \<Rightarrow> bool \<Rightarrow>
    ('l, 'r, 'x, 'f, 'h, 'k) connection \<Rightarrow> bool" where
  "unanswered env A v c \<longleftrightarrow> cn_answers c = A
     \<and> (\<exists>s. cn_sender c = Some s \<and> (rs_isSent (ve_response env) s \<longleftrightarrow> \<not> v))"

definition answered_once :: "('l, 'x, 'w, 'f) conn_env \<Rightarrow> (string \<times> string) list \<Rightarrow>
    ('l, 'r, 'x, 'f, 'h, 'k) connection \<Rightarrow> bool" where
  "answered_once env A c \<longleftrightarrow> (\<exists>a. cn_answers c = A @ [a])
     \<and> (\<exists>s. cn_sender c = Some s \<and> rs_isSent (ve_response env) s)"

definition one_answer :: "('l, 'x, 'w, 'f) conn_env \<Rightarrow> (string \<times> string) list \<Rightarrow> bool \<Rightarrow>
    ('l, 'r, 'x, 'f, 'h, 'k) connection \<Rightarrow> bool" where
  "one_answer env A v c \<longleftrightarrow> unanswered env A v c \<or> v \<and> answered_once env A c"

lemma one_answer_cong:
  "cn_answers c' = cn_answers c \<Longrightarrow> cn_sender c' = cn_sender c \<Longrightarrow>
   one_answer env A v c' = one_answer env A v c"
  by (simp add: one_answer_def unanswered_def answered_once_def)

lemma conn_send_answers:
  assumes "cn_sender c = Some s"
  shows "cn_answers (conn_send env d e c) =
      cn_answers c @ (if rs_isSent (ve_response env) s then [] else [(d, e)])"
    and "send_invalidates (ve_response env) \<Longrightarrow>
      \<exists>s'. cn_sender (conn_send env d e c) = Some s' \<and> rs_isSent (ve_response env) s'"
  using assms rs_send_error_isSent[of "ve_response env" d e s "cn_library c"]
    rs_send_error_sends[of "ve_response env" d e s "cn_library c"]
  by (auto simp: conn_send_def conn_fields Let_def split: prod.split)

lemma one_answer_send:
  assumes "send_invalidates (ve_response env)" and "one_answer env A v c"
  shows "one_answer env A v (conn_send env d e c)"
proof -
  obtain s where s: "cn_sender c = Some s"
    using assms(2) by (auto simp: one_answer_def unanswered_def answered_once_def)
  then show ?thesis
    using assms(2) conn_send_answers(1)[OF s, of env d e] conn_send_answers(2)[OF s assms(1), of d e]
    by (auto simp: one_answer_def unanswered_def answered_once_def)
qed

text \<open>What the other operations of a request processor keep.\<close>

lemmas conn_service_defs = conn_timer_start_def conn_timer_startPeriodic_def conn_post_task_def
  conn_client_request_def conn_client_http_def conn_client_tcp_def conn_client_http_tcp_def
  conn_client_disconnect_def

lemma conn_ops_keep [simp]:
  "cn_answers (conn_timer_start rid n k c) = cn_answers c"
  "cn_sender (conn_timer_start rid n k c) = cn_sender c"
  "cn_answers (conn_post_task rid k c) = cn_answers c"
  "cn_sender (conn_post_task rid k c) = cn_sender c"
  "cn_answers (conn_client_request env rid path rq k n c) = cn_answers c"
  "cn_sender (conn_client_request env rid path rq k n c) = cn_sender c"
  "cn_answers (accessor_setRequestProcessorQueue rid q c) = cn_answers c"
  "cn_sender (accessor_setRequestProcessorQueue rid q c) = cn_sender c"
  "cn_answers (conn_timer_startPeriodic rid n k c) = cn_answers c"
  "cn_sender (conn_timer_startPeriodic rid n k c) = cn_sender c"
  "cn_answers (conn_client_http env rid path rq k n c) = cn_answers c"
  "cn_sender (conn_client_http env rid path rq k n c) = cn_sender c"
  "cn_answers (conn_client_disconnect env rid c) = cn_answers c"
  "cn_sender (conn_client_disconnect env rid c) = cn_sender c"
  "cn_answers (fst (conn_client_tcp env rid ip port rq k n c)) = cn_answers c"
  "cn_sender (fst (conn_client_tcp env rid ip port rq k n c)) = cn_sender c"
  "cn_answers (fst (conn_client_http_tcp env rid ip port rq k n c)) = cn_answers c"
  "cn_sender (fst (conn_client_http_tcp env rid ip port rq k n c)) = cn_sender c"
  by (simp_all add: conn_service_defs
      accessor_setRequestProcessorQueue_def rc_setRequestProcessorQueue_def timer_of_responder_def
      Let_def split: option.split prod.split)

lemma conn_locked_ops [simp]:
  "conn_locked r' (conn_timer_start rid n k c) = conn_locked r' c"
  "conn_locked r' (conn_post_task rid k c) = conn_locked r' c"
  "conn_locked r' (conn_client_request env rid path rq k n c) = conn_locked r' c"
  "conn_locked r' (accessor_setRequestProcessorQueue rid q c) = conn_locked r' c"
  "conn_locked r' (conn_timer_startPeriodic rid n k c) = conn_locked r' c"
  "conn_locked r' (conn_client_http env rid path rq k n c) = conn_locked r' c"
  "conn_locked r' (conn_client_disconnect env rid c) = conn_locked r' c"
  "conn_locked r' (fst (conn_client_tcp env rid ip port rq k n c)) = conn_locked r' c"
  "conn_locked r' (fst (conn_client_http_tcp env rid ip port rq k n c)) = conn_locked r' c"
  by (auto simp: conn_locked_def conn_service_defs
      accessor_setRequestProcessorQueue_def rc_setRequestProcessorQueue_def timer_of_responder_def
      Let_def split: option.split prod.split)

lemma conn_locked_upd [simp]:
  "conn_locked r' (c\<lparr>cn_nextQueue := n\<rparr>) = conn_locked r' c"
  by (simp add: conn_locked_def)

lemma run_prog_locked: "conn_locked r' (fst (run_prog env rid p c)) = conn_locked r' c"
proof (induction p arbitrary: c)
  case (PSendHttp w p)
  then show ?case by (simp add: responder_send_http_def)
next
  case (PSendFastcgi d e p)
  then show ?case by (simp add: responder_send_fastcgi_def)
qed (simp_all add: Let_def case_prod_beta split: option.split)

lemma run_prog_one_answer:
  assumes "send_invalidates (ve_response env)"
  shows "one_answer env A v c \<Longrightarrow> one_answer env A v (fst (run_prog env rid p c))"
proof (induction p arbitrary: c)
  case (PSendHttp w p)
  then show ?case using one_answer_send[OF assms PSendHttp.prems] by (simp add: responder_send_http_def)
next
  case (PSendFastcgi d e p)
  then show ?case using one_answer_send[OF assms PSendFastcgi.prems] by (simp add: responder_send_fastcgi_def)
next
  case (PTimer n k p)
  then show ?case by (simp add: one_answer_cong[of "conn_timer_start rid n k c"])
next
  case (PPostTask k p)
  then show ?case by (simp add: one_answer_cong[of "conn_post_task rid k c"])
next
  case (PClientRequest path rq k n p)
  then show ?case by (simp add: one_answer_cong[OF conn_ops_keep(5,6)])
next
  case (PTimerPeriodic n k p)
  then show ?case by (simp add: one_answer_cong[OF conn_ops_keep(9,10)])
next
  case (PClientHttp path rq k n p)
  then show ?case by (simp add: one_answer_cong[OF conn_ops_keep(11,12)])
next
  case (PClientDisconnect p)
  then show ?case by (simp add: one_answer_cong[OF conn_ops_keep(13,14)])
next
  case (PClientTcp ip port rq k n p)
  then show ?case
    by (simp add: one_answer_cong[OF conn_ops_keep(15,16)] Let_def case_prod_beta split: option.split)
next
  case (PClientHttpTcp ip port rq k n p)
  then show ?case
    by (simp add: one_answer_cong[OF conn_ops_keep(17,18)] Let_def case_prod_beta split: option.split)
next
  case (PReport ev msg p)
  then show ?case using one_answer_cong[of "emit (Report ev msg) c" c env A v]
    by (simp add: conn_fields)
next
  case (PMakeQueue f)
  then show ?case by (simp add: one_answer_cong[of "c\<lparr>cn_nextQueue := Suc (cn_nextQueue c)\<rparr>" c])
next
  case (PSetQueue q p)
  then show ?case by (simp add: one_answer_cong[of "accessor_setRequestProcessorQueue rid q c"])
qed simp_all

lemma callbacks_one_answer:
  assumes "send_invalidates (ve_response env)"
  shows "one_answer env A v c \<Longrightarrow>
    one_answer env A v (fold (\<lambda>(rid, p) c. fst (conn_callback env rid p c)) callbacks c)"
proof (induction callbacks arbitrary: c)
  case (Cons b callbacks)
  show ?case
    using Cons.IH[OF run_prog_one_answer[OF assms Cons.prems]]
    by (simp add: conn_callback_def case_prod_beta)
qed simp

text \<open>The connection when the request processor is called, and what follows its result.\<close>

definition conn_begin :: "'r \<Rightarrow> 'x \<Rightarrow>
    ('l, 'r, 'x, 'f, 'h, 'k) connection \<Rightarrow> ('l, 'r, 'x, 'f, 'h, 'k) connection" where
  "conn_begin r x c = c\<lparr>cn_fcgiRequest := Some r, cn_sender := Some (rs_new x),
     cn_context := Some \<lparr>rc_id = cn_nextContext c, rc_queue = None\<rparr>,
     cn_nextContext := Suc (cn_nextContext c)\<rparr>"

definition conn_finish :: "('l, 'x, 'w, 'f) conn_env \<Rightarrow> nat \<Rightarrow> outcome \<Rightarrow>
    ('l, 'r, 'x, 'f, 'h, 'k) connection \<Rightarrow> ('l, 'r, 'x, 'f, 'h, 'k) connection" where
  "conn_finish env rid out c =
     (if out = Returned then c
      else emit (Report RequestProcessingError (case out of Threw w \<Rightarrow> w | _ \<Rightarrow> ''Unknown error''))
             (responder_send_http env rid (ve_status env 500) c))"

lemma conn_processRequest_eq:
  "conn_processRequest env proc r x c =
     (let (c', out) = run_prog env (cn_nextContext c) (invoke_processor proc r) (conn_begin r x c)
      in conn_finish env (cn_nextContext c) out c')"
  by (simp add: conn_processRequest_def conn_begin_def conn_finish_def Let_def
      split: prod.split outcome.split)

lemma conn_begin_simps [simp]:
  "one_answer env (cn_answers c) (xr_isValid (ve_response env) x) (conn_begin r x c)"
  "conn_locked (cn_nextContext c) (conn_begin r x c)"
  "cn_answers (conn_begin r x c) = cn_answers c" "cn_library (conn_begin r x c) = cn_library c"
  by (simp_all add: one_answer_def unanswered_def conn_begin_def rs_new_def rs_isSent_def
      conn_locked_def)

lemma conn_finish_one_answer:
  assumes "send_invalidates (ve_response env)" and "one_answer env A v c"
  shows "one_answer env A v (conn_finish env rid out c)"
proof -
  let ?c = "responder_send_http env rid (ve_status env 500) c"
  have "one_answer env A v ?c"
    using one_answer_send[OF assms] assms(2) by (simp add: responder_send_http_def)
  then show ?thesis
    using assms(2) one_answer_cong[of "emit a ?c" ?c env A v for a]
    by (simp add: conn_finish_def conn_fields)
qed

lemma conn_processRequest_one_answer:
  assumes "send_invalidates (ve_response env)"
  shows "one_answer env (cn_answers c) (xr_isValid (ve_response env) x)
    (conn_processRequest env proc r x c)"
  unfolding conn_processRequest_eq Let_def case_prod_beta
  by (intro conn_finish_one_answer run_prog_one_answer conn_begin_simps assms)

section \<open>Responders of other requests\<close>

text \<open>A responder that cannot lock its context: only what does not go through it shows.\<close>

lemma run_prog_stale:
  "\<not> conn_locked rid c \<Longrightarrow>
   \<exists>reports n. fst (run_prog env rid p c) = c\<lparr>trace := trace c @ reports, cn_nextQueue := n\<rparr>
     \<and> list_all (\<lambda>a. \<exists>ev msg. a = Report ev msg) reports"
proof (induction p arbitrary: c)
  case (PReport ev msg p)
  then obtain reports n where
      "fst (run_prog env rid p (emit (Report ev msg) c)) =
         (emit (Report ev msg) c)\<lparr>trace := trace (emit (Report ev msg) c) @ reports, cn_nextQueue := n\<rparr>"
      "list_all (\<lambda>a. \<exists>ev msg. a = Report ev msg) reports"
    using PReport.IH[of "emit (Report ev msg) c"] by auto
  then show ?case
    by (intro exI[of _ "Report ev msg # reports"] exI[of _ n]) (simp add: emit_def)
next
  case (PMakeQueue f)
  then obtain reports n where
      "fst (run_prog env rid (f (cn_nextQueue c)) (c\<lparr>cn_nextQueue := Suc (cn_nextQueue c)\<rparr>)) =
         c\<lparr>cn_nextQueue := Suc (cn_nextQueue c), trace := trace c @ reports, cn_nextQueue := n\<rparr>"
      "list_all (\<lambda>a. \<exists>ev msg. a = Report ev msg) reports"
    using PMakeQueue.IH[of "f (cn_nextQueue c)" "c\<lparr>cn_nextQueue := Suc (cn_nextQueue c)\<rparr>"]
    by auto
  then show ?case by (intro exI[of _ reports] exI[of _ n]) simp
next
  case (PTimer n k p)
  then show ?case by (simp add: conn_timer_start_def timer_of_responder_def getTimerService_def)
next
  case (PPostTask k p)
  then show ?case
    by (simp add: conn_post_task_def dispatcher_postTask_def dispatcher_of_responder_def
        getAsioDispatcherService_def with_service_def)
next
  case (PClientRequest path rq k n p)
  then show ?case
    by (simp add: conn_client_request_def client_makeRequest_local_def client_of_responder_def
        getClientService_def with_service_def)
next
  case (PTimerPeriodic n k p)
  then show ?case by (simp add: conn_timer_startPeriodic_def timer_of_responder_def getTimerService_def)
next
  case (PClientHttp path rq k n p)
  then show ?case
    by (simp add: conn_client_http_def client_makeHttpRequest_local_def client_of_responder_def
        getClientService_def with_service_def)
next
  case (PClientDisconnect p)
  then show ?case
    by (simp add: conn_client_disconnect_def client_disconnect_def client_of_responder_def
        getClientService_def with_service_def)
next
  case (PClientTcp ip port rq k n p)
  then show ?case
    by (simp add: conn_client_tcp_eq)
next
  case (PClientHttpTcp ip port rq k n p)
  then show ?case
    by (simp add: conn_client_tcp_eq)
next
  case PDone
  show ?case by (intro exI[of _ "[]"] exI[of _ "cn_nextQueue c"]) simp
next
  case (PThrow w)
  show ?case by (intro exI[of _ "[]"] exI[of _ "cn_nextQueue c"]) simp
next
  case PThrowUnknown
  show ?case by (intro exI[of _ "[]"] exI[of _ "cn_nextQueue c"]) simp
qed (simp_all add: responder_send_http_def responder_send_fastcgi_def
    accessor_setRequestProcessorQueue_def)

section \<open>A concrete environment\<close>

text \<open>
  A library whose response is a validity flag with its data and error message, and whose \<open>send\<close>
  sends the data and disconnects.
\<close>

definition demo_response_api :: "(bool \<times> string \<times> string, unit) response_api" where
  "demo_response_api = \<lparr>xr_isValid = fst, xr_setData = (\<lambda>d (v, _, e). (v, d, e)),
     xr_setErrorMsg = (\<lambda>e (v, d, _). (v, d, e)),
     xr_send = (\<lambda>(_, d, e) l. ((False, d, e), l, [CallSendData d, CallDisconnect]))\<rparr>"

definition demo_env :: "(unit, bool \<times> string \<times> string, string, unit) conn_env" where
  "demo_env = \<lparr>ve_asio = \<lparr>closeError = (\<lambda>_. None), isOpen = (\<lambda>_. True)\<rparr>,
     ve_response = demo_response_api, ve_cgi = (\<lambda>w. w),
     ve_status = (\<lambda>n. if n = 500 then ''Internal Server Error'' else ''Not Found''),
     ve_requester = (), ve_make_endpoint = (\<lambda>_ _. Inl InvalidArgument),
     ve_what = (\<lambda>_. ''Invalid argument'')\<rparr>"

definition demo_connection ::
    "(unit, string, bool \<times> string \<times> string, unit, unit, nat) connection" where
  "demo_connection = connection_new ()"

lemma demo_send_invalidates [simp]: "send_invalidates (ve_response demo_env)"
  by (simp add: send_invalidates_def demo_env_def demo_response_api_def case_prod_beta)

section \<open>Properties\<close>

text \<open>
  C6. A request is answered at most once, whatever its processor and its later callbacks do on
  their responders, and an exception included: the calls of \<open>fcgi::Response::send\<close> the connection
  makes until it takes another request are those of before, and at most one more, none when the
  library's response was not valid.
\<close>

theorem conn_single_response:
  assumes "send_invalidates (ve_response env)"
    and "c1 = conn_processRequest env proc r x c"
    and "c2 = fold (\<lambda>(rid, p) c. fst (conn_callback env rid p c)) callbacks c1"
  shows "\<exists>answers. cn_answers c2 = cn_answers c @ answers
    \<and> length answers \<le> (if xr_isValid (ve_response env) x then 1 else 0)"
proof -
  have "one_answer env (cn_answers c) (xr_isValid (ve_response env) x) c2"
    using callbacks_one_answer[OF assms(1) conn_processRequest_one_answer[OF assms(1)]] assms(2,3)
    by simp
  then show ?thesis
    by (auto simp: one_answer_def unanswered_def answered_once_def)
qed

theorem conn_single_response_witness:
  "\<exists>answers. cn_answers (conn_processRequest demo_env
      (Handler (\<lambda>r. PSendHttp ''a'' (PSendHttp ''b'' (PThrow ''c'')))) ''r'' (True, [], [])
      demo_connection) = answers \<and> length answers \<le> 1"
  using conn_single_response[of demo_env _
      "Handler (\<lambda>r. PSendHttp ''a'' (PSendHttp ''b'' (PThrow ''c'')))" "''r''" "(True, [], [])"
      demo_connection _ "[]", OF _ refl refl]
  by (simp add: demo_connection_def connection_new_def demo_env_def demo_response_api_def
      send_invalidates_def case_prod_beta)

text \<open>
  C11. A processor that throws. The client still gets exactly one response, the one with status 500
  if the processor had sent none, and the error is reported after it.
\<close>

theorem conn_exception_answered:
  assumes "send_invalidates (ve_response env)" and "xr_isValid (ve_response env) x"
    and "run_prog env (cn_nextContext c) (invoke_processor proc r) (conn_begin r x c) = (c1, out)"
    and "out \<noteq> Returned"
    and "c2 = conn_processRequest env proc r x c"
  shows "\<exists>a. cn_answers c2 = cn_answers c @ [a]
    \<and> (if cn_answers c1 = cn_answers c then a = (ve_cgi env (ve_status env 500), [])
       else cn_answers c1 = cn_answers c @ [a])
    \<and> last (trace c2) = Report RequestProcessingError
        (case out of Threw what \<Rightarrow> what | _ \<Rightarrow> ''Unknown error'')
    \<and> responder_isSent env (cn_nextContext c) c2"
proof -
  let ?r = "cn_nextContext c"
  have c1: "one_answer env (cn_answers c) True c1" "conn_locked ?r c1"
    using run_prog_one_answer[OF assms(1), of _ _ "conn_begin r x c" ?r "invoke_processor proc r"]
      run_prog_locked[of ?r env ?r "invoke_processor proc r" "conn_begin r x c"]
      conn_begin_simps(1)[of env c x r] assms(2,3) by simp_all
  define c1' where "c1' = conn_send env (ve_cgi env (ve_status env 500)) [] c1"
  have c2: "c2 = emit (Report RequestProcessingError
      (case out of Threw what \<Rightarrow> what | _ \<Rightarrow> ''Unknown error'')) c1'"
    using assms(3,4,5) c1(2)
    by (simp add: conn_processRequest_eq conn_finish_def responder_send_http_def c1'_def)
  obtain s where s: "cn_sender c1 = Some s"
    and answers: "if rs_isSent (ve_response env) s then \<exists>a. cn_answers c1 = cn_answers c @ [a]
      else cn_answers c1 = cn_answers c"
    using c1(1) by (auto simp: one_answer_def unanswered_def answered_once_def)
  have "responder_isSent env ?r c2"
    using conn_send_answers(2)[OF s assms(1), of "ve_cgi env (ve_status env 500)" "[]"] c2
    by (auto simp: responder_isSent_def c1'_def conn_fields)
  moreover have "cn_answers c2 = cn_answers c1 @ (if rs_isSent (ve_response env) s then []
      else [(ve_cgi env (ve_status env 500), [])])"
    using conn_send_answers(1)[OF s, of env] c2 by (simp add: conn_fields c1'_def)
  ultimately show ?thesis
    using answers c2 by (auto split: if_splits)
qed

theorem conn_exception_answered_witness:
  "\<exists>a. cn_answers (conn_processRequest demo_env (Handler (\<lambda>r. PThrow ''bad'')) ''r'' (True, [], [])
      demo_connection) = [a]"
  using conn_exception_answered[of demo_env "(True, [], [])" demo_connection
      "Handler (\<lambda>r. PThrow ''bad'')" "''r''" _ _ _, OF _ _ prod.collapse[symmetric] _ refl]
  by (auto simp: demo_connection_def connection_new_def demo_env_def demo_response_api_def
      send_invalidates_def case_prod_beta)

text \<open>
  A processor that returns its response gets it sent, and one that throws instead gets the
  response with status 500 sent, as the only answer to the request.
\<close>

theorem conn_returning_answer:
  assumes "xr_isValid (ve_response env) x"
  shows "cn_answers (conn_processRequest env (Returning f) r x c) = cn_answers c @
    [case f r of
       ReturnHttp w \<Rightarrow> (ve_cgi env w, [])
     | ReturnFastcgi d e \<Rightarrow> (d, e)
     | _ \<Rightarrow> (ve_cgi env (ve_status env 500), [])]"
proof -
  have s: "cn_sender (conn_begin r x c) = Some (rs_new x)" "\<not> rs_isSent (ve_response env) (rs_new x)"
    using assms by (simp_all add: conn_begin_def rs_isSent_def rs_new_def)
  show ?thesis
    using s(2) conn_send_answers(1)[OF s(1), of env]
    by (cases "f r") (simp_all add: conn_processRequest_eq conn_finish_def responder_send_http_def
        responder_send_fastcgi_def conn_fields)
qed

theorem conn_returning_answer_witness:
  "cn_answers (conn_processRequest demo_env (Returning (\<lambda>r. ReturnHttp (r @ ''!''))) ''r''
      (True, [], []) demo_connection) = [(''r!'', [])]"
  using conn_returning_answer[of demo_env "(True, [], [])" "\<lambda>r. ReturnHttp (r @ ''!'')" "''r''"
      demo_connection]
  by (simp add: demo_connection_def connection_new_def demo_env_def demo_response_api_def)

text \<open>
  C16. A responder kept from an earlier request. Once the connection has taken another request,
  the earlier responder reports every response as sent, and nothing done with it sends, starts a
  timer, posts a task, makes a client request or attaches a queue: the connection changes by no
  more than reports and fresh queues.
\<close>

theorem conn_stale_responder:
  assumes "c1 = conn_processRequest env proc r x c" and "old < cn_nextContext c"
  shows "responder_isSent env old c1
    \<and> (\<exists>reports n. fst (conn_callback env old p c1) = c1\<lparr>trace := trace c1 @ reports, cn_nextQueue := n\<rparr>
        \<and> list_all (\<lambda>a. \<exists>ev msg. a = Report ev msg) reports)"
proof -
  have "\<not> conn_locked old (conn_begin r x c)"
    using assms(2) by (simp add: conn_locked_def conn_begin_def)
  then have "\<not> conn_locked old (fst (run_prog env (cn_nextContext c) (invoke_processor proc r)
      (conn_begin r x c)))"
    by (simp add: run_prog_locked)
  then have "\<not> conn_locked old c1"
    by (simp add: assms(1) conn_processRequest_eq conn_finish_def responder_send_http_def
        case_prod_beta Let_def)
  then show ?thesis
    using run_prog_stale[of old c1 env p] by (simp add: responder_isSent_def conn_callback_def)
qed

theorem conn_stale_responder_witness:
  "responder_isSent demo_env 0 (conn_processRequest demo_env (Handler (\<lambda>r. PDone)) ''b''
      (True, [], []) (conn_processRequest demo_env (Handler (\<lambda>r. PDone)) ''a'' (True, [], [])
        demo_connection))"
  using conn_stale_responder[of _ demo_env "Handler (\<lambda>r. PDone)" "''b''" "(True, [], [])"
      "conn_processRequest demo_env (Handler (\<lambda>r. PDone)) ''a'' (True, [], []) demo_connection"
      0 PDone, OF refl]
  by (simp add: conn_processRequest_def demo_connection_def connection_new_def Let_def)

section \<open>From data received to the reply\<close>

lemma count_read_calls:
  fixes c :: "('l, 'r, 'x, 'f, 'h, 'k) connection"
  shows "count_list (trace (conn_call env x c)) AsyncReadSome = count_list (trace c) AsyncReadSome"
    and "count_list (trace (conn_calls env calls c)) AsyncReadSome =
      count_list (trace c) AsyncReadSome"
proof -
  have s: "count_list (trace (conn_sendData d c)) AsyncReadSome = count_list (trace c) AsyncReadSome"
    and x: "count_list (trace (conn_disconnect env c)) AsyncReadSome =
      count_list (trace c) AsyncReadSome" for d and c :: "('l, 'r, 'x, 'f, 'h, 'k) connection"
    by (simp_all add: conn_sendData_def conn_disconnect_def conn_close_def Let_def split: option.split)
  show y: "count_list (trace (conn_call env x c)) AsyncReadSome = count_list (trace c) AsyncReadSome"
    for x and c :: "('l, 'r, 'x, 'f, 'h, 'k) connection"
    by (cases x) (simp_all add: s x)
  show "count_list (trace (conn_calls env calls c)) AsyncReadSome =
      count_list (trace c) AsyncReadSome"
    unfolding conn_calls_def by (induction calls arbitrary: c) (simp_all add: y)
qed

lemma count_read_send:
  "count_list (trace (conn_send env d e c)) AsyncReadSome = count_list (trace c) AsyncReadSome"
  by (simp add: conn_send_def Let_def count_read_calls split: option.split prod.split)

lemma conn_ops_trace [simp]:
  "trace (conn_timer_start rid n k c) = trace c" "trace (conn_post_task rid k c) = trace c"
  "trace (conn_client_request env rid path rq k n c) = trace c"
  "trace (accessor_setRequestProcessorQueue rid q c) = trace c"
  "trace (conn_timer_startPeriodic rid n k c) = trace c"
  "trace (conn_client_http env rid path rq k n c) = trace c"
  "trace (conn_client_disconnect env rid c) = trace c"
  "trace (fst (conn_client_tcp env rid ip port rq k n c)) = trace c"
  "trace (fst (conn_client_http_tcp env rid ip port rq k n c)) = trace c"
  by (simp_all add: conn_service_defs
      accessor_setRequestProcessorQueue_def rc_setRequestProcessorQueue_def timer_of_responder_def
      Let_def split: option.split prod.split)

lemma count_read_prog:
  "count_list (trace (fst (run_prog env rid p c))) AsyncReadSome =
   count_list (trace c) AsyncReadSome"
  by (induction p arbitrary: c)
    (simp_all add: responder_send_http_def responder_send_fastcgi_def count_read_send case_prod_beta
      split: option.split)

lemma count_read_request:
  "count_list (trace (conn_processRequest env proc r x c)) AsyncReadSome =
   count_list (trace c) AsyncReadSome"
  by (simp add: conn_processRequest_eq conn_finish_def responder_send_http_def count_read_send
      count_read_prog case_prod_beta Let_def) (simp add: conn_begin_def)

lemma count_read_lib:
  "count_list (trace (run_lib env proc p c)) AsyncReadSome = count_list (trace c) AsyncReadSome"
  by (induction p arbitrary: c) (simp_all add: count_read_calls count_read_request)

text \<open>
  Reading goes on. Whatever data is received, and whatever the library and the request
  processors do with it, exactly one more read is asked for, as the last thing; after a failed
  read none is, and an error other than an abort closes the socket.
\<close>

theorem conn_read_rearms:
  "(\<exists>pre. trace (conn_onRead env proc receiveData None data c) = pre @ [AsyncReadSome]
      \<and> count_list pre AsyncReadSome = count_list (trace c) AsyncReadSome)
   \<and> trace (conn_onRead env proc receiveData (Some (OperationAborted m)) data c) = trace c
   \<and> closes (conn_onRead env proc receiveData (Some (OtherError m)) data c) = Suc (closes c)
   \<and> count_list (trace (conn_onRead env proc receiveData (Some (OtherError m)) data c)) AsyncReadSome
      = count_list (trace c) AsyncReadSome"
  by (simp add: conn_onRead_def conn_readData_def conn_process_def conn_onReadError_def
      count_read_lib) (simp add: conn_close_def Let_def split: option.split)

definition close_report :: "asio_env \<Rightarrow> action list \<Rightarrow> action list" where
  "close_report env before =
     (case closeError env (before @ [Shutdown, Close]) of
        Some msg \<Rightarrow> [Report SocketCloseError msg] | None \<Rightarrow> [])"

lemma conn_close_trace:
  "trace (conn_close env c) = trace c @ [Shutdown, Close] @ close_report env (trace c)"
  "bytesToWrite (conn_close env c) = bytesToWrite c"
  by (simp_all add: conn_close_def close_report_def Let_def split: option.split)

lemma conn_close_library:
  fixes c :: "('l, 'r, 'x, 'f, 'h, 'k) connection"
  shows "cn_library (conn_close env c) = cn_library c"
  by (simp add: conn_close_def emit_def Let_def split: option.split)

text \<open>
  From a request to the reply on the wire. On an idle connection, data that completes a
  request makes the library hand it over; the processor's response, encoded by the library, is the
  one write that starts, the connection reads on, and when the write has completed and the library
  had asked to disconnect, the socket is closed.
\<close>

lemma conn_serves_request:
  assumes "bytesToWrite c = 0" and "nextWriteBuffer c = []" and "\<not> disconnectRequested c"
    and "xr_isValid (ve_response env) x" and "0 < length packet" and "length packet < size_max"
    and "invoke_processor proc r = PSendHttp w PDone"
    and "xr_send (ve_response env) (xr_setErrorMsg (ve_response env) []
        (xr_setData (ve_response env) (ve_cgi env w) x)) (cn_library c)
      = (x', l', [CallSendData packet, CallDisconnect])"
    and "receiveData data = LRequest r x LDone"
    and "c1 = conn_onRead env proc receiveData None data c"
    and "c2 = conn_onWriteComplete (ve_asio env) None (size_of packet) c1"
  shows "trace c1 = trace c @ [AsyncWrite packet, AsyncReadSome]
    \<and> cn_library c1 = l' \<and> disconnectRequested c1
    \<and> trace c2 = trace c1 @ [Shutdown, Close] @ close_report (ve_asio env) (trace c1)
    \<and> cn_library c2 = l' \<and> bytesToWrite c2 = 0"
proof -
  have n: "size_of packet \<noteq> 0"
    using assms(5,6) by (simp add: size_of_eq_0_iff)
  define b where "b = conn_begin r x c"
  have b: "bytesToWrite b = 0" "nextWriteBuffer b = []" "trace b = trace c" "cn_library b = cn_library c"
    "cn_sender b = Some (rs_new x)"
    using assms(1,2) by (simp_all add: b_def conn_begin_def)
  define c0 where "c0 = conn_send env (ve_cgi env w) [] b"
  have send: "rs_send_error (ve_response env) (ve_cgi env w) [] (rs_new x) (cn_library c)
      = (\<lparr>rs_response = x'\<rparr>, l', [CallSendData packet, CallDisconnect], [(ve_cgi env w, [])])"
    using assms(4,8) by (simp add: rs_send_error_def rs_new_def)
  have c0: "trace c0 = trace c @ [AsyncWrite packet]" "bytesToWrite c0 = size_of packet"
    "nextWriteBuffer c0 = []" "disconnectRequested c0" "cn_library c0 = l'"
    using b n send assms(3)
    by (simp_all add: c0_def conn_send_def Let_def conn_calls_def conn_sendData_def
        conn_disconnect_def word_gt_0 emit_def)
  have c1: "c1 = emit AsyncReadSome c0"
    using assms(7,9,10) unfolding c0_def b_def
    by (simp add: conn_onRead_def conn_readData_def conn_process_def conn_processRequest_eq
        conn_finish_def responder_send_http_def)
  have c2: "c2 = conn_close (ve_asio env) (c1\<lparr>bytesToWrite := 0\<rparr>)"
    using c0 assms(11) by (simp add: c1 conn_onWriteComplete_def conn_onBytesWritten_def)
  show ?thesis
    using c0 by (simp add: c1 c2 conn_fields conn_close_trace conn_close_library)
qed

section \<open>The queue of a request that is over\<close>

lemma conn_send_services:
  "cn_timers (conn_send env d e c) = cn_timers c" "cn_client (conn_send env d e c) = cn_client c"
  "cn_context (conn_send env d e c) = cn_context c"
  by (simp_all add: conn_send_def conn_fields Let_def split: option.split prod.split)

lemma conn_returning_services:
  "cn_timers (conn_processRequest env (Returning f) r x c) = cn_timers c"
  "cn_client (conn_processRequest env (Returning f) r x c) = cn_client c"
  "cn_context (conn_processRequest env (Returning f) r x c) =
     Some \<lparr>rc_id = cn_nextContext c, rc_queue = None\<rparr>"
  by (cases "f r"; simp add: conn_processRequest_eq conn_finish_def responder_send_http_def
      responder_send_fastcgi_def conn_fields conn_send_services; simp add: conn_begin_def)+


definition demo_routed :: "(unit, string, bool \<times> string \<times> string, unit, unit, nat) connection" where
  "demo_routed = conn_processRequest demo_env
     (Handler (\<lambda>r. PMakeQueue (\<lambda>q. PSetQueue q (PTimer 10 7 PDone)))) ''a'' (True, [], []) demo_connection"


end
