(* ===== verification/Client_Properties.thy ===== *)
theory Client_Properties
  imports Client_Service "HOL-Library.Multiset"
begin

text \<open>
  Properties of the client service: the invariant of its slots and timers, and what happens to a
  request on its way: connected, answered, refused, timed out, disconnected.
\<close>

section \<open>Invariant\<close>

definition cs_slots :: "('q, 'f, 'h, 'k) client_service \<Rightarrow> ('f, 'k) client_slot list" where
  "cs_slots s = cs_local s @ cs_tcp s @ cs_dead s"

definition cs_closures :: "('q, 'f, 'h, 'k) client_service \<Rightarrow> 'k request_closure option list" where
  "cs_closures s = map slot_closure (cs_slots s)"

definition cs_ids :: "('q, 'f, 'h, 'k) client_service \<Rightarrow> nat list" where
  "cs_ids s = map slot_id (cs_slots s)"

text \<open>The timers of a client are never attached to a queue.\<close>

definition timer_idle :: "('q, 'cb) timer_service \<Rightarrow> bool" where
  "timer_idle t \<longleftrightarrow> ts_queue t = None \<and> ts_qops t = []"

definition closure_ok :: "nat \<Rightarrow> 'k request_closure option \<Rightarrow> bool" where
  "closure_ok n c = (case c of Some cl \<Rightarrow> rq_timer cl < n | None \<Rightarrow> True)"

lemma closure_ok_simps [simp]:
  "closure_ok n None" "closure_ok n (Some cl) \<longleftrightarrow> rq_timer cl < n"
  "closure_ok n c \<Longrightarrow> closure_ok (Suc n) c"
  by (simp_all add: closure_ok_def split: option.splits)

definition cs_wf :: "('q, 'f, 'h, 'k) client_service \<Rightarrow> bool" where
  "cs_wf s \<longleftrightarrow> distinct (cs_ids s) \<and> list_all (\<lambda>i. i < cs_next s) (cs_ids s)
     \<and> list_all (closure_ok (length (tp_timers (cs_timers s)))) (cs_closures s)
     \<and> tp_queue (cs_timers s) = None
     \<and> list_all timer_idle (tp_timers (cs_timers s))
     \<and> (\<forall>i. cs_next s \<le> i \<longrightarrow> cs_cancel s i = None)"

lemma cs_wf_new [simp]: "cs_wf cs_new"
  by (simp add: cs_wf_def cs_new_def cs_ids_def cs_closures_def cs_slots_def tp_new_def)

lemma cs_wf_cong:
  assumes "cs_wf s" and "mset (cs_ids s') = mset (cs_ids s)" and "cs_next s' = cs_next s"
    and "set (cs_closures s') \<subseteq> set (cs_closures s)" and "cs_timers s' = cs_timers s"
    and "cs_cancel s' = cs_cancel s"
  shows "cs_wf s'"
  using assms unfolding cs_wf_def list_all_iff
  by (metis (no_types, lifting) mset_eq_imp_distinct_iff mset_eq_setD subsetD)

lemma timer_idle_ops [intro, simp]:
  "timer_idle (ts_new None)" "timer_idle t \<Longrightarrow> timer_idle (ts_start n c t)"
  "timer_idle t \<Longrightarrow> timer_idle (ts_stop t)" "timer_idle t \<Longrightarrow> timer_idle (ts_emit (RunTask c) t)"
  by (simp_all add: timer_idle_def ts_start_def ts_stop_def) (simp_all add: ts_new_def ts_qops_def)

lemma list_all_update:
  "list_all P xs \<Longrightarrow> (\<And>x. P x \<Longrightarrow> P (f x)) \<Longrightarrow> list_all P (xs[i := f (xs ! i)])"
  by (cases "i < length xs") (auto simp: list_all_length nth_list_update)

lemma cs_wf_timers:
  assumes "cs_wf s" and "\<And>t. timer_idle t \<Longrightarrow> timer_idle (f t)"
  shows "cs_wf (s\<lparr>cs_timers := tp_update i f (cs_timers s)\<rparr>)"
  using assms list_all_update[of timer_idle "tp_timers (cs_timers s)" f i]
  by (simp add: cs_wf_def cs_ids_def cs_closures_def cs_slots_def tp_update_def)

lemma cs_wf_emit [simp]: "cs_wf (cs_emit a s) \<longleftrightarrow> cs_wf s"
  by (simp add: cs_wf_def cs_ids_def cs_closures_def cs_slots_def)

lemma cs_wf_cancel: "cs_wf s \<Longrightarrow> i < cs_next s \<Longrightarrow> cs_wf (s\<lparr>cs_cancel := (cs_cancel s)(i := h)\<rparr>)"
  by (simp add: cs_wf_def cs_ids_def cs_closures_def cs_slots_def)

lemma cs_wf_slot_below:
  fixes s :: "('q, 'f, 'h, 'k) client_service"
  assumes "cs_wf s" and "cs_slot i s = Some slot"
  shows "i < cs_next s"
proof -
  have "find P xs = Some x \<Longrightarrow> x \<in> set xs \<and> P x" for P :: "('f, 'k) client_slot \<Rightarrow> bool" and xs x
    by (induction xs) (auto split: if_splits)
  from this[OF assms(2)[unfolded cs_slot_def]] assms(1) show ?thesis
    by (auto simp: cs_wf_def cs_ids_def cs_slots_def list_all_iff)
qed

lemma cs_wf_queue_ops [simp]:
  "cs_wf (cs_queue_stop s) \<longleftrightarrow> cs_wf s" "cs_wf (cs_queue_launch s) \<longleftrightarrow> cs_wf s"
  by (simp_all add: cs_queue_stop_def cs_queue_launch_def split: option.split)

lemma cs_wf_timer_stop [inv_intros]: "cs_wf s \<Longrightarrow> cs_wf (cs_timer_stop i s)"
  unfolding cs_timer_stop_def by (rule cs_wf_timers) auto

lemma cs_wf_onResponse [inv_intros]: "cs_wf s \<Longrightarrow> cs_wf (cs_onResponse cl r s)"
  by (cases r) (simp_all add: cs_onResponse_def cs_onFastcgiResponse_def cs_onHttpResponse_def
      Let_def cs_wf_timer_stop)

lemma cs_wf_responses [inv_intros]: "cs_wf s \<Longrightarrow> cs_wf (fold (cs_onResponse cl) rs s)"
  by (induction rs arbitrary: s) (simp_all add: cs_wf_onResponse)

lemma cs_wf_set_conn [simp]:
  fixes s :: "('q, 'f, 'h, 'k) client_service"
  shows "cs_wf (cs_set_conn i c s) \<longleftrightarrow> cs_wf s"
proof -
  have "map slot_id (map (\<lambda>slot. if slot_id slot = i then slot\<lparr>slot_conn := c\<rparr> else slot) xs)
      = map slot_id xs"
    "map slot_closure (map (\<lambda>slot. if slot_id slot = i then slot\<lparr>slot_conn := c\<rparr> else slot) xs)
      = map slot_closure xs" for xs :: "('f, 'k) client_slot list"
    by (induction xs) simp_all
  then have "cs_ids (cs_set_conn i c s) = cs_ids s" "cs_closures (cs_set_conn i c s) = cs_closures s"
    by (simp_all add: cs_ids_def cs_closures_def cs_slots_def cs_set_conn_def del: map_map)
  then show ?thesis by (simp add: cs_wf_def)
qed

lemma cs_wf_connected:
  assumes "cs_wf s" and "cs_slot i s = Some slot"
  shows "cs_wf ((cs_set_conn i c s)\<lparr>cs_cancel := (cs_cancel s)(i := h)\<rparr>)"
  using cs_wf_cancel[of "cs_set_conn i c s" i h] cs_wf_slot_below[OF assms] assms(1) by simp

lemma cs_wf_fresh: "cs_wf s \<Longrightarrow> cs_cancel s (cs_next s) = None"
  by (simp add: cs_wf_def)

text \<open>Arming a request's timer and adding its slot.\<close>

lemma cs_wf_arm:
  assumes "cs_wf s"
  shows "cs_wf (fst (cs_arm t s))"
    and "length (tp_timers (cs_timers (fst (cs_arm t s)))) = Suc (length (tp_timers (cs_timers s)))"
proof -
  have "list_all timer_idle (tp_timers (cs_timers s))"
    using assms by (simp add: cs_wf_def)
  then have "list_all timer_idle (tp_timers (cs_timers (fst (cs_arm t s))))"
    using assms list_all_update[of timer_idle "tp_timers (cs_timers s) @ [ts_new None]"
        "ts_start t (cs_next s)" "length (tp_timers (cs_timers s))"]
    by (simp add: cs_wf_def tp_update_def emplaceTimer_def)
  then show "cs_wf (fst (cs_arm t s))"
    using assms
    by (auto simp: cs_wf_def cs_ids_def cs_closures_def cs_slots_def list_all_iff)
  show "length (tp_timers (cs_timers (fst (cs_arm t s)))) = Suc (length (tp_timers (cs_timers s)))"
    by simp
qed

lemma cs_wf_add:
  assumes "cs_wf s" and "mset (cs_ids s') = mset (cs_next s # cs_ids s)"
    and "cs_next s' = Suc (cs_next s)" and "cs_timers s' = cs_timers s"
    and "set (cs_closures s') \<subseteq> insert c (set (cs_closures s))"
    and "closure_ok (length (tp_timers (cs_timers s))) c" and "cs_cancel s' = cs_cancel s"
  shows "cs_wf s'"
proof -
  have "distinct (cs_next s # cs_ids s)"
    using assms(1) by (auto simp: cs_wf_def list_all_iff)
  then have "distinct (cs_ids s')"
    using assms(2) mset_eq_imp_distinct_iff by blast
  moreover have "set (cs_ids s') = insert (cs_next s) (set (cs_ids s))"
    using mset_eq_setD[OF assms(2)] by simp
  ultimately show ?thesis
    using assms(1,3-7) by (auto simp: cs_wf_def list_all_iff less_Suc_eq)
qed

lemma cs_wf_add_local:
  assumes "cs_wf s" and "closure_ok (length (tp_timers (cs_timers s))) (slot_closure slot)"
    and "slot_id slot = cs_next s"
  shows "cs_wf (s\<lparr>cs_local := cs_local s @ [slot], cs_next := Suc (cs_next s)\<rparr>)"
    and "cs_wf (s\<lparr>cs_tcp := cs_tcp s @ [slot], cs_next := Suc (cs_next s)\<rparr>)"
  by (rule cs_wf_add[OF assms(1) _ _ _ _ assms(2)];
      simp add: cs_ids_def cs_closures_def cs_slots_def assms(3); fail)+

lemma cs_wf_makeRequest_local [inv_intros]: "cs_wf s \<Longrightarrow> cs_wf (cs_makeRequest_local f0 p rq k t s)"
  unfolding cs_makeRequest_local_def Let_def case_prod_beta
  by (rule cs_wf_add_local) (auto simp: cs_wf_arm cs_closure_def)

lemma cs_wf_makeHttpRequest_local [inv_intros]: "cs_wf s \<Longrightarrow> cs_wf (cs_makeHttpRequest_local tf f0 p w k t s)"
  unfolding cs_makeHttpRequest_local_def Let_def case_prod_beta
  by (rule cs_wf_add_local) (auto simp: cs_wf_arm cs_closure_def)

lemma cs_wf_emplace_tcp: "cs_wf s \<Longrightarrow> cs_wf (cs_emplace_tcp f0 s)"
  unfolding cs_emplace_tcp_def by (rule cs_wf_add_local) simp_all

lemma cs_wf_connect_tcp:
  assumes "cs_wf s" and "cs_tcp s \<noteq> []" and "rq_timer cl < length (tp_timers (cs_timers s))"
  shows "cs_wf (cs_connect_tcp ep cl s)"
proof -
  obtain xs x where "cs_tcp s = xs @ [x]"
    using assms(2) by (metis rev_exhaust)
  with assms show ?thesis
    by (auto simp: cs_connect_tcp_def cs_wf_def cs_ids_def cs_closures_def cs_slots_def list_all_iff)
qed

lemma cs_wf_tcp:
  assumes "cs_wf s"
  shows "cs_wf (cs_emplace_tcp f0 (fst (cs_arm t s)))"
    and "rq_timer cl = snd (cs_arm t s) \<Longrightarrow>
      cs_wf (cs_connect_tcp ep cl (cs_emplace_tcp f0 (fst (cs_arm t s))))"
  using assms cs_wf_emplace_tcp[OF cs_wf_arm(1)[OF assms, of t], of f0]
  by (auto intro!: cs_wf_connect_tcp) (simp_all add: cs_emplace_tcp_def)

lemma cs_wf_makeRequest_tcp [inv_intros]: "cs_wf s \<Longrightarrow> cs_wf (fst (cs_makeRequest_tcp me f0 ip port rq k t s))"
  using cs_wf_tcp(1)[of s f0 t] cs_wf_tcp(2)[of s _ t _ f0]
  by (simp add: cs_makeRequest_tcp_def cs_closure_def case_prod_beta Let_def split: sum.split)

lemma cs_wf_makeHttpRequest_tcp [inv_intros]:
  "cs_wf s \<Longrightarrow> cs_wf (fst (cs_makeHttpRequest_tcp tf me f0 ip port w k t s))"
  using cs_wf_tcp(1)[of s f0 t] cs_wf_tcp(2)[of s _ t _ f0]
  by (simp add: cs_makeHttpRequest_tcp_def cs_closure_def case_prod_beta Let_def split: sum.split)

lemma cs_wf_disconnect [inv_intros]: "cs_wf s \<Longrightarrow> cs_wf (cs_disconnect env s)"
  by (rule cs_wf_cong) (auto simp: cs_ids_def cs_closures_def cs_slots_def comp_def)

lemma cs_wf_dead [inv_intros]:
  assumes "cs_wf s"
  shows "cs_wf (cs_dead_onConnect i e s)" "cs_wf (cs_dead_onRead i e s)" "cs_wf (cs_dead_onWrite i s)"
  using assms by (simp_all add: cs_dead_onConnect_def cs_dead_onRead_def cs_dead_onWrite_def
      inv_intros split: option.split io_error.split)

lemma cs_wf_onTimeout [inv_intros]: "cs_wf s \<Longrightarrow> cs_wf (cs_onTimeout env api timer i s)"
  by (auto simp: cs_onTimeout_def cs_run_cancel_def Let_def
      intro!: cs_wf_timer_stop cs_wf_responses cs_wf_timers split: option.split prod.split)

lemma cs_wf_step: "cs_wf s \<Longrightarrow> cs_wf (cs_step ce ev s)"
proof (cases ev)
  case (EvConnect i e)
  assume "cs_wf s"
  with EvConnect show ?thesis
    by (auto simp: cs_onConnect_def Let_def cs_wf_dead intro!: cs_wf_responses intro: cs_wf_connected
        split: option.split prod.split)
next
  case (EvRead i e d)
  assume "cs_wf s"
  with EvRead show ?thesis
    by (auto simp: cs_onRead_def Let_def cs_wf_dead intro!: cs_wf_responses
        split: option.split prod.split)
next
  case (EvWrite i e n)
  assume "cs_wf s"
  with EvWrite show ?thesis
    by (auto simp: cs_onWrite_def cs_wf_dead split: option.split)
qed (simp_all add: inv_intros)

lemma cs_wf_run: "cs_wf s \<Longrightarrow> cs_wf (cs_run ce es s)"
  unfolding cs_run_def by (induction es arbitrary: s) (simp_all add: cs_wf_step)

section \<open>Finding a slot\<close>

lemma find_append_Some:
  "list_all (\<lambda>x. \<not> P x) xs \<Longrightarrow> P y \<Longrightarrow> find P (xs @ y # ys) = Some y"
  by (induction xs) auto

lemma find_None_all: "list_all (\<lambda>x. \<not> P x) xs \<Longrightarrow> find P xs = None"
  by (induction xs) auto

lemma find_distinct_id:
  "distinct (map slot_id xs) \<Longrightarrow> x \<in> set xs \<Longrightarrow> slot_id x = i \<Longrightarrow>
   find (\<lambda>slot. slot_id slot = i) xs = Some x"
  by (induction xs) (auto simp: rev_image_eqI)

lemma find_map_conn:
  "find (\<lambda>slot. slot_id slot = i)
     (map (\<lambda>slot. if slot_id slot = i then slot\<lparr>slot_conn := c\<rparr> else slot) xs) =
   map_option (\<lambda>slot. slot\<lparr>slot_conn := c\<rparr>) (find (\<lambda>slot. slot_id slot = i) xs)"
  by (induction xs) auto

lemma cs_slot_set_conn [simp]:
  "cs_slot i (cs_set_conn i c s) = map_option (\<lambda>slot. slot\<lparr>slot_conn := c\<rparr>) (cs_slot i s)"
  using find_map_conn[of i c "cs_local s @ cs_tcp s"]
  by (simp add: cs_slot_def cs_set_conn_def)

lemma cs_slot_upd [simp]:
  "cs_slot i (s\<lparr>cs_cancel := c\<rparr>) = cs_slot i s" "cs_slot i (s\<lparr>cs_timers := t\<rparr>) = cs_slot i s"
  "cs_slot i (fold (cs_onResponse cl) rs s) = cs_slot i s"
proof -
  have "cs_local (fold (cs_onResponse cl) rs s) = cs_local s
      \<and> cs_tcp (fold (cs_onResponse cl) rs s) = cs_tcp s"
    by (induction rs arbitrary: s) simp_all
  then show "cs_slot i (fold (cs_onResponse cl) rs s) = cs_slot i s"
    by (simp add: cs_slot_def)
qed (simp_all add: cs_slot_def)

lemma cs_wf_ids_below:
  assumes "cs_wf s"
  shows "list_all (\<lambda>slot. slot_id slot \<noteq> cs_next s) (cs_local s)"
    and "list_all (\<lambda>slot. slot_id slot \<noteq> cs_next s) (cs_tcp s)"
    and "list_all (\<lambda>slot. slot_id slot \<noteq> cs_next s) (cs_dead s)"
proof -
  have "\<forall>slot \<in> set (cs_slots s). slot_id slot < cs_next s"
    using assms by (simp add: cs_wf_def cs_ids_def list_all_iff)
  then have "\<forall>slot \<in> set (cs_slots s). slot_id slot \<noteq> cs_next s"
    using less_irrefl by metis
  then show "list_all (\<lambda>slot. slot_id slot \<noteq> cs_next s) (cs_local s)"
    "list_all (\<lambda>slot. slot_id slot \<noteq> cs_next s) (cs_tcp s)"
    "list_all (\<lambda>slot. slot_id slot \<noteq> cs_next s) (cs_dead s)"
    by (auto simp: cs_slots_def list_all_iff)
qed

text \<open>The slot and the timer of a request over a local socket, just made.\<close>

lemma cs_made_local:
  assumes "cs_wf s"
  shows "cs_slot (cs_next s) (cs_makeRequest_local f0 p rq k t s) = Some
      \<lparr>slot_id = cs_next s, slot_conn = cc_makeRequest p (new_client_connection f0),
       slot_closure = Some \<lparr>rq_timer = length (tp_timers (cs_timers s)), rq_handler = k,
         rq_http = False, rq_request = rq\<rparr>\<rparr>"
    and "cs_cancel (cs_makeRequest_local f0 p rq k t s) = cs_cancel s"
    and "cs_timers (cs_makeRequest_local f0 p rq k t s) = cs_timers (fst (cs_arm t s))"
  using cs_wf_ids_below[OF assms]
  by (simp_all add: cs_slot_def cs_makeRequest_local_def cs_closure_def Let_def case_prod_beta
      find_append_Some)

lemma cs_made_http_local:
  assumes "cs_wf s"
  shows "cs_slot (cs_next s) (cs_makeHttpRequest_local tf f0 p w k t s) = Some
      \<lparr>slot_id = cs_next s, slot_conn = cc_makeRequest p (new_client_connection f0),
       slot_closure = Some \<lparr>rq_timer = length (tp_timers (cs_timers s)), rq_handler = k,
         rq_http = True, rq_request = tf w\<rparr>\<rparr>"
    and "cs_cancel (cs_makeHttpRequest_local tf f0 p w k t s) = cs_cancel s"
  using cs_wf_ids_below[OF assms]
  by (simp_all add: cs_slot_def cs_makeHttpRequest_local_def cs_closure_def Let_def case_prod_beta
      find_append_Some)

lemma cs_armed_wait:
  "waits (tp_timers (cs_timers (fst (cs_arm t s))) ! length (tp_timers (cs_timers s)))
     = [OnceHandler (cs_next s)]"
  by simp

lemma cs_responses_timers:
  assumes "rq_timer cl < length (tp_timers (cs_timers s))"
  shows "waits (tp_timers (cs_timers (fold (cs_onResponse cl) rs s)) ! rq_timer cl) =
    (if rs = [] then waits (tp_timers (cs_timers s) ! rq_timer cl) else [])"
  using assms
proof (induction rs arbitrary: s)
  case (Cons r rs)
  then show ?case using Cons.IH[of "cs_onResponse cl r s"] by simp
qed simp

fun responses_of :: "client_call list \<Rightarrow> response_data option list" where
  "responses_of [] = []"
| "responses_of (Respond r # xs) = r # responses_of xs"
| "responses_of (_ # xs) = responses_of xs"

lemma client_calls_responses [simp]: "snd (cc_client_calls env calls c) = responses_of calls"
  by (induction env calls c rule: cc_client_calls.induct) (simp_all add: case_prod_beta)

lemma cc_calls_requester [simp]:
  fixes c :: "'f client_connection"
  shows "requester (cc_calls env calls c) = requester c"
proof -
  have s: "requester (cc_sendData d c) = requester c" for d and c :: "'f client_connection"
    by (simp add: cc_sendData_def emit_def Let_def)
  have d: "requester (cc_disconnect env c) = requester c" for c :: "'f client_connection"
    by (simp add: cc_disconnect_def cc_close_def emit_def Let_def split: option.split)
  have x: "requester (cc_call env x c) = requester c" for x and c :: "'f client_connection"
    by (cases x) (simp_all add: s d)
  show ?thesis
    unfolding cc_calls_def by (induction calls arbitrary: c) (simp_all add: x)
qed

lemma cc_requester_simps [simp]:
  fixes c :: "'f client_connection"
  shows "requester (cc_processReading env c) = requester c"
    "requester (cc_makeRequest p c) = requester c" "requester (new_client_connection f0) = f0"
  by (simp_all add: cc_processReading_def cc_makeRequest_def new_client_connection_def emit_def)

lemma cc_onConnect_fails:
  assumes "ec = None \<Longrightarrow>
    snd (snd (api_sendRequest api (requester c) (params rq) (stdIn rq))) = None"
  obtains c' where "cc_onConnect env api rq ec c = (c', None, [None])"
  using assms by (cases ec) (auto simp: cc_onConnect_def Let_def case_prod_beta)

section \<open>A concrete requester\<close>

text \<open>It sends the body of the request, answers with what it receives, and nothing when cancelled.\<close>

definition demo_requester :: "(unit, unit) requester_api" where
  "demo_requester = \<lparr>
     api_sendRequest = (\<lambda>f ps body. ((), [CallSendData body], Some ())),
     api_receiveData = (\<lambda>f data. ((), [Respond (Some \<lparr>rd_data = data, rd_errorMsg = []\<rparr>)])),
     api_cancelRequest = (\<lambda>f h. ((), [Respond None]))\<rparr>"

definition demo_asio :: asio_env where
  "demo_asio = \<lparr>closeError = (\<lambda>_. None), isOpen = (\<lambda>_. True)\<rparr>"

definition demo_client_env :: "(unit, unit, unit) client_env" where
  "demo_client_env = \<lparr>ce_toFcgiData = (\<lambda>_. \<lparr>params = Map.empty, stdIn = []\<rparr>),
     ce_make_endpoint = (\<lambda>a _. Inr a), ce_init = (), ce_asio = demo_asio, ce_api = demo_requester\<rparr>"

definition demo_client :: "(bool, unit, unit, nat) client_service" where
  "demo_client = cs_setRequestProcessorQueue True cs_new"

lemma demo_client_simps [simp]:
  "cs_wf demo_client" "cs_queue demo_client = Some True" "cs_next demo_client = 0"
  "cs_cancel demo_client = (\<lambda>_. None)" "tp_timers (cs_timers demo_client) = []"
  "cs_handled demo_client = []" "cs_qops demo_client = []" "cs_trace demo_client = []"
  "cs_local demo_client = []" "cs_tcp demo_client = []"
  by (simp_all add: demo_client_def cs_setRequestProcessorQueue_def cs_new_def tp_new_def
      cs_wf_def cs_ids_def cs_closures_def cs_slots_def cs_handled_def cs_qops_def)

section \<open>Properties\<close>



text \<open>
  C20. A request over a local socket, answered. The timeout's timer waits until an answer arrives;
  connecting stores the handle that cancels the request and gives the handler nothing; received
  data gives the handler exactly the responses the requester found in it, resumes the queue once
  for each, and the first of them disarms the timeout.
\<close>

theorem client_request_answered:
  assumes "cs_wf s" and "cs_queue s = Some q" and "i = cs_next s"
    and "timer = length (tp_timers (cs_timers s))"
    and "api_sendRequest api f0 (params rq) (stdIn rq) = (f1, calls, Some h)"
    and "s1 = cs_onConnect env api i None (cs_makeRequest_local f0 path rq k t s)"
    and "s2 = cs_onRead env api i None data s1"
    and "rs = responses_of (snd (api_receiveData api f1 data))"
  shows "cs_cancel s1 i = Some h \<and> cs_handled s1 = cs_handled s
    \<and> waits (tp_timers (cs_timers s1) ! timer) = [OnceHandler i]
    \<and> cs_handled s2 = cs_handled s @ map (\<lambda>r. (k, result_of False r)) rs
    \<and> cs_qops s2 = cs_qops s @ [Stop] @ replicate (length rs) Launch
    \<and> waits (tp_timers (cs_timers s2) ! timer) = (if rs = [] then [OnceHandler i] else [])"
proof -
  define cl where "cl = \<lparr>rq_timer = timer, rq_handler = k, rq_http = False, rq_request = rq\<rparr>"
  obtain conn1 where s1: "s1 = (cs_set_conn i conn1 (cs_makeRequest_local f0 path rq k t s))
        \<lparr>cs_cancel := (cs_cancel s)(i := Some h)\<rparr>"
    and conn1: "requester conn1 = f1"
    and slot1: "cs_slot i s1 = Some \<lparr>slot_id = i, slot_conn = conn1, slot_closure = Some cl\<rparr>"
    using assms(3-6) cs_made_local[OF assms(1), of f0 path rq k t]
    by (simp add: cs_onConnect_def cc_onConnect_def cl_def Let_def)
  obtain conn2 where s2: "s2 = fold (cs_onResponse cl) rs (cs_set_conn i conn2 s1)"
    using assms(7,8) slot1 conn1
    by (auto simp: cs_onRead_def cc_onRead_def cc_readData_def cc_receiveData_def Let_def case_prod_beta)
  have waits1: "waits (tp_timers (cs_timers s1) ! timer) = [OnceHandler i]"
    and len1: "timer < length (tp_timers (cs_timers s1))"
    using s1 cs_made_local(3)[OF assms(1)] assms(3,4) by simp_all
  show ?thesis
    using s1 s2 assms(2) waits1 len1 cs_responses_timers[of cl "cs_set_conn i conn2 s1" rs]
    by (simp add: cl_def)
qed

theorem client_request_answered_witness:
  "cs_handled (cs_onRead demo_asio demo_requester 0 None ''hi''
      (cs_onConnect demo_asio demo_requester 0 None
        (cs_makeRequest_local () ''/tmp/s'' \<lparr>params = Map.empty, stdIn = ''q''\<rparr> (7::nat) 3000
          demo_client))) = [(7, FastcgiResult ''hi'' [])]"
  using client_request_answered[of demo_client True 0 0
      demo_requester "()" "\<lparr>params = Map.empty, stdIn = ''q''\<rparr>" "()" "[CallSendData ''q'']" "()"
      _ demo_asio "''/tmp/s''" "7::nat" 3000 _ "''hi''" _, OF _ _ _ _ _ refl refl refl]
  by (simp add: demo_requester_def result_of_def)

text \<open>
  A request that cannot be made. When connecting fails, or the requester does not take the
  request, the handler is called once, with no response, the queue is resumed and the timeout is
  disarmed.
\<close>

lemma client_connect_failure:
  assumes "cs_wf s" and "cs_queue s = Some q"
    and "error_code = None \<Longrightarrow> snd (snd (api_sendRequest api f0 (params rq) (stdIn rq))) = None"
    and "s1 = cs_onConnect env api (cs_next s) error_code (cs_makeRequest_local f0 path rq k t s)"
  shows "cs_handled s1 = cs_handled s @ [(k, NoResult)]
    \<and> cs_qops s1 = cs_qops s @ [Stop, Launch]
    \<and> waits (tp_timers (cs_timers s1) ! length (tp_timers (cs_timers s))) = []
    \<and> cs_cancel s1 = cs_cancel s"
proof -
  define cl where "cl = \<lparr>rq_timer = length (tp_timers (cs_timers s)), rq_handler = k,
    rq_http = False, rq_request = rq\<rparr>"
  have "error_code = None \<Longrightarrow> snd (snd (api_sendRequest api
      (requester (cc_makeRequest path (new_client_connection f0))) (params rq) (stdIn rq))) = None"
    using assms(3) by simp
  then obtain conn1 where "cc_onConnect env api rq error_code
      (cc_makeRequest path (new_client_connection f0)) = (conn1, None, [None])"
    by (rule cc_onConnect_fails)
  then have "s1 = cs_onResponse cl None
      (cs_set_conn (cs_next s) conn1 (cs_makeRequest_local f0 path rq k t s))"
    using assms(4) cs_made_local(1)[OF assms(1), of f0 path rq k t]
    by (simp add: cs_onConnect_def cl_def)
  then show ?thesis
    using assms(2) cs_made_local(2,3)[OF assms(1), of f0 path rq k t]
    by (simp add: cl_def result_of_def)
qed

text \<open>
  C31. A timeout that expires before the connection is made has no effect on the request: no
  handler is called, nothing is cancelled, the request's queue stays suspended and the timer is
  spent, so the request has no time limit left.
\<close>

theorem client_timeout_before_connect:
  assumes "cs_wf s" and "cs_queue s = Some q"
    and "s1 = cs_makeRequest_local f0 path rq k t s" and "timer = length (tp_timers (cs_timers s))"
    and "s2 = cs_onTimeout env api timer (cs_next s) s1"
  shows "cs_handled s2 = cs_handled s \<and> cs_trace s2 = cs_trace s1
    \<and> cs_qops s2 = cs_qops s @ [Stop]
    \<and> waits (tp_timers (cs_timers s1) ! timer) = [OnceHandler (cs_next s)]
    \<and> waits (tp_timers (cs_timers s2) ! timer) = []"
  using assms cs_made_local(2,3)[OF assms(1), of f0 path rq k t]
  by (simp add: cs_onTimeout_def cs_run_cancel_def cs_wf_fresh Let_def)

theorem client_timeout_before_connect_witness:
  "cs_qops (cs_onTimeout demo_asio demo_requester 0 0
      (cs_makeRequest_local () ''/tmp/s'' \<lparr>params = Map.empty, stdIn = []\<rparr> (7::nat) 3000
          demo_client)) = [Stop]"
  using client_timeout_before_connect[of demo_client True
      _ "()" "''/tmp/s''" "\<lparr>params = Map.empty, stdIn = []\<rparr>" "7::nat" 3000 0
      _ demo_asio demo_requester, OF _ _ refl _ refl]
  by simp

text \<open>
  C30. \<open>disconnect\<close>. Every connection over a local socket is destroyed, its socket closed; the
  connections over TCP stay as they are. A connection that was still being made then gets its one
  call of the handler, with no response; one whose write was aborted by the destruction uses the
  destroyed connection to report it.
\<close>

theorem client_disconnect_effect:
  assumes "cs_wf s" and "slot \<in> set (cs_local s)" and "slot_closure slot = Some cl"
    and "s1 = cs_disconnect env s" and "i = slot_id slot"
  shows "cs_local s1 = [] \<and> cs_tcp s1 = cs_tcp s \<and> cs_handled s1 = cs_handled s
    \<and> CDestroyed i \<in> set (cs_trace s1)
    \<and> cs_handled (cs_onConnect env' api i (Some e) s1) =
        cs_handled s @ [(rq_handler cl, NoResult)]
    \<and> cs_trace (cs_onRead env' api i (Some (OperationAborted m)) d s1) = cs_trace s1
    \<and> cs_trace (cs_onWrite env' i (Some (OperationAborted m)) n s1) = cs_trace s1 @ [CUseAfterFree i]"
proof -
  have gone: "cs_slot i s1 = None"
    using assms unfolding cs_slot_def
    by (auto simp: find_None_iff cs_wf_def cs_ids_def cs_slots_def)
  define dead where "dead = slot\<lparr>slot_conn := cc_destroy env (slot_conn slot)\<rparr>"
  have mem: "dead \<in> set (cs_dead s1)" "slot_id dead = i"
    using assms(2,4,5) by (auto simp: dead_def)
  have "distinct (map slot_id (cs_dead s1))"
    using cs_wf_disconnect[OF assms(1), of env] assms(4) by (simp add: cs_wf_def cs_ids_def cs_slots_def)
  then have dead: "cs_dead_slot i s1 = Some dead"
    unfolding cs_dead_slot_def using mem find_distinct_id by blast
  show ?thesis
    using assms gone dead
    by (auto simp: cs_onConnect_def cs_onRead_def cs_onWrite_def cs_dead_onConnect_def
        cs_dead_onRead_def cs_dead_onWrite_def dead_def result_of_def)
qed

definition demo_pending :: "(bool, unit, unit, nat) client_service" where
  "demo_pending = cs_makeRequest_local () ''/tmp/s'' \<lparr>params = Map.empty, stdIn = []\<rparr> 7 3000 demo_client"

definition demo_slot :: "(unit, nat) client_slot" where
  "demo_slot = \<lparr>slot_id = 0, slot_conn = cc_makeRequest ''/tmp/s'' (new_client_connection ()),
     slot_closure = Some \<lparr>rq_timer = 0, rq_handler = 7, rq_http = False,
       rq_request = \<lparr>params = Map.empty, stdIn = []\<rparr>\<rparr>\<rparr>"

lemma demo_pending_simps:
  "cs_wf demo_pending" "cs_local demo_pending = [demo_slot]" "cs_handled demo_pending = []"
  by (simp_all add: demo_pending_def cs_wf_makeRequest_local)
    (simp add: cs_makeRequest_local_def case_prod_beta demo_slot_def cs_closure_def)

theorem client_disconnect_effect_witness:
  "cs_handled (cs_onConnect demo_asio demo_requester 0 (Some (OperationAborted ''aborted''))
      (cs_disconnect demo_asio demo_pending)) = [(7, NoResult)]
   \<and> cs_trace (cs_onWrite demo_asio 0 (Some (OperationAborted ''aborted'')) 0
      (cs_disconnect demo_asio demo_pending))
     = cs_trace (cs_disconnect demo_asio demo_pending) @ [CUseAfterFree 0]"
  using client_disconnect_effect[of demo_pending demo_slot
      "the (slot_closure demo_slot)" "cs_disconnect demo_asio demo_pending" demo_asio 0
      demo_asio demo_requester "OperationAborted ''aborted''" "''aborted''" _ 0]
  by (simp add: demo_pending_simps) (simp add: demo_slot_def)

text \<open>
  A TCP request with an address that does not parse. The exception reaches the caller when
  the queue is already suspended, the timeout is running and a connection without a request is
  stored; no event the client can receive for that connection, its timer included, calls a handler
  or resumes the queue.
\<close>

lemma client_tcp_bad_address:
  assumes "cs_wf s" and "cs_queue s = Some q"
    and "make_endpoint (sv_c_str ipAddress) port = Inl e"
    and "cs_makeRequest_tcp make_endpoint f0 ipAddress port rq k t s = (s1, err)"
  shows "err = Some e \<and> cs_qops s1 = cs_qops s @ [Stop] \<and> cs_handled s1 = cs_handled s
    \<and> waits (tp_timers (cs_timers s1) ! length (tp_timers (cs_timers s))) = [OnceHandler (cs_next s)]
    \<and> length (cs_tcp s1) = Suc (length (cs_tcp s))
    \<and> cs_onConnect env api (cs_next s) ec s1 = s1
    \<and> cs_onRead env api (cs_next s) er d s1 = s1
    \<and> cs_qops (cs_onTimeout env api (length (tp_timers (cs_timers s))) (cs_next s) s1) = cs_qops s1
    \<and> cs_handled (cs_onTimeout env api (length (tp_timers (cs_timers s))) (cs_next s) s1)
        = cs_handled s1"
proof -
  have s1: "s1 = cs_emplace_tcp f0 (fst (cs_arm t s))" and err: "err = Some e"
    using assms(3,4) by (simp_all add: cs_makeRequest_tcp_def case_prod_beta)
  have slot: "cs_slot (cs_next s) s1 = Some
      \<lparr>slot_id = cs_next s, slot_conn = new_client_connection f0, slot_closure = None\<rparr>"
    using cs_wf_ids_below[OF assms(1)] find_append_Some[of
        "\<lambda>slot. slot_id slot = cs_next s" "cs_local s @ cs_tcp s"]
    by (simp add: s1 cs_slot_def cs_emplace_tcp_def)
  have cancel: "cs_cancel s1 = cs_cancel s"
    by (simp add: s1 cs_emplace_tcp_def)
  show ?thesis
    using assms(2) cs_wf_fresh[OF assms(1)] slot cancel
    by (simp add: err s1 cs_onConnect_def cs_onRead_def cs_onTimeout_def cs_run_cancel_def Let_def)
      (simp add: cs_emplace_tcp_def)
qed

text \<open>
  The two TCP overloads of \<open>makeRequest\<close> connect a view to different addresses. The HTTP one
  parses the view; the FastCGI one parses the memory the view points into up to its first zero
  character, which goes past the view whenever that memory does.
\<close>

lemma client_tcp_endpoints:
  assumes "CHR 0x00 \<notin> set (a @ rest)"
    and "v = \<lparr>sv_mem = a @ rest @ [CHR 0x00], sv_len = length a\<rparr>"
    and "make_endpoint a port = Inr ep" and "make_endpoint (a @ rest) port = Inr ep'"
    and "s1 = fst (cs_makeRequest_tcp make_endpoint f0 v port rq k t s)"
    and "s2 = fst (cs_makeHttpRequest_tcp tf make_endpoint f0 v port w k t s)"
  shows "trace (slot_conn (last (cs_tcp s1))) = [AsyncConnect ep']
    \<and> trace (slot_conn (last (cs_tcp s2))) = [AsyncConnect ep]"
proof -
  have "sv_c_str v = a @ rest" "sv_chars v = a"
    using assms(1,2) by (auto simp: sv_c_str_def sv_chars_def takeWhile_append)
  then show ?thesis
    using assms(3-6) by (simp add: cs_makeRequest_tcp_def cs_makeHttpRequest_tcp_def
        cs_connect_tcp_def cs_emplace_tcp_def cc_makeRequest_def new_client_connection_def emit_def
        case_prod_beta)
qed

end
