(* ===== verification/Client_Callbacks.thy ===== *)
theory Client_Callbacks
  imports Client_Properties
begin

text \<open>
  The points at which a client service calls the application. \<open>cs_step\<close> of \<open>Client_Service\<close> is an
  event with the calls of response handlers as entries of the trace. A handler runs on the stack of
  the event, after the timeout's timer was stopped and before the queue is resumed
  (\<^verbatim>\<open>src/clientservice.cpp\<close>), and may use the service. Here an event is split at these points: what
  happens before the first response is handed out (\<open>cs_prepare\<close>), what precedes and follows each
  handler, and what follows the last (\<open>cs_resume\<close>, \<open>cs_complete\<close>). The two descriptions agree when the handlers
  do nothing.
\<close>

section \<open>Around a response handler\<close>

definition cs_before_handler :: "'k request_closure \<Rightarrow> response_data option \<Rightarrow>
    ('q, 'f, 'h, 'k) client_service \<Rightarrow> ('q, 'f, 'h, 'k) client_service" where
  "cs_before_handler cl fcgiResponse s =
     (let s = cs_timer_stop (rq_timer cl) s;
          s = (case fcgiResponse of
                 Some r \<Rightarrow> if rd_errorMsg r \<noteq> []
                           then cs_emit (CReport RequestProcessingError (rd_errorMsg r)) s else s
               | None \<Rightarrow> s)
      in cs_emit (CHandler (rq_handler cl) (result_of (rq_http cl) fcgiResponse)) s)"

lemma cs_onResponse_split: "cs_onResponse cl r s = cs_queue_launch (cs_before_handler cl r s)"
  by (simp add: cs_onResponse_def cs_onFastcgiResponse_def cs_onHttpResponse_def
      cs_before_handler_def result_of_def Let_def split: option.split)

section \<open>Up to the first handler\<close>

type_synonym 'k responses = "('k request_closure \<times> response_data option) list"

definition slot_responses :: "('f, 'k) client_slot \<Rightarrow> response_data option list \<Rightarrow> 'k responses" where
  "slot_responses slot rs = (case slot_closure slot of Some cl \<Rightarrow> map (Pair cl) rs | None \<Rightarrow> [])"

definition cs_prepare_connect :: "asio_env \<Rightarrow> ('f, 'h) requester_api \<Rightarrow> nat \<Rightarrow> io_error option \<Rightarrow>
    ('q, 'f, 'h, 'k) client_service \<Rightarrow> ('q, 'f, 'h, 'k) client_service \<times> 'k responses" where
  "cs_prepare_connect env api i error_code s =
     (case cs_slot i s of
        Some slot \<Rightarrow>
          (case slot_closure slot of
             Some cl \<Rightarrow>
               (let (conn, h, rs) =
                      cc_onConnect env api (rq_request cl) error_code (slot_conn slot);
                    s = cs_set_conn i conn s;
                    s = (case h of Some h \<Rightarrow> s\<lparr>cs_cancel := (cs_cancel s)(i := Some h)\<rparr>
                         | None \<Rightarrow> s)
                in (s, map (Pair cl) rs))
           | None \<Rightarrow> (s, []))
      | None \<Rightarrow>
          (case cs_dead_slot i s of
             None \<Rightarrow> (s, [])
           | Some slot \<Rightarrow>
               (case error_code of
                  None \<Rightarrow> (cs_emit (CUseAfterFree i) s, [])
                | Some _ \<Rightarrow> (s, slot_responses slot [None]))))"

text \<open>Of a read that succeeded, \<open>receiveData\<close>; what \<open>readData\<close> does after it is in \<open>cs_resume\<close>.\<close>

definition cs_prepare_read :: "asio_env \<Rightarrow> ('f, 'h) requester_api \<Rightarrow> nat \<Rightarrow> io_error option \<Rightarrow> string \<Rightarrow>
    ('q, 'f, 'h, 'k) client_service \<Rightarrow> ('q, 'f, 'h, 'k) client_service \<times> 'k responses" where
  "cs_prepare_read env api i error data s =
     (case cs_slot i s of
        Some slot \<Rightarrow>
          (case slot_closure slot of
             Some cl \<Rightarrow>
               (let (conn, rs) = (case error of
                      None \<Rightarrow> cc_receiveData env api data (slot_conn slot)
                    | Some _ \<Rightarrow> cc_onRead env api error data (slot_conn slot))
                in (cs_set_conn i conn s, map (Pair cl) rs))
           | None \<Rightarrow> (s, []))
      | None \<Rightarrow> (cs_dead_onRead i error s, []))"

text \<open>The timeout's timer runs its task, the call of the request's cancellation.\<close>

definition cs_prepare_timeout :: "asio_env \<Rightarrow> ('f, 'h) requester_api \<Rightarrow> nat \<Rightarrow> nat \<Rightarrow>
    ('q, 'f, 'h, 'k) client_service \<Rightarrow> ('q, 'f, 'h, 'k) client_service \<times> 'k responses" where
  "cs_prepare_timeout env api timer i s =
     (let s = s\<lparr>cs_timers := tp_update timer (ts_emit (RunTask i)) (cs_timers s)\<rparr>
      in case cs_cancel s i of
           None \<Rightarrow> (s, [])
         | Some h \<Rightarrow>
             (case cs_slot i s of
                None \<Rightarrow> (cs_emit (CCancelOrphan i) s, [])
              | Some slot \<Rightarrow>
                  (let (conn, rs) = cc_cancelRequest env api h (slot_conn slot)
                   in (cs_set_conn i conn s, slot_responses slot rs))))"

fun cs_prepare :: "('w, 'f, 'h) client_env \<Rightarrow> ('w, 'k) client_event \<Rightarrow>
    ('q, 'f, 'h, 'k) client_service \<Rightarrow> ('q, 'f, 'h, 'k) client_service \<times> 'k responses" where
  "cs_prepare ce (EvConnect i e) s = cs_prepare_connect (ce_asio ce) (ce_api ce) i e s"
| "cs_prepare ce (EvRead i e d) s = cs_prepare_read (ce_asio ce) (ce_api ce) i e d s"
| "cs_prepare ce (EvTimeout timer i) s = cs_prepare_timeout (ce_asio ce) (ce_api ce) timer i s"
| "cs_prepare ce ev s = (cs_step ce ev s, [])"

text \<open>After the callback of the timeout its timer stops.\<close>

fun cs_complete :: "('w, 'k) client_event \<Rightarrow>
    ('q, 'f, 'h, 'k) client_service \<Rightarrow> ('q, 'f, 'h, 'k) client_service" where
  "cs_complete (EvTimeout timer i) s = cs_timer_stop timer s"
| "cs_complete ev s = s"

text \<open>
  The callback of a read goes on with the connection when the handlers have returned: \<open>readData\<close>
  asks for the next read. When a handler has destroyed the connection, this uses it after its end.
  The other callbacks do not touch the connection any more.
\<close>

fun cs_resume :: "asio_env \<Rightarrow> ('w, 'k) client_event \<Rightarrow> ('q, 'f, 'h, 'k) client_service \<Rightarrow>
    ('q, 'f, 'h, 'k) client_service \<Rightarrow> ('q, 'f, 'h, 'k) client_service" where
  "cs_resume env (EvRead i None data) before s =
     (case cs_slot i before of
        None \<Rightarrow> s
      | Some reading \<Rightarrow>
          if slot_closure reading = None then s
          else (case cs_slot i s of
                  Some slot \<Rightarrow> cs_set_conn i (cc_processReading env (slot_conn slot)) s
                | None \<Rightarrow> cs_emit (CUseAfterFree i) s))"
| "cs_resume env ev before s = s"

section \<open>Agreement\<close>

lemma fold_responses_map:
  "fold (\<lambda>(cl, r). cs_onResponse cl r) (map (Pair cl) rs) s = fold (cs_onResponse cl) rs s"
  by (induction rs arbitrary: s) simp_all

lemma cs_prepare_connect_step:
  "fold (\<lambda>(cl, r). cs_onResponse cl r) (snd (cs_prepare_connect env api i e s))
     (fst (cs_prepare_connect env api i e s)) = cs_onConnect env api i e s"
  by (simp add: cs_prepare_connect_def cs_onConnect_def cs_dead_onConnect_def slot_responses_def
      fold_responses_map case_prod_beta Let_def split: option.split)

lemma cs_set_conn_set_conn [simp]: "cs_set_conn i x (cs_set_conn i y s) = cs_set_conn i x s"
  by (simp add: cs_set_conn_def)

lemma cs_responses_set_conn:
  "fold (cs_onResponse cl) rs (cs_set_conn i x s) = cs_set_conn i x (fold (cs_onResponse cl) rs s)"
proof (induction rs arbitrary: s)
  case (Cons r rs)
  have "cs_onResponse cl r (cs_set_conn i x s) = cs_set_conn i x (cs_onResponse cl r s)"
    by (simp add: cs_set_conn_def cs_onResponse_split cs_before_handler_def cs_timer_stop_def
        cs_queue_launch_def cs_emit_def Let_def split: option.split)
  with Cons show ?case by simp
qed simp

lemma cs_response_set_conn:
  "cs_set_conn i x (cs_onResponse cl r (cs_set_conn i y s)) = cs_onResponse cl r (cs_set_conn i x s)"
  using cs_responses_set_conn[of cl "[r]" i x "cs_set_conn i y s"] by simp

lemma cs_prepare_read_step:
  "cs_resume env (EvRead i e d) (fst (cs_prepare_read env api i e d s))
     (fold (\<lambda>(cl, r). cs_onResponse cl r) (snd (cs_prepare_read env api i e d s))
       (fst (cs_prepare_read env api i e d s))) = cs_onRead env api i e d s"
proof (cases "cs_slot i s")
  case (Some slot)
  show ?thesis
  proof (cases e)
    case None
    with Some show ?thesis
      by (simp add: cs_prepare_read_def cs_onRead_def cc_onRead_def cc_readData_def
          fold_responses_map cs_responses_set_conn case_prod_beta Let_def split: option.split)
  qed (simp add: Some cs_prepare_read_def cs_onRead_def fold_responses_map case_prod_beta Let_def
      split: option.split)
next
  case None
  then show ?thesis
    by (cases e) (simp_all add: cs_prepare_read_def cs_onRead_def cs_dead_onRead_def cs_slot_def
        split: option.split)
qed

lemma cs_prepare_timeout_step:
  "cs_timer_stop timer (fold (\<lambda>(cl, r). cs_onResponse cl r)
     (snd (cs_prepare_timeout env api timer i s)) (fst (cs_prepare_timeout env api timer i s))) =
   cs_onTimeout env api timer i s"
  by (simp add: cs_prepare_timeout_def cs_onTimeout_def cs_run_cancel_def slot_responses_def
      fold_responses_map case_prod_beta Let_def split: option.split)

lemma cs_prepare_step:
  "cs_complete ev (cs_resume (ce_asio ce) ev (fst (cs_prepare ce ev s))
     (fold (\<lambda>(cl, r). cs_onResponse cl r) (snd (cs_prepare ce ev s))
       (fst (cs_prepare ce ev s)))) = cs_step ce ev s"
  by (cases ev) (simp_all add: cs_prepare_connect_step cs_prepare_read_step cs_prepare_timeout_step)

section \<open>What the pieces keep\<close>

text \<open>The queue a service refers to, and the well-formedness of its slots and timers.\<close>

definition cs_keeps :: "('q, 'f, 'h, 'k) client_service \<Rightarrow> ('q, 'f, 'h, 'k) client_service \<Rightarrow> bool" where
  "cs_keeps s s' \<longleftrightarrow> cs_queue s' = cs_queue s \<and> (cs_wf s \<longrightarrow> cs_wf s')"

lemma cs_keeps_refl [simp]: "cs_keeps s s"
  by (simp add: cs_keeps_def)

lemma cs_keeps_trans: "cs_keeps s s' \<Longrightarrow> cs_keeps s' s'' \<Longrightarrow> cs_keeps s s''"
  by (simp add: cs_keeps_def)

lemma cs_keeps_emit: "cs_keeps s (cs_emit a s)"
  by (simp add: cs_keeps_def)

lemma cs_keeps_launch: "cs_keeps s (cs_queue_launch s)"
  by (simp add: cs_keeps_def)

lemma cs_keeps_timer_stop: "cs_keeps s (cs_timer_stop i s)"
  by (simp add: cs_keeps_def cs_wf_timer_stop)

lemma cs_keeps_set_conn: "cs_keeps s (cs_set_conn i conn s)"
  by (simp add: cs_keeps_def)

lemma cs_keeps_before_handler: "cs_keeps s (cs_before_handler cl r s)"
  by (simp add: cs_keeps_def cs_before_handler_def cs_wf_timer_stop Let_def split: option.split)

lemma cs_destroys_queue: "cs_queue (fold (cs_destroy_slot env) slots s) = cs_queue s"
  by (induction slots arbitrary: s) (simp_all add: cs_destroy_slot_def)

lemma cs_disconnect_queue: "cs_queue (cs_disconnect env s) = cs_queue s"
  by (simp add: cs_disconnect_def cs_destroys_queue)

lemma cs_tcp_queue:
  "cs_queue (fst (cs_makeRequest_tcp me f0 ip port rq k t s)) = cs_queue s"
  "cs_queue (fst (cs_makeHttpRequest_tcp tf me f0 ip port w k t s)) = cs_queue s"
  by (simp_all add: cs_makeRequest_tcp_def cs_makeHttpRequest_tcp_def cs_emplace_tcp_def
      cs_connect_tcp_def Let_def case_prod_beta split: sum.split)

lemma cs_keeps_requests:
  "cs_keeps s (cs_makeRequest_local f0 p rq k t s)"
  "cs_keeps s (cs_makeHttpRequest_local tf f0 p w k t s)"
  "cs_keeps s (fst (cs_makeRequest_tcp me f0 ip port rq k t s))"
  "cs_keeps s (fst (cs_makeHttpRequest_tcp tf me f0 ip port w k t s))"
  "cs_keeps s (cs_disconnect env s)"
  by (simp_all add: cs_keeps_def cs_wf_makeRequest_local cs_wf_makeHttpRequest_local
      cs_wf_makeRequest_tcp cs_wf_makeHttpRequest_tcp cs_wf_disconnect cs_disconnect_queue
      cs_tcp_queue)

lemma cs_keeps_prepare_connect: "cs_keeps s (fst (cs_prepare_connect env api i e s))"
  by (auto simp: cs_prepare_connect_def cs_keeps_def Let_def case_prod_beta intro: cs_wf_connected
      split: option.split)

lemma cs_keeps_prepare_read: "cs_keeps s (fst (cs_prepare_read env api i e d s))"
  by (simp add: cs_prepare_read_def cs_dead_onRead_def cs_keeps_def case_prod_beta
      split: option.split io_error.split)

lemma cs_keeps_prepare_timeout: "cs_keeps s (fst (cs_prepare_timeout env api timer i s))"
proof -
  have "cs_wf s \<Longrightarrow> cs_wf (s\<lparr>cs_timers := tp_update timer (ts_emit (RunTask i)) (cs_timers s)\<rparr>)"
    by (rule cs_wf_timers) auto
  then show ?thesis
    by (simp add: cs_prepare_timeout_def cs_keeps_def Let_def case_prod_beta split: option.split)
qed

lemma cs_keeps_prepare: "cs_keeps s (fst (cs_prepare ce ev s))"
proof (cases ev)
  case (EvWrite i e n)
  then show ?thesis
    by (simp add: cs_onWrite_def cs_dead_onWrite_def cs_keeps_def split: option.split)
qed (simp_all add: cs_keeps_requests cs_keeps_prepare_connect cs_keeps_prepare_read
    cs_keeps_prepare_timeout)

lemma cs_keeps_resume: "cs_keeps s (cs_resume env ev before s)"
  by (cases "(env, ev, before, s)" rule: cs_resume.cases)
    (simp_all add: cs_keeps_emit cs_keeps_set_conn split: option.split)

lemma cs_keeps_complete: "cs_keeps s (cs_complete ev s)"
  by (cases ev) (simp_all add: cs_keeps_timer_stop)

end
