(* ===== verification/Connection_System.thy ===== *)
theory Connection_System
  imports Connection_Requests Client_Callbacks
begin

text \<open>
  A connection over its life, as a transition system: asio completes a read or a write, a timer
  expires and its callback runs, another callback of the application runs, the client or the
  dispatcher of the connection gets an event. Invariants of the reachable states, by induction on
  the transitions.
\<close>

section \<open>Handlers that run callbacks\<close>

text \<open>
  The handler of a timer that was started from a responder expires: \<open>task()\<close> is the application's
  code, the tree \<open>p\<close> with the responder \<open>rid\<close> it captured, and then the calls \<open>cmds\<close> it makes on
  the timer itself; then a one-shot timer stops and a periodic one is started again. An exception
  leaves the handler before that.
\<close>

definition conn_onTimer :: "('l, 'x, 'w, 'f) conn_env \<Rightarrow> nat \<Rightarrow> nat \<Rightarrow> ('w, 'k) prog \<Rightarrow>
    'k timer_cmd list \<Rightarrow>
    ('l, 'r, 'x, 'f, 'h, 'k) connection \<Rightarrow> ('l, 'r, 'x, 'f, 'h, 'k) connection" where
  "conn_onTimer env i rid p cmds c =
     (case waits (tp_timers (cn_timers c) ! i) of
        [] \<Rightarrow> c
      | OnceHandler k # _ \<Rightarrow>
          (let c = c\<lparr>cn_timers := tp_update i (ts_emit (RunTask k)) (cn_timers c)\<rparr>;
               (c, result) = conn_callback env rid p c
           in if result = Returned
              then c\<lparr>cn_timers := tp_update i (ts_stop \<circ> fold ts_cmd cmds) (cn_timers c)\<rparr> else c)
      | PeriodicHandler time k # _ \<Rightarrow>
          (let c = c\<lparr>cn_timers := tp_update i (ts_emit (RunTask k)) (cn_timers c)\<rparr>;
               (c, result) = conn_callback env rid p c
           in if result = Returned
              then c\<lparr>cn_timers :=
                     tp_update i (ts_startPeriodic time k \<circ> fold ts_cmd cmds) (cn_timers c)\<rparr>
              else c))"

definition conn_onPosted :: "nat \<Rightarrow>
    ('l, 'r, 'x, 'f, 'h, 'k) connection \<Rightarrow> ('l, 'r, 'x, 'f, 'h, 'k) connection" where
  "conn_onPosted copies c =
     c\<lparr>cn_dispatcher := ds_run_posted (queue_alive c) copies (cn_dispatcher c)\<rparr>"

text \<open>
  An event of the connection's client. Each response goes to the application's handler, whose code
  \<open>handlers\<close> names by the handler and the result: the responder it captured and the tree of its
  calls. It runs on the stack of the event; then the queue is resumed. When it throws, the exception
  leaves the event, with everything that was to follow left undone.
\<close>

definition conn_onResponse :: "('l, 'x, 'w, 'f) conn_env \<Rightarrow>
    ('k \<Rightarrow> client_result \<Rightarrow> nat \<times> ('w, 'k) prog) \<Rightarrow> 'k request_closure \<Rightarrow> response_data option \<Rightarrow>
    ('l, 'r, 'x, 'f, 'h, 'k) connection \<Rightarrow> ('l, 'r, 'x, 'f, 'h, 'k) connection \<times> outcome" where
  "conn_onResponse env handlers cl r c =
     (let c = c\<lparr>cn_client := cs_before_handler cl r (cn_client c)\<rparr>;
          (rid, p) = handlers (rq_handler cl) (result_of (rq_http cl) r);
          (c, result) = conn_callback env rid p c
      in (if result = Returned then c\<lparr>cn_client := cs_queue_launch (cn_client c)\<rparr> else c, result))"

fun conn_responses :: "('l, 'x, 'w, 'f) conn_env \<Rightarrow>
    ('k \<Rightarrow> client_result \<Rightarrow> nat \<times> ('w, 'k) prog) \<Rightarrow> 'k responses \<Rightarrow>
    ('l, 'r, 'x, 'f, 'h, 'k) connection \<Rightarrow> ('l, 'r, 'x, 'f, 'h, 'k) connection \<times> outcome" where
  "conn_responses env handlers [] c = (c, Returned)"
| "conn_responses env handlers ((cl, r) # rs) c =
     (let (c, result) = conn_onResponse env handlers cl r c
      in if result = Returned then conn_responses env handlers rs c else (c, result))"

definition conn_onClient :: "('l, 'x, 'w, 'f) conn_env \<Rightarrow> (('w2, 'f, 'h) client_env) \<Rightarrow>
    ('k \<Rightarrow> client_result \<Rightarrow> nat \<times> ('w, 'k) prog) \<Rightarrow> ('w2, 'k) client_event \<Rightarrow>
    ('l, 'r, 'x, 'f, 'h, 'k) connection \<Rightarrow> ('l, 'r, 'x, 'f, 'h, 'k) connection" where
  "conn_onClient env ce handlers ev c =
     (let (s, rs) = cs_prepare ce ev (cn_client c);
          (c, result) = conn_responses env handlers rs (c\<lparr>cn_client := s\<rparr>)
      in if result = Returned
         then c\<lparr>cn_client := cs_complete ev (cs_resume (ce_asio ce) ev s (cn_client c))\<rparr> else c)"

section \<open>Transitions\<close>

datatype ('w, 'w2, 'k) conn_event =
    ReadCompleted "io_error option" string
  | WriteCompleted "io_error option" size_t
  | CallbackRuns nat "('w, 'k) prog"
  | TimerExpires nat nat "('w, 'k) prog" "'k timer_cmd list"
  | PostedRuns nat
  | ClientEvent "'k \<Rightarrow> client_result \<Rightarrow> nat \<times> ('w, 'k) prog" "('w2, 'k) client_event"

inductive conn_step for env :: "('l, 'x, 'w, 'f) conn_env"
    and ce :: "('w2, 'f, 'h) client_env"
    and proc :: "('r, 'w, 'k) request_processor" and receiveData :: "string \<Rightarrow> ('l, 'r, 'x) lib_prog" where
  step_read: "conn_step env ce proc receiveData c (ReadCompleted e d)
     (conn_onRead env proc receiveData e d c)"
| step_write: "conn_step env ce proc receiveData c (WriteCompleted e n)
     (conn_onWriteComplete (ve_asio env) e n c)"
| step_callback: "conn_step env ce proc receiveData c (CallbackRuns rid p)
     (fst (conn_callback env rid p c))"
| step_timer: "i < length (tp_timers (cn_timers c)) \<Longrightarrow>
     conn_step env ce proc receiveData c (TimerExpires i rid p cmds)
       (conn_onTimer env i rid p cmds c)"
| step_posted: "conn_step env ce proc receiveData c (PostedRuns copies) (conn_onPosted copies c)"
| step_client: "conn_step env ce proc receiveData c (ClientEvent handlers ev)
       (conn_onClient env ce handlers ev c)"

inductive_cases conn_step_read: "conn_step env ce proc receiveData c (ReadCompleted e d) c'"
inductive_cases conn_step_write: "conn_step env ce proc receiveData c (WriteCompleted e n) c'"

inductive_simps conn_step_simps:
  "conn_step env ce proc receiveData c (ReadCompleted e d) c'"
  "conn_step env ce proc receiveData c (WriteCompleted e n) c'"
  "conn_step env ce proc receiveData c (CallbackRuns rid p) c'"
  "conn_step env ce proc receiveData c (TimerExpires i rid p cmds) c'"
  "conn_step env ce proc receiveData c (PostedRuns copies) c'"
  "conn_step env ce proc receiveData c (ClientEvent handlers ev) c'"

text \<open>The states reached from a new connection whose first read was asked for, by which events.\<close>

inductive conn_reach for env ce proc receiveData where
  reach_new: "conn_reach env ce proc receiveData [] (conn_process (connection_new l))"
| reach_step: "conn_reach env ce proc receiveData es c \<Longrightarrow>
     conn_step env ce proc receiveData c e c' \<Longrightarrow> conn_reach env ce proc receiveData (es @ [e]) c'"

section \<open>Invariants\<close>

lemma conn_app_write:
  fixes c :: "('l, 'r, 'x, 'f, 'h, 'k) connection"
  shows "conn_app (conn_onWriteComplete asio e n c) = conn_app c"
    "conn_app (conn_onReadError asio err c) = conn_app c" "conn_app (conn_process c) = conn_app c"
proof -
  have upd: "conn_app (c\<lparr>bytesToWrite := m\<rparr>) = conn_app c"
    for m and c :: "('l, 'r, 'x, 'f, 'h, 'k) connection"
    by (simp add: conn_app_def)
  then show "conn_app (conn_onWriteComplete asio e n c) = conn_app c"
    by (simp add: conn_onWriteComplete_def conn_onBytesWritten_def conn_app_socket Let_def
        split: option.split)
  show "conn_app (conn_onReadError asio err c) = conn_app c"
    by (simp add: conn_onReadError_def conn_app_socket split: io_error.split)
  show "conn_app (conn_process c) = conn_app c"
    by (simp add: conn_process_def conn_app_socket)
qed

text \<open>
  What the services made from a responder change: one of the three services, and not the queue it
  refers to.
\<close>

lemma conn_timers_update:
  "\<exists>t. conn_timer_start rid n k c = c\<lparr>cn_timers := t\<rparr> \<and> tp_queue t = tp_queue (cn_timers c)"
  "\<exists>t. conn_timer_startPeriodic rid n k c = c\<lparr>cn_timers := t\<rparr> \<and> tp_queue t = tp_queue (cn_timers c)"
  by (cases "conn_locked rid c"; force simp: conn_timer_start_def conn_timer_startPeriodic_def
      timer_of_responder_def getTimerService_def Let_def case_prod_beta intro: exI[of _ "cn_timers c"])+

lemma conn_dispatcher_update:
  "\<exists>d. conn_post_task rid k c = c\<lparr>cn_dispatcher := d\<rparr> \<and> ds_queue d = ds_queue (cn_dispatcher c)"
  unfolding conn_post_task_def dispatcher_postTask_def
  by (rule exI, rule conjI[OF refl], rule with_service_keeps) simp_all

lemma conn_client_update:
  "\<exists>s. conn_client_request env rid path rq k n c = c\<lparr>cn_client := s\<rparr> \<and> cs_keeps (cn_client c) s"
  "\<exists>s. conn_client_http env rid path rq k n c = c\<lparr>cn_client := s\<rparr> \<and> cs_keeps (cn_client c) s"
  "\<exists>s. conn_client_disconnect env rid c = c\<lparr>cn_client := s\<rparr> \<and> cs_keeps (cn_client c) s"
  unfolding conn_client_request_def client_makeRequest_local_def conn_client_http_def
    client_makeHttpRequest_local_def conn_client_disconnect_def client_disconnect_def
  by ((rule exI, rule conjI[OF refl], rule with_service_keeps; simp add: cs_keeps_requests))+

lemma conn_client_tcp_update:
  "\<exists>s. fst (conn_client_tcp env rid ip port rq k n c) = c\<lparr>cn_client := s\<rparr> \<and> cs_keeps (cn_client c) s"
  "\<exists>s. fst (conn_client_http_tcp env rid ip port rq k n c) = c\<lparr>cn_client := s\<rparr> \<and> cs_keeps (cn_client c) s"
  by (cases "conn_locked rid c"; force simp: conn_client_tcp_eq cs_keeps_requests
      intro: exI[of _ "cn_client c"])+

lemma ctx_copies_queue: "ds_queue ((ctx_copy i ^^ n) d) = ds_queue d"
  by (induction n) (simp_all add: ctx_copy_def pa_set_refs_def)

lemma ds_run_posted_queue: "ds_queue (ds_run_posted alive copies d) = ds_queue d"
  by (simp add: ds_run_posted_def ctx_destroy_def pa_set_refs_def ds_postTaskAction_def
      ctx_copies_queue ds_emit_def Let_def split: list.split option.split)

text \<open>
  What a property has to satisfy to hold in every reachable state: it does not look at the socket
  side, and neither the operations on requests nor a change of one of the services breaks it.
\<close>

locale connection_invariant =
  fixes env :: "('l, 'x, 'w, 'f) conn_env"
    and ok :: "('l, 'r, 'x, 'f, 'h, 'k) connection \<Rightarrow> bool"
  assumes ok_new: "ok (connection_new l)"
    and ok_app: "conn_app c' = conn_app c \<Longrightarrow> ok c' = ok c"
    and ok_send: "ok c \<Longrightarrow> ok (conn_send env d e c)"
    and ok_begin: "ok c \<Longrightarrow> ok (conn_begin r x c)"
    and ok_set_queue: "ok c \<Longrightarrow> ok (accessor_setRequestProcessorQueue rid q c)"
    and ok_make_queue: "ok c \<Longrightarrow> ok (c\<lparr>cn_nextQueue := Suc (cn_nextQueue c)\<rparr>)"
    and ok_library: "ok c \<Longrightarrow> ok (c\<lparr>cn_library := l\<rparr>)"
    and ok_timers: "ok c \<Longrightarrow> tp_queue t = tp_queue (cn_timers c) \<Longrightarrow> ok (c\<lparr>cn_timers := t\<rparr>)"
    and ok_dispatcher: "ok c \<Longrightarrow> ds_queue ds = ds_queue (cn_dispatcher c) \<Longrightarrow>
      ok (c\<lparr>cn_dispatcher := ds\<rparr>)"
    and ok_client: "ok c \<Longrightarrow> cs_keeps (cn_client c) s \<Longrightarrow> ok (c\<lparr>cn_client := s\<rparr>)"
begin

lemmas ok_emit = ok_app[OF conn_app_socket(1)]
lemmas ok_call = ok_app[OF conn_app_calls(1)]

lemma ok_services:
  assumes "ok c"
  shows "ok (conn_timer_start rid n k c)" "ok (conn_timer_startPeriodic rid n k c)"
    "ok (conn_post_task rid k c)" "ok (conn_client_request env rid path rq k n c)"
    "ok (conn_client_http env rid path rq k n c)" "ok (conn_client_disconnect env rid c)"
    "ok (fst (conn_client_tcp env rid ip port rq k n c))"
    "ok (fst (conn_client_http_tcp env rid ip port rq k n c))"
  using conn_timers_update[of rid n k c] conn_dispatcher_update[of rid k c]
    conn_client_update(1,2)[of env rid path rq k n c] conn_client_update(3)[of env rid c]
    conn_client_tcp_update[of env rid ip port rq k n c]
    ok_timers[OF assms] ok_dispatcher[OF assms] ok_client[OF assms]
  by metis+

lemma ok_prog: "ok c \<Longrightarrow> ok (fst (run_prog env rid p c))"
  by (induction p arbitrary: c)
    (simp_all add: responder_send_http_def responder_send_fastcgi_def ok_send ok_services
      ok_set_queue ok_make_queue ok_emit Let_def case_prod_beta split: option.split)

lemma ok_request: "ok c \<Longrightarrow> ok (conn_processRequest env proc r x c)"
  using ok_send[OF ok_prog[OF ok_begin]] ok_prog[OF ok_begin]
  by (simp add: conn_processRequest_eq conn_finish_def responder_send_http_def ok_emit
      case_prod_beta Let_def)

lemma ok_lib: "ok c \<Longrightarrow> ok (run_lib env proc p c)"
  by (induction p arbitrary: c) (simp_all add: ok_library ok_call ok_request)

lemma ok_onTimer:
  assumes "ok c"
  shows "ok (conn_onTimer env i rid p cmds c)"
proof -
  have t: "ok c \<Longrightarrow> ok (c\<lparr>cn_timers := tp_update i f (cn_timers c)\<rparr>)" for f c
    by (rule ok_timers) simp_all
  show ?thesis
    using assms t[OF assms] ok_prog[OF t[OF assms]] t[OF ok_prog[OF t[OF assms]]]
    by (simp add: conn_onTimer_def conn_callback_def Let_def case_prod_beta
        split: list.split timer_handler.split)
qed

lemma ok_onResponse:
  assumes "ok c"
  shows "ok (fst (conn_onResponse env handlers cl r c))"
proof -
  note before = ok_client[OF assms cs_keeps_before_handler]
  show ?thesis
    using ok_prog[OF before] ok_client[OF ok_prog[OF before] cs_keeps_launch]
    by (simp add: conn_onResponse_def conn_callback_def Let_def case_prod_beta)
qed

lemma ok_responses: "ok c \<Longrightarrow> ok (fst (conn_responses env handlers rs c))"
proof (induction rs arbitrary: c)
  case (Cons x rs)
  then show ?case
    using ok_onResponse by (cases x) (simp add: Let_def case_prod_beta)
qed simp

lemma ok_onClient:
  assumes "ok c"
  shows "ok (conn_onClient env ce handlers ev c)"
proof -
  note ran = ok_responses[OF ok_client[OF assms cs_keeps_prepare]]
  have kept: "cs_keeps s (cs_complete ev (cs_resume asio ev before s))" for asio before s
    using cs_keeps_resume cs_keeps_complete by (rule cs_keeps_trans)
  show ?thesis
    by (simp add: conn_onClient_def ran ok_client[OF ran kept] Let_def case_prod_beta)
qed

lemma ok_onPosted: "ok c \<Longrightarrow> ok (conn_onPosted copies c)"
  by (simp add: conn_onPosted_def ok_dispatcher ds_run_posted_queue)

lemma ok_step:
  assumes "ok c" and "conn_step env ce proc receiveData c e c'"
  shows "ok c'"
  using assms(2)
proof cases
  case (step_read e d)
  have "ok (conn_process (run_lib env proc (receiveData d) c))"
    using ok_lib[OF assms(1)] ok_app[OF conn_app_write(3)] by blast
  then show ?thesis
    using step_read assms(1) ok_app[OF conn_app_write(2)[of _ _ c]]
    by (cases e) (simp_all add: conn_onRead_def conn_readData_def)
next
  case (step_write e n)
  then show ?thesis using assms(1) ok_app[OF conn_app_write(1)] by blast
next
  case (step_callback rid p)
  then show ?thesis using ok_prog[OF assms(1)] by (simp add: conn_callback_def)
qed (use assms(1) in \<open>simp_all add: ok_onTimer ok_onPosted ok_onClient\<close>)

lemma ok_reach: "conn_reach env ce proc receiveData es c \<Longrightarrow> ok c"
proof (induction rule: conn_reach.induct)
  case (reach_new l)
  then show ?case using ok_new ok_app[OF conn_app_write(3)] by blast
qed (use ok_step in blast)

end

section \<open>Answers and requests\<close>

text \<open>
  \<open>cn_nextContext\<close> counts the requests handed to the connection. There are no more answers than
  requests, and when there are as many the current one is answered.
\<close>

definition answers_bounded :: "('l, 'x, 'w, 'f) conn_env \<Rightarrow>
    ('l, 'r, 'x, 'f, 'h, 'k) connection \<Rightarrow> bool" where
  "answers_bounded env c \<longleftrightarrow> length (cn_answers c) \<le> cn_nextContext c
     \<and> (length (cn_answers c) = cn_nextContext c \<longrightarrow>
          (case cn_sender c of Some s \<Rightarrow> rs_isSent (ve_response env) s | None \<Rightarrow> True))"

lemma answers_bounded_cong:
  "cn_answers c' = cn_answers c \<Longrightarrow> cn_sender c' = cn_sender c \<Longrightarrow>
   cn_nextContext c' = cn_nextContext c \<Longrightarrow> answers_bounded env c' = answers_bounded env c"
  by (simp add: answers_bounded_def)

lemma conn_send_nextContext [simp]: "cn_nextContext (conn_send env d e c) = cn_nextContext c"
  by (simp add: conn_send_def conn_fields Let_def split: option.split prod.split)

lemma answers_bounded_send:
  assumes "send_invalidates (ve_response env)" and "answers_bounded env c"
  shows "answers_bounded env (conn_send env d e c)"
proof (cases "cn_sender c")
  case None
  then show ?thesis using assms(2) by (simp add: conn_send_def)
next
  case (Some s)
  then show ?thesis
    using assms(2) conn_send_answers(1)[OF Some, of env d e] conn_send_answers(2)[OF Some assms(1), of d e]
    by (auto simp: answers_bounded_def)
qed

lemma conn_ops_nextContext [simp]:
  "cn_nextContext (conn_timer_start rid n k c) = cn_nextContext c"
  "cn_nextContext (conn_post_task rid k c) = cn_nextContext c"
  "cn_nextContext (conn_client_request env rid path rq k n c) = cn_nextContext c"
  "cn_nextContext (accessor_setRequestProcessorQueue rid q c) = cn_nextContext c"
  "cn_nextContext (conn_timer_startPeriodic rid n k c) = cn_nextContext c"
  "cn_nextContext (conn_client_http env rid path rq k n c) = cn_nextContext c"
  "cn_nextContext (conn_client_disconnect env rid c) = cn_nextContext c"
  "cn_nextContext (fst (conn_client_tcp env rid ip port rq k n c)) = cn_nextContext c"
  "cn_nextContext (fst (conn_client_http_tcp env rid ip port rq k n c)) = cn_nextContext c"
  by (simp_all add: conn_service_defs
      accessor_setRequestProcessorQueue_def rc_setRequestProcessorQueue_def timer_of_responder_def
      Let_def split: option.split prod.split)

interpretation answers: connection_invariant env
    "\<lambda>c. send_invalidates (ve_response env) \<longrightarrow> answers_bounded env c" for env
proof (unfold_locales, goal_cases)
  case (2 c' c)
  then have "answers_bounded env c' = answers_bounded env c"
    by (intro answers_bounded_cong) (simp_all add: conn_app_def)
  then show ?case by simp
next
  case (3 c d e)
  then show ?case using answers_bounded_send by blast
next
  case (4 c r x)
  then show ?case by (auto simp: answers_bounded_def conn_begin_def)
qed (simp_all add: answers_bounded_def connection_new_def)

lemma reach_answers:
  "send_invalidates (ve_response env) \<Longrightarrow> conn_reach env ce proc receiveData es c \<Longrightarrow>
   length (cn_answers c) \<le> cn_nextContext c"
  using answers.ok_reach[of env _ proc receiveData es c] by (simp add: answers_bounded_def)

section \<open>Reads\<close>

abbreviation reads :: "('l, 'r, 'x, 'f, 'h, 'k) connection \<Rightarrow> nat" where
  "reads c \<equiv> count_list (trace c) AsyncReadSome"

fun is_read :: "('w, 'w2, 'k) conn_event \<Rightarrow> bool" where
  "is_read (ReadCompleted None _) = True"
| "is_read _ = False"

lemma reads_socket:
  "reads (conn_sendData d c) = reads c" "reads (conn_close asio c) = reads c"
  "reads (c\<lparr>bytesToWrite := n\<rparr>) = reads c" "reads (emit (Report ev msg) c) = reads c"
  by (simp_all add: conn_sendData_def conn_close_def Let_def split: option.split)

lemma reads_write: "reads (conn_onWriteComplete asio e n c) = reads c"
  by (cases e) (simp_all only: conn_onWriteComplete_def conn_onBytesWritten_def Let_def reads_socket
      option.case simp_thms split: if_split)

lemma reads_onTimer: "reads (conn_onTimer env i rid p cmds c) = reads c"
  using count_read_prog[of env rid p "c\<lparr>cn_timers := t\<rparr>" for t]
  by (simp add: conn_onTimer_def conn_callback_def Let_def case_prod_beta
      split: list.split timer_handler.split)

lemma reads_responses:
  "reads (fst (conn_responses env handlers rs c)) = reads c"
proof (induction rs arbitrary: c)
  case (Cons x rs)
  have "reads (fst (conn_onResponse env handlers cl r c)) = reads c" for cl r
    using count_read_prog[of env _ _ "c\<lparr>cn_client := s\<rparr>" for s]
    by (simp add: conn_onResponse_def conn_callback_def Let_def case_prod_beta)
  then show ?case using Cons by (cases x) (simp add: Let_def case_prod_beta)
qed simp

lemma reads_onClient: "reads (conn_onClient env ce handlers ev c) = reads c"
  by (simp add: conn_onClient_def reads_responses Let_def case_prod_beta)

lemma reads_step:
  assumes "conn_step env ce proc receiveData c e c'"
  shows "reads c' = reads c + (if is_read e then 1 else 0)"
  using assms
proof cases
  case (step_read e d)
  have "reads (conn_onReadError asio err c) = reads c" for asio err
    by (simp add: conn_onReadError_def conn_close_def Let_def split: io_error.split option.split)
  then show ?thesis
    using step_read by (cases e) (simp_all add: conn_onRead_def conn_readData_def conn_process_def
        count_read_lib)
next
  case (step_write e n)
  then show ?thesis using reads_write by simp
next
  case (step_callback rid p)
  then show ?thesis by (simp add: conn_callback_def count_read_prog)
next
  case (step_timer i rid p cmds)
  then show ?thesis using reads_onTimer by simp
next
  case (step_posted copies)
  then show ?thesis by (simp add: conn_onPosted_def)
next
  case (step_client handlers ev)
  then show ?thesis using reads_onClient by simp
qed

section \<open>Handlers that do nothing, and a handler that disconnects\<close>

text \<open>With handlers that return at once an event of the client is that of the service alone.\<close>

lemma conn_responses_inert:
  "conn_responses env (\<lambda>_ _. (rid, PDone)) rs c =
     (c\<lparr>cn_client := fold (\<lambda>(cl, r). cs_onResponse cl r) rs (cn_client c)\<rparr>, Returned)"
proof (induction rs arbitrary: c)
  case (Cons x rs)
  then show ?case
    by (cases x) (simp add: conn_onResponse_def conn_callback_def cs_onResponse_split Let_def)
qed simp

lemma cs_onResponse_slot: "cs_slot i (cs_onResponse cl r s) = cs_slot i s"
  "cs_slot i (cs_emit a s) = cs_slot i s" "cs_slot i (cs_queue_launch s) = cs_slot i s"
  "cs_slot i (cs_before_handler cl r s) = cs_slot i s"
  by (simp_all add: cs_slot_def cs_before_handler_def Let_def split: option.split)

lemma conn_onClient_inert:
  "conn_onClient env ce (\<lambda>_ _. (rid, PDone)) ev c = c\<lparr>cn_client := cs_step ce ev (cn_client c)\<rparr>"
  by (simp add: conn_onClient_def conn_responses_inert cs_prepare_step
      case_prod_beta Let_def)

lemma find_append: "find P (xs @ ys) = (case find P xs of Some x \<Rightarrow> Some x | None \<Rightarrow> find P ys)"
  by (induction xs) simp_all

lemma cs_disconnect_handled: "cs_handled (cs_disconnect asio s) = cs_handled s"
proof -
  have "cs_handled (fold (cs_destroy_slot asio) slots s) = cs_handled s" for slots
    by (induction slots arbitrary: s) (simp_all add: cs_destroy_slot_def cs_handled_def)
  then show ?thesis by (simp add: cs_disconnect_def)
qed

lemma cs_before_handler_uses:
  "count_list (cs_trace (cs_before_handler cl r s)) (CUseAfterFree i) = count_list (cs_trace s) (CUseAfterFree i)"
  "count_list (cs_trace (cs_queue_launch s)) (CUseAfterFree i) = count_list (cs_trace s) (CUseAfterFree i)"
  by (simp_all add: cs_before_handler_def cs_queue_launch_def Let_def split: option.split)

lemma cs_before_handler_simps:
  "cs_local (cs_before_handler cl r s) = cs_local s" "cs_tcp (cs_before_handler cl r s) = cs_tcp s"
  "cs_handled (cs_before_handler cl r s) = cs_handled s @ [(rq_handler cl, result_of (rq_http cl) r)]"
  by (simp_all add: cs_before_handler_def Let_def split: option.split)

lemma cs_disconnect_slot:
  assumes "cs_wf s" and "find (\<lambda>slot. slot_id slot = i) (cs_local s) = Some slot"
  shows "cs_slot i (cs_disconnect asio s) = None"
proof -
  have "slot_id slot = i" "slot \<in> set (cs_local s)"
    using assms(2) by (auto simp: find_Some_iff)
  then have "i \<in> slot_id ` set (cs_local s)" by force
  moreover have "cs_tcp (fold (cs_destroy_slot asio) slots s) = cs_tcp s" for slots
    by (induction slots arbitrary: s) (simp_all add: cs_destroy_slot_def)
  ultimately show ?thesis
    using assms(1) by (force simp: cs_slot_def cs_disconnect_def find_None_iff cs_wf_def cs_ids_def
        cs_slots_def)
qed

section \<open>Properties\<close>


definition demo_asking ::
    "(unit, string, bool \<times> string \<times> string, unit, unit, nat) connection" where
  "demo_asking = (connection_new ())\<lparr>cn_context := Some \<lparr>rc_id = 0, rc_queue = None\<rparr>,
     cn_client := cs_makeRequest_local () ''/tmp/s'' \<lparr>params = Map.empty, stdIn = []\<rparr> 7 3000 cs_new\<rparr>"


text \<open>
  C4. No more answers than requests. In every state a connection reaches, whatever arrives, is
  written, expires or is called in whatever order, and whatever request processors and callbacks
  do, the calls of \<open>fcgi::Response::send\<close> are not more than the requests the library handed over.
\<close>

theorem conn_answers_bounded:
  assumes "send_invalidates (ve_response env)" and "conn_reach env ce proc receiveData es c"
  shows "length (cn_answers c) \<le> cn_nextContext c"
  using assms by (rule reach_answers)

lemma demo_reach:
  "conn_reach demo_env ce (Handler (\<lambda>r. PSendHttp ''a'' (PSendHttp ''b'' PDone)))
     (\<lambda>d. LRequest d (True, [], []) LDone) [ReadCompleted None ''x'']
     (conn_onRead demo_env (Handler (\<lambda>r. PSendHttp ''a'' (PSendHttp ''b'' PDone)))
       (\<lambda>d. LRequest d (True, [], []) LDone) None ''x''
       (conn_process (connection_new () :: (unit, string, bool \<times> string \<times> string, unit, unit, nat) connection)))"
  using reach_step[OF reach_new step_read, of demo_env ce] by simp

theorem conn_answers_bounded_witness:
  "length (cn_answers (conn_onRead demo_env (Handler (\<lambda>r. PSendHttp ''a'' (PSendHttp ''b'' PDone)))
      (\<lambda>d. LRequest d (True, [], []) LDone) None ''x''
      (conn_process (connection_new () ::
        (unit, string, bool \<times> string \<times> string, unit, unit, nat) connection)))) \<le> 1"
proof -
  let ?c = "conn_onRead demo_env (Handler (\<lambda>r. PSendHttp ''a'' (PSendHttp ''b'' PDone)))
      (\<lambda>d. LRequest d (True, [], []) LDone) None ''x''
      (conn_process (connection_new () ::
        (unit, string, bool \<times> string \<times> string, unit, unit, nat) connection))"
  have "cn_nextContext ?c = 1" by code_simp
  then show ?thesis
    using conn_answers_bounded[OF demo_send_invalidates demo_reach[of demo_client_env]] by simp
qed

text \<open>
  C8. One read at a time. In every reachable state the reads asked for are one more than those
  that completed with data, so that as long as no read failed exactly one is pending, and after a
  failed one none.
\<close>

theorem conn_one_read_pending:
  assumes "conn_reach env ce proc receiveData es c"
  shows "count_list (trace c) AsyncReadSome = Suc (length (filter is_read es))"
  using assms
proof induction
  case (reach_new l)
  show ?case by (simp add: conn_process_def connection_new_def emit_def)
next
  case (reach_step es c e c')
  then show ?case using reads_step by fastforce
qed

theorem conn_one_read_pending_witness:
  "count_list (trace (conn_onRead demo_env (Handler (\<lambda>r. PSendHttp ''a'' (PSendHttp ''b'' PDone)))
      (\<lambda>d. LRequest d (True, [], []) LDone) None ''x''
      (conn_process (connection_new () ::
        (unit, string, bool \<times> string \<times> string, unit, unit, nat) connection)))) AsyncReadSome = 2"
  using conn_one_read_pending[OF demo_reach[of demo_client_env]] by simp

end
