(* ===== verification/Connection_Types.thy ===== *)
theory Connection_Types
  imports Connection_System
begin

text \<open>
  The types of a connection's members, as an invariant of its reachable states. The sources access
  optional members without a test (\<open>fcgiRequest_.value()\<close>, \<open>*responseSender_\<close> through the response
  context) and keep three references to the router's queue; the invariant says which members are
  engaged together and which queue the services refer to.
\<close>

section \<open>Well-formedness\<close>

definition context_wf :: "('l, 'r, 'x, 'f, 'h, 'k) connection \<Rightarrow> bool" where
  "context_wf c =
     (case cn_context c of
        None \<Rightarrow> cn_nextContext c = 0 \<and> cn_fcgiRequest c = None \<and> cn_sender c = None
      | Some ctx \<Rightarrow> Suc (rc_id ctx) = cn_nextContext c \<and> cn_fcgiRequest c \<noteq> None \<and> cn_sender c \<noteq> None)"

definition queue_wf :: "('l, 'r, 'x, 'f, 'h, 'k) connection \<Rightarrow> bool" where
  "queue_wf c \<longleftrightarrow> cs_queue (cn_client c) = tp_queue (cn_timers c)
     \<and> ds_queue (cn_dispatcher c) = tp_queue (cn_timers c)
     \<and> (\<forall>q. queue_alive c q \<longrightarrow> tp_queue (cn_timers c) = Some q)"

definition conn_wf :: "('l, 'r, 'x, 'f, 'h, 'k) connection \<Rightarrow> bool" where
  "conn_wf c \<longleftrightarrow> context_wf c \<and> queue_wf c \<and> cs_wf (cn_client c)"

lemma conn_wf_app:
  assumes "conn_app c' = conn_app c"
  shows "conn_wf c' = conn_wf c"
  using assms
  by (cases "cn_context c")
    (simp_all add: conn_wf_def context_wf_def queue_wf_def queue_alive_def conn_app_def)

section \<open>The operations keep it\<close>

lemma conn_send_frame:
  "cn_context (conn_send env d e c) = cn_context c"
  "cn_fcgiRequest (conn_send env d e c) = cn_fcgiRequest c"
  "cn_client (conn_send env d e c) = cn_client c"
  "cn_timers (conn_send env d e c) = cn_timers c"
  "cn_dispatcher (conn_send env d e c) = cn_dispatcher c"
  "cn_sender (conn_send env d e c) = None \<longleftrightarrow> cn_sender c = None"
  by (auto simp: conn_send_def conn_fields Let_def split: option.split prod.split)

lemma conn_wf_send: "conn_wf c \<Longrightarrow> conn_wf (conn_send env d e c)"
  by (simp add: conn_wf_def context_wf_def queue_wf_def queue_alive_def conn_send_frame
      split: option.splits)

lemma conn_wf_begin: "conn_wf c \<Longrightarrow> conn_wf (conn_begin r x c)"
  by (simp add: conn_wf_def context_wf_def queue_wf_def queue_alive_def conn_begin_def)

lemma conn_wf_update:
  assumes "conn_wf c"
  shows "tp_queue t = tp_queue (cn_timers c) \<Longrightarrow> conn_wf (c\<lparr>cn_timers := t\<rparr>)"
    and "ds_queue d = ds_queue (cn_dispatcher c) \<Longrightarrow> conn_wf (c\<lparr>cn_dispatcher := d\<rparr>)"
    and "cs_queue s = cs_queue (cn_client c) \<Longrightarrow> cs_wf s \<Longrightarrow> conn_wf (c\<lparr>cn_client := s\<rparr>)"
    and "conn_wf (c\<lparr>cn_library := l\<rparr>)" "conn_wf (c\<lparr>cn_nextQueue := n\<rparr>)"
  using assms
  by (cases "cn_context c"; simp add: conn_wf_def context_wf_def queue_wf_def queue_alive_def)+

lemma conn_wf_set_queue:
  assumes "conn_wf c"
  shows "conn_wf (accessor_setRequestProcessorQueue rid q c)"
  using assms
  by (cases "cn_context c")
    (simp_all add: conn_wf_def context_wf_def queue_wf_def queue_alive_def
      accessor_setRequestProcessorQueue_def rc_setRequestProcessorQueue_def conn_locked_def
      cs_setRequestProcessorQueue_def ds_setRequestProcessorQueue_def
      tp_setRequestProcessorQueue_def cs_wf_def cs_ids_def cs_closures_def cs_slots_def)

section \<open>Reachable states\<close>

lemma conn_wf_new: "conn_wf (connection_new l)"
  by (simp add: conn_wf_def context_wf_def queue_wf_def queue_alive_def connection_new_def
      cs_new_def tp_new_def ds_new_def cs_wf_def cs_ids_def cs_closures_def cs_slots_def)

interpretation wf: connection_invariant env conn_wf for env
proof (unfold_locales, goal_cases)
  case (2 c' c)
  then show ?case by (rule conn_wf_app)
next
  case (10 c s)
  then have "conn_wf c" and "cs_wf (cn_client c)" by (simp_all add: conn_wf_def)
  with 10 show ?case
    using conn_wf_update(3)[of c s] by (simp add: cs_keeps_def)
qed (simp_all add: conn_wf_new conn_wf_send conn_wf_begin conn_wf_set_queue conn_wf_update)

text \<open>
  C7. Well-formedness. In every reachable state the request, the response sender and the response
  context of a connection are all there or (before the first request) all absent, so that no
  empty optional is accessed; the context is that of the last request; the client, the timers
  and the dispatcher refer to the same queue, and to the one the context owns if it owns one; and
  the client's slots and timers are well-formed.
\<close>

theorem conn_well_formed:
  assumes "conn_reach env ce proc receiveData es c"
  shows "(cn_context c = None \<longleftrightarrow> cn_nextContext c = 0)
    \<and> (cn_fcgiRequest c = None \<longleftrightarrow> cn_nextContext c = 0)
    \<and> (cn_sender c = None \<longleftrightarrow> cn_nextContext c = 0)
    \<and> (\<forall>rid. conn_locked rid c \<longleftrightarrow> cn_nextContext c = Suc rid)
    \<and> cs_queue (cn_client c) = tp_queue (cn_timers c)
    \<and> ds_queue (cn_dispatcher c) = tp_queue (cn_timers c)
    \<and> (\<forall>q. queue_alive c q \<longrightarrow> tp_queue (cn_timers c) = Some q)
    \<and> cs_wf (cn_client c)"
proof -
  have "conn_wf c" using assms by (rule wf.ok_reach)
  then show ?thesis
    by (cases "cn_context c")
      (auto simp: conn_wf_def context_wf_def queue_wf_def queue_alive_def conn_locked_def)
qed

theorem conn_well_formed_witness:
  "conn_locked 0 (conn_onRead demo_env (Handler (\<lambda>r. PSendHttp ''a'' (PSendHttp ''b'' PDone)))
      (\<lambda>d. LRequest d (True, [], []) LDone) None ''x''
      (conn_process (connection_new () ::
        (unit, string, bool \<times> string \<times> string, unit, unit, nat) connection)))"
proof -
  let ?c = "conn_onRead demo_env (Handler (\<lambda>r. PSendHttp ''a'' (PSendHttp ''b'' PDone)))
      (\<lambda>d. LRequest d (True, [], []) LDone) None ''x''
      (conn_process (connection_new () ::
        (unit, string, bool \<times> string \<times> string, unit, unit, nat) connection))"
  have "cn_nextContext ?c = Suc 0" by code_simp
  then show ?thesis using conn_well_formed[OF demo_reach[of demo_client_env]] by simp
qed

end
