(* ===== verification/Connection_Lifetime.thy ===== *)
theory Connection_Lifetime
  imports Connection_System
begin

text \<open>
  How long a connection lives. \<open>Connection\<close> derives from \<open>std::enable_shared_from_this\<close>, and the
  handlers of its pending reads and writes hold the only references to it once it was accepted
  (\<^verbatim>\<open>src/connection.cpp\<close>, \<open>self\<close>); when the last of them has run the connection is destroyed, with its
  timers, its client and its response context. The handlers of timers and of client connections
  hold no reference: what was queued by then finds a destroyed object.
\<close>

section \<open>References\<close>

record ('l, 'r, 'x, 'f, 'h, 'k) owned =
  ow_connection :: "('l, 'r, 'x, 'f, 'h, 'k) connection"
  ow_reads :: nat
  ow_writes :: nat

fun read_done :: "('w, 'w2, 'k) conn_event \<Rightarrow> bool" where
  "read_done (ReadCompleted _ _) = True"
| "read_done _ = False"

fun write_done :: "('w, 'w2, 'k) conn_event \<Rightarrow> bool" where
  "write_done (WriteCompleted _ _) = True"
| "write_done _ = False"

text \<open>
  A handler has run and the connection is \<open>c\<close> now: the operations it began hold a reference each,
  and the handler's own is given up.
\<close>

definition owned_after :: "('w, 'w2, 'k) conn_event \<Rightarrow> ('l, 'r, 'x, 'f, 'h, 'k) connection \<Rightarrow>
    ('l, 'r, 'x, 'f, 'h, 'k) owned \<Rightarrow> ('l, 'r, 'x, 'f, 'h, 'k) owned" where
  "owned_after ev c s =
     \<lparr>ow_connection = c,
      ow_reads = ow_reads s + (count_list (trace c) AsyncReadSome
          - count_list (trace (ow_connection s)) AsyncReadSome) - (if read_done ev then 1 else 0),
      ow_writes = ow_writes s + (length (started c) - length (started (ow_connection s)))
          - (if write_done ev then 1 else 0)\<rparr>"

definition owners :: "('l, 'r, 'x, 'f, 'h, 'k) owned \<Rightarrow> nat" where
  "owners s = ow_reads s + ow_writes s"

section \<open>Destruction\<close>

text \<open>
  The members are destroyed: the client's connections close their sockets, of both families; the
  response context is gone, and with it the queue of a router. What the destroyed objects held is
  kept, to say what handlers find that run afterwards.
\<close>

definition cs_destroy :: "asio_env \<Rightarrow> ('q, 'f, 'h, 'k) client_service \<Rightarrow> ('q, 'f, 'h, 'k) client_service" where
  "cs_destroy env s =
     (fold (cs_destroy_slot env) (cs_tcp s @ cs_local s) s)\<lparr>cs_local := [], cs_tcp := []\<rparr>"

definition conn_destroy :: "asio_env \<Rightarrow>
    ('l, 'r, 'x, 'f, 'h, 'k) connection \<Rightarrow> ('l, 'r, 'x, 'f, 'h, 'k) connection" where
  "conn_destroy env c =
     c\<lparr>cn_client := cs_destroy env (cn_client c), cn_sender := None, cn_fcgiRequest := None,
       cn_context := None\<rparr>"

datatype stale_use =
    StaleTimer nat
  | StaleClient nat
  | StaleClientService

datatype ('l, 'r, 'x, 'f, 'h, 'k) life =
    Alive "('l, 'r, 'x, 'f, 'h, 'k) owned"
  | Destroyed "('l, 'r, 'x, 'f, 'h, 'k) connection" "stale_use list"

text \<open>
  Events of the client that reach a destroyed connection. The destructors abort what was pending;
  a handler that was queued already runs with its result. A failed connect calls the response
  handler, which stops its timer; an aborted read returns; everything else goes through \<open>this\<close>. A
  call through a \<open>Client\<close> the application kept uses the service by its raw reference.
\<close>

definition stale_slot :: "('q, 'f, 'h, 'k) client_service \<Rightarrow> nat \<Rightarrow> stale_use list" where
  "stale_slot s i =
     (case cs_dead_slot i s of
        Some slot \<Rightarrow> (if slot_closure slot = None then [] else [StaleClient i])
      | None \<Rightarrow> [])"

fun stale_client_uses :: "('q, 'f, 'h, 'k) client_service \<Rightarrow> ('w, 'k) client_event \<Rightarrow> stale_use list" where
  "stale_client_uses s (EvConnect i e) = stale_slot s i"
| "stale_client_uses s (EvRead i (Some (OperationAborted msg)) d) = []"
| "stale_client_uses s (EvRead i e d) = stale_slot s i"
| "stale_client_uses s (EvWrite i e n) = stale_slot s i"
| "stale_client_uses s _ = [StaleClientService]"

section \<open>Transitions\<close>

text \<open>
  An event of a connection that is alive, and the end of its life when no reference is left; then,
  callbacks of the application with their responders, tasks that were posted, expirations that
  were queued, and events of the client.
\<close>

inductive life_step for env :: "('l, 'x, 'w, 'f) conn_env"
    and ce :: "('w2, 'f, 'h) client_env"
    and proc :: "('r, 'w, 'k) request_processor" and receiveData :: "string \<Rightarrow> ('l, 'r, 'x) lib_prog" where
  life_alive: "conn_step env ce proc receiveData (ow_connection s) ev c \<Longrightarrow>
     (read_done ev \<longrightarrow> 0 < ow_reads s) \<Longrightarrow> (write_done ev \<longrightarrow> 0 < ow_writes s) \<Longrightarrow>
     life_step env ce proc receiveData (Alive s) ev
       (if owners (owned_after ev c s) = 0 then Destroyed (conn_destroy (ve_asio env) c) []
        else Alive (owned_after ev c s))"
| life_callback: "life_step env ce proc receiveData (Destroyed c uses) (CallbackRuns rid p)
     (Destroyed (fst (conn_callback env rid p c)) uses)"
| life_posted: "life_step env ce proc receiveData (Destroyed c uses) (PostedRuns copies)
     (Destroyed (conn_onPosted copies c) uses)"
| life_timer: "i < length (tp_timers (cn_timers c)) \<Longrightarrow> waits (tp_timers (cn_timers c) ! i) \<noteq> [] \<Longrightarrow>
     life_step env ce proc receiveData (Destroyed c uses) (TimerExpires i rid p cmds)
       (Destroyed (fst (conn_callback env rid p c)) (uses @ [StaleTimer i]))"
| life_client: "life_step env ce proc receiveData (Destroyed c uses) (ClientEvent handlers ev)
     (Destroyed c (uses @ stale_client_uses (cn_client c) ev))"

inductive_simps life_step_dead:
  "life_step env ce proc receiveData (Destroyed c uses) (ReadCompleted e d) s"
  "life_step env ce proc receiveData (Destroyed c uses) (WriteCompleted e n) s"
  "life_step env ce proc receiveData (Destroyed c uses) (CallbackRuns rid p) s"
  "life_step env ce proc receiveData (Destroyed c uses) (PostedRuns copies) s"
  "life_step env ce proc receiveData (Destroyed c uses) (TimerExpires i rid p cmds) s"
  "life_step env ce proc receiveData (Destroyed c uses) (ClientEvent handlers ev) s"

inductive life_reach for env ce proc receiveData where
  life_new: "life_reach env ce proc receiveData []
     (Alive \<lparr>ow_connection = conn_process (connection_new l), ow_reads = 1, ow_writes = 0\<rparr>)"
| life_next: "life_reach env ce proc receiveData es s \<Longrightarrow> life_step env ce proc receiveData s e s' \<Longrightarrow>
     life_reach env ce proc receiveData (es @ [e]) s'"

section \<open>Invariant\<close>

fun read_failed :: "('w, 'w2, 'k) conn_event \<Rightarrow> bool" where
  "read_failed (ReadCompleted (Some _) _) = True"
| "read_failed _ = False"

definition life_ok where
  "life_ok env ce proc receiveData es s \<longleftrightarrow>
     (case s of
        Alive o' \<Rightarrow> conn_reach env ce proc receiveData es (ow_connection o') \<and> owners o' \<noteq> 0
          \<and> ow_reads o' = (if list_ex read_failed es then 0 else 1)
      | Destroyed c uses \<Rightarrow> list_ex read_failed es \<and> cn_context c = None
          \<and> cs_local (cn_client c) = [] \<and> cs_tcp (cn_client c) = [])"

lemma owned_after_reads:
  assumes "conn_step env ce proc receiveData (ow_connection s) ev c"
  shows "ow_reads (owned_after ev c s) =
    ow_reads s + (if is_read ev then 1 else 0) - (if read_done ev then 1 else 0)"
  using reads_step[OF assms] by (simp add: owned_after_def)

lemma read_cases: "is_read ev \<Longrightarrow> read_done ev" "read_failed ev \<longleftrightarrow> read_done ev \<and> \<not> is_read ev"
  by (cases ev rule: is_read.cases; simp)+

lemma dead_prog:
  assumes "cn_context c = None"
  obtains reports n where "fst (conn_callback env rid p c) = c\<lparr>trace := trace c @ reports, cn_nextQueue := n\<rparr>"
  using run_prog_stale[of rid c env p] assms by (auto simp: conn_locked_def conn_callback_def)

lemma life_step_ok:
  assumes "life_ok env ce proc receiveData es s" and "life_step env ce proc receiveData s e s'"
  shows "life_ok env ce proc receiveData (es @ [e]) s'"
  using assms(2)
proof cases
  case (life_alive o' c)
  have reach: "conn_reach env ce proc receiveData (es @ [e]) c"
    using reach_step life_alive(3) assms(1) by (auto simp: life_ok_def life_alive(1))
  have reads: "ow_reads (owned_after e c o') = (if list_ex read_failed (es @ [e]) then 0 else 1)"
    using owned_after_reads[OF life_alive(3)] assms(1) life_alive(4) read_cases[of e]
    by (auto simp: life_ok_def life_alive(1) split: if_splits)
  show ?thesis
  proof (cases "owners (owned_after e c o') = 0")
    case True
    then have "list_ex read_failed (es @ [e])"
      using reads by (simp add: owners_def split: if_splits)
    then show ?thesis using True by (simp add: life_ok_def life_alive(2) conn_destroy_def cs_destroy_def)
  next
    case False
    then show ?thesis using reach reads by (simp add: life_ok_def life_alive(2) owned_after_def)
  qed
next
  case (life_callback c uses rid p)
  then have "cn_context c = None" using assms(1) by (simp add: life_ok_def)
  then obtain reports n where
      "fst (conn_callback env rid p c) = c\<lparr>trace := trace c @ reports, cn_nextQueue := n\<rparr>"
    by (rule dead_prog)
  then show ?thesis using life_callback assms(1) by (simp add: life_ok_def)
next
  case (life_timer i c uses rid p cmds)
  then have "cn_context c = None" using assms(1) by (simp add: life_ok_def)
  then obtain reports n where
      "fst (conn_callback env rid p c) = c\<lparr>trace := trace c @ reports, cn_nextQueue := n\<rparr>"
    by (rule dead_prog)
  then show ?thesis using life_timer assms(1) by (simp add: life_ok_def)
qed (use assms(1) in \<open>simp_all add: life_ok_def conn_onPosted_def\<close>)

lemma life_reach_ok:
  "life_reach env ce proc receiveData es s \<Longrightarrow> life_ok env ce proc receiveData es s"
proof (induction rule: life_reach.induct)
  case (life_new l)
  then show ?case using reach_new by (simp add: life_ok_def owners_def)
qed (use life_step_ok in blast)

section \<open>The end of a life\<close>

lemma started_error_handlers:
  "started (conn_onReadError asio e c) = started c"
  "started (conn_onWriteComplete asio (Some e) n c) = started c"
  "count_list (trace (conn_onReadError asio e c)) AsyncReadSome = count_list (trace c) AsyncReadSome"
  "count_list (trace (conn_onWriteComplete asio (Some e) n c)) AsyncReadSome = count_list (trace c) AsyncReadSome"
  by (simp_all add: conn_onReadError_def conn_onWriteComplete_def conn_close_def Let_def
      split: io_error.split option.split)

lemma last_read_destroys:
  assumes "ow_reads s = 1" and "ow_writes s = 0"
  shows "life_step env ce proc receiveData (Alive s) (ReadCompleted (Some e) d)
    (Destroyed (conn_destroy (ve_asio env) (conn_onReadError (ve_asio env) e (ow_connection s))) [])"
proof -
  let ?c = "conn_onReadError (ve_asio env) e (ow_connection s)"
  let ?ev = "ReadCompleted (Some e) d"
  have "conn_step env ce proc receiveData (ow_connection s) ?ev ?c"
    using step_read[of env ce proc receiveData "ow_connection s" "Some e" d] by (simp add: conn_onRead_def)
  from life_alive[OF this] show ?thesis
    using assms by (simp add: owners_def owned_after_def started_error_handlers)
qed

lemma last_write_destroys:
  assumes "ow_reads s = 0" and "ow_writes s = 1"
  shows "life_step env ce proc receiveData (Alive s) (WriteCompleted (Some e) n)
    (Destroyed (conn_destroy (ve_asio env) (conn_onWriteComplete (ve_asio env) (Some e) n (ow_connection s))) [])"
  using life_alive[OF step_write[of env ce proc receiveData "ow_connection s" "Some e" n]] assms
  by (simp add: owners_def owned_after_def started_error_handlers)

lemma ds_run_posted_dead:
  fixes d :: "('a, 'b) dispatcher_service"
  shows "ds_qops (ds_run_posted (\<lambda>_. False) copies d) = ds_qops d"
proof -
  have refs: "ds_qops (pa_set_refs i m s) = ds_qops s" for i m and s :: "('a, 'b) dispatcher_service"
    by (simp add: pa_set_refs_def ds_qops_def)
  then have "ds_qops ((ctx_copy i ^^ copies) s) = ds_qops s" for i and s :: "('a, 'b) dispatcher_service"
    by (induction copies) (simp_all add: ctx_copy_def)
  moreover have "ds_qops (ctx_destroy (\<lambda>_. False) i s) = ds_qops s"
    for i and s :: "('a, 'b) dispatcher_service"
    by (simp add: ctx_destroy_def Let_def weak_lock_def refs split: option.split)
  ultimately show ?thesis
    by (simp add: ds_run_posted_def Let_def split: list.split prod.split)
qed

section \<open>Properties\<close>

text \<open>
  C9. The life of a connection. As long as no read has failed the connection is alive, with one
  read pending, in a state of \<open>conn_reach\<close>. After a failed read it lives on exactly for the writes in
  flight: a failed read with none in flight destroys it, as does the end of the last write when it
  began no other.
\<close>

theorem conn_lifetime:
  assumes "life_reach env ce proc receiveData es s"
  shows "(\<not> list_ex read_failed es \<longrightarrow> (\<exists>o'. s = Alive o' \<and> ow_reads o' = 1))
    \<and> (\<forall>o'. s = Alive o' \<longrightarrow> conn_reach env ce proc receiveData es (ow_connection o')
        \<and> (list_ex read_failed es \<longrightarrow> ow_reads o' = 0 \<and> 0 < ow_writes o')
        \<and> (ow_writes o' = 0 \<longrightarrow> life_step env ce proc receiveData s (ReadCompleted (Some e) d)
             (Destroyed (conn_destroy (ve_asio env)
               (conn_onReadError (ve_asio env) e (ow_connection o'))) []))
        \<and> (list_ex read_failed es \<and> ow_writes o' = 1 \<longrightarrow>
             life_step env ce proc receiveData s (WriteCompleted (Some e) n)
             (Destroyed (conn_destroy (ve_asio env)
               (conn_onWriteComplete (ve_asio env) (Some e) n (ow_connection o'))) [])))"
proof (cases s)
  case (Alive o')
  then have ok: "conn_reach env ce proc receiveData es (ow_connection o')" "owners o' \<noteq> 0"
      "ow_reads o' = (if list_ex read_failed es then 0 else 1)"
    using life_reach_ok[OF assms] by (simp_all add: life_ok_def)
  then have "ow_writes o' = 0 \<Longrightarrow> ow_reads o' = 1"
    by (auto simp: owners_def split: if_splits)
  with ok show ?thesis
    unfolding Alive using last_read_destroys last_write_destroys by (auto simp: owners_def)
next
  case (Destroyed c uses)
  then show ?thesis using life_reach_ok[OF assms] by (simp add: life_ok_def)
qed

definition demo_life ::
    "(unit, string, bool \<times> string \<times> string, unit, unit, nat) owned" where
  "demo_life = \<lparr>ow_connection = conn_process (connection_new ()), ow_reads = 1, ow_writes = 0\<rparr>"

lemma demo_life_reach:
  "life_reach demo_env demo_client_env proc receiveData [] (Alive demo_life)"
  unfolding demo_life_def by (rule life_new)

theorem conn_lifetime_witness:
  "life_step demo_env demo_client_env (Handler (\<lambda>r. PDone)) (\<lambda>d. LDone) (Alive demo_life)
     (ReadCompleted (Some (OtherError ''End of file'')) [])
     (Destroyed (conn_destroy (ve_asio demo_env) (conn_onReadError (ve_asio demo_env)
       (OtherError ''End of file'') (ow_connection demo_life))) [])"
  using conn_lifetime[OF demo_life_reach] by (simp add: demo_life_def)


definition demo_recv :: "string \<Rightarrow> (unit, string, bool \<times> string \<times> string) lib_prog" where
  "demo_recv d = LRequest d (True, [], []) LDone"

definition demo_waiting :: "(unit, string, bool \<times> string \<times> string, unit, unit, nat) connection" where
  "demo_waiting = conn_onRead demo_env (Handler (\<lambda>r. PTimer 100 7 PDone)) demo_recv None ''x''
     (ow_connection demo_life)"

definition demo_ended :: "(unit, string, bool \<times> string \<times> string, unit, unit, nat) connection" where
  "demo_ended = conn_destroy (ve_asio demo_env)
     (conn_onReadError (ve_asio demo_env) (OtherError ''End of file'') demo_waiting)"

lemma demo_waiting_facts:
  "count_list (trace demo_waiting) AsyncReadSome = 2" "started demo_waiting = []"
  "length (tp_timers (cn_timers demo_ended)) = 1"
  "waits (tp_timers (cn_timers demo_ended) ! 0) = [OnceHandler 7]"
  by code_simp+

lemma demo_ended_reach:
  "life_reach demo_env demo_client_env (Handler (\<lambda>r. PTimer 100 7 PDone)) demo_recv
     [ReadCompleted None ''x'', ReadCompleted (Some (OtherError ''End of file'')) []]
     (Destroyed demo_ended [])"
proof -
  let ?proc = "Handler (\<lambda>r. PTimer 100 7 PDone) :: (string, string, nat) request_processor"
  let ?R = "life_reach demo_env demo_client_env ?proc demo_recv"
  let ?s = "owned_after (ReadCompleted None ''x'' :: (string, unit, nat) conn_event) demo_waiting demo_life"
  have s: "ow_reads ?s = 1" "ow_writes ?s = 0" "ow_connection ?s = demo_waiting"
    using demo_waiting_facts
    by (simp_all add: owned_after_def demo_life_def conn_process_def connection_new_def emit_def)
  have "life_step demo_env demo_client_env ?proc demo_recv (Alive demo_life) (ReadCompleted None ''x'') (Alive ?s)"
    using life_alive[OF step_read[of demo_env demo_client_env ?proc demo_recv
        "ow_connection demo_life" None "''x''"]] s
    by (simp add: demo_waiting_def[symmetric] owners_def demo_life_def[symmetric])
      (simp add: demo_life_def)
  from life_next[OF demo_life_reach this]
  have "?R [ReadCompleted None ''x''] (Alive ?s)" by simp
  from life_next[OF this last_read_destroys[OF s(1,2)], of "OtherError ''End of file''" "[]"]
  show ?thesis by (simp add: s(3) demo_ended_def)
qed


end
