(* ===== verification/IO_Service.thy ===== *)
theory IO_Service
  imports Events
begin

text \<open>
  The pool of asio contexts: \<^verbatim>\<open>src/ioservice.cpp\<close> and \<^verbatim>\<open>src/io.cpp\<close>. A context is named by
  its position in the pool; what asio does with it is a call that \<open>run_action\<close> records. The
  atomic counter \<open>ioIndex_\<close> is a 64 bit word.
\<close>

section \<open>State\<close>

record io_context =
  ctx_stopped :: bool

record io_service =
  ioPool :: "io_context list"
  ioGuardPool :: "nat list"
  signalWaits :: nat
  ioIndex :: size_t

datatype run_action =
    SpawnThread nat
  | RunHere nat
  | JoinThread nat

section \<open>Operations\<close>

function makeIoPool_loop :: "int \<Rightarrow> int \<Rightarrow> io_context list \<Rightarrow> io_context list" where
  "makeIoPool_loop i threadCount res =
     (if i < threadCount
      then makeIoPool_loop (i + 1) threadCount (res @ [\<lparr>ctx_stopped = False\<rparr>])
      else res)"
  by pat_completeness auto
termination
  by (relation "measure (\<lambda>(i, n, _). nat (n - i))") auto

declare makeIoPool_loop.simps [simp del]

definition makeIoPool :: "int \<Rightarrow> io_context list" where
  "makeIoPool threadCount = makeIoPool_loop 0 threadCount []"

definition makeGuardPool :: "io_context list \<Rightarrow> nat list" where
  "makeGuardPool pool = [0..<length pool]"

definition io_handleStopSignals :: "io_service \<Rightarrow> io_service" where
  "io_handleStopSignals s = s\<lparr>signalWaits := Suc (signalWaits s)\<rparr>"

text \<open>\<open>ioPool_.at(0)\<close>, of which the signal set is made, throws when the pool is empty.\<close>

definition io_new :: "int \<Rightarrow> cpp_exception + io_service" where
  "io_new threadCount =
     (let pool = makeIoPool threadCount
      in if pool = [] then Inl OutOfRange
         else Inr (io_handleStopSignals
           \<lparr>ioPool = pool, ioGuardPool = makeGuardPool pool, signalWaits = 0, ioIndex = 0\<rparr>))"

definition io_io :: "io_service \<Rightarrow> cpp_exception + nat" where
  "io_io s = (if ioPool s = [] then Inl OutOfRange else Inr 0)"

text \<open>\<open>None\<close> is the undefined remainder of a division by the size of an empty pool.\<close>

definition io_nextIO :: "io_service \<Rightarrow> (nat \<times> io_service) option" where
  "io_nextIO s =
     (if size_of (ioPool s) = 0 then None
      else Some (unat (ioIndex s mod size_of (ioPool s)), s\<lparr>ioIndex := ioIndex s + 1\<rparr>))"

definition io_run :: "io_service \<Rightarrow> run_action list" where
  "io_run s =
     (let threads = [1..<length (ioPool s)]
      in map SpawnThread threads @ [RunHere 0] @ map JoinThread threads)"

definition io_stop :: "io_service \<Rightarrow> io_service" where
  "io_stop s = s\<lparr>ioPool := map (\<lambda>c. c\<lparr>ctx_stopped := True\<rparr>) (ioPool s)\<rparr>"

text \<open>The handler of \<open>async_wait\<close> on the signal set; the wait that completed is gone.\<close>

definition io_onSignal :: "bool \<Rightarrow> io_service \<Rightarrow> io_service" where
  "io_onSignal error s =
     (let s = s\<lparr>signalWaits := signalWaits s - 1\<rparr>
      in if \<not> error then io_stop s else io_handleStopSignals s)"

section \<open>The IO object\<close>

text \<open>
  \<^verbatim>\<open>include/asyncgi/io.h\<close> and \<^verbatim>\<open>src/io.cpp\<close>: the pool and the event handler of an application. The
  constructors that take a handler delegate to the one that does not, and then assign it; the
  template for a single argument uses one thread.
\<close>

record 'u io_object =
  iob_ioService :: io_service
  iob_eventHandler :: "'u event_handler_proxy"

definition IO_new :: "int \<Rightarrow> cpp_exception + 'u io_object" where
  "IO_new threadsNumber =
     (case io_new threadsNumber of
        Inl e \<Rightarrow> Inl e
      | Inr s \<Rightarrow> Inr \<lparr>iob_ioService = s, iob_eventHandler = default_proxy\<rparr>)"

definition IO_new_threads_handler :: "int \<Rightarrow> (error_event \<Rightarrow> string \<Rightarrow> 'u \<Rightarrow> 'u) \<Rightarrow>
    cpp_exception + 'u io_object" where
  "IO_new_threads_handler threadsNumber eventHandler =
     (case IO_new threadsNumber of
        Inl e \<Rightarrow> Inl e
      | Inr io \<Rightarrow> Inr (io\<lparr>iob_eventHandler := proxy_of eventHandler\<rparr>))"

definition IO_new_handler :: "(error_event \<Rightarrow> string \<Rightarrow> 'u \<Rightarrow> 'u) \<Rightarrow>
    cpp_exception + 'u io_object" where
  "IO_new_handler eventHandler =
     (case IO_new 1 of
        Inl e \<Rightarrow> Inl e
      | Inr io \<Rightarrow> Inr (io\<lparr>iob_eventHandler := proxy_of eventHandler\<rparr>))"

definition IO_run :: "'u io_object \<Rightarrow> run_action list" where
  "IO_run io = io_run (iob_ioService io)"

definition IO_stop :: "'u io_object \<Rightarrow> 'u io_object" where
  "IO_stop io = io\<lparr>iob_ioService := io_stop (iob_ioService io)\<rparr>"

section \<open>Facts\<close>

lemma makeIoPool_loop_eq:
  "makeIoPool_loop i n res = res @ replicate (nat (n - i)) \<lparr>ctx_stopped = False\<rparr>"
proof (induction i n res rule: makeIoPool_loop.induct)
  case (1 i n res)
  show ?case
  proof (cases "i < n")
    case True
    then have "nat (n - i) = Suc (nat (n - (i + 1)))" by simp
    with True 1 show ?thesis by (simp add: makeIoPool_loop.simps[of i n res])
  next
    case False
    then show ?thesis by (simp add: makeIoPool_loop.simps[of i n res])
  qed
qed

lemma makeIoPool_eq: "makeIoPool n = replicate (nat n) \<lparr>ctx_stopped = False\<rparr>"
  by (simp add: makeIoPool_def makeIoPool_loop_eq)

definition io_invar :: "io_service \<Rightarrow> bool" where
  "io_invar s \<longleftrightarrow> ioPool s \<noteq> [] \<and> length (ioPool s) < size_max \<and>
     ioGuardPool s = [0..<length (ioPool s)]"

lemma io_invar_size: "io_invar s \<Longrightarrow> size_of (ioPool s) \<noteq> 0"
  by (simp add: io_invar_def size_of_eq_0_iff)

lemma io_nextIO_Some:
  "io_invar s \<Longrightarrow> io_nextIO s =
     Some (unat (ioIndex s) mod length (ioPool s), s\<lparr>ioIndex := ioIndex s + 1\<rparr>)"
  using io_invar_size[of s]
  by (simp add: io_nextIO_def unat_mod unat_size_of io_invar_def)

lemma io_ops_invar [inv_intros]:
  "io_invar s \<Longrightarrow> io_nextIO s = Some (i, s') \<Longrightarrow> io_invar s'"
  "io_invar s \<Longrightarrow> io_invar (io_stop s)"
  "io_invar s \<Longrightarrow> io_invar (io_onSignal e s)"
  by (auto simp: io_invar_def io_nextIO_def io_stop_def io_onSignal_def
      io_handleStopSignals_def Let_def split: if_splits)

text \<open>Calls of \<open>nextIO\<close> in a row.\<close>

fun io_picks :: "nat \<Rightarrow> io_service \<Rightarrow> (nat list \<times> io_service) option" where
  "io_picks 0 s = Some ([], s)"
| "io_picks (Suc m) s =
     (case io_nextIO s of
        None \<Rightarrow> None
      | Some (i, s) \<Rightarrow>
          (case io_picks m s of None \<Rightarrow> None | Some (is, s) \<Rightarrow> Some (i # is, s)))"

lemma io_picks_eq:
  "io_invar s \<Longrightarrow> unat (ioIndex s) + m < size_max \<Longrightarrow>
     io_picks m s = Some (map (\<lambda>k. k mod length (ioPool s)) [unat (ioIndex s)..<unat (ioIndex s) + m],
       s\<lparr>ioIndex := ioIndex s + of_nat m\<rparr>)"
proof (induction m arbitrary: s)
  case 0
  then show ?case by simp
next
  case (Suc m)
  let ?s = "s\<lparr>ioIndex := ioIndex s + 1\<rparr>"
  have u: "unat (ioIndex ?s) = Suc (unat (ioIndex s))"
    using Suc.prems(2) by (simp add: unat_word_ariths)
  have "io_invar ?s" using Suc.prems(1) by (simp add: io_invar_def)
  with Suc u have "io_picks m ?s = Some (map (\<lambda>k. k mod length (ioPool s))
      [Suc (unat (ioIndex s))..<Suc (unat (ioIndex s)) + m], ?s\<lparr>ioIndex := ioIndex s + 1 + of_nat m\<rparr>)"
    by simp
  then show ?case
    using io_nextIO_Some[OF Suc.prems(1)] by (simp add: upt_Suc_Cons add.assoc del: upt_Suc)
qed

lemma count_mod:
  "i < n \<Longrightarrow> count_list (map (\<lambda>k. k mod n) [0..<m]) i = m div n + (if i < m mod n then 1 else 0)"
proof (induction m)
  case (Suc m)
  have "Suc m div n = m div n + (if Suc (m mod n) = n then 1 else 0)"
    and "Suc m mod n = (if Suc (m mod n) = n then 0 else Suc (m mod n))"
    by (simp_all add: div_Suc mod_Suc)
  moreover have "m mod n < n" using Suc.prems by simp
  ultimately show ?case using Suc by auto
qed simp

section \<open>Properties\<close>

text \<open>
  Construction. An \<open>IOService\<close> for \<open>n\<close> threads is constructed exactly when \<open>n\<close> is positive
  (otherwise \<open>at(0)\<close> throws); it has \<open>n\<close> contexts, none stopped, a work guard for each of them,
  and one wait on the stop signals.
\<close>

theorem io_new_pool:
  "io_new n = (if n \<le> 0 then Inl OutOfRange
     else Inr \<lparr>ioPool = replicate (nat n) \<lparr>ctx_stopped = False\<rparr>,
       ioGuardPool = [0..<nat n], signalWaits = 1, ioIndex = 0\<rparr>)"
  by (simp add: io_new_def makeIoPool_eq makeGuardPool_def io_handleStopSignals_def Let_def)

lemma io_new_invar: "io_new n = Inr s \<Longrightarrow> n < 2 ^ 31 \<Longrightarrow> io_invar s"
  by (auto simp: io_new_def makeIoPool_eq makeGuardPool_def io_handleStopSignals_def Let_def
      io_invar_def split: if_splits)

text \<open>
  Round robin. From a new service with \<open>n\<close> contexts the k-th call of \<open>nextIO\<close> returns
  context \<open>k mod n\<close>, always inside the pool, and after \<open>m\<close> calls (as long as the 64 bit counter
  has not wrapped) every context has been handed out \<open>m div n\<close> or \<open>m div n + 1\<close> times.
\<close>

theorem io_round_robin:
  assumes "io_new n = Inr s" and "n < 2 ^ 31" and "m < size_max"
  shows "\<exists>is s'. io_picks m s = Some (is, s') \<and> is = map (\<lambda>k. k mod nat n) [0..<m]
    \<and> set is \<subseteq> {0..<length (ioPool s)}
    \<and> (\<forall>i < length (ioPool s). count_list is i = m div nat n + (if i < m mod nat n then 1 else 0))"
proof -
  have inv: "io_invar s" using assms(1,2) by (rule io_new_invar)
  have s: "length (ioPool s) = nat n" "ioIndex s = 0" "0 < n"
    using assms(1) by (auto simp: io_new_pool split: if_splits)
  show ?thesis
    using io_picks_eq[OF inv, of m] assms(3) s by (auto simp: count_mod)
qed

theorem io_round_robin_witness:
  "\<exists>s is s'. io_new 3 = Inr s \<and> io_picks 7 s = Some (is, s') \<and> is = [0, 1, 2, 0, 1, 2, 0]"
proof -
  obtain s where s: "io_new 3 = Inr s" by (simp add: io_new_pool)
  have picks: "map (\<lambda>k. k mod nat 3) [0..<7] = [0, 1, 2, 0, 1, 2, 0]" by code_simp
  obtain "is" s' where "io_picks 7 s = Some (is, s')" "is = map (\<lambda>k. k mod nat 3) [0..<7]"
    using io_round_robin[OF s, of 7] by auto
  with s picks show ?thesis by metis
qed

text \<open>
  Running and stopping. \<open>run\<close> runs every context of the pool exactly once, the first on the
  calling thread after all others were started, and joins exactly the threads it started; a stop
  signal stops every context, an error on the signal set waits again and stops none.
\<close>

theorem io_run_and_stop:
  "concat (map (\<lambda>a. case a of SpawnThread i \<Rightarrow> [i] | RunHere i \<Rightarrow> [i] | _ \<Rightarrow> []) (io_run s))
      = [1..<length (ioPool s)] @ [0]
    \<and> concat (map (\<lambda>a. case a of SpawnThread i \<Rightarrow> [i] | _ \<Rightarrow> []) (io_run s))
      = concat (map (\<lambda>a. case a of JoinThread i \<Rightarrow> [i] | _ \<Rightarrow> []) (io_run s))
    \<and> list_all ctx_stopped (ioPool (io_onSignal False s))
    \<and> ioPool (io_onSignal True s) = ioPool s
    \<and> signalWaits (io_onSignal True s) = Suc (signalWaits s - 1)"
  by (simp add: io_run_def io_onSignal_def io_stop_def io_handleStopSignals_def Let_def comp_def
      list_all_iff)

end
