(* ===== verification/Server.thy ===== *)
theory Server
  imports IO_Service Connection_System
begin

text \<open>
  Listening: \<^verbatim>\<open>src/server.cpp\<close>, \<^verbatim>\<open>src/serverservice.cpp\<close>,
  \<^verbatim>\<open>src/connectionfactory.cpp\<close>, \<^verbatim>\<open>src/connectionlistenerfactory.cpp\<close> and
  \<^verbatim>\<open>src/connectionlistener.cpp\<close>. The operating system and asio are parameters: opening an
  acceptor on an endpoint may throw, an address may not parse. So is the initial state of the
  FastCGI library's part of a connection, \<open>library\<close>.

  A server, its factories and listeners refer to the \<open>IOService\<close> and the event handler of the
  \<open>IO\<close> object it is made for; the state of the service is passed along.
\<close>

section \<open>Connections and their factory\<close>

record ('r, 'w, 'k) connection_factory =
  cf_requestProcessor :: "('r, 'w, 'k) request_processor"

text \<open>A connection with the context it runs on and the request processor it was given.\<close>

record ('l, 'r, 'x, 'f, 'h, 'k, 'w) listener_connection =
  conn_io :: nat
  conn_requestProcessor :: "('r, 'w, 'k) request_processor"
  conn_state :: "('l, 'r, 'x, 'f, 'h, 'k) connection"

datatype endpoint =
    LocalEndpoint string
  | TcpEndpoint string u16

record ('l, 'r, 'x, 'f, 'h, 'k, 'w) listener =
  ls_endpoint :: endpoint
  ls_acceptor_io :: nat
  ls_factory :: "('r, 'w, 'k) connection_factory"
  ls_accepting :: "('l, 'r, 'x, 'f, 'h, 'k, 'w) listener_connection list"
  ls_processing :: "('l, 'r, 'x, 'f, 'h, 'k, 'w) listener_connection list"
  ls_reports :: "(error_event \<times> string) list"

definition connection_factory_new ::
    "('r, 'w, 'k) request_processor \<Rightarrow> ('r, 'w, 'k) connection_factory" where
  "connection_factory_new requestProcessor = \<lparr>cf_requestProcessor = requestProcessor\<rparr>"

definition new_connection :: "'l \<Rightarrow> ('r, 'w, 'k) request_processor \<Rightarrow> nat \<Rightarrow>
    ('l, 'r, 'x, 'f, 'h, 'k, 'w) listener_connection" where
  "new_connection library requestProcessor io =
     \<lparr>conn_io = io, conn_requestProcessor = requestProcessor,
      conn_state = connection_new library\<rparr>"

text \<open>\<open>ConnectionFactory::makeConnection\<close>: the connection runs on the pool's next context.\<close>

definition makeConnection :: "'l \<Rightarrow> ('r, 'w, 'k) connection_factory \<Rightarrow> io_service \<Rightarrow>
    (('l, 'r, 'x, 'f, 'h, 'k, 'w) listener_connection \<times> io_service) option" where
  "makeConnection library factory ioService =
     (case io_nextIO ioService of
        Some (io, ioService) \<Rightarrow>
          Some (new_connection library (cf_requestProcessor factory) io, ioService)
      | None \<Rightarrow> None)"

section \<open>The connection listener\<close>

definition waitForConnection :: "'l \<Rightarrow>
    ('l, 'r, 'x, 'f, 'h, 'k, 'w) listener \<times> io_service \<Rightarrow>
    (('l, 'r, 'x, 'f, 'h, 'k, 'w) listener \<times> io_service) option" where
  "waitForConnection library ls =
     (let (l, ioService) = ls
      in case makeConnection library (ls_factory l) ioService of
           Some (connection, ioService) \<Rightarrow>
             Some (l\<lparr>ls_accepting := ls_accepting l @ [connection]\<rparr>, ioService)
         | None \<Rightarrow> None)"

definition listener_new :: "'l \<Rightarrow> endpoint \<Rightarrow> nat \<Rightarrow> ('r, 'w, 'k) connection_factory \<Rightarrow>
    io_service \<Rightarrow> (('l, 'r, 'x, 'f, 'h, 'k, 'w) listener \<times> io_service) option" where
  "listener_new library ep io factory ioService =
     waitForConnection library (\<lparr>ls_endpoint = ep, ls_acceptor_io = io, ls_factory = factory,
       ls_accepting = [], ls_processing = [], ls_reports = []\<rparr>, ioService)"

text \<open>\<open>connection.process()\<close> asks for the first read.\<close>

definition onConnected :: "'l \<Rightarrow> ('l, 'r, 'x, 'f, 'h, 'k, 'w) listener_connection \<Rightarrow>
    io_error option \<Rightarrow> ('l, 'r, 'x, 'f, 'h, 'k, 'w) listener \<times> io_service \<Rightarrow>
    (('l, 'r, 'x, 'f, 'h, 'k, 'w) listener \<times> io_service) option" where
  "onConnected library connection error ls =
     (let (l, ioService) = ls
      in case error of
           Some e \<Rightarrow>
             Some (l\<lparr>ls_reports := ls_reports l @ [(ConnectionError, message e)]\<rparr>, ioService)
         | None \<Rightarrow>
             (let connection = connection\<lparr>conn_state := conn_process (conn_state connection)\<rparr>
              in waitForConnection library
                   (l\<lparr>ls_processing := ls_processing l @ [connection]\<rparr>, ioService)))"

text \<open>asio completes the pending accept, if there is one.\<close>

definition listener_accept :: "'l \<Rightarrow> io_error option \<Rightarrow>
    ('l, 'r, 'x, 'f, 'h, 'k, 'w) listener \<times> io_service \<Rightarrow>
    (('l, 'r, 'x, 'f, 'h, 'k, 'w) listener \<times> io_service) option" where
  "listener_accept library error ls =
     (case ls_accepting (fst ls) of
        [] \<Rightarrow> Some ls
      | connection # rest \<Rightarrow>
          onConnected library connection error ((fst ls)\<lparr>ls_accepting := rest\<rparr>, snd ls))"

fun listener_run :: "'l \<Rightarrow> io_error option list \<Rightarrow>
    ('l, 'r, 'x, 'f, 'h, 'k, 'w) listener \<times> io_service \<Rightarrow>
    (('l, 'r, 'x, 'f, 'h, 'k, 'w) listener \<times> io_service) option" where
  "listener_run library [] ls = Some ls"
| "listener_run library (e # es) ls =
     (case listener_accept library e ls of
        Some ls \<Rightarrow> listener_run library es ls | None \<Rightarrow> None)"

section \<open>The server\<close>

datatype os_call =
    Umask nat
  | Chmod string nat
  | Unlink string
  | OpenAcceptor endpoint

record os_api =
  os_acceptor :: "os_call list \<Rightarrow> endpoint \<Rightarrow> cpp_exception option"
  os_make_address :: "string \<Rightarrow> cpp_exception + string"

record ('r, 'w, 'k) connection_listener_factory =
  clf_io :: nat
  clf_connectionFactory :: "('r, 'w, 'k) connection_factory"

definition connection_listener_factory_new :: "nat \<Rightarrow> ('r, 'w, 'k) connection_factory \<Rightarrow>
    ('r, 'w, 'k) connection_listener_factory" where
  "connection_listener_factory_new io connectionFactory =
     \<lparr>clf_io = io, clf_connectionFactory = connectionFactory\<rparr>"

record ('l, 'r, 'x, 'f, 'h, 'k, 'w) server =
  sv_io :: io_service
  sv_factory :: "('r, 'w, 'k) connection_listener_factory"
  sv_local :: "('l, 'r, 'x, 'f, 'h, 'k, 'w) listener list"
  sv_tcp :: "('l, 'r, 'x, 'f, 'h, 'k, 'w) listener list"
  sv_calls :: "os_call list"

text \<open>
  \<open>detail::makeConnectionListenerFactory\<close> and the constructors of \<open>ServerService\<close> and \<open>Server\<close>.
  \<open>io()\<close> throws when the pool is empty.
\<close>

definition makeConnectionListenerFactory :: "('r, 'w, 'k) request_processor \<Rightarrow> io_service \<Rightarrow>
    cpp_exception + ('r, 'w, 'k) connection_listener_factory" where
  "makeConnectionListenerFactory requestProcessor ioService =
     (let connectionFactory = connection_factory_new requestProcessor
      in case io_io ioService of
           Inl e \<Rightarrow> Inl e
         | Inr io \<Rightarrow> Inr (connection_listener_factory_new io connectionFactory))"

definition server_service_new :: "('r, 'w, 'k) connection_listener_factory \<Rightarrow> io_service \<Rightarrow>
    ('l, 'r, 'x, 'f, 'h, 'k, 'w) server" where
  "server_service_new connectionListenerFactory ioService =
     \<lparr>sv_io = ioService, sv_factory = connectionListenerFactory, sv_local = [], sv_tcp = [],
      sv_calls = []\<rparr>"

definition server_new :: "io_service \<Rightarrow> ('r, 'w, 'k) request_processor \<Rightarrow>
    cpp_exception + ('l, 'r, 'x, 'f, 'h, 'k, 'w) server" where
  "server_new ioService requestProcessor =
     (case makeConnectionListenerFactory requestProcessor ioService of
        Inl e \<Rightarrow> Inl e
      | Inr factory \<Rightarrow> Inr (server_service_new factory ioService))"

definition initUnixDomainSocket :: "string \<Rightarrow> os_call list" where
  "initUnixDomainSocket path = [Umask 0, Chmod path 511, Unlink path]"

text \<open>
  \<open>ConnectionListenerFactory::makeConnectionListener\<close>: the acceptor is opened on the first
  context of the pool, then the listener is constructed.
\<close>

definition makeConnectionListener :: "'l \<Rightarrow> os_api \<Rightarrow> endpoint \<Rightarrow>
    ('l, 'r, 'x, 'f, 'h, 'k, 'w) server \<Rightarrow> ('l, 'r, 'x, 'f, 'h, 'k, 'w) server \<times>
    (cpp_exception + ('l, 'r, 'x, 'f, 'h, 'k, 'w) listener)" where
  "makeConnectionListener library os address s =
     (let s = s\<lparr>sv_calls := sv_calls s @ [OpenAcceptor address]\<rparr>
      in case os_acceptor os (sv_calls s) address of
           Some e \<Rightarrow> (s, Inl e)
         | None \<Rightarrow>
             (case listener_new library address (clf_io (sv_factory s))
                     (clf_connectionFactory (sv_factory s)) (sv_io s) of
                Some (l, io) \<Rightarrow> (s\<lparr>sv_io := io\<rparr>, Inr l)
              | None \<Rightarrow> (s, Inl OutOfRange)))"

definition service_listen_local :: "'l \<Rightarrow> os_api \<Rightarrow> string \<Rightarrow>
    ('l, 'r, 'x, 'f, 'h, 'k, 'w) server \<Rightarrow>
    ('l, 'r, 'x, 'f, 'h, 'k, 'w) server \<times> cpp_exception option" where
  "service_listen_local library os socketPath s =
     (let s = s\<lparr>sv_calls := sv_calls s @ initUnixDomainSocket socketPath\<rparr>
      in case makeConnectionListener library os (LocalEndpoint socketPath) s of
           (s, Inl e) \<Rightarrow> (s, Some e)
         | (s, Inr l) \<Rightarrow> (s\<lparr>sv_local := sv_local s @ [l]\<rparr>, None))"

definition service_listen_tcp :: "'l \<Rightarrow> os_api \<Rightarrow> string_view \<Rightarrow> int \<Rightarrow>
    ('l, 'r, 'x, 'f, 'h, 'k, 'w) server \<Rightarrow>
    ('l, 'r, 'x, 'f, 'h, 'k, 'w) server \<times> cpp_exception option" where
  "service_listen_tcp library os ipAddress portNumber s =
     (if \<not> (portNumber \<ge> 0 \<and> portNumber < 65536) then (s, Some ContractViolation)
      else case os_make_address os (sv_c_str ipAddress) of
        Inl e \<Rightarrow> (s, Some e)
      | Inr address \<Rightarrow>
          (case makeConnectionListener library os
                  (TcpEndpoint address (word_of_int portNumber)) s of
             (s, Inl e) \<Rightarrow> (s, Some e)
           | (s, Inr l) \<Rightarrow> (s\<lparr>sv_tcp := sv_tcp s @ [l]\<rparr>, None)))"

definition server_listen_tcp :: "'l \<Rightarrow> os_api \<Rightarrow> string_view \<Rightarrow> int \<Rightarrow>
    ('l, 'r, 'x, 'f, 'h, 'k, 'w) server \<Rightarrow>
    ('l, 'r, 'x, 'f, 'h, 'k, 'w) server \<times> cpp_exception option" where
  "server_listen_tcp library os ipAddress port s =
     (if port < 0 \<or> port > 65535
      then (s, Some (ErrorException ''port's value must be in range [0, 65535]''))
      else service_listen_tcp library os ipAddress port s)"

definition server_listen_local :: "'l \<Rightarrow> os_api \<Rightarrow> string \<Rightarrow>
    ('l, 'r, 'x, 'f, 'h, 'k, 'w) server \<Rightarrow>
    ('l, 'r, 'x, 'f, 'h, 'k, 'w) server \<times> cpp_exception option" where
  "server_listen_local library os unixDomainSocket s =
     service_listen_local library os unixDomainSocket s"

section \<open>Facts\<close>

lemma waitForConnection_Some:
  "io_invar io \<Longrightarrow> waitForConnection library (l, io) =
     Some (l\<lparr>ls_accepting := ls_accepting l @
        [new_connection library (cf_requestProcessor (ls_factory l)) (unat (ioIndex io) mod length (ioPool io))]\<rparr>,
       io\<lparr>ioIndex := ioIndex io + 1\<rparr>)"
  by (simp add: waitForConnection_def makeConnection_def io_nextIO_Some)

text \<open>
  A listener that has accepted \<open>k\<close> connections, starting when the counter of the pool was \<open>i\<close>.
\<close>

definition accepting_after :: "'l \<Rightarrow> ('r, 'w, 'k) request_processor \<Rightarrow> nat \<Rightarrow> nat \<Rightarrow> nat \<Rightarrow>
    ('l, 'r, 'x, 'f, 'h, 'k, 'w) listener \<times> io_service \<Rightarrow> bool" where
  "accepting_after library proc n i k ls \<longleftrightarrow>
     (let (l, io) = ls
      in io_invar io \<and> length (ioPool io) = n \<and> unat (ioIndex io) = i + k + 1 \<and>
        cf_requestProcessor (ls_factory l) = proc \<and>
        ls_accepting l = [new_connection library proc ((i + k) mod n)] \<and> ls_reports l = [] \<and>
        ls_processing l =
          map (\<lambda>j. \<lparr>conn_io = (i + j) mod n, conn_requestProcessor = proc,
            conn_state = conn_process (connection_new library)\<rparr>) [0..<k])"

lemma unat_Suc_index:
  fixes x :: size_t
  assumes "unat x + 1 < size_max"
  shows "unat (x + 1) = Suc (unat x)"
  using assms by (simp add: unat_word_ariths)

lemma listener_new_accepting:
  assumes "io_invar io" and "unat (ioIndex io) + 1 < size_max"
  shows "\<exists>ls. listener_new library ep a cf io = Some ls \<and>
    accepting_after library (cf_requestProcessor cf) (length (ioPool io)) (unat (ioIndex io)) 0 ls"
  using assms by (simp add: listener_new_def waitForConnection_Some accepting_after_def
      unat_Suc_index io_invar_def)

lemma listener_accept_ok:
  assumes a: "accepting_after library proc n i k ls" and b: "i + k + 2 < size_max"
  shows "\<exists>ls'. listener_accept library None ls = Some ls' \<and>
    accepting_after library proc n i (Suc k) ls'"
proof -
  obtain l io where ls: "ls = (l, io)" by (cases ls)
  with a have inv: "io_invar io" and n: "length (ioPool io) = n"
    and idx: "unat (ioIndex io) = i + k + 1" and p: "cf_requestProcessor (ls_factory l) = proc"
    and acc: "ls_accepting l = [new_connection library proc ((i + k) mod n)]" "ls_reports l = []"
    and proc: "ls_processing l = map (\<lambda>j. \<lparr>conn_io = (i + j) mod n, conn_requestProcessor = proc,
      conn_state = conn_process (connection_new library)\<rparr>) [0..<k]"
    by (simp_all add: accepting_after_def)
  have "unat (ioIndex io + 1) = i + Suc k + 1"
    using unat_Suc_index[of "ioIndex io"] idx b by simp
  then show ?thesis
    using ls inv n idx p acc proc
    by (simp add: listener_accept_def onConnected_def waitForConnection_Some accepting_after_def
        io_invar_def new_connection_def[of library proc "(i + k) mod n"])
qed

lemma listener_run_ok:
  "accepting_after library proc n i j ls \<Longrightarrow> i + j + k + 1 < size_max \<Longrightarrow>
     \<exists>ls'. listener_run library (replicate k None) ls = Some ls' \<and>
       accepting_after library proc n i (j + k) ls'"
proof (induction k arbitrary: j ls)
  case (Suc k)
  then obtain ls1 where "listener_accept library None ls = Some ls1"
      "accepting_after library proc n i (Suc j) ls1"
    using listener_accept_ok[of library proc n i j ls] by auto
  with Suc.IH[of "Suc j" ls1] Suc.prems(2) show ?case by simp
qed simp

lemma listener_run_append:
  "listener_run library (es @ fs) ls =
     (case listener_run library es ls of Some ls \<Rightarrow> listener_run library fs ls | None \<Rightarrow> None)"
  by (induction es arbitrary: ls) (simp_all split: option.split)

lemma listener_run_idle: "ls_accepting (fst ls) = [] \<Longrightarrow> listener_run library es ls = Some ls"
  by (induction es) (simp_all add: listener_accept_def)

type_synonym demo_listener =
  "(unit, string, bool \<times> string \<times> string, unit, unit, nat, string) listener"

text \<open>A factory whose request processor answers every request.\<close>

definition demo_factory :: "(string, string, nat) connection_factory" where
  "demo_factory = connection_factory_new (Handler (\<lambda>r. PSendHttp ''ok'' PDone))"

definition demo_listener_factory :: "(string, string, nat) connection_listener_factory" where
  "demo_listener_factory = connection_listener_factory_new 0 demo_factory"

definition demo_server ::
    "(unit, string, bool \<times> string \<times> string, unit, unit, nat, string) server" where
  "demo_server = server_service_new demo_listener_factory
     \<lparr>ioPool = [\<lparr>ctx_stopped = False\<rparr>], ioGuardPool = [0], signalWaits = 1, ioIndex = 0\<rparr>"

lemma demo_server_simps:
  "sv_io demo_server =
     \<lparr>ioPool = [\<lparr>ctx_stopped = False\<rparr>], ioGuardPool = [0], signalWaits = 1, ioIndex = 0\<rparr>"
  "sv_calls demo_server = []"
  by (simp_all add: demo_server_def server_service_new_def)

section \<open>Properties\<close>

text \<open>
  C37. Accepting. Once constructed, a listener has one accept pending; after \<open>k\<close> successful
  accepts it serves exactly \<open>k\<close> connections, each reading, spread over the pool's contexts in
  turn, has reported nothing, and has one accept pending again.
\<close>

theorem listener_accepts:
  assumes "io_invar io" and "unat (ioIndex io) + k + 1 < size_max"
  shows "\<exists>(ls :: ('l, 'r, 'x, 'f, 'h, 'k, 'w) listener \<times> io_service) l io'.
    listener_new library ep a cf io = Some ls
    \<and> listener_run library (replicate k None) ls = Some (l, io')
    \<and> length (ls_accepting l) = 1 \<and> ls_reports l = []
    \<and> map conn_io (ls_processing l) =
        map (\<lambda>j. (unat (ioIndex io) + j) mod length (ioPool io)) [0..<k]
    \<and> list_all (\<lambda>c. trace (conn_state c) = [AsyncReadSome]
        \<and> conn_requestProcessor c = cf_requestProcessor cf) (ls_processing l)"
proof -
  obtain ls :: "('l, 'r, 'x, 'f, 'h, 'k, 'w) listener \<times> io_service"
    where new: "listener_new library ep a cf io = Some ls"
    and acc: "accepting_after library (cf_requestProcessor cf) (length (ioPool io)) (unat (ioIndex io)) 0 ls"
    using listener_new_accepting[OF assms(1), of library ep a cf] assms(2) by auto
  with listener_run_ok[OF acc, of k] assms(2) obtain l io' where
    "listener_run library (replicate k None) ls = Some (l, io')"
    "accepting_after library (cf_requestProcessor cf) (length (ioPool io)) (unat (ioIndex io)) k (l, io')"
    by auto
  with new show ?thesis
    by (auto simp: accepting_after_def conn_process_def connection_new_def emit_def list_all_iff)
qed

theorem listener_accepts_witness:
  "\<exists>(ls :: demo_listener \<times> io_service) l io'. listener_new () (LocalEndpoint ''/tmp/fcgi.sock'') 0 demo_factory
      \<lparr>ioPool = [\<lparr>ctx_stopped = False\<rparr>, \<lparr>ctx_stopped = False\<rparr>], ioGuardPool = [0, 1],
        signalWaits = 1, ioIndex = 0\<rparr> = Some ls
    \<and> listener_run () (replicate 3 None) ls = Some (l, io')
    \<and> map conn_io (ls_processing l) = [0, 1, 0]"
proof -
  let ?io = "\<lparr>ioPool = [\<lparr>ctx_stopped = False\<rparr>, \<lparr>ctx_stopped = False\<rparr>], ioGuardPool = [0, 1],
    signalWaits = 1, ioIndex = 0\<rparr>"
  have "io_invar ?io" by (simp add: io_invar_def)
  note listener_accepts[OF this, of 3 "()" "LocalEndpoint ''/tmp/fcgi.sock''" 0 demo_factory]
  then obtain ls l io' where "listener_new () (LocalEndpoint ''/tmp/fcgi.sock'') 0 demo_factory ?io =
        Some (ls :: demo_listener \<times> io_service)"
      "listener_run () (replicate 3 None) ls = Some (l, io')"
      "map conn_io (ls_processing l) = map (\<lambda>j. j mod Suc (Suc 0)) [0..<3]"
    by auto
  moreover have "map (\<lambda>j. j mod Suc (Suc 0)) [0..<3] = [0, 1, 0 :: nat]" by code_simp
  ultimately show ?thesis by metis
qed

text \<open>
  A failed accept ends the listener. The error is reported once as \<open>ConnectionError\<close>; no
  accept is pending afterwards and nothing that happens later makes the listener accept another
  connection. The connections accepted before it are kept.
\<close>

lemma listener_error_stops:
  assumes "io_invar io" and "unat (ioIndex io) + k + 1 < size_max"
  shows "\<exists>(ls :: ('l, 'r, 'x, 'f, 'h, 'k, 'w) listener \<times> io_service) l io'.
    listener_new library ep a cf io = Some ls
    \<and> listener_run library (replicate k None @ Some e # es) ls = Some (l, io')
    \<and> ls_accepting l = [] \<and> length (ls_processing l) = k
    \<and> ls_reports l = [(ConnectionError, message e)]"
proof -
  obtain ls :: "('l, 'r, 'x, 'f, 'h, 'k, 'w) listener \<times> io_service"
    where new: "listener_new library ep a cf io = Some ls"
    and acc: "accepting_after library (cf_requestProcessor cf) (length (ioPool io)) (unat (ioIndex io)) 0 ls"
    using listener_new_accepting[OF assms(1), of library ep a cf] assms(2) by auto
  with listener_run_ok[OF acc, of k] assms(2) obtain l io' where
    "listener_run library (replicate k None) ls = Some (l, io')"
    "accepting_after library (cf_requestProcessor cf) (length (ioPool io)) (unat (ioIndex io)) k (l, io')"
    by auto
  with new show ?thesis
    by (auto simp: listener_run_append listener_accept_def onConnected_def accepting_after_def
        listener_run_idle)
qed


text \<open>
  An address view is read past its end. \<open>listen\<close> passes \<open>ipAddress.data()\<close> to a function that
  takes a C string: for a view of the first 9 characters of \<open>127.0.0.1:9088\<close> the address that is
  parsed is not the 9 characters of the view but all 14 of the memory behind it.
\<close>

theorem listen_reads_past_view:
  "sv_chars \<lparr>sv_mem = ''127.0.0.1:9088'' @ [CHR 0x00], sv_len = 9\<rparr> = ''127.0.0.1''
   \<and> sv_calls (fst (server_listen_tcp () \<lparr>os_acceptor = (\<lambda>_ _. None), os_make_address = Inr\<rparr>
        \<lparr>sv_mem = ''127.0.0.1:9088'' @ [CHR 0x00], sv_len = 9\<rparr> 80 s))
      = sv_calls s @ [OpenAcceptor (TcpEndpoint ''127.0.0.1:9088'' 80)]"
  by (simp add: sv_chars_def sv_c_str_def server_listen_tcp_def service_listen_tcp_def
      makeConnectionListener_def Let_def split: option.split)

text \<open>
  Listening on a Unix domain socket. The stale socket file is removed and the umask cleared
  before the acceptor is opened; a listener is added exactly when the acceptor could be opened,
  otherwise the exception is passed on and the server keeps the listeners it had.
\<close>

theorem listen_local:
  assumes "io_invar (sv_io s)"
  shows "sv_calls (fst (server_listen_local library os path s)) = sv_calls s @
      [Umask 0, Chmod path 511, Unlink path, OpenAcceptor (LocalEndpoint path)]
    \<and> snd (server_listen_local library os path s) = os_acceptor os (sv_calls s @
      [Umask 0, Chmod path 511, Unlink path, OpenAcceptor (LocalEndpoint path)]) (LocalEndpoint path)
    \<and> length (sv_local (fst (server_listen_local library os path s))) = length (sv_local s) +
      (if snd (server_listen_local library os path s) = None then 1 else 0)
    \<and> sv_tcp (fst (server_listen_local library os path s)) = sv_tcp s"
  using assms
  by (simp add: server_listen_local_def service_listen_local_def initUnixDomainSocket_def
      makeConnectionListener_def listener_new_def waitForConnection_Some Let_def
      split: option.split)

theorem listen_local_witness:
  "sv_calls (fst (server_listen_local () \<lparr>os_acceptor = (\<lambda>_ _. None), os_make_address = Inr\<rparr>
      ''/tmp/fcgi.sock'' demo_server))
    = [Umask 0, Chmod ''/tmp/fcgi.sock'' 511, Unlink ''/tmp/fcgi.sock'',
       OpenAcceptor (LocalEndpoint ''/tmp/fcgi.sock'')]"
  using listen_local[of demo_server "()" "\<lparr>os_acceptor = (\<lambda>_ _. None), os_make_address = Inr\<rparr>"
      "''/tmp/fcgi.sock''"]
  by (simp add: io_invar_def demo_server_simps)

end
