(* ===== verification/Server_System.thy ===== *)
theory Server_System
  imports Server
begin

text \<open>
  A server with its listeners and connections as one system. Its transitions are calls of
  \<open>listen\<close>, completions of the pending accepts, and transitions of the connections that were
  accepted. A connection runs on one context of the pool, so its own handlers never overlap; those
  of different connections share nothing but the request processor, and are interleaved here.
\<close>

section \<open>Transitions\<close>

datatype socket_family = LocalFamily | TcpFamily

datatype ('w, 'w2, 'k) server_event =
    ListenLocal string
  | ListenTcp string_view int
  | AcceptCompleted socket_family nat "io_error option"
  | ConnectionEvent socket_family nat nat "('w, 'w2, 'k) conn_event"

fun listeners :: "socket_family \<Rightarrow> ('l, 'r, 'x, 'f, 'h, 'k, 'w) server \<Rightarrow>
    ('l, 'r, 'x, 'f, 'h, 'k, 'w) listener list" where
  "listeners LocalFamily s = sv_local s"
| "listeners TcpFamily s = sv_tcp s"

fun set_listener :: "socket_family \<Rightarrow> nat \<Rightarrow> ('l, 'r, 'x, 'f, 'h, 'k, 'w) listener \<Rightarrow>
    ('l, 'r, 'x, 'f, 'h, 'k, 'w) server \<Rightarrow> ('l, 'r, 'x, 'f, 'h, 'k, 'w) server" where
  "set_listener LocalFamily i l s = s\<lparr>sv_local := (sv_local s)[i := l]\<rparr>"
| "set_listener TcpFamily i l s = s\<lparr>sv_tcp := (sv_tcp s)[i := l]\<rparr>"

definition set_connection :: "nat \<Rightarrow> ('l, 'r, 'x, 'f, 'h, 'k) connection \<Rightarrow>
    ('l, 'r, 'x, 'f, 'h, 'k, 'w) listener \<Rightarrow> ('l, 'r, 'x, 'f, 'h, 'k, 'w) listener" where
  "set_connection j c l =
     l\<lparr>ls_processing := (ls_processing l)[j := (ls_processing l ! j)\<lparr>conn_state := c\<rparr>]\<rparr>"

inductive server_step for library :: 'l and os :: os_api
    and env :: "('l, 'x, 'w, 'f) conn_env" and ce :: "('w2, 'f, 'h) client_env"
    and receiveData :: "string \<Rightarrow> ('l, 'r, 'x) lib_prog" where
  step_listen_local: "server_step library os env ce receiveData s (ListenLocal path)
     (fst (server_listen_local library os path s))"
| step_listen_tcp: "server_step library os env ce receiveData s (ListenTcp ip port)
     (fst (server_listen_tcp library os ip port s))"
| step_accept: "i < length (listeners fam s) \<Longrightarrow>
     listener_accept library error (listeners fam s ! i, sv_io s) = Some (l, io) \<Longrightarrow>
     server_step library os env ce receiveData s (AcceptCompleted fam i error)
       (set_listener fam i l (s\<lparr>sv_io := io\<rparr>))"
| step_connection: "i < length (listeners fam s) \<Longrightarrow>
     j < length (ls_processing (listeners fam s ! i)) \<Longrightarrow>
     conn_step env ce (conn_requestProcessor (ls_processing (listeners fam s ! i) ! j)) receiveData
       (conn_state (ls_processing (listeners fam s ! i) ! j)) ev c \<Longrightarrow>
     server_step library os env ce receiveData s (ConnectionEvent fam i j ev)
       (set_listener fam i (set_connection j c (listeners fam s ! i)) s)"

inductive_simps server_step_simps:
  "server_step library os env ce receiveData s (ListenLocal path) s'"
  "server_step library os env ce receiveData s (ListenTcp ip port) s'"
  "server_step library os env ce receiveData s (AcceptCompleted fam i error) s'"
  "server_step library os env ce receiveData s (ConnectionEvent fam i j ev) s'"

inductive server_reach for library os env ce receiveData ioService proc where
  server_reach_new: "server_new ioService proc = Inr s \<Longrightarrow>
     server_reach library os env ce receiveData ioService proc [] s"
| server_reach_step: "server_reach library os env ce receiveData ioService proc es s \<Longrightarrow>
     server_step library os env ce receiveData s e s' \<Longrightarrow>
     server_reach library os env ce receiveData ioService proc (es @ [e]) s'"

section \<open>Invariant\<close>

text \<open>A connection of a pool of \<open>n\<close> contexts: made for the server, and in a state it can reach.\<close>

definition served_ok :: "('l, 'x, 'w, 'f) conn_env \<Rightarrow> ('w2, 'f, 'h) client_env \<Rightarrow>
    (string \<Rightarrow> ('l, 'r, 'x) lib_prog) \<Rightarrow> ('r, 'w, 'k) request_processor \<Rightarrow> nat \<Rightarrow>
    ('l, 'r, 'x, 'f, 'h, 'k, 'w) listener_connection \<Rightarrow> bool" where
  "served_ok env ce receiveData proc n c \<longleftrightarrow> conn_io c < n \<and> conn_requestProcessor c = proc
     \<and> (\<exists>es. conn_reach env ce proc receiveData es (conn_state c))"

definition listener_ok :: "('l, 'x, 'w, 'f) conn_env \<Rightarrow> ('w2, 'f, 'h) client_env \<Rightarrow>
    (string \<Rightarrow> ('l, 'r, 'x) lib_prog) \<Rightarrow> ('r, 'w, 'k) request_processor \<Rightarrow> nat \<Rightarrow>
    ('l, 'r, 'x, 'f, 'h, 'k, 'w) listener \<Rightarrow> bool" where
  "listener_ok env ce receiveData proc n l \<longleftrightarrow> cf_requestProcessor (ls_factory l) = proc
     \<and> length (ls_accepting l) + length (ls_reports l) = 1
     \<and> (\<forall>c \<in> set (ls_accepting l). conn_io c < n \<and> conn_requestProcessor c = proc
          \<and> (\<exists>library. conn_state c = connection_new library))
     \<and> list_all (served_ok env ce receiveData proc n) (ls_processing l)"

definition server_ok :: "('l, 'x, 'w, 'f) conn_env \<Rightarrow> ('w2, 'f, 'h) client_env \<Rightarrow>
    (string \<Rightarrow> ('l, 'r, 'x) lib_prog) \<Rightarrow> ('r, 'w, 'k) request_processor \<Rightarrow> nat \<Rightarrow>
    ('l, 'r, 'x, 'f, 'h, 'k, 'w) server \<Rightarrow> bool" where
  "server_ok env ce receiveData proc n s \<longleftrightarrow> io_invar (sv_io s) \<and> length (ioPool (sv_io s)) = n
     \<and> cf_requestProcessor (clf_connectionFactory (sv_factory s)) = proc
     \<and> (\<forall>fam. list_all (listener_ok env ce receiveData proc n) (listeners fam s))"

lemma listeners_upd [simp]:
  "listeners fam (s\<lparr>sv_io := io\<rparr>) = listeners fam s"
  "listeners fam (s\<lparr>sv_calls := calls\<rparr>) = listeners fam s"
  by (cases fam; simp)+

lemma set_listener_simps [simp]:
  "sv_io (set_listener fam i l s) = sv_io s" "sv_factory (set_listener fam i l s) = sv_factory s"
  "listeners fam' (set_listener fam i l s) =
     (if fam = fam' then (listeners fam' s)[i := l] else listeners fam' s)"
  by (cases fam; cases fam'; simp)+

lemma io_invar_index: "io_invar (io\<lparr>ioIndex := k\<rparr>) \<longleftrightarrow> io_invar io"
  by (simp add: io_invar_def)

lemma waitForConnection_keeps:
  assumes "io_invar io" and "length (ioPool io) = n"
    and "waitForConnection library (l, io) = Some (l', io')"
    and "ls_accepting l = []" and "ls_reports l = []"
    and "cf_requestProcessor (ls_factory l) = proc"
    and "list_all (served_ok env ce receiveData proc n) (ls_processing l)"
  shows "listener_ok env ce receiveData proc n l' \<and> io_invar io' \<and> length (ioPool io') = n"
  using assms
  by (auto simp: waitForConnection_Some new_connection_def io_invar_index listener_ok_def)
    (auto simp: io_invar_def)

lemma listener_new_ok:
  assumes "io_invar io" and "length (ioPool io) = n" and "cf_requestProcessor cf = proc"
    and "listener_new library ep a cf io = Some (l, io')"
  shows "listener_ok env ce receiveData proc n l \<and> io_invar io' \<and> length (ioPool io') = n"
  by (rule waitForConnection_keeps[OF assms(1,2) assms(4)[unfolded listener_new_def]])
    (simp_all add: assms(3))

lemma listener_accept_keeps:
  assumes "io_invar io" and "length (ioPool io) = n" and "listener_ok env ce receiveData proc n l"
    and "listener_accept library error (l, io) = Some (l', io')"
  shows "listener_ok env ce receiveData proc n l' \<and> io_invar io' \<and> length (ioPool io') = n"
proof (cases "ls_accepting l")
  case Nil
  then show ?thesis using assms by (simp add: listener_accept_def)
next
  case (Cons c rest)
  then have rest: "rest = []" and rep: "ls_reports l = []" and c: "conn_io c < n"
    "conn_requestProcessor c = proc" "\<exists>library. conn_state c = connection_new library"
    using assms(3) by (auto simp: listener_ok_def)
  show ?thesis
  proof (cases error)
    case (Some e)
    then show ?thesis
      using assms rest rep Cons by (auto simp: listener_accept_def onConnected_def listener_ok_def)
  next
    case None
    let ?c = "c\<lparr>conn_state := conn_process (conn_state c)\<rparr>"
    have "served_ok env ce receiveData proc n ?c"
      using c conn_reach.reach_new by (fastforce simp: served_ok_def)
    moreover have w: "waitForConnection library
        (l\<lparr>ls_accepting := [], ls_processing := ls_processing l @ [?c]\<rparr>, io) = Some (l', io')"
      using assms(4) None rest Cons by (simp add: listener_accept_def onConnected_def Let_def)
    ultimately show ?thesis
      using assms(3) rep
      by (intro waitForConnection_keeps[OF assms(1,2) w]) (simp_all add: listener_ok_def)
  qed
qed

lemma list_all_upd: "list_all P xs \<Longrightarrow> P x \<Longrightarrow> list_all P (xs[i := x])"
  by (cases "i < length xs") (auto simp: list_all_length nth_list_update)

lemma set_listener_ok:
  assumes "server_ok env ce receiveData proc n s" and "listener_ok env ce receiveData proc n l"
    and "io_invar io" and "length (ioPool io) = n"
  shows "server_ok env ce receiveData proc n (set_listener fam i l (s\<lparr>sv_io := io\<rparr>))"
  using assms by (simp add: server_ok_def list_all_upd)

lemma makeConnectionListener_keeps:
  fixes s :: "('l, 'r, 'x, 'f, 'h, 'k, 'w) server"
  assumes "server_ok env ce receiveData proc n s"
    and "makeConnectionListener library os address s = (s', result)"
  shows "server_ok env ce receiveData proc n s'"
    and "result = Inr l \<Longrightarrow> listener_ok env ce receiveData proc n l"
proof -
  have "server_ok env ce receiveData proc n s' \<and>
      (result = Inr l \<longrightarrow> listener_ok env ce receiveData proc n l)"
  proof (cases "os_acceptor os (sv_calls s @ [OpenAcceptor address]) address")
    case (Some e)
    then show ?thesis using assms by (auto simp: makeConnectionListener_def server_ok_def)
  next
    case None
    obtain l' :: "('l, 'r, 'x, 'f, 'h, 'k, 'w) listener" and io
      where new: "listener_new library address (clf_io (sv_factory s))
        (clf_connectionFactory (sv_factory s)) (sv_io s) = Some (l', io)"
      using assms(1) by (auto simp: server_ok_def listener_new_def waitForConnection_Some)
    have "listener_ok env ce receiveData proc n l' \<and> io_invar io \<and> length (ioPool io) = n"
      by (rule listener_new_ok[OF _ _ _ new]) (use assms(1) in \<open>simp_all add: server_ok_def\<close>)
    with None new assms show ?thesis
      by (auto simp: makeConnectionListener_def server_ok_def)
  qed
  then show "server_ok env ce receiveData proc n s'"
    "result = Inr l \<Longrightarrow> listener_ok env ce receiveData proc n l" by simp_all
qed

lemma add_listener_ok:
  assumes "server_ok env ce receiveData proc n s" and "listener_ok env ce receiveData proc n l"
  shows "server_ok env ce receiveData proc n (s\<lparr>sv_local := sv_local s @ [l]\<rparr>)"
    and "server_ok env ce receiveData proc n (s\<lparr>sv_tcp := sv_tcp s @ [l]\<rparr>)"
proof -
  have "listeners fam (s\<lparr>sv_local := x\<rparr>) = (if fam = LocalFamily then x else listeners fam s)"
    "listeners fam (s\<lparr>sv_tcp := x\<rparr>) = (if fam = TcpFamily then x else listeners fam s)" for fam x
    by (cases fam; simp)+
  moreover have "sv_local s = listeners LocalFamily s" "sv_tcp s = listeners TcpFamily s" by simp_all
  ultimately show "server_ok env ce receiveData proc n (s\<lparr>sv_local := sv_local s @ [l]\<rparr>)"
    "server_ok env ce receiveData proc n (s\<lparr>sv_tcp := sv_tcp s @ [l]\<rparr>)"
    using assms by (auto simp: server_ok_def simp del: listeners.simps)
qed

lemma server_ok_calls:
  "server_ok env ce receiveData proc n (s\<lparr>sv_calls := calls\<rparr>) = server_ok env ce receiveData proc n s"
  by (simp add: server_ok_def)

lemma listen_local_keeps:
  fixes s :: "('l, 'r, 'x, 'f, 'h, 'k, 'w) server"
  assumes "server_ok env ce receiveData proc n s"
  shows "server_ok env ce receiveData proc n (fst (server_listen_local library os path s))"
proof -
  obtain s' :: "('l, 'r, 'x, 'f, 'h, 'k, 'w) server" and result
    where m: "makeConnectionListener library os (LocalEndpoint path)
      (s\<lparr>sv_calls := sv_calls s @ initUnixDomainSocket path\<rparr>) = (s', result)" by fastforce
  show ?thesis
    using makeConnectionListener_keeps[OF _ m, of env ce receiveData proc n] assms m
      add_listener_ok(1)[of env ce receiveData proc n s']
    by (simp add: server_ok_calls server_listen_local_def service_listen_local_def split: sum.split)
qed

lemma listen_tcp_keeps:
  fixes s :: "('l, 'r, 'x, 'f, 'h, 'k, 'w) server"
  assumes "server_ok env ce receiveData proc n s"
  shows "server_ok env ce receiveData proc n (fst (server_listen_tcp library os ip port s))"
proof (cases "os_make_address os (sv_c_str ip)")
  case (Inl e)
  then show ?thesis using assms by (simp add: server_listen_tcp_def service_listen_tcp_def)
next
  case (Inr a)
  obtain s' :: "('l, 'r, 'x, 'f, 'h, 'k, 'w) server" and result
    where m: "makeConnectionListener library os
      (TcpEndpoint a (word_of_int port)) s = (s', result)" by fastforce
  show ?thesis
    using makeConnectionListener_keeps[OF assms m] m Inr assms
      add_listener_ok(2)[of env ce receiveData proc n s']
    by (simp add: server_listen_tcp_def service_listen_tcp_def split: sum.split)
qed

lemma set_connection_ok:
  assumes "listener_ok env ce receiveData proc n l" and "j < length (ls_processing l)"
    and "conn_step env ce proc receiveData (conn_state (ls_processing l ! j)) ev c"
  shows "listener_ok env ce receiveData proc n (set_connection j c l)"
proof -
  have "served_ok env ce receiveData proc n (ls_processing l ! j)"
    using assms(1,2) by (simp add: listener_ok_def list_all_length)
  then have "served_ok env ce receiveData proc n ((ls_processing l ! j)\<lparr>conn_state := c\<rparr>)"
    using conn_reach.reach_step assms(3) by (fastforce simp: served_ok_def)
  then show ?thesis using assms(1) by (simp add: listener_ok_def set_connection_def list_all_upd)
qed

lemma server_step_keeps:
  assumes "server_ok env ce receiveData proc n s"
    and "server_step library os env ce receiveData s e s'"
  shows "server_ok env ce receiveData proc n s'"
  using assms(2)
proof cases
  case (step_listen_local path)
  then show ?thesis using listen_local_keeps[OF assms(1)] by simp
next
  case (step_listen_tcp ip port)
  then show ?thesis using listen_tcp_keeps[OF assms(1)] by simp
next
  case (step_accept i fam error l io)
  have "listener_ok env ce receiveData proc n l \<and> io_invar io \<and> length (ioPool io) = n"
    by (rule listener_accept_keeps[OF _ _ _ step_accept(4)])
      (use assms(1) step_accept(3) in \<open>simp_all add: server_ok_def list_all_length\<close>)
  then show ?thesis using step_accept set_listener_ok[OF assms(1)] by simp
next
  case (step_connection i fam j ev c)
  have l: "listener_ok env ce receiveData proc n (listeners fam s ! i)"
    using assms(1) step_connection(3) by (simp add: server_ok_def list_all_length)
  then have "conn_requestProcessor (ls_processing (listeners fam s ! i) ! j) = proc"
    using step_connection(4) by (simp add: listener_ok_def list_all_length served_ok_def)
  with l step_connection(4,5)
  have "listener_ok env ce receiveData proc n (set_connection j c (listeners fam s ! i))"
    by (intro set_connection_ok) simp_all
  then show ?thesis
    using step_connection set_listener_ok[OF assms(1), of _ "sv_io s" fam i] assms(1)
    by (simp add: server_ok_def)
qed

lemma server_new_ok:
  assumes "io_invar ioService" and "server_new ioService proc = Inr s"
  shows "server_ok env ce receiveData proc (length (ioPool ioService)) s"
proof -
  have "listeners fam s = []" for fam
    using assms(2) by (cases fam) (auto simp: server_new_def server_service_new_def split: sum.splits)
  then show ?thesis
    using assms by (auto simp: server_new_def makeConnectionListenerFactory_def server_ok_def
        server_service_new_def connection_listener_factory_new_def connection_factory_new_def
        split: sum.splits)
qed

lemma server_reach_ok:
  assumes "io_invar ioService"
    and "server_reach library os env ce receiveData ioService proc es s"
  shows "server_ok env ce receiveData proc (length (ioPool ioService)) s"
  using assms(2)
proof (induction rule: server_reach.induct)
  case (server_reach_new s)
  then show ?case by (rule server_new_ok[OF assms(1)])
next
  case (server_reach_step es s e s')
  then show ?case by (intro server_step_keeps[OF _ server_reach_step(2)])
qed

text \<open>What holds of each connection in its reachable states holds of those of a server.\<close>

lemma server_connections:
  assumes "io_invar ioService"
    and "server_reach library os env ce receiveData ioService proc es s"
    and "l \<in> set (listeners fam s)" and "c \<in> set (ls_processing l)"
  shows "served_ok env ce receiveData proc (length (ioPool ioService)) c"
  using server_reach_ok[OF assms(1,2)] assms(3,4)
  by (simp add: server_ok_def listener_ok_def list_all_iff)

section \<open>Properties\<close>

text \<open>
  C1. The server as a whole. Whatever is listened on, accepted, received, written, expired or called,
  in any interleaving: a listener has an accept pending unless it has reported an error; every
  connection of the server is served with the request processor the server was made with, runs on
  a context of the pool, is in a state that a connection reaches on its own, and has not sent more
  answers than it was handed requests.
\<close>

theorem server_serves:
  assumes "io_invar ioService" and "send_invalidates (ve_response env)"
    and "server_reach library os env ce receiveData ioService proc es s"
    and "l \<in> set (listeners fam s)"
  shows "length (ls_accepting l) + length (ls_reports l) = 1
    \<and> (\<forall>c \<in> set (ls_processing l).
        conn_requestProcessor c = proc \<and> conn_io c < length (ioPool ioService)
        \<and> (\<exists>es. conn_reach env ce proc receiveData es (conn_state c))
        \<and> length (cn_answers (conn_state c)) \<le> cn_nextContext (conn_state c))"
  using server_connections[OF assms(1,3,4)] server_reach_ok[OF assms(1,3)] assms(4)
    reach_answers[OF assms(2), of ce proc receiveData]
  by (fastforce simp: served_ok_def server_ok_def listener_ok_def list_all_iff)

definition demo_os :: os_api where
  "demo_os = \<lparr>os_acceptor = (\<lambda>_ _. None), os_make_address = Inr\<rparr>"

definition demo_served ::
    "(unit, string, bool \<times> string \<times> string, unit, unit, nat, string) server" where
  "demo_served = demo_server
     \<lparr>sv_io := (sv_io demo_server)\<lparr>ioIndex := 2\<rparr>,
      sv_local := [\<lparr>ls_endpoint = LocalEndpoint ''/tmp/fcgi.sock'', ls_acceptor_io = 0,
        ls_factory = demo_factory,
        ls_accepting = [new_connection () (cf_requestProcessor demo_factory) 0],
        ls_processing = [\<lparr>conn_io = 0, conn_requestProcessor = cf_requestProcessor demo_factory,
          conn_state = conn_process (connection_new ())\<rparr>], ls_reports = []\<rparr>],
      sv_calls := [Umask 0, Chmod ''/tmp/fcgi.sock'' 511, Unlink ''/tmp/fcgi.sock'',
        OpenAcceptor (LocalEndpoint ''/tmp/fcgi.sock'')]\<rparr>"

lemma demo_served_reach:
  "server_reach () demo_os demo_env demo_client_env (\<lambda>d. LRequest d (True, [], []) LDone)
     (sv_io demo_server) (cf_requestProcessor demo_factory)
     [ListenLocal ''/tmp/fcgi.sock'', AcceptCompleted LocalFamily 0 None] demo_served"
proof -
  have new: "server_new (sv_io demo_server) (cf_requestProcessor demo_factory) = Inr demo_server"
    by (simp add: server_new_def makeConnectionListenerFactory_def io_io_def demo_server_def
        server_service_new_def demo_listener_factory_def demo_factory_def connection_factory_new_def)
  let ?s = "fst (server_listen_local () demo_os ''/tmp/fcgi.sock'' demo_server)"
  have inv: "io_invar (sv_io demo_server)" by (simp add: demo_server_simps io_invar_def)
  have f: "sv_factory demo_server = demo_listener_factory" "sv_tcp demo_server = []"
    "sv_local demo_server = []" by (simp_all add: demo_server_def server_service_new_def)
  have l: "listener_accept () None (listeners LocalFamily ?s ! 0, sv_io ?s) =
      Some (sv_local demo_served ! 0, sv_io demo_served)"
    using inv by (simp add: server_listen_local_def service_listen_local_def
        makeConnectionListener_def listener_new_def waitForConnection_Some f demo_os_def
        demo_served_def demo_listener_factory_def connection_listener_factory_new_def
        listener_accept_def onConnected_def io_invar_def new_connection_def demo_server_simps
        initUnixDomainSocket_def)
  have eq: "set_listener LocalFamily 0 (sv_local demo_served ! 0) (?s\<lparr>sv_io := sv_io demo_served\<rparr>) =
      demo_served"
    using inv by (simp add: server_listen_local_def service_listen_local_def
        makeConnectionListener_def listener_new_def waitForConnection_Some f demo_os_def
        demo_served_def demo_server_simps initUnixDomainSocket_def)
  have len: "0 < length (listeners LocalFamily ?s)"
    using inv by (simp add: server_listen_local_def service_listen_local_def
        makeConnectionListener_def listener_new_def waitForConnection_Some f demo_os_def)
  let ?R = "server_reach () demo_os demo_env demo_client_env
    (\<lambda>d. LRequest d (True, [], []) LDone) (sv_io demo_server) (cf_requestProcessor demo_factory)"
  have "?R ([] @ [ListenLocal ''/tmp/fcgi.sock'']) ?s"
    by (rule server_reach_step[OF server_reach_new[OF new] step_listen_local])
  then have "?R (([] @ [ListenLocal ''/tmp/fcgi.sock'']) @ [AcceptCompleted LocalFamily 0 None])
      (set_listener LocalFamily 0 (sv_local demo_served ! 0) (?s\<lparr>sv_io := sv_io demo_served\<rparr>))"
    by (rule server_reach_step) (rule step_accept[OF len l])
  then show ?thesis unfolding eq by simp
qed

theorem server_serves_witness:
  "list_all (\<lambda>c. conn_requestProcessor c = cf_requestProcessor demo_factory
     \<and> length (cn_answers (conn_state c)) \<le> cn_nextContext (conn_state c))
     (ls_processing (sv_local demo_served ! 0))"
  using server_serves[OF _ demo_send_invalidates demo_served_reach,
      of "sv_local demo_served ! 0" LocalFamily]
  by (simp add: demo_served_def demo_server_simps io_invar_def list_all_iff)

end
