(* ===== verification/Server_Isolation.thy ===== *)
theory Server_Isolation
  imports Server_System
begin

text \<open>
  The connections of a server do not interfere: each is in the state that its own events alone
  lead it to, whatever else the server listened on, accepted and served in between, and whatever
  system and pool the server runs on. It is a refinement: a server implements a family of
  independent connections, one for each it accepted. So what is proved of one connection holds in
  every run of a server, and handlers of two connections may run in either order.
\<close>

section \<open>A connection alone\<close>

text \<open>A transition of a connection as a function: the handler that the event runs.\<close>

fun conn_apply :: "('l, 'x, 'w, 'f) conn_env \<Rightarrow> ('w2, 'f, 'h) client_env \<Rightarrow>
    ('r, 'w, 'k) request_processor \<Rightarrow> (string \<Rightarrow> ('l, 'r, 'x) lib_prog) \<Rightarrow>
    ('w, 'w2, 'k) conn_event \<Rightarrow>
    ('l, 'r, 'x, 'f, 'h, 'k) connection \<Rightarrow> ('l, 'r, 'x, 'f, 'h, 'k) connection" where
  "conn_apply env ce proc receiveData (ReadCompleted e d) c =
     conn_onRead env proc receiveData e d c"
| "conn_apply env ce proc receiveData (WriteCompleted e n) c =
     conn_onWriteComplete (ve_asio env) e n c"
| "conn_apply env ce proc receiveData (CallbackRuns rid p) c = fst (conn_callback env rid p c)"
| "conn_apply env ce proc receiveData (TimerExpires i rid p cmds) c = conn_onTimer env i rid p cmds c"
| "conn_apply env ce proc receiveData (PostedRuns copies) c = conn_onPosted copies c"
| "conn_apply env ce proc receiveData (ClientEvent handlers ev) c = conn_onClient env ce handlers ev c"

lemma conn_step_apply:
  "conn_step env ce proc receiveData c ev c' \<Longrightarrow> c' = conn_apply env ce proc receiveData ev c"
  by (cases ev) (simp_all add: conn_step_simps)

text \<open>Only a timer that does not exist cannot expire.\<close>

lemma conn_apply_step:
  "\<forall>i rid p cmds. ev \<noteq> TimerExpires i rid p cmds \<Longrightarrow>
   conn_step env ce proc receiveData c ev (conn_apply env ce proc receiveData ev c)"
  by (cases ev) (simp_all add: conn_step_simps)

definition conn_alone :: "('l, 'x, 'w, 'f) conn_env \<Rightarrow> ('w2, 'f, 'h) client_env \<Rightarrow>
    ('r, 'w, 'k) request_processor \<Rightarrow> (string \<Rightarrow> ('l, 'r, 'x) lib_prog) \<Rightarrow> 'l \<Rightarrow>
    ('w, 'w2, 'k) conn_event list \<Rightarrow> ('l, 'r, 'x, 'f, 'h, 'k) connection" where
  "conn_alone env ce proc receiveData library evs =
     fold (conn_apply env ce proc receiveData) evs (conn_process (connection_new library))"

lemma conn_alone_snoc: "conn_alone env ce proc receiveData library (evs @ [ev]) =
    conn_apply env ce proc receiveData ev (conn_alone env ce proc receiveData library evs)"
  by (simp add: conn_alone_def)

text \<open>The events of the \<open>j\<close>-th connection of the \<open>i\<close>-th listener of a family.\<close>

fun own_event :: "socket_family \<Rightarrow> nat \<Rightarrow> nat \<Rightarrow> ('w, 'w2, 'k) server_event \<Rightarrow>
    ('w, 'w2, 'k) conn_event list" where
  "own_event fam i j (ConnectionEvent fam' i' j' ev) =
     (if fam' = fam \<and> i' = i \<and> j' = j then [ev] else [])"
| "own_event fam i j _ = []"

definition own_events :: "socket_family \<Rightarrow> nat \<Rightarrow> nat \<Rightarrow> ('w, 'w2, 'k) server_event list \<Rightarrow>
    ('w, 'w2, 'k) conn_event list" where
  "own_events fam i j es = concat (map (own_event fam i j) es)"

lemma own_events_simps [simp]:
  "own_events fam i j [] = []"
  "own_events fam i j (es @ [e]) = own_events fam i j es @ own_event fam i j e"
  by (simp_all add: own_events_def)

section \<open>The connections of a server\<close>

definition states_at :: "nat \<Rightarrow> ('l, 'r, 'x, 'f, 'h, 'k, 'w) listener list \<Rightarrow>
    ('l, 'r, 'x, 'f, 'h, 'k) connection list" where
  "states_at i ls = (if i < length ls then map conn_state (ls_processing (ls ! i)) else [])"

text \<open>
  The invariant: a connection has had no events before it was accepted, is in the state that its
  own events lead to after it, and a connection that waits to be accepted is a new one.
\<close>

definition isolated :: "('l, 'x, 'w, 'f) conn_env \<Rightarrow> ('w2, 'f, 'h) client_env \<Rightarrow>
    ('r, 'w, 'k) request_processor \<Rightarrow> (string \<Rightarrow> ('l, 'r, 'x) lib_prog) \<Rightarrow> 'l \<Rightarrow>
    ('w, 'w2, 'k) server_event list \<Rightarrow> socket_family \<Rightarrow>
    ('l, 'r, 'x, 'f, 'h, 'k, 'w) listener list \<Rightarrow> bool" where
  "isolated env ce proc receiveData library es fam ls \<longleftrightarrow>
     (\<forall>i j. if j < length (states_at i ls)
        then states_at i ls ! j = conn_alone env ce proc receiveData library (own_events fam i j es)
        else own_events fam i j es = [])
     \<and> (\<forall>l \<in> set ls. \<forall>c \<in> set (ls_accepting l). conn_state c = connection_new library)"

lemma isolated_no_own:
  assumes "isolated env ce proc receiveData library es fam ls"
    and "\<And>i j. own_event fam i j e = []"
  shows "isolated env ce proc receiveData library (es @ [e]) fam ls"
  using assms by (simp add: isolated_def)

lemma isolated_add:
  assumes "isolated env ce proc receiveData library es fam ls"
    and "ls_processing l = []" and "\<forall>c \<in> set (ls_accepting l). conn_state c = connection_new library"
  shows "isolated env ce proc receiveData library es fam (ls @ [l])"
proof -
  have "states_at i (ls @ [l]) = states_at i ls" for i
    using assms(2) by (auto simp: states_at_def nth_append)
  then show ?thesis using assms(1,3) by (auto simp: isolated_def)
qed

lemma states_at_upd:
  "states_at i' (ls[i := l]) =
     (if i' = i \<and> i < length ls then map conn_state (ls_processing l) else states_at i' ls)"
  by (simp add: states_at_def)

lemma states_at_length: "i < length ls \<Longrightarrow> length (states_at i ls) = length (ls_processing (ls ! i))"
  by (simp add: states_at_def)

lemma isolated_iff:
  "isolated env ce proc receiveData library es fam ls \<longleftrightarrow>
     (\<forall>i j. j < length (states_at i ls) \<longrightarrow>
        states_at i ls ! j = conn_alone env ce proc receiveData library (own_events fam i j es))
     \<and> (\<forall>i j. \<not> j < length (states_at i ls) \<longrightarrow> own_events fam i j es = [])
     \<and> (\<forall>l \<in> set ls. \<forall>c \<in> set (ls_accepting l). conn_state c = connection_new library)"
  by (auto simp: isolated_def)

lemma isolated_accept:
  assumes "isolated env ce proc receiveData library es fam ls" and "i < length ls"
    and "map conn_state (ls_processing l) = states_at i ls
      \<or> map conn_state (ls_processing l) = states_at i ls @ [conn_process (connection_new library)]"
    and "\<forall>c \<in> set (ls_accepting l). conn_state c = connection_new library"
  shows "isolated env ce proc receiveData library es fam (ls[i := l])"
proof -
  have st: "states_at i' (ls[i := l]) =
      (if i' = i then map conn_state (ls_processing l) else states_at i' ls)" for i'
    using assms(2) by (simp add: states_at_upd)
  note inv = assms(1)[unfolded isolated_iff]
  have "conn_alone env ce proc receiveData library [] = conn_process (connection_new library)"
    by (simp add: conn_alone_def)
  then have "j < length (states_at i' (ls[i := l])) \<Longrightarrow> states_at i' (ls[i := l]) ! j =
        conn_alone env ce proc receiveData library (own_events fam i' j es)"
    "\<not> j < length (states_at i' (ls[i := l])) \<Longrightarrow> own_events fam i' j es = []" for i' j
    using inv assms(3) unfolding st
    by (auto simp: nth_append less_Suc_eq split: if_splits simp del: length_map nth_map)
  moreover have "\<forall>l' \<in> set (ls[i := l]). \<forall>c \<in> set (ls_accepting l'). conn_state c = connection_new library"
    using assms(1,4) set_update_subset_insert[of ls i l] by (auto simp: isolated_def)
  ultimately show ?thesis by (simp add: isolated_iff)
qed

lemma isolated_event:
  assumes "isolated env ce proc receiveData library es fam ls" and "i < length ls"
    and "j < length (ls_processing (ls ! i))"
    and "c = conn_apply env ce proc receiveData ev (conn_state (ls_processing (ls ! i) ! j))"
  shows "isolated env ce proc receiveData library (es @ [ConnectionEvent fam i j ev]) fam
    (ls[i := set_connection j c (ls ! i)])"
proof -
  define ls' where "ls' = ls[i := set_connection j c (ls ! i)]"
  have st: "states_at i' ls' = (if i' = i then (states_at i ls)[j := c] else states_at i' ls)" for i'
    using assms(2) by (simp add: ls'_def states_at_def set_connection_def map_update)
  have len: "j < length (states_at i ls)"
    and c: "c = conn_apply env ce proc receiveData ev (states_at i ls ! j)"
    using assms(2-4) by (simp_all add: states_at_def)
  note inv = assms(1)[unfolded isolated_iff]
  have own: "own_events fam i' j' (es @ [ConnectionEvent fam i j ev]) =
      (if i' = i \<and> j' = j then own_events fam i j es @ [ev] else own_events fam i' j' es)" for i' j'
    by auto
  have "j' < length (states_at i' ls') \<Longrightarrow> states_at i' ls' ! j' =
        conn_alone env ce proc receiveData library
          (own_events fam i' j' (es @ [ConnectionEvent fam i j ev]))" for i' j'
    using inv len c unfolding st own by (auto simp: conn_alone_snoc nth_list_update)
  moreover have "\<not> j' < length (states_at i' ls') \<Longrightarrow>
      own_events fam i' j' (es @ [ConnectionEvent fam i j ev]) = []" for i' j'
    using inv len unfolding st own by (auto split: if_splits)
  moreover have "ls_accepting (set_connection j c (ls ! i)) = ls_accepting (ls ! i)"
    by (simp add: set_connection_def)
  then have "\<forall>l' \<in> set ls'.
      \<forall>c \<in> set (ls_accepting l'). conn_state c = connection_new library"
    using assms(1,2) set_update_subset_insert[of ls i "set_connection j c (ls ! i)"]
    by (fastforce simp: isolated_def ls'_def)
  ultimately show ?thesis unfolding ls'_def[symmetric] by (simp add: isolated_iff)
qed

section \<open>Every transition keeps the connections apart\<close>

lemma waitForConnection_frame:
  assumes "waitForConnection library (l, io) = Some (l', io')"
  shows "ls_processing l' = ls_processing l"
    and "\<forall>c \<in> set (ls_accepting l'). c \<in> set (ls_accepting l) \<or> conn_state c = connection_new library"
  using assms by (auto simp: waitForConnection_def makeConnection_def new_connection_def
      split: option.splits prod.splits)

lemma listener_accept_frame:
  assumes "listener_accept library error (l, io) = Some (l', io')"
    and "\<forall>c \<in> set (ls_accepting l). conn_state c = connection_new library"
  shows "map conn_state (ls_processing l') = map conn_state (ls_processing l)
      \<or> map conn_state (ls_processing l') =
          map conn_state (ls_processing l) @ [conn_process (connection_new library)]"
    and "\<forall>c \<in> set (ls_accepting l'). conn_state c = connection_new library"
proof -
  have "(map conn_state (ls_processing l') = map conn_state (ls_processing l)
      \<or> map conn_state (ls_processing l') =
          map conn_state (ls_processing l) @ [conn_process (connection_new library)])
    \<and> (\<forall>c \<in> set (ls_accepting l'). conn_state c = connection_new library)"
  proof (cases "ls_accepting l")
    case (Cons c rest)
    show ?thesis
    proof (cases error)
      case None
      then have "waitForConnection library (l\<lparr>ls_accepting := rest, ls_processing := ls_processing l @
          [c\<lparr>conn_state := conn_process (conn_state c)\<rparr>]\<rparr>, io) = Some (l', io')"
        using assms(1) Cons by (simp add: listener_accept_def onConnected_def Let_def)
      from waitForConnection_frame[OF this] assms(2) Cons show ?thesis by auto
    qed (use assms Cons in \<open>auto simp: listener_accept_def onConnected_def\<close>)
  qed (use assms in \<open>simp add: listener_accept_def\<close>)
  then show "map conn_state (ls_processing l') = map conn_state (ls_processing l)
      \<or> map conn_state (ls_processing l') =
          map conn_state (ls_processing l) @ [conn_process (connection_new library)]"
    "\<forall>c \<in> set (ls_accepting l'). conn_state c = connection_new library" by simp_all
qed

text \<open>Listening adds at most one listener, which serves no connection yet.\<close>

definition listening :: "'l \<Rightarrow> ('l, 'r, 'x, 'f, 'h, 'k, 'w) listener list \<Rightarrow>
    ('l, 'r, 'x, 'f, 'h, 'k, 'w) listener list \<Rightarrow> bool" where
  "listening library ls ls' \<longleftrightarrow> ls' = ls \<or> (\<exists>l. ls' = ls @ [l] \<and> ls_processing l = []
     \<and> (\<forall>c \<in> set (ls_accepting l). conn_state c = connection_new library))"

lemma makeConnectionListener_frame:
  assumes "makeConnectionListener library os address s = (s', result)"
  shows "sv_local s' = sv_local s" and "sv_tcp s' = sv_tcp s"
    and "result = Inr l \<Longrightarrow> ls_processing l = []
      \<and> (\<forall>c \<in> set (ls_accepting l). conn_state c = connection_new library)"
  using assms by (auto simp: makeConnectionListener_def Let_def listener_new_def
      dest: waitForConnection_frame split: option.splits)

lemma listening_refl: "listening library ls ls"
  by (simp add: listening_def)

lemma listeners_add:
  "listeners fam (s\<lparr>sv_local := x\<rparr>) = (if fam = LocalFamily then x else listeners fam s)"
  "listeners fam (s\<lparr>sv_tcp := x\<rparr>) = (if fam = TcpFamily then x else listeners fam s)"
  by (cases fam; simp)+

lemma listening_listener:
  fixes s :: "('l, 'r, 'x, 'f, 'h, 'k, 'w) server"
  assumes "makeConnectionListener library os address s = (s', result)"
  shows "listening library (listeners fam s) (listeners fam s')"
    and "result = Inr l \<Longrightarrow> listening library (listeners fam s) (listeners fam (s'\<lparr>sv_local := sv_local s' @ [l]\<rparr>))"
    and "result = Inr l \<Longrightarrow> listening library (listeners fam s) (listeners fam (s'\<lparr>sv_tcp := sv_tcp s' @ [l]\<rparr>))"
  using makeConnectionListener_frame[OF assms]
  by (cases fam; simp add: listening_def listeners_add)+

lemma listen_local_frame:
  fixes s :: "('l, 'r, 'x, 'f, 'h, 'k, 'w) server"
  shows "listening library (listeners fam s) (listeners fam (fst (server_listen_local library os path s)))"
proof -
  obtain s' :: "('l, 'r, 'x, 'f, 'h, 'k, 'w) server" and result
    where m: "makeConnectionListener library os (LocalEndpoint path)
      (s\<lparr>sv_calls := sv_calls s @ initUnixDomainSocket path\<rparr>) = (s', result)" by fastforce
  show ?thesis
    using listening_listener(1,2)[OF m, where fam = fam] m
    by (simp add: server_listen_local_def service_listen_local_def split: sum.split)
qed

lemma listen_tcp_frame:
  fixes s :: "('l, 'r, 'x, 'f, 'h, 'k, 'w) server"
  shows "listening library (listeners fam s) (listeners fam (fst (server_listen_tcp library os ip port s)))"
proof (cases "os_make_address os (sv_c_str ip)")
  case (Inl e)
  then show ?thesis by (simp add: server_listen_tcp_def service_listen_tcp_def listening_refl)
next
  case (Inr a)
  obtain s' :: "('l, 'r, 'x, 'f, 'h, 'k, 'w) server" and result
    where m: "makeConnectionListener library os
      (TcpEndpoint a (word_of_int port)) s = (s', result)" by fastforce
  show ?thesis
    using listening_listener(1,3)[OF m, where fam = fam] m Inr
    by (simp add: server_listen_tcp_def service_listen_tcp_def listening_refl split: sum.split)
qed

lemma isolated_listening:
  assumes "isolated env ce proc receiveData library es fam ls" and "listening library ls ls'"
    and "\<And>i j. own_event fam i j e = []"
  shows "isolated env ce proc receiveData library (es @ [e]) fam ls'"
  using assms(2) isolated_no_own[OF assms(1,3)] isolated_add by (auto simp: listening_def)

definition apart :: "('l, 'x, 'w, 'f) conn_env \<Rightarrow> ('w2, 'f, 'h) client_env \<Rightarrow>
    ('r, 'w, 'k) request_processor \<Rightarrow> (string \<Rightarrow> ('l, 'r, 'x) lib_prog) \<Rightarrow> 'l \<Rightarrow>
    ('w, 'w2, 'k) server_event list \<Rightarrow> ('l, 'r, 'x, 'f, 'h, 'k, 'w) server \<Rightarrow> bool" where
  "apart env ce proc receiveData library es s \<longleftrightarrow>
     (\<forall>fam. isolated env ce proc receiveData library es fam (listeners fam s))"

lemma apart_step:
  assumes ok: "server_ok env ce receiveData proc n s"
    and "apart env ce proc receiveData library es s"
    and "server_step library os env ce receiveData s e s'"
  shows "apart env ce proc receiveData library (es @ [e]) s'"
  unfolding apart_def
proof
  fix fam
  have inv: "isolated env ce proc receiveData library es fam (listeners fam s)"
    using assms(2) by (simp add: apart_def)
  from assms(3) show "isolated env ce proc receiveData library (es @ [e]) fam (listeners fam s')"
  proof cases
    case (step_listen_local path)
    then show ?thesis using isolated_listening[OF inv listen_local_frame] by simp
  next
    case (step_listen_tcp ip port)
    then show ?thesis using isolated_listening[OF inv listen_tcp_frame] by simp
  next
    case (step_accept i fam' error l io)
    have own: "own_event fam i j e = []" for i j using step_accept(1) by simp
    have acc: "fam' = fam \<Longrightarrow>
        \<forall>c \<in> set (ls_accepting (listeners fam s ! i)). conn_state c = connection_new library"
      using inv step_accept(3) nth_mem by (auto simp: isolated_iff)
    have "fam' = fam \<Longrightarrow>
        isolated env ce proc receiveData library es fam ((listeners fam s)[i := l])"
      using listener_accept_frame[OF step_accept(4)] acc step_accept(3)
      by (intro isolated_accept[OF inv]) (simp_all add: states_at_def)
    then show ?thesis
      using inv step_accept(2) by (simp add: isolated_no_own own)
  next
    case (step_connection i fam' j ev c)
    have "listener_ok env ce receiveData proc n (listeners fam' s ! i)"
      using ok step_connection(3) by (simp add: server_ok_def list_all_length)
    then have "conn_requestProcessor (ls_processing (listeners fam' s ! i) ! j) = proc"
      using step_connection(4) by (simp add: listener_ok_def list_all_length served_ok_def)
    then have c: "c = conn_apply env ce proc receiveData ev
        (conn_state (ls_processing (listeners fam' s ! i) ! j))"
      using conn_step_apply[OF step_connection(5)] by simp
    show ?thesis
    proof (cases "fam' = fam")
      case True
      with step_connection c isolated_event[OF inv, of i j c ev] show ?thesis by simp
    next
      case False
      with step_connection isolated_no_own[OF inv, of e] show ?thesis by simp
    qed
  qed
qed

lemma apart_new:
  assumes "server_new ioService proc = Inr s"
  shows "apart env ce proc receiveData library [] s"
proof -
  have "listeners fam s = []" for fam
    using assms by (cases fam) (auto simp: server_new_def server_service_new_def split: sum.splits)
  then show ?thesis by (simp add: apart_def isolated_iff states_at_def)
qed

lemma server_reach_apart:
  assumes "io_invar ioService"
    and "server_reach library os env ce receiveData ioService proc es s"
  shows "apart env ce proc receiveData library es s"
  using assms(2)
proof (induction rule: server_reach.induct)
  case (server_reach_new s)
  then show ?case by (rule apart_new)
next
  case (server_reach_step es s e s')
  then show ?case by (intro apart_step[OF server_reach_ok[OF assms(1)]])
qed

section \<open>Two connections\<close>

lemma set_connection_simps [simp]:
  "length (ls_processing (set_connection j c l)) = length (ls_processing l)"
  "j \<noteq> j' \<Longrightarrow> ls_processing (set_connection j c l) ! j' = ls_processing l ! j'"
  by (simp_all add: set_connection_def)

lemma set_connection_swap:
  "j \<noteq> j' \<Longrightarrow> set_connection j c (set_connection j' c' l) = set_connection j' c' (set_connection j c l)"
  by (simp add: set_connection_def list_update_swap)

text \<open>A transition of one connection leaves every other as it is.\<close>

lemma connection_elsewhere:
  assumes "i < length (listeners fam s)" and "j < length (ls_processing (listeners fam s ! i))"
    and "(fam, i, j) \<noteq> (fam', i', j')"
  shows "length (listeners fam' (set_listener fam i (set_connection j c (listeners fam s ! i)) s)) =
      length (listeners fam' s)"
    and "i' < length (listeners fam' s) \<Longrightarrow>
      length (ls_processing (listeners fam' (set_listener fam i (set_connection j c (listeners fam s ! i)) s) ! i'))
        = length (ls_processing (listeners fam' s ! i'))"
    and "i' < length (listeners fam' s) \<Longrightarrow>
      ls_processing (listeners fam' (set_listener fam i (set_connection j c (listeners fam s ! i)) s) ! i') ! j'
        = ls_processing (listeners fam' s ! i') ! j'"
  using assms by (auto simp: nth_list_update)

lemma set_listener_swap:
  "(fam, i) \<noteq> (fam', i') \<Longrightarrow>
   set_listener fam i l (set_listener fam' i' l' s) = set_listener fam' i' l' (set_listener fam i l s)"
  by (cases fam; cases fam') (auto simp: list_update_swap)

lemma set_listener_twice [simp]: "set_listener fam i l (set_listener fam i l' s) = set_listener fam i l s"
  by (cases fam) simp_all

lemma set_connections_commute:
  assumes "i < length (listeners fam s)" and "i' < length (listeners fam' s)"
    and "(fam, i, j) \<noteq> (fam', i', j')"
    and "s1 = set_listener fam i (set_connection j c (listeners fam s ! i)) s"
    and "s1' = set_listener fam' i' (set_connection j' c' (listeners fam' s ! i')) s"
  shows "set_listener fam i (set_connection j c (listeners fam s1' ! i)) s1' =
    set_listener fam' i' (set_connection j' c' (listeners fam' s1 ! i')) s1"
proof (cases "(fam, i) = (fam', i')")
  case True
  then show ?thesis using assms by (simp add: set_connection_swap)
next
  case False
  then show ?thesis using assms set_listener_swap[OF False] by auto
qed

section \<open>Properties\<close>

lemma apart_state:
  assumes "apart env ce proc receiveData library es s" and "i < length (listeners fam s)"
    and "j < length (ls_processing (listeners fam s ! i))"
  shows "conn_state (ls_processing (listeners fam s ! i) ! j) =
    conn_alone env ce proc receiveData library (own_events fam i j es)"
proof -
  have "isolated env ce proc receiveData library es fam (listeners fam s)"
    using assms(1) by (simp add: apart_def)
  then have "states_at i (listeners fam s) ! j =
      conn_alone env ce proc receiveData library (own_events fam i j es)"
    using assms(2,3) by (simp add: isolated_iff states_at_length)
  then show ?thesis using assms(2,3) by (simp add: states_at_def)
qed

text \<open>
  Two servers with the same request processor, on any two systems and pools, whose runs agree on
  the events of one connection each: the two connections are in the same state.
\<close>

lemma connections_undisturbed:
  assumes "io_invar ioService" "io_invar ioService'"
    and "server_reach library os env ce receiveData ioService proc es s"
    and "server_reach library os' env ce receiveData ioService' proc es' s'"
    and "i < length (listeners fam s)" "j < length (ls_processing (listeners fam s ! i))"
    and "i' < length (listeners fam' s')" "j' < length (ls_processing (listeners fam' s' ! i'))"
    and "own_events fam i j es = own_events fam' i' j' es'"
  shows "conn_state (ls_processing (listeners fam s ! i) ! j) =
    conn_state (ls_processing (listeners fam' s' ! i') ! j')"
  using apart_state[OF server_reach_apart[OF assms(1,3)] assms(5,6)]
    apart_state[OF server_reach_apart[OF assms(2,4)] assms(7,8)] assms(9) by simp


text \<open>
  C3. A request to a server is replied to. A connection of the server that is idle receives the data
  of a request, and later, with anything happening to the server's other connections before,
  between and after, the write completes that it had started. Then the response of the request
  processor, encoded by the library, has been written to that connection and nothing else, the next
  data was asked for, and, as the library wanted, the connection was closed once.
\<close>

theorem server_replies:
  assumes "io_invar ioService"
    and "server_reach library os env ce receiveData ioService proc es s"
    and "i < length (listeners fam s)" and "j < length (ls_processing (listeners fam s ! i))"
    and "own_events fam i j es =
      evs @ [ReadCompleted None data, WriteCompleted None (size_of packet)]"
    and "c = conn_alone env ce proc receiveData library evs"
    and "bytesToWrite c = 0" and "nextWriteBuffer c = []" and "\<not> disconnectRequested c"
    and "receiveData data = LRequest r x LDone"
    and "xr_isValid (ve_response env) x" and "invoke_processor proc r = PSendHttp w PDone"
    and "xr_send (ve_response env) (xr_setErrorMsg (ve_response env) []
        (xr_setData (ve_response env) (ve_cgi env w) x)) (cn_library c)
      = (x', l', [CallSendData packet, CallDisconnect])"
    and "0 < length packet" and "length packet < size_max"
    and "c' = conn_state (ls_processing (listeners fam s ! i) ! j)"
  shows "trace c' = trace c @ [AsyncWrite packet, AsyncReadSome, Shutdown, Close]
      @ close_report (ve_asio env) (trace c @ [AsyncWrite packet, AsyncReadSome])
    \<and> bytesToWrite c' = 0 \<and> cn_library c' = l'"
proof -
  let ?c1 = "conn_onRead env proc receiveData None data c"
  have c': "c' = conn_onWriteComplete (ve_asio env) None (size_of packet) ?c1"
    using apart_state[OF server_reach_apart[OF assms(1,2)] assms(3,4)] assms(5,6,16)
    by (simp add: conn_alone_def)
  show ?thesis
    using conn_serves_request[OF assms(7-9) assms(11,14,15,12,13,10) refl c'] by simp
qed


text \<open>
  Two clients of one listener: the first sends a request, then the second connects and sends one,
  and then the response to the first has been written.
\<close>

definition two_clients :: "(string, unit, nat) server_event list" where
  "two_clients = [ListenLocal ''/tmp/fcgi.sock'', AcceptCompleted LocalFamily 0 None,
     ConnectionEvent LocalFamily 0 0 (ReadCompleted None ''GET''),
     AcceptCompleted LocalFamily 0 None,
     ConnectionEvent LocalFamily 0 1 (ReadCompleted None ''PUT''),
     ConnectionEvent LocalFamily 0 0 (WriteCompleted None (size_of ''ok''))]"

lemma demo_accept:
  assumes "io_invar (sv_io s)" and "0 < length (sv_local s)" and "ls_accepting (sv_local s ! 0) = [a]"
  shows "\<exists>s'. server_step library os env ce receiveData s (AcceptCompleted LocalFamily 0 None) s'
    \<and> length (sv_local s') = length (sv_local s) \<and> length (ls_processing (sv_local s' ! 0)) =
        Suc (length (ls_processing (sv_local s ! 0)))"
proof -
  obtain l io where l: "listener_accept library None (listeners LocalFamily s ! 0, sv_io s) = Some (l, io)"
    and len: "length (ls_processing l) = Suc (length (ls_processing (sv_local s ! 0)))"
    using assms by (simp add: listener_accept_def onConnected_def waitForConnection_Some)
  have "server_step library os env ce receiveData s (AcceptCompleted LocalFamily 0 None)
      (set_listener LocalFamily 0 l (s\<lparr>sv_io := io\<rparr>))"
    by (rule step_accept[OF _ l]) (use assms(2) in simp)
  then show ?thesis
    by (intro exI conjI) (assumption, use assms(2) len in simp_all)
qed

abbreviation demo_data :: "string \<Rightarrow> (unit, string, bool \<times> string \<times> string) lib_prog" where
  "demo_data \<equiv> (\<lambda>d. LRequest d (True, [], []) LDone)"

lemma demo_event:
  assumes "length (sv_local s) = 1" and "j < length (ls_processing (sv_local s ! 0))"
    and "\<forall>i rid p cmds. ev \<noteq> TimerExpires i rid p cmds"
  shows "\<exists>s'. server_step () demo_os demo_env demo_client_env demo_data s
      (ConnectionEvent LocalFamily 0 j ev) s'
    \<and> length (sv_local s') = length (sv_local s)
    \<and> length (ls_processing (sv_local s' ! 0)) = length (ls_processing (sv_local s ! 0))
    \<and> ls_accepting (sv_local s' ! 0) = ls_accepting (sv_local s ! 0) \<and> sv_io s' = sv_io s"
proof -
  let ?c = "conn_apply demo_env demo_client_env (conn_requestProcessor (ls_processing (sv_local s ! 0) ! j))
    demo_data ev (conn_state (ls_processing (sv_local s ! 0) ! j))"
  have "server_step () demo_os demo_env demo_client_env demo_data s (ConnectionEvent LocalFamily 0 j ev)
      (set_listener LocalFamily 0 (set_connection j ?c (listeners LocalFamily s ! 0)) s)"
    by (rule step_connection) (use assms in \<open>simp_all add: conn_apply_step\<close>)
  then show ?thesis
    by (intro exI conjI) (assumption, use assms in \<open>simp_all add: set_connection_def\<close>)
qed

lemma demo_two_clients:
  "\<exists>s. server_reach () demo_os demo_env demo_client_env demo_data
     (sv_io demo_server) (cf_requestProcessor demo_factory) two_clients s
     \<and> length (sv_local s) = 1 \<and> length (ls_processing (sv_local s ! 0)) = 2"
proof -
  let ?R = "server_reach () demo_os demo_env demo_client_env
    demo_data (sv_io demo_server) (cf_requestProcessor demo_factory)"
  let ?step = "server_step () demo_os demo_env demo_client_env demo_data"
  have start: "length (sv_local demo_served) = 1" "length (ls_processing (sv_local demo_served ! 0)) = 1"
    "io_invar (sv_io demo_served)"
    "ls_accepting (sv_local demo_served ! 0) = [new_connection () (cf_requestProcessor demo_factory) 0]"
    by (simp_all add: demo_served_def demo_server_simps io_invar_def)
  obtain s1 where s1: "?step demo_served (ConnectionEvent LocalFamily 0 0 (ReadCompleted None ''GET'')) s1"
    "length (sv_local s1) = 1" "length (ls_processing (sv_local s1 ! 0)) = 1" "io_invar (sv_io s1)"
    "ls_accepting (sv_local s1 ! 0) = [new_connection () (cf_requestProcessor demo_factory) 0]"
    using demo_event[of demo_served 0 "ReadCompleted None ''GET''"] start by auto
  obtain s2 where s2: "?step s1 (AcceptCompleted LocalFamily 0 None) s2" "length (sv_local s2) = 1"
    "length (ls_processing (sv_local s2 ! 0)) = 2"
    using demo_accept[OF s1(4) _ s1(5), where os = demo_os and env = demo_env
        and ce = demo_client_env and receiveData = demo_data] s1
    by auto
  obtain s3 where s3: "?step s2 (ConnectionEvent LocalFamily 0 1 (ReadCompleted None ''PUT'')) s3"
    "length (sv_local s3) = 1" "length (ls_processing (sv_local s3 ! 0)) = 2"
    using demo_event[of s2 1 "ReadCompleted None ''PUT''"] s2 by auto
  obtain s4 where s4: "?step s3 (ConnectionEvent LocalFamily 0 0
      (WriteCompleted None (size_of ''ok''))) s4"
    "length (sv_local s4) = 1" "length (ls_processing (sv_local s4 ! 0)) = 2"
    using demo_event[of s3 0 "WriteCompleted None (size_of ''ok'')"] s3 by auto
  have "?R ((((([ListenLocal ''/tmp/fcgi.sock'', AcceptCompleted LocalFamily 0 None]) @
      [ConnectionEvent LocalFamily 0 0 (ReadCompleted None ''GET'')]) @
      [AcceptCompleted LocalFamily 0 None]) @
      [ConnectionEvent LocalFamily 0 1 (ReadCompleted None ''PUT'')]) @
      [ConnectionEvent LocalFamily 0 0 (WriteCompleted None (size_of ''ok''))]) s4"
    by (rule server_reach_step[OF server_reach_step[OF server_reach_step[OF
          server_reach_step[OF demo_served_reach s1(1)] s2(1)] s3(1)] s4(1)])
  then show ?thesis using s4(2,3) by (auto simp: two_clients_def)
qed


theorem server_replies_witness:
  "\<exists>s. server_reach () demo_os demo_env demo_client_env demo_data
     (sv_io demo_server) (cf_requestProcessor demo_factory) two_clients s
     \<and> trace (conn_state (ls_processing (sv_local s ! 0) ! 0)) =
        [AsyncReadSome, AsyncWrite ''ok'', AsyncReadSome, Shutdown, Close]"
proof -
  obtain s where s: "server_reach () demo_os demo_env demo_client_env
      demo_data (sv_io demo_server) (cf_requestProcessor demo_factory)
      two_clients s" "length (sv_local s) = 1" "length (ls_processing (sv_local s ! 0)) = 2"
    using demo_two_clients by blast
  have inv: "io_invar (sv_io demo_server)" by (simp add: demo_server_simps io_invar_def)
  have own: "own_events LocalFamily 0 0 two_clients =
      [] @ [ReadCompleted None ''GET'', WriteCompleted None (size_of ''ok'')]"
    by (simp add: two_clients_def own_events_def)
  let ?c = "conn_alone demo_env demo_client_env (cf_requestProcessor demo_factory) demo_data () []"
  have idle: "bytesToWrite ?c = 0" "nextWriteBuffer ?c = []" "\<not> disconnectRequested ?c"
      "trace ?c = [AsyncReadSome]"
    by (simp_all add: conn_alone_def conn_process_def connection_new_def)
  have lib: "xr_send (ve_response demo_env) (xr_setErrorMsg (ve_response demo_env) []
        (xr_setData (ve_response demo_env) (ve_cgi demo_env ''ok'') (True, [], []))) (cn_library ?c)
      = ((False, ''ok'', []), (), [CallSendData ''ok'', CallDisconnect])"
    "xr_isValid (ve_response demo_env) (True, [], [])"
    by (simp_all add: demo_env_def demo_response_api_def)
  have proc: "invoke_processor (cf_requestProcessor demo_factory) ''GET'' = PSendHttp ''ok'' PDone"
    by (simp add: demo_factory_def connection_factory_new_def)
  have report: "close_report (ve_asio demo_env) before = []" for before
    by (simp add: close_report_def demo_env_def)
  from server_replies[OF inv s(1) _ _ own refl idle(1-3) refl lib(2) proc lib(1) _ _ refl] s idle(4)
  show ?thesis by (auto simp: report)
qed


end
