(* ===== verification/Request_View.thy ===== *)
theory Request_View
  imports Prelude
begin

text \<open>
  The request object given to the application: \<^verbatim>\<open>src/request.cpp\<close>, \<^verbatim>\<open>include/asyncgi/request.h\<close>
  and the cell \<open>LazyInitialized\<close> of \<^verbatim>\<open>include/asyncgi/detail/lazyinitialized.h\<close>.

  A \<open>Request\<close> holds a reference to the FastCGI library's request and a lazily built
  \<open>http::RequestView\<close>, whose initializer captures \<open>this\<close>. Objects therefore live at addresses of
  an explicit memory, and a function that follows a pointer to an object that is gone has the
  value \<open>None\<close>. Both libraries are parameters (\<open>fcgi_request_api\<close>, \<open>http_view_api\<close>).
\<close>

section \<open>The libraries\<close>

record 'r fcgi_request_api =
  fr_hasParam :: "'r \<Rightarrow> string \<Rightarrow> bool"
  fr_param :: "'r \<Rightarrow> string \<Rightarrow> string"
  fr_params :: "'r \<Rightarrow> (string \<times> string) list"
  fr_stdIn :: "'r \<Rightarrow> string"

text \<open>
  The constructor's arguments: method, remote address, host, uri, query string, cookies, content
  type and body.
\<close>

record ('v, 'm) http_view_api =
  hv_make :: "string \<Rightarrow> string \<Rightarrow> string \<Rightarrow> string \<Rightarrow> string \<Rightarrow> string \<Rightarrow> string \<Rightarrow> string \<Rightarrow> 'v"
  hv_ipAddress :: "'v \<Rightarrow> string"
  hv_domainName :: "'v \<Rightarrow> string"
  hv_path :: "'v \<Rightarrow> string"
  hv_method :: "'v \<Rightarrow> 'm"
  hv_query :: "'v \<Rightarrow> string \<Rightarrow> string"
  hv_hasQuery :: "'v \<Rightarrow> string \<Rightarrow> bool"
  hv_cookie :: "'v \<Rightarrow> string \<Rightarrow> string"
  hv_hasCookie :: "'v \<Rightarrow> string \<Rightarrow> bool"
  hv_formField :: "'v \<Rightarrow> string \<Rightarrow> int \<Rightarrow> string"
  hv_formFieldCount :: "'v \<Rightarrow> string \<Rightarrow> int"
  hv_hasFormField :: "'v \<Rightarrow> string \<Rightarrow> bool"
  hv_fileData :: "'v \<Rightarrow> string \<Rightarrow> int \<Rightarrow> string"
  hv_fileCount :: "'v \<Rightarrow> string \<Rightarrow> int"
  hv_hasFile :: "'v \<Rightarrow> string \<Rightarrow> bool"
  hv_fileName :: "'v \<Rightarrow> string \<Rightarrow> int \<Rightarrow> string"
  hv_fileType :: "'v \<Rightarrow> string \<Rightarrow> int \<Rightarrow> string"
  hv_queries :: "'v \<Rightarrow> (string \<times> string) list"
  hv_cookies :: "'v \<Rightarrow> (string \<times> string) list"
  hv_formFieldList :: "'v \<Rightarrow> string list"
  hv_fileList :: "'v \<Rightarrow> string list"
  hv_hasFiles :: "'v \<Rightarrow> bool"

record ('r, 'v, 'm) libs =
  lib_fcgi :: "'r fcgi_request_api"
  lib_http :: "('v, 'm) http_view_api"

section \<open>LazyInitialized\<close>

text \<open>The initializer is a computation that may follow a dangling pointer.\<close>

record 't lazy_initialized =
  lazy_value :: "'t option"

definition lazy_get :: "'t option \<Rightarrow> 't lazy_initialized \<Rightarrow> ('t \<times> 't lazy_initialized) option" where
  "lazy_get initializer l =
     (case lazy_value l of
        Some v \<Rightarrow> Some (v, l)
      | None \<Rightarrow>
          (case initializer of
             Some v \<Rightarrow> Some (v, l\<lparr>lazy_value := Some v\<rparr>)
           | None \<Rightarrow> None))"

section \<open>Request\<close>

record 'v request_object =
  ro_fcgiRequest :: nat
  ro_httpRequest :: "'v lazy_initialized"
  ro_this :: nat

record ('r, 'v) memory =
  fcgi_at :: "nat \<rightharpoonup> 'r"
  request_at :: "nat \<rightharpoonup> 'v request_object"

definition request_new :: "nat \<Rightarrow> nat \<Rightarrow> ('r, 'v) memory \<Rightarrow> ('r, 'v) memory" where
  "request_new fcgi a m = m\<lparr>request_at := (request_at m)(a \<mapsto>
     \<lparr>ro_fcgiRequest = fcgi, ro_httpRequest = \<lparr>lazy_value = None\<rparr>, ro_this = a\<rparr>)\<rparr>"

text \<open>
  The implicit copy constructor of \<^verbatim>\<open>request.h\<close> copies the members: the cell's value and its
  initializer, which still names the object it was written for.
\<close>

definition request_copy :: "nat \<Rightarrow> nat \<Rightarrow> ('r, 'v) memory \<Rightarrow> ('r, 'v) memory" where
  "request_copy a b m = m\<lparr>request_at := (request_at m)(b := request_at m a)\<rparr>"

definition request_destroy :: "nat \<Rightarrow> ('r, 'v) memory \<Rightarrow> ('r, 'v) memory" where
  "request_destroy a m = m\<lparr>request_at := (request_at m)(a := None)\<rparr>"

definition Request_fcgiRequest :: "nat \<Rightarrow> ('r, 'v) memory \<Rightarrow> 'r option" where
  "Request_fcgiRequest a m =
     (case request_at m a of Some r \<Rightarrow> fcgi_at m (ro_fcgiRequest r) | None \<Rightarrow> None)"

definition param_or_empty :: "'r fcgi_request_api \<Rightarrow> 'r \<Rightarrow> string \<Rightarrow> string" where
  "param_or_empty api r name = (if fr_hasParam api r name then fr_param api r name else [])"

definition view_of :: "('r, 'v, 'm) libs \<Rightarrow> 'r \<Rightarrow> 'v" where
  "view_of libs r =
     hv_make (lib_http libs)
       (param_or_empty (lib_fcgi libs) r ''REQUEST_METHOD'')
       (param_or_empty (lib_fcgi libs) r ''REMOTE_ADDR'')
       (param_or_empty (lib_fcgi libs) r ''HTTP_HOST'')
       (param_or_empty (lib_fcgi libs) r ''REQUEST_URI'')
       (param_or_empty (lib_fcgi libs) r ''QUERY_STRING'')
       (param_or_empty (lib_fcgi libs) r ''HTTP_COOKIE'')
       (param_or_empty (lib_fcgi libs) r ''CONTENT_TYPE'')
       (fr_stdIn (lib_fcgi libs) r)"

definition Request_httpRequest :: "('r, 'v, 'm) libs \<Rightarrow> nat \<Rightarrow>
    ('r, 'v) memory \<Rightarrow> ('v \<times> ('r, 'v) memory) option" where
  "Request_httpRequest libs a m =
     (case request_at m a of
        None \<Rightarrow> None
      | Some r \<Rightarrow>
          (case lazy_get (map_option (view_of libs) (Request_fcgiRequest (ro_this r) m))
                  (ro_httpRequest r) of
             None \<Rightarrow> None
           | Some (v, l) \<Rightarrow>
               Some (v, m\<lparr>request_at := (request_at m)(a \<mapsto> r\<lparr>ro_httpRequest := l\<rparr>)\<rparr>)))"

definition with_view :: "('r, 'v, 'm) libs \<Rightarrow> ('v \<Rightarrow> 'x) \<Rightarrow> nat \<Rightarrow>
    ('r, 'v) memory \<Rightarrow> ('x \<times> ('r, 'v) memory) option" where
  "with_view libs f a m =
     (case Request_httpRequest libs a m of Some (v, m) \<Rightarrow> Some (f v, m) | None \<Rightarrow> None)"

section \<open>Accessors\<close>

definition Request_fcgiParam :: "('r, 'v, 'm) libs \<Rightarrow> string \<Rightarrow> nat \<Rightarrow>
    ('r, 'v) memory \<Rightarrow> string option" where
  "Request_fcgiParam libs name a m =
     map_option (\<lambda>r. fr_param (lib_fcgi libs) r name) (Request_fcgiRequest a m)"

definition Request_hasFcgiParam :: "('r, 'v, 'm) libs \<Rightarrow> string \<Rightarrow> nat \<Rightarrow>
    ('r, 'v) memory \<Rightarrow> bool option" where
  "Request_hasFcgiParam libs name a m =
     map_option (\<lambda>r. fr_hasParam (lib_fcgi libs) r name) (Request_fcgiRequest a m)"

definition Request_fcgiParams :: "('r, 'v, 'm) libs \<Rightarrow> nat \<Rightarrow>
    ('r, 'v) memory \<Rightarrow> (string \<times> string) list option" where
  "Request_fcgiParams libs a m =
     map_option (fr_params (lib_fcgi libs)) (Request_fcgiRequest a m)"

definition Request_fcgiStdIn :: "('r, 'v, 'm) libs \<Rightarrow> nat \<Rightarrow> ('r, 'v) memory \<Rightarrow> string option" where
  "Request_fcgiStdIn libs a m =
     map_option (fr_stdIn (lib_fcgi libs)) (Request_fcgiRequest a m)"

definition Request_ipAddress :: "('r, 'v, 'm) libs \<Rightarrow> nat \<Rightarrow>
    ('r, 'v) memory \<Rightarrow> (string \<times> ('r, 'v) memory) option" where
  "Request_ipAddress libs a m = with_view libs (hv_ipAddress (lib_http libs)) a m"

definition Request_domainName :: "('r, 'v, 'm) libs \<Rightarrow> nat \<Rightarrow>
    ('r, 'v) memory \<Rightarrow> (string \<times> ('r, 'v) memory) option" where
  "Request_domainName libs a m = with_view libs (hv_domainName (lib_http libs)) a m"

definition Request_path :: "('r, 'v, 'm) libs \<Rightarrow> nat \<Rightarrow>
    ('r, 'v) memory \<Rightarrow> (string \<times> ('r, 'v) memory) option" where
  "Request_path libs a m = with_view libs (hv_path (lib_http libs)) a m"

definition Request_method :: "('r, 'v, 'm) libs \<Rightarrow> nat \<Rightarrow>
    ('r, 'v) memory \<Rightarrow> ('m \<times> ('r, 'v) memory) option" where
  "Request_method libs a m = with_view libs (hv_method (lib_http libs)) a m"

definition Request_query :: "('r, 'v, 'm) libs \<Rightarrow> string \<Rightarrow> nat \<Rightarrow>
    ('r, 'v) memory \<Rightarrow> (string \<times> ('r, 'v) memory) option" where
  "Request_query libs name a m = with_view libs (\<lambda>v. hv_query (lib_http libs) v name) a m"

definition Request_hasQuery :: "('r, 'v, 'm) libs \<Rightarrow> string \<Rightarrow> nat \<Rightarrow>
    ('r, 'v) memory \<Rightarrow> (bool \<times> ('r, 'v) memory) option" where
  "Request_hasQuery libs name a m = with_view libs (\<lambda>v. hv_hasQuery (lib_http libs) v name) a m"

definition Request_cookie :: "('r, 'v, 'm) libs \<Rightarrow> string \<Rightarrow> nat \<Rightarrow>
    ('r, 'v) memory \<Rightarrow> (string \<times> ('r, 'v) memory) option" where
  "Request_cookie libs name a m = with_view libs (\<lambda>v. hv_cookie (lib_http libs) v name) a m"

definition Request_hasCookie :: "('r, 'v, 'm) libs \<Rightarrow> string \<Rightarrow> nat \<Rightarrow>
    ('r, 'v) memory \<Rightarrow> (bool \<times> ('r, 'v) memory) option" where
  "Request_hasCookie libs name a m = with_view libs (\<lambda>v. hv_hasCookie (lib_http libs) v name) a m"

definition Request_formField :: "('r, 'v, 'm) libs \<Rightarrow> string \<Rightarrow> int \<Rightarrow> nat \<Rightarrow>
    ('r, 'v) memory \<Rightarrow> (string \<times> ('r, 'v) memory) option" where
  "Request_formField libs name index a m = with_view libs (\<lambda>v. hv_formField (lib_http libs) v name index) a m"

definition Request_formFieldCount :: "('r, 'v, 'm) libs \<Rightarrow> string \<Rightarrow> nat \<Rightarrow>
    ('r, 'v) memory \<Rightarrow> (int \<times> ('r, 'v) memory) option" where
  "Request_formFieldCount libs name a m = with_view libs (\<lambda>v. hv_formFieldCount (lib_http libs) v name) a m"

definition Request_hasFormField :: "('r, 'v, 'm) libs \<Rightarrow> string \<Rightarrow> nat \<Rightarrow>
    ('r, 'v) memory \<Rightarrow> (bool \<times> ('r, 'v) memory) option" where
  "Request_hasFormField libs name a m = with_view libs (\<lambda>v. hv_hasFormField (lib_http libs) v name) a m"

definition Request_fileData :: "('r, 'v, 'm) libs \<Rightarrow> string \<Rightarrow> int \<Rightarrow> nat \<Rightarrow>
    ('r, 'v) memory \<Rightarrow> (string \<times> ('r, 'v) memory) option" where
  "Request_fileData libs name index a m = with_view libs (\<lambda>v. hv_fileData (lib_http libs) v name index) a m"

definition Request_fileCount :: "('r, 'v, 'm) libs \<Rightarrow> string \<Rightarrow> nat \<Rightarrow>
    ('r, 'v) memory \<Rightarrow> (int \<times> ('r, 'v) memory) option" where
  "Request_fileCount libs name a m = with_view libs (\<lambda>v. hv_fileCount (lib_http libs) v name) a m"

definition Request_hasFile :: "('r, 'v, 'm) libs \<Rightarrow> string \<Rightarrow> nat \<Rightarrow>
    ('r, 'v) memory \<Rightarrow> (bool \<times> ('r, 'v) memory) option" where
  "Request_hasFile libs name a m = with_view libs (\<lambda>v. hv_hasFile (lib_http libs) v name) a m"

definition Request_fileName :: "('r, 'v, 'm) libs \<Rightarrow> string \<Rightarrow> int \<Rightarrow> nat \<Rightarrow>
    ('r, 'v) memory \<Rightarrow> (string \<times> ('r, 'v) memory) option" where
  "Request_fileName libs name index a m = with_view libs (\<lambda>v. hv_fileName (lib_http libs) v name index) a m"

definition Request_fileType :: "('r, 'v, 'm) libs \<Rightarrow> string \<Rightarrow> int \<Rightarrow> nat \<Rightarrow>
    ('r, 'v) memory \<Rightarrow> (string \<times> ('r, 'v) memory) option" where
  "Request_fileType libs name index a m = with_view libs (\<lambda>v. hv_fileType (lib_http libs) v name index) a m"

definition Request_queries :: "('r, 'v, 'm) libs \<Rightarrow> nat \<Rightarrow>
    ('r, 'v) memory \<Rightarrow> ((string \<times> string) list \<times> ('r, 'v) memory) option" where
  "Request_queries libs a m = with_view libs (hv_queries (lib_http libs)) a m"

definition Request_cookies :: "('r, 'v, 'm) libs \<Rightarrow> nat \<Rightarrow>
    ('r, 'v) memory \<Rightarrow> ((string \<times> string) list \<times> ('r, 'v) memory) option" where
  "Request_cookies libs a m = with_view libs (hv_cookies (lib_http libs)) a m"

definition Request_formFieldList :: "('r, 'v, 'm) libs \<Rightarrow> nat \<Rightarrow>
    ('r, 'v) memory \<Rightarrow> (string list \<times> ('r, 'v) memory) option" where
  "Request_formFieldList libs a m = with_view libs (hv_formFieldList (lib_http libs)) a m"

definition Request_fileList :: "('r, 'v, 'm) libs \<Rightarrow> nat \<Rightarrow>
    ('r, 'v) memory \<Rightarrow> (string list \<times> ('r, 'v) memory) option" where
  "Request_fileList libs a m = with_view libs (hv_fileList (lib_http libs)) a m"

definition Request_hasFiles :: "('r, 'v, 'm) libs \<Rightarrow> nat \<Rightarrow>
    ('r, 'v) memory \<Rightarrow> (bool \<times> ('r, 'v) memory) option" where
  "Request_hasFiles libs a m = with_view libs (hv_hasFiles (lib_http libs)) a m"

lemmas request_accessor_defs = Request_ipAddress_def Request_domainName_def Request_path_def Request_method_def
  Request_query_def Request_hasQuery_def Request_cookie_def Request_hasCookie_def
  Request_formField_def Request_formFieldCount_def Request_hasFormField_def Request_fileData_def
  Request_fileCount_def Request_hasFile_def Request_fileName_def Request_fileType_def
  Request_queries_def Request_cookies_def Request_formFieldList_def Request_fileList_def
  Request_hasFiles_def

section \<open>A valid request\<close>

text \<open>
  The object at \<open>a\<close> was built there over the FastCGI request \<open>fr\<close>, which is still where it was,
  and its cell is empty or holds the view of \<open>fr\<close>.
\<close>

definition request_valid :: "('r, 'v, 'm) libs \<Rightarrow> 'r \<Rightarrow> nat \<Rightarrow> ('r, 'v) memory \<Rightarrow> bool" where
  "request_valid libs fr a m \<longleftrightarrow>
     (case request_at m a of
        None \<Rightarrow> False
      | Some r \<Rightarrow> ro_this r = a \<and> fcgi_at m (ro_fcgiRequest r) = Some fr
          \<and> lazy_value (ro_httpRequest r) \<in> {None, Some (view_of libs fr)})"

lemma request_valid_new: "fcgi_at m p = Some fr \<Longrightarrow> request_valid libs fr a (request_new p a m)"
  by (simp add: request_valid_def request_new_def)

text \<open>The memory after the view has been asked for.\<close>

definition request_viewed :: "('r, 'v, 'm) libs \<Rightarrow> 'r \<Rightarrow> nat \<Rightarrow> ('r, 'v) memory \<Rightarrow> ('r, 'v) memory" where
  "request_viewed libs fr a m = m\<lparr>request_at := (request_at m)(a := map_option
     (\<lambda>r. r\<lparr>ro_httpRequest := \<lparr>lazy_value = Some (view_of libs fr)\<rparr>\<rparr>) (request_at m a))\<rparr>"

lemma request_viewed_frame [simp]:
  "b \<noteq> a \<Longrightarrow> request_at (request_viewed libs fr a m) b = request_at m b"
  "fcgi_at (request_viewed libs fr a m) = fcgi_at m"
  by (simp_all add: request_viewed_def)

lemma request_viewed_idem [simp]:
  "request_viewed libs fr a (request_viewed libs fr a m) = request_viewed libs fr a m"
  by (cases "request_at m a") (simp_all add: request_viewed_def)

lemma request_valid_viewed:
  "request_valid libs fr a m \<Longrightarrow> request_valid libs fr a (request_viewed libs fr a m)"
  by (auto simp: request_valid_def request_viewed_def split: option.splits)

lemma request_valid_view:
  assumes "request_valid libs fr a m"
  shows "Request_httpRequest libs a m = Some (view_of libs fr, request_viewed libs fr a m)"
proof -
  obtain p l t where r: "request_at m a = Some \<lparr>ro_fcgiRequest = p, ro_httpRequest = \<lparr>lazy_value = l\<rparr>,
      ro_this = t\<rparr>"
    using assms unfolding request_valid_def
    by (metis (no_types, lifting) lazy_initialized.cases option.case_eq_if option.exhaust_sel
        request_object.cases)
  then have "t = a" "fcgi_at m p = Some fr" "l = None \<or> l = Some (view_of libs fr)"
    using assms by (auto simp: request_valid_def)
  with r show ?thesis
    by (auto simp: Request_httpRequest_def lazy_get_def Request_fcgiRequest_def request_viewed_def)
qed

lemma with_view_valid:
  "request_valid libs fr a m \<Longrightarrow>
   with_view libs f a m = Some (f (view_of libs fr), request_viewed libs fr a m)"
  by (simp add: with_view_def request_valid_view)

section \<open>Concrete libraries\<close>

text \<open>A request is its parameters and body; a view is the list of the constructor's arguments.\<close>

definition demo_libs :: "((string \<times> string) list \<times> string, string list, string) libs" where
  "demo_libs = \<lparr>
     lib_fcgi = \<lparr>fr_hasParam = (\<lambda>r n. map_of (fst r) n \<noteq> None),
       fr_param = (\<lambda>r n. case map_of (fst r) n of Some v \<Rightarrow> v | None \<Rightarrow> []),
       fr_params = fst, fr_stdIn = snd\<rparr>,
     lib_http = \<lparr>hv_make = (\<lambda>me ip ho uri qs co ct body. [me, ip, ho, uri, qs, co, ct, body]),
       hv_ipAddress = (\<lambda>v. v ! 1), hv_domainName = (\<lambda>v. v ! 2), hv_path = (\<lambda>v. v ! 3),
       hv_method = (\<lambda>v. v ! 0), hv_query = (\<lambda>v n. []), hv_hasQuery = (\<lambda>v n. False),
       hv_cookie = (\<lambda>v n. []), hv_hasCookie = (\<lambda>v n. False), hv_formField = (\<lambda>v n i. []),
       hv_formFieldCount = (\<lambda>v n. 0), hv_hasFormField = (\<lambda>v n. False),
       hv_fileData = (\<lambda>v n i. []), hv_fileCount = (\<lambda>v n. 0), hv_hasFile = (\<lambda>v n. False),
       hv_fileName = (\<lambda>v n i. []), hv_fileType = (\<lambda>v n i. []), hv_queries = (\<lambda>v. []),
       hv_cookies = (\<lambda>v. []), hv_formFieldList = (\<lambda>v. []), hv_fileList = (\<lambda>v. []),
       hv_hasFiles = (\<lambda>v. False)\<rparr>\<rparr>"

definition demo_memory :: "((string \<times> string) list \<times> string, string list) memory" where
  "demo_memory = \<lparr>fcgi_at = [0 \<mapsto> ([(''REQUEST_URI'', ''/a'')], ''body'')], request_at = Map.empty\<rparr>"

section \<open>Properties\<close>



text \<open>
  Copies of a request. The implicit copy shares the initializer that captured the original:
  a copy made before any accessor ran cannot build its view once the original is gone, while the
  FastCGI accessors still work; a copy made after an accessor ran answers as the original did.
\<close>

theorem request_copies:
  assumes "fcgi_at m p = Some fr" and "a \<noteq> b"
    and "early = request_destroy a (request_copy a b (request_new p a m))"
    and "late = request_destroy a (request_copy a b (request_viewed libs fr a (request_new p a m)))"
  shows "Request_path libs b early = None
    \<and> Request_fcgiParam libs n b early = Some (fr_param (lib_fcgi libs) fr n)
    \<and> map_option fst (Request_path libs b late) = Some (hv_path (lib_http libs) (view_of libs fr))"
  using assms
  by (simp add: Request_path_def with_view_def Request_httpRequest_def Request_fcgiRequest_def
      Request_fcgiParam_def lazy_get_def request_viewed_def request_new_def request_copy_def
      request_destroy_def)

theorem request_copies_witness:
  "Request_path demo_libs 2 (request_destroy 1 (request_copy 1 2 (request_new 0 1 demo_memory))) = None"
  using request_copies[of demo_memory 0 "([(''REQUEST_URI'', ''/a'')], ''body'')" 1 2
      _ _ demo_libs, OF _ _ refl refl]
  by (simp add: demo_memory_def)

end
