(* ===== verification/Router.thy ===== *)
theory Router
  imports Connection_Requests Request_View
begin

text \<open>
  The router, \<^verbatim>\<open>include/asyncgi/router.h\<close>. It derives from whaleroute's \<open>RequestRouter\<close>, which is
  a parameter: the library makes, from the virtual functions the router gives it and from the
  request, the queue of route processors, and \<open>launch\<close> runs them. The virtual functions are the
  record \<open>router_hooks\<close>, pieces of a request processor with the rest of the run as their argument.
\<close>

section \<open>std::to_string\<close>

definition digit :: "nat \<Rightarrow> char" where
  "digit d = char_of (48 + d)"

fun nat_to_string :: "nat \<Rightarrow> string" where
  "nat_to_string n = (if n < 10 then [digit n] else nat_to_string (n div 10) @ [digit (n mod 10)])"

declare nat_to_string.simps [simp del]

definition to_string :: "int \<Rightarrow> string" where
  "to_string i = (if i < 0 then CHR ''-'' # nat_to_string (nat (- i)) else nat_to_string (nat i))"

section \<open>Errors and responses\<close>

datatype route_parameter_error =
    RouteParameterCountMismatch int int
  | RouteParameterReadError int string

definition parameters_error_message :: "route_parameter_error \<Rightarrow> string" where
  "parameters_error_message error =
     (case error of
        RouteParameterCountMismatch expectedNumber actualNumber \<Rightarrow>
          ''RouteParameterError: Parameter count mismatch, expected: '' @ to_string expectedNumber
          @ '', actual:'' @ to_string actualNumber
      | RouteParameterReadError index value \<Rightarrow>
          ''RouteParameterError: Couldn't read parameter#'' @ to_string index
          @ '', value:'' @ value)"

text \<open>
  \<open>detail::ResponseSender\<close>: a route's result is a response or an optional one; with several
  arguments they are those of a constructor of \<open>http::Response\<close> (\<open>construct\<close>).
\<close>

datatype 'w sendable =
    HttpResponse 'w
  | FastcgiResponse string string

fun send_response :: "'w sendable \<Rightarrow> ('w, 'k) prog \<Rightarrow> ('w, 'k) prog" where
  "send_response (HttpResponse w) p = PSendHttp w p"
| "send_response (FastcgiResponse d e) p = PSendFastcgi d e p"

definition sender_optional :: "'w sendable option \<Rightarrow> ('w, 'k) prog \<Rightarrow> ('w, 'k) prog" where
  "sender_optional response p = (case response of Some r \<Rightarrow> send_response r p | None \<Rightarrow> p)"

definition sender_value :: "'w sendable \<Rightarrow> ('w, 'k) prog \<Rightarrow> ('w, 'k) prog" where
  "sender_value response p = send_response response p"

definition sender_arguments :: "('a \<Rightarrow> 'w) \<Rightarrow> 'a \<Rightarrow> ('w, 'k) prog \<Rightarrow> ('w, 'k) prog" where
  "sender_arguments construct args p = PSendHttp (construct args) p"

section \<open>The virtual functions\<close>

record ('r, 'w, 'k) router_hooks =
  hk_getRequestPath :: "'r \<Rightarrow> string"
  hk_processUnmatchedRequest :: "'r \<Rightarrow> ('w, 'k) prog \<Rightarrow> ('w, 'k) prog"
  hk_isRouteProcessingFinished :: "'r \<Rightarrow> (bool \<Rightarrow> ('w, 'k) prog) \<Rightarrow> ('w, 'k) prog"
  hk_onRouteParametersError :: "'r \<Rightarrow> route_parameter_error \<Rightarrow> ('w, 'k) prog \<Rightarrow> ('w, 'k) prog"

definition getRequestPath :: "('r, 'v, 'm) libs \<Rightarrow> 'r \<Rightarrow> string" where
  "getRequestPath libs request = hv_path (lib_http libs) (view_of libs request)"

definition processUnmatchedRequest :: "(nat \<Rightarrow> 'w) \<Rightarrow> 'r \<Rightarrow> ('w, 'k) prog \<Rightarrow> ('w, 'k) prog" where
  "processUnmatchedRequest status request p = PSendHttp (status 404) p"

definition isRouteProcessingFinished ::
    "'r \<Rightarrow> (bool \<Rightarrow> ('w, 'k) prog) \<Rightarrow> ('w, 'k) prog" where
  "isRouteProcessingFinished request k = PIsSent k"

definition onRouteParametersError :: "(nat \<Rightarrow> 'w) \<Rightarrow> 'r \<Rightarrow> route_parameter_error \<Rightarrow>
    ('w, 'k) prog \<Rightarrow> ('w, 'k) prog" where
  "onRouteParametersError status request error p =
     PReport RouteParametersError (parameters_error_message error) (PSendHttp (status 500) p)"

definition router_vtable :: "('r, 'v, 'm) libs \<Rightarrow> (nat \<Rightarrow> 'w) \<Rightarrow> ('r, 'w, 'k) router_hooks" where
  "router_vtable libs status =
     \<lparr>hk_getRequestPath = getRequestPath libs,
      hk_processUnmatchedRequest = processUnmatchedRequest status,
      hk_isRouteProcessingFinished = isRouteProcessingFinished,
      hk_onRouteParametersError = onRouteParametersError status\<rparr>"

text \<open>The matcher for a request method, with and without a route context.\<close>

definition match_method :: "('r, 'v, 'm) libs \<Rightarrow> 'm \<Rightarrow> 'r \<Rightarrow> bool" where
  "match_method libs value request \<longleftrightarrow> value = hv_method (lib_http libs) (view_of libs request)"

definition match_method_context :: "('r, 'v, 'm) libs \<Rightarrow> 'm \<Rightarrow> 'r \<Rightarrow> 'c \<Rightarrow> bool" where
  "match_method_context libs value request context \<longleftrightarrow>
     value = hv_method (lib_http libs) (view_of libs request)"

section \<open>Calling a router\<close>

text \<open>
  The queue is made and attached to the response's context before the library fills it; then it is
  launched. \<open>launch\<close> is what running the library's queue does.
\<close>

definition router_call :: "(('r, 'w, 'k) router_hooks \<Rightarrow> 'r \<Rightarrow> ('w, 'k) prog) \<Rightarrow>
    ('r, 'w, 'k) router_hooks \<Rightarrow> 'r \<Rightarrow> ('w, 'k) prog" where
  "router_call launch hooks request =
     PMakeQueue (\<lambda>requestProcessorQueue.
       PSetQueue requestProcessorQueue (launch hooks request))"

section \<open>Decimal representation\<close>

fun parse_nat :: "string \<Rightarrow> nat" where
  "parse_nat cs = foldl (\<lambda>n c. 10 * n + (of_char c - 48)) 0 cs"

definition parse_int :: "string \<Rightarrow> int" where
  "parse_int s = (case s of CHR ''-'' # cs \<Rightarrow> - int (parse_nat cs) | _ \<Rightarrow> int (parse_nat s))"

lemma of_char_digit: "d < 10 \<Longrightarrow> of_char (digit d) = 48 + d"
  by (simp add: digit_def of_char_of)

lemma parse_nat_to_string: "parse_nat (nat_to_string n) = n"
proof (induction n rule: nat_to_string.induct)
  case (1 n)
  show ?case
    using 1 by (subst nat_to_string.simps) (auto simp: of_char_digit)
qed

lemma nat_to_string_digits: "set (nat_to_string n) \<subseteq> digit ` {..<10}"
proof (induction n rule: nat_to_string.induct)
  case (1 n)
  show ?case
    using 1 by (subst nat_to_string.simps) auto
qed

lemma nat_to_string_not_Nil [simp]: "nat_to_string n \<noteq> []"
  by (subst nat_to_string.simps) simp

lemma digit_not_minus:
  assumes "d < 10"
  shows "digit d \<noteq> CHR ''-''"
proof
  assume "digit d = CHR ''-''"
  then have "48 + d = of_char (CHR ''-'')"
    using of_char_digit[OF assms] by simp
  then show False by simp
qed

section \<open>Properties\<close>

lemma to_string_roundtrip: "parse_int (to_string i) = i"
proof (cases "i < 0")
  case True
  then show ?thesis by (simp add: to_string_def parse_int_def parse_nat_to_string del: parse_nat.simps)
next
  case False
  obtain c cs where c: "nat_to_string (nat i) = c # cs"
    using nat_to_string_not_Nil list.exhaust by metis
  then have "c \<noteq> CHR ''-''"
    using nat_to_string_digits[of "nat i"] digit_not_minus by auto
  then have "parse_int (to_string i) = int (parse_nat (nat_to_string (nat i)))"
    using False c by (auto simp: to_string_def parse_int_def split: char.splits bool.splits
        simp del: parse_nat.simps)
  then show ?thesis
    using False by (simp add: parse_nat_to_string del: parse_nat.simps)
qed

lemma to_string_inject [simp]: "to_string i = to_string j \<longleftrightarrow> i = j"
  by (metis to_string_roundtrip)

text \<open>The characters of a natural number.\<close>

lemma to_string_other:
  assumes "(of_char c :: nat) < 48 \<or> (57 :: nat) < of_char c"
  shows "c \<notin> set (to_string (int n))"
proof
  assume "c \<in> set (to_string (int n))"
  then obtain d where "d < 10" "c = digit d"
    using nat_to_string_digits[of n] by (auto simp: to_string_def)
  with assms of_char_digit[of d] show False by simp
qed

lemma digit_not_comma: "d < 10 \<Longrightarrow> digit d \<noteq> CHR '',''"
proof
  assume d: "d < 10" and "digit d = CHR '',''"
  then have "48 + d = of_char (CHR '','')"
    using of_char_digit[OF d] by simp
  then show False by simp
qed

lemma to_string_no_comma: "CHR '','' \<notin> set (to_string i)"
proof -
  have "CHR '','' \<notin> set (nat_to_string n)" for n
    using nat_to_string_digits[of n] digit_not_comma by fastforce
  then show ?thesis by (simp add: to_string_def)
qed

lemma append_comma_inject:
  "CHR '','' \<notin> set xs \<Longrightarrow> CHR '','' \<notin> set ys \<Longrightarrow>
   xs @ CHR '','' # us = ys @ CHR '','' # vs \<longleftrightarrow> xs = ys \<and> us = vs"
proof (induction xs arbitrary: ys)
  case Nil
  then show ?case by (cases ys) auto
next
  case (Cons x xs)
  then show ?case by (cases ys) auto
qed

text \<open>
  The message of a route parameter error identifies the error: the kind, the numbers and the
  value can be read back from it.
\<close>

theorem parameters_error_message_inject:
  "parameters_error_message e = parameters_error_message e' \<longleftrightarrow> e = e'"
  by (cases e; cases e') (simp_all add: parameters_error_message_def append_comma_inject
      to_string_no_comma)

definition queue_attached ::
    "nat \<Rightarrow> ('l, 'r, 'x, 'f, 'h, 'k) connection \<Rightarrow> bool" where
  "queue_attached q c \<longleftrightarrow> queue_alive c q \<and> cs_queue (cn_client c) = Some q
     \<and> ds_queue (cn_dispatcher c) = Some q \<and> tp_queue (cn_timers c) = Some q"

lemma router_call_run:
  assumes "conn_locked rid c"
  shows "run_prog env rid (router_call launch hooks r) c =
    run_prog env rid (launch hooks r) (rc_setRequestProcessorQueue (cn_nextQueue c)
      (c\<lparr>cn_nextQueue := Suc (cn_nextQueue c)\<rparr>))"
  using assms by (simp add: router_call_def accessor_setRequestProcessorQueue_def)

lemma queue_attached_set:
  assumes "conn_locked rid c"
  shows "queue_attached q (rc_setRequestProcessorQueue q c)"
proof -
  obtain ctx where "cn_context c = Some ctx"
    using assms by (auto simp: conn_locked_def split: option.splits)
  then show ?thesis
    by (simp add: queue_attached_def queue_alive_def rc_setRequestProcessorQueue_def
        cs_setRequestProcessorQueue_def ds_setRequestProcessorQueue_def
        tp_setRequestProcessorQueue_def)
qed

lemma queue_attached_send:
  "queue_attached q (conn_send env d e c) = queue_attached q c"
  "queue_attached q (emit a c) = queue_attached q c"
proof -
  have "cn_dispatcher (conn_send env d e c) = cn_dispatcher c"
    by (simp add: conn_send_def conn_fields Let_def split: option.split prod.split)
  then show "queue_attached q (conn_send env d e c) = queue_attached q c"
    by (simp add: queue_attached_def queue_alive_def conn_send_services)
  show "queue_attached q (emit a c) = queue_attached q c"
    by (simp add: queue_attached_def queue_alive_def conn_fields)
qed

text \<open>
  Calling a router. Before the library runs anything, a new queue is owned by the response's
  context and known to the client, the dispatcher and the timers of the connection; a timer made
  from the responder is attached to it.
\<close>

theorem router_attaches_queue:
  assumes "conn_locked rid c" and "q = cn_nextQueue c"
  shows "\<exists>c'. run_prog env rid (router_call launch hooks r) c = run_prog env rid (launch hooks r) c'
    \<and> queue_attached q c' \<and> cn_nextQueue c' = Suc q \<and> conn_locked rid c'
    \<and> ts_queue (last (tp_timers (cn_timers (conn_timer_start rid n k c')))) = Some q"
proof -
  define c' where "c' = rc_setRequestProcessorQueue q (c\<lparr>cn_nextQueue := Suc (cn_nextQueue c)\<rparr>)"
  have l: "conn_locked rid (c\<lparr>cn_nextQueue := Suc (cn_nextQueue c)\<rparr>)"
    using assms(1) by simp
  then have "conn_locked rid c'"
    using conn_locked_ops(4)[of rid rid q "c\<lparr>cn_nextQueue := Suc (cn_nextQueue c)\<rparr>"]
    by (simp add: c'_def accessor_setRequestProcessorQueue_def)
  moreover have "queue_attached q c'"
    using queue_attached_set[OF l] by (simp add: c'_def)
  moreover have "cn_nextQueue c' = Suc q"
    using assms(2) by (simp add: c'_def rc_setRequestProcessorQueue_def)
  moreover have "ts_queue (last (tp_timers (cn_timers (conn_timer_start rid n k c')))) = Some q"
    using calculation(1,2)
    by (simp add: conn_timer_start_def timer_of_responder_def getTimerService_def emplaceTimer_def
        tp_update_def queue_attached_def ts_new_def ts_start_def ts_queue_stop_def ts_emit_def)
  ultimately show ?thesis
    using router_call_run[OF assms(1), of env launch hooks r] assms(2) c'_def by blast
qed

theorem router_attaches_queue_witness:
  "\<exists>c'. run_prog demo_env 0 (router_call (\<lambda>h r. hk_processUnmatchedRequest h r PDone)
      (router_vtable demo_libs (ve_status demo_env)) ([], [])) demo_routed
      = run_prog demo_env 0 (PSendHttp ''Not Found'' PDone) c' \<and> queue_attached 1 c'"
proof -
  have "conn_locked 0 demo_routed" "cn_nextQueue demo_routed = 1"
    by code_simp+
  then show ?thesis
    using router_attaches_queue[of 0 demo_routed 1 demo_env
        "\<lambda>h r. hk_processUnmatchedRequest h r PDone" "router_vtable demo_libs (ve_status demo_env)" "([], [])"]
    by (auto simp: router_vtable_def processUnmatchedRequest_def demo_env_def)
qed

text \<open>
  C18. A request no route matches, or whose parameters a route cannot read. The first is answered
  with status 404. For the second the mismatch is reported, with its message, before the response
  with status 500 is sent. Either is the one answer to the request, and its queue stays attached.
\<close>

theorem router_errors_answered:
  assumes "xr_isValid (ve_response env) x" and "hooks = router_vtable libs (ve_status env)"
    and "launch hooks r = hk_processUnmatchedRequest hooks r PDone"
    and "launch' hooks r = hk_onRouteParametersError hooks r err PDone"
    and "c1 = conn_processRequest env (Handler (router_call launch hooks)) r x c"
    and "c2 = conn_processRequest env (Handler (router_call launch' hooks)) r x c"
  shows "cn_answers c1 = cn_answers c @ [(ve_cgi env (ve_status env 404), [])]
    \<and> queue_attached (cn_nextQueue c) c1
    \<and> cn_answers c2 = cn_answers c @ [(ve_cgi env (ve_status env 500), [])]
    \<and> queue_attached (cn_nextQueue c) c2
    \<and> (\<exists>ys. trace c2 =
          trace c @ Report RouteParametersError (parameters_error_message err) # ys)"
proof -
  let ?rid = "cn_nextContext c" and ?q = "cn_nextQueue c"
  let ?b = "(conn_begin r x c)\<lparr>cn_nextQueue := Suc (cn_nextQueue c)\<rparr>"
  define b where "b = rc_setRequestProcessorQueue ?q ?b"
  have l: "conn_locked ?rid ?b" by simp
  have att: "queue_attached ?q b"
    using queue_attached_set[OF l] by (simp add: b_def)
  have lb: "conn_locked ?rid b"
    using conn_locked_ops(4)[of ?rid ?rid ?q ?b] l
    by (simp add: b_def accessor_setRequestProcessorQueue_def)
  have nq: "cn_nextQueue (conn_begin r x c) = ?q"
    by (simp add: conn_begin_def)
  have sb: "cn_sender b = Some (rs_new x)" and ab: "cn_answers b = cn_answers c"
    and tb: "trace b = trace c"
    by (simp_all add: b_def rc_setRequestProcessorQueue_def conn_begin_def)
  have se: "cn_sender (emit a b) = Some (rs_new x)" for a
    using sb by (simp add: conn_fields)
  have c1: "c1 = conn_send env (ve_cgi env (ve_status env 404)) [] b"
    using assms(2,3,5) lb nq
    by (simp add: conn_processRequest_eq router_call_run router_vtable_def processUnmatchedRequest_def
        responder_send_http_def conn_finish_def b_def)
  have c2: "c2 = conn_send env (ve_cgi env (ve_status env 500)) []
      (emit (Report RouteParametersError (parameters_error_message err)) b)"
    using assms(2,4,6) lb nq
    by (simp add: conn_processRequest_eq router_call_run router_vtable_def onRouteParametersError_def
        responder_send_http_def conn_finish_def b_def)
  obtain ys where "trace c2 = trace c @ Report RouteParametersError (parameters_error_message err) # ys"
    using conn_send_trace[of env "ve_cgi env (ve_status env 500)" "[]"
        "emit (Report RouteParametersError (parameters_error_message err)) b"] c2 tb
    by auto
  then show ?thesis
    using c1 c2 assms(1) att ab tb conn_send_answers(1)[OF sb, of env]
      conn_send_answers(1)[OF se, of env]
    by (auto simp: queue_attached_send rs_isSent_def rs_new_def conn_fields conn_begin_def)
qed

theorem router_errors_answered_witness:
  "cn_answers (conn_processRequest demo_env (Handler (router_call
      (\<lambda>h r. hk_processUnmatchedRequest h r PDone) (router_vtable demo_libs (ve_status demo_env))))
      ([], []) (True, [], []) (connection_new () :: (unit, (string \<times> string) list \<times> string,
        bool \<times> string \<times> string, unit, unit, nat) connection)) = [(''Not Found'', [])]
   \<and> cn_answers (conn_processRequest demo_env (Handler (router_call
      (\<lambda>h r. hk_onRouteParametersError h r (RouteParameterReadError 1 ''x'') PDone)
      (router_vtable demo_libs (ve_status demo_env))))
      ([], []) (True, [], []) (connection_new () :: (unit, (string \<times> string) list \<times> string,
        bool \<times> string \<times> string, unit, unit, nat) connection)) = [(''Internal Server Error'', [])]"
  using router_errors_answered[of demo_env "(True, [], [])"
      "router_vtable demo_libs (ve_status demo_env)" demo_libs
      "\<lambda>h r. hk_processUnmatchedRequest h r PDone" "([], [])"
      "\<lambda>h r. hk_onRouteParametersError h r (RouteParameterReadError 1 ''x'') PDone"
      "RouteParameterReadError 1 ''x''" _
      "connection_new () :: (unit, (string \<times> string) list \<times> string,
        bool \<times> string \<times> string, unit, unit, nat) connection", OF _ refl refl refl refl refl]
  by (simp add: connection_new_def demo_env_def demo_response_api_def)

text \<open>
  When the router considers a request finished: not before a response was sent, and not after
  a route whose optional result is empty; after a route whose result is a response, it is.
\<close>

theorem router_finished:
  assumes "send_invalidates (ve_response env)" and "conn_locked rid c" and "cn_sender c = Some s"
    and "\<not> rs_isSent (ve_response env) s" and "hooks = router_vtable libs (ve_status env)"
    and "rest = hk_isRouteProcessingFinished hooks r k"
  shows "run_prog env rid rest c = run_prog env rid (k False) c
    \<and> run_prog env rid (sender_optional None rest) c = run_prog env rid (k False) c
    \<and> (\<exists>c'. run_prog env rid (sender_value response rest) c = run_prog env rid (k True) c'
        \<and> cn_answers c' = cn_answers c @
            [case response of HttpResponse w \<Rightarrow> (ve_cgi env w, []) | FastcgiResponse d e \<Rightarrow> (d, e)])
    \<and> sender_optional (Some response) rest = sender_value response rest"
proof -
  have rest: "rest = PIsSent k"
    using assms(5,6) by (simp add: router_vtable_def isRouteProcessingFinished_def)
  obtain d e where de: "run_prog env rid (sender_value response rest) c
        = run_prog env rid rest (conn_send env d e c)"
      "(d, e) = (case response of HttpResponse w \<Rightarrow> (ve_cgi env w, []) | FastcgiResponse d e \<Rightarrow> (d, e))"
    using assms(2) by (cases response)
      (simp_all add: sender_value_def responder_send_http_def responder_send_fastcgi_def)
  have "responder_isSent env rid (conn_send env d e c)"
    using conn_send_answers(2)[OF assms(3,1), of d e] by (auto simp: responder_isSent_def)
  then have "run_prog env rid (sender_value response rest) c = run_prog env rid (k True) (conn_send env d e c)"
    using de(1) by (simp add: rest)
  moreover have "cn_answers (conn_send env d e c) = cn_answers c @ [(d, e)]"
    using conn_send_answers(1)[OF assms(3), of env d e] assms(4) by simp
  ultimately have "\<exists>c'. run_prog env rid (sender_value response rest) c = run_prog env rid (k True) c'
      \<and> cn_answers c' = cn_answers c @
            [case response of HttpResponse w \<Rightarrow> (ve_cgi env w, []) | FastcgiResponse d e \<Rightarrow> (d, e)]"
    using de(2) by metis
  moreover have "\<not> responder_isSent env rid c"
    using assms(2-4) by (simp add: responder_isSent_def)
  ultimately show ?thesis
    by (simp add: rest sender_optional_def sender_value_def)
qed

theorem router_finished_witness:
  "run_prog demo_env 0 (hk_isRouteProcessingFinished (router_vtable demo_libs (ve_status demo_env)) ([], [])
      (\<lambda>b. if b then PThrow ''finished'' else PThrow ''open'')) demo_routed
   = run_prog demo_env 0 (PThrow ''open'') demo_routed"
proof -
  have "conn_locked 0 demo_routed" "cn_sender demo_routed = Some (rs_new (True, [], []))"
    "\<not> rs_isSent (ve_response demo_env) (rs_new (True, [], []))"
    by code_simp+
  then show ?thesis
    using router_finished[of demo_env 0 demo_routed "rs_new (True, [], [])"
        "router_vtable demo_libs (ve_status demo_env)" demo_libs _ "([], [])"
        "\<lambda>b. if b then PThrow ''finished'' else PThrow ''open''" "HttpResponse ''x''",
        OF demo_send_invalidates _ _ _ refl refl]
    by simp
qed

end
