(* ===== verification/Request_Processors.thy ===== *)
theory Request_Processors
  imports Router IO_Service
begin

text \<open>
  What the library keeps of the functors an application gives it: request processors
  (\<^verbatim>\<open>include/asyncgi/requestprocessor.h\<close>), event handlers
  (\<^verbatim>\<open>include/asyncgi/detail/eventhandlerproxy.h\<close>) and the copyable lambdas of
  \<^verbatim>\<open>include/asyncgi/detail/utils.h\<close>. A functor given as an lvalue is kept as a reference to the
  application's object, one given as an rvalue is moved in. Objects of the application are the
  values of a memory that it may change, and an object that has been destroyed has no value.
\<close>

section \<open>References and values\<close>

datatype 'o expression =
    Lvalue nat
  | Rvalue 'o

datatype 'o captured =
    ByReference nat
  | ByValue 'o

definition refWrapperOrRValue :: "'o expression \<Rightarrow> 'o captured" where
  "refWrapperOrRValue obj = (case obj of Lvalue a \<Rightarrow> ByReference a | Rvalue f \<Rightarrow> ByValue f)"

text \<open>The object a call goes to; \<open>None\<close> is the undefined behaviour of a dangling reference.\<close>

definition captured_object :: "(nat \<rightharpoonup> 'o) \<Rightarrow> 'o captured \<Rightarrow> 'o option" where
  "captured_object mem c = (case c of ByReference a \<Rightarrow> mem a | ByValue f \<Rightarrow> Some f)"

lemma captured_object_simps [simp]:
  "captured_object mem (refWrapperOrRValue (Lvalue a)) = mem a"
  "captured_object mem (refWrapperOrRValue (Rvalue f)) = Some f"
  by (simp_all add: captured_object_def refWrapperOrRValue_def)

section \<open>Event handlers\<close>

text \<open>
  The proxy an \<open>IO\<close> is given when its event handler is the expression \<open>eventHandler\<close>; the memory
  is that of the moment the handler is called. \<open>Router\<close>'s constructor copies the proxy, and the
  reference in it.
\<close>

type_synonym 'u event_handler = "error_event \<Rightarrow> string \<Rightarrow> 'u \<Rightarrow> 'u"

definition EventHandlerProxy_new :: "'u event_handler expression \<Rightarrow> 'u event_handler captured" where
  "EventHandlerProxy_new eventHandler = refWrapperOrRValue eventHandler"

definition captured_proxy :: "(nat \<rightharpoonup> 'u event_handler) \<Rightarrow> 'u event_handler captured \<Rightarrow>
    'u event_handler_proxy option" where
  "captured_proxy mem handler = map_option proxy_of (captured_object mem handler)"

record 'u router_object =
  ro_eventHandler :: "'u event_handler_proxy"

definition Router_new :: "'u io_object \<Rightarrow> 'u router_object" where
  "Router_new io = \<lparr>ro_eventHandler = iob_eventHandler io\<rparr>"

lemma Router_new_reports:
  "IO_new_handler h = Inr io \<Longrightarrow> proxy_call (ro_eventHandler (Router_new io)) event msg u = h event msg u"
  by (auto simp: IO_new_handler_def Router_new_def proxy_call_def proxy_of_def split: sum.splits)

lemma captured_proxy_call:
  "captured_proxy mem (EventHandlerProxy_new (Lvalue a)) = map_option proxy_of (mem a)"
  "captured_proxy mem (EventHandlerProxy_new (Rvalue h)) = Some (proxy_of h)"
  by (simp_all add: captured_proxy_def EventHandlerProxy_new_def)

section \<open>Copyable lambdas\<close>

text \<open>
  \<open>makeCopyableLambda\<close> moves a function object to the heap; the lambda it returns, and every copy
  of it, holds a pointer to that one object. \<open>operator\<close> is the object's call, which may change the
  object's state or be undefined.
\<close>

definition makeCopyableLambda :: "'s \<Rightarrow> 's list \<Rightarrow> 's list \<times> nat" where
  "makeCopyableLambda f heap = (heap @ [f], length heap)"

definition copyable_call :: "('s \<Rightarrow> 'a \<Rightarrow> ('s \<times> 'b) option) \<Rightarrow> nat \<Rightarrow> 'a \<Rightarrow> 's list \<Rightarrow>
    ('s list \<times> 'b) option" where
  "copyable_call operator funcPtr args heap =
     (case operator (heap ! funcPtr) args of
        Some (f, result) \<Rightarrow> Some (heap[funcPtr := f], result)
      | None \<Rightarrow> None)"

text \<open>
  The callback of \<open>waitFuture\<close> is such a lambda, and a periodic timer copies it whenever it is
  started again: what one copy takes out of the future no other copy finds.
\<close>

lemma copyable_future:
  assumes "makeCopyableLambda True heap = (heap', p)"
    and "copyable_call waitFuture_callback p (Some v) heap' = Some (heap'', results, cmds)"
  shows "results = [v]" "copyable_call waitFuture_callback p promise heap'' = None"
  using assms by (auto simp: makeCopyableLambda_def copyable_call_def waitFuture_callback_def)

section \<open>Signatures of request processors\<close>

datatype cpp_type =
    TVoid
  | THttpResponse
  | TFastcgiResponse
  | TRequest
  | TResponder
  | TOther string
  | TConst cpp_type
  | TRef cpp_type

definition checkRequestProcessorSignature :: "cpp_type \<Rightarrow> cpp_type list \<Rightarrow> bool" where
  "checkRequestProcessorSignature returnType args \<longleftrightarrow>
     (if returnType = TVoid
      then length args = 2 \<and> args ! 0 = TRef (TConst TRequest) \<and> args ! 1 = TRef TResponder
      else (returnType = THttpResponse \<or> returnType = TFastcgiResponse)
        \<and> length args = 1 \<and> args ! 0 = TRef (TConst TRequest))"

lemma checkRequestProcessorSignature_iff:
  "checkRequestProcessorSignature t args \<longleftrightarrow>
     t = TVoid \<and> args = [TRef (TConst TRequest), TRef TResponder]
     \<or> (t = THttpResponse \<or> t = TFastcgiResponse) \<and> args = [TRef (TConst TRequest)]"
  by (auto simp: checkRequestProcessorSignature_def length_Suc_conv numeral_2_eq_2)

text \<open>
  C++: an lvalue argument of type \<open>a\<close> can be passed to a parameter of type \<open>p\<close>: a reference to the
  same type, with at least its constness, or a copy.
\<close>

fun unconst :: "cpp_type \<Rightarrow> cpp_type" where
  "unconst (TConst t) = t"
| "unconst t = t"

fun passes :: "cpp_type \<Rightarrow> cpp_type \<Rightarrow> bool" where
  "passes a (TRef p) = (p = a \<or> p = TConst a)"
| "passes a p = (unconst p = unconst a)"

text \<open>
  A functor: its return and parameter types, whether its call operator is const, and its code,
  which has the return type.
\<close>

record ('r, 'w, 'k) callable =
  ca_return :: cpp_type
  ca_args :: "cpp_type list"
  ca_const :: bool
  ca_body :: "('r, 'w, 'k) request_processor"

definition callable_typed :: "('r, 'w, 'k) callable \<Rightarrow> bool" where
  "callable_typed f \<longleftrightarrow>
     (case ca_body f of
        Handler _ \<Rightarrow> ca_return f = TVoid
      | Returning h \<Rightarrow> ca_return f \<noteq> TVoid
          \<and> (\<forall>r. case h r of ReturnHttp _ \<Rightarrow> ca_return f = THttpResponse
               | ReturnFastcgi _ _ \<Rightarrow> ca_return f = TFastcgiResponse | _ \<Rightarrow> True))"

definition same_type :: "('r, 'w, 'k) callable \<Rightarrow> ('r, 'w, 'k) callable \<Rightarrow> bool" where
  "same_type f g \<longleftrightarrow> ca_return f = ca_return g \<and> ca_args f = ca_args g \<and> ca_const f = ca_const g"

section \<open>RequestProcessor\<close>

text \<open>
  \<open>requestProcessorInvoker_\<close>: the lambda, of which \<open>rp_return\<close> selects the branch that was
  compiled, with its capture. The constructor yields \<open>None\<close> for a functor that does not compile: the
  assertions on its signature fail, or it is captured by a lambda that is not mutable and its call
  operator is not const.
\<close>

record ('r, 'w, 'k) request_processor_object =
  rp_return :: cpp_type
  rp_captured :: "('r, 'w, 'k) callable captured"

definition RequestProcessor_new :: "(nat \<rightharpoonup> ('r, 'w, 'k) callable) \<Rightarrow>
    ('r, 'w, 'k) callable expression \<Rightarrow> ('r, 'w, 'k) request_processor_object option" where
  "RequestProcessor_new mem requestProcessor =
     (case requestProcessor of
        Lvalue a \<Rightarrow>
          (case mem a of
             Some f \<Rightarrow>
               (if checkRequestProcessorSignature (ca_return f) (ca_args f)
                then Some \<lparr>rp_return = ca_return f, rp_captured = ByReference a\<rparr> else None)
           | None \<Rightarrow> None)
      | Rvalue f \<Rightarrow>
          (if checkRequestProcessorSignature (ca_return f) (ca_args f) \<and> ca_const f
           then Some \<lparr>rp_return = ca_return f, rp_captured = ByValue f\<rparr> else None))"

text \<open>
  The call of the functor, in the branch for its return type: with the request and a responder, or
  with the request alone, its result being sent. \<open>None\<close> when there is no object, or no such call.
\<close>

definition callable_call :: "cpp_type \<Rightarrow> ('r, 'w, 'k) callable \<Rightarrow> 'r \<Rightarrow> ('w, 'k) prog option" where
  "callable_call returnType f request =
     (if returnType = TVoid
      then (case ca_body f of
              Handler h \<Rightarrow>
                (if list_all2 passes [TConst TRequest, TResponder] (ca_args f)
                 then Some (h request) else None)
            | Returning _ \<Rightarrow> None)
      else (case ca_body f of
              Handler _ \<Rightarrow> None
            | Returning h \<Rightarrow>
                (if list_all2 passes [TConst TRequest] (ca_args f)
                 then Some (case h request of
                        ReturnHttp response \<Rightarrow> PSendHttp response PDone
                      | ReturnFastcgi d e \<Rightarrow> PSendFastcgi d e PDone
                      | ReturnThrow what \<Rightarrow> PThrow what
                      | ReturnThrowUnknown \<Rightarrow> PThrowUnknown)
                 else None)))"

definition RequestProcessor_call :: "(nat \<rightharpoonup> ('r, 'w, 'k) callable) \<Rightarrow>
    ('r, 'w, 'k) request_processor_object \<Rightarrow> 'r \<Rightarrow> ('w, 'k) prog option" where
  "RequestProcessor_call mem p request =
     (case captured_object mem (rp_captured p) of
        Some f \<Rightarrow> callable_call (rp_return p) f request
      | None \<Rightarrow> None)"

text \<open>What passes the check can be called: its code runs, as \<open>invoke_processor\<close> describes.\<close>

lemma callable_call_progress:
  assumes "checkRequestProcessorSignature (ca_return f) (ca_args f)" and "callable_typed f"
  shows "callable_call (ca_return f) f r = Some (invoke_processor (ca_body f) r)"
  using assms
  by (cases "ca_body f")
    (auto simp: checkRequestProcessorSignature_iff callable_call_def callable_typed_def)

text \<open>The check is stricter than what a call needs: a parameter that is a copy is refused.\<close>

lemma check_stricter:
  "list_all2 passes [TConst TRequest] [TRequest]"
  "\<not> checkRequestProcessorSignature THttpResponse [TRequest]"
  by (simp_all add: checkRequestProcessorSignature_iff)

section \<open>Properties\<close>

text \<open>
  C36. What a request processor refers to. A functor is accepted when its signature is one of the
  three of the documentation, given as an lvalue, or as an rvalue if it can be called when it is
  const; nothing else compiles. A processor made of an lvalue calls the application's own object: at
  each request the code the object has then, and none, with undefined behaviour, when it has been
  destroyed. One made of an rvalue always calls the object it was given.
\<close>

theorem request_processor_capture:
  "(RequestProcessor_new mem (Lvalue a) \<noteq> None \<longleftrightarrow>
      (\<exists>f. mem a = Some f \<and> (ca_return f, ca_args f) \<in>
        {(TVoid, [TRef (TConst TRequest), TRef TResponder]), (THttpResponse, [TRef (TConst TRequest)]),
         (TFastcgiResponse, [TRef (TConst TRequest)])}))
   \<and> (RequestProcessor_new mem (Rvalue f) \<noteq> None \<longleftrightarrow>
      ca_const f \<and> (ca_return f, ca_args f) \<in>
        {(TVoid, [TRef (TConst TRequest), TRef TResponder]), (THttpResponse, [TRef (TConst TRequest)]),
         (TFastcgiResponse, [TRef (TConst TRequest)])})
   \<and> (RequestProcessor_new mem (Lvalue a) = Some p
        \<and> pred_option (\<lambda>g. callable_typed g \<and> pred_option (same_type g) (mem a)) (mem' a) \<longrightarrow>
      RequestProcessor_call mem' p r = map_option (\<lambda>g. invoke_processor (ca_body g) r) (mem' a))
   \<and> (RequestProcessor_new mem (Rvalue f) = Some p \<and> callable_typed f \<longrightarrow>
      RequestProcessor_call mem' p r = Some (invoke_processor (ca_body f) r))"
proof (intro conjI impI)
  show "RequestProcessor_call mem' p r = map_option (\<lambda>g. invoke_processor (ca_body g) r) (mem' a)"
    if "RequestProcessor_new mem (Lvalue a) = Some p
      \<and> pred_option (\<lambda>g. callable_typed g \<and> pred_option (same_type g) (mem a)) (mem' a)"
  proof -
    from that obtain f where f: "mem a = Some f" "checkRequestProcessorSignature (ca_return f) (ca_args f)"
        "p = \<lparr>rp_return = ca_return f, rp_captured = ByReference a\<rparr>"
      by (auto simp: RequestProcessor_new_def split: option.splits if_splits)
    show ?thesis
    proof (cases "mem' a")
      case (Some g)
      then have "callable_call (ca_return g) g r = Some (invoke_processor (ca_body g) r)"
        and "ca_return g = ca_return f"
        using that f callable_call_progress[of g r] by (simp_all add: same_type_def)
      with Some f show ?thesis by (simp add: RequestProcessor_call_def captured_object_def)
    qed (simp add: RequestProcessor_call_def captured_object_def f)
  qed
  show "RequestProcessor_call mem' p r = Some (invoke_processor (ca_body f) r)"
    if "RequestProcessor_new mem (Rvalue f) = Some p \<and> callable_typed f"
    using that callable_call_progress[of f r]
    by (auto simp: RequestProcessor_new_def RequestProcessor_call_def captured_object_def split: if_splits)
qed (auto simp: RequestProcessor_new_def checkRequestProcessorSignature_iff split: option.splits)

definition demo_callable :: "string \<Rightarrow> (unit, string, nat) callable" where
  "demo_callable text = \<lparr>ca_return = THttpResponse, ca_args = [TRef (TConst TRequest)], ca_const = False,
     ca_body = Returning (\<lambda>_. ReturnHttp text)\<rparr>"

theorem request_processor_capture_witness:
  "RequestProcessor_call [7 \<mapsto> demo_callable ''later'']
     (the (RequestProcessor_new [7 \<mapsto> demo_callable ''first''] (Lvalue 7))) ()
     = Some (PSendHttp ''later'' PDone)"
proof -
  let ?p = "\<lparr>rp_return = THttpResponse, rp_captured = ByReference 7\<rparr> ::
    (unit, string, nat) request_processor_object"
  have p: "RequestProcessor_new [7 \<mapsto> demo_callable ''first''] (Lvalue 7) = Some ?p"
    by (simp add: RequestProcessor_new_def demo_callable_def checkRequestProcessorSignature_iff)
  then show ?thesis
    using request_processor_capture[of "[7 \<mapsto> demo_callable ''first'']" 7 "demo_callable []" ?p
        "[7 \<mapsto> demo_callable ''later'']" "()"]
    by (simp add: demo_callable_def callable_typed_def same_type_def)
qed

end
