(* ===== verification/Client_Requests.thy ===== *)
theory Client_Requests
  imports Connection_System
begin

text \<open>
  A request processor of a router asks another application over TCP, with an address that does not
  parse: the exception passes through \<open>Client::makeRequest\<close>, the request processor and
  \<open>Connection::processRequest\<close> (\<^verbatim>\<open>src/clientservice.cpp\<close>, \<^verbatim>\<open>src/connection.cpp\<close>). What the client,
  the queue and the connection are left with.
\<close>

section \<open>The service after the exception\<close>

text \<open>
  The service \<open>s\<close> holds the connection \<open>i\<close> of a request that was never made: no operation of it
  was started, and its timeout has nothing to cancel.
\<close>

definition never_made :: "nat \<Rightarrow> ('q, 'f, 'h, 'k) client_service \<Rightarrow> bool" where
  "never_made i s \<longleftrightarrow> (\<exists>slot. cs_slot i s = Some slot \<and> slot_closure slot = None) \<and> cs_cancel s i = None"

lemma cs_wf_setQueue: "cs_wf (cs_setRequestProcessorQueue q s) = cs_wf s"
  by (simp add: cs_setRequestProcessorQueue_def cs_wf_def cs_ids_def cs_closures_def cs_slots_def)

lemma cs_setQueue_simps:
  "cs_queue (cs_setRequestProcessorQueue q s) = Some q" "cs_qops (cs_setRequestProcessorQueue q s) = cs_qops s"
  "cs_next (cs_setRequestProcessorQueue q s) = cs_next s" "cs_timers (cs_setRequestProcessorQueue q s) = cs_timers s"
  "cs_cancel (cs_setRequestProcessorQueue q s) = cs_cancel s" "cs_handled (cs_setRequestProcessorQueue q s) = cs_handled s"
  by (simp_all add: cs_setRequestProcessorQueue_def cs_qops_def cs_handled_def)

lemma bad_address_never_made:
  assumes "cs_wf s" and "make_endpoint (sv_c_str ipAddress) port = Inl e"
  shows "never_made (cs_next s) (fst (cs_makeRequest_tcp make_endpoint f0 ipAddress port rq k t s))"
proof -
  let ?s = "cs_emplace_tcp f0 (fst (cs_arm t s))"
  have "cs_slot (cs_next s) ?s = Some
      \<lparr>slot_id = cs_next s, slot_conn = new_client_connection f0, slot_closure = None\<rparr>"
    using cs_wf_ids_below[OF assms(1)] find_append_Some[of
        "\<lambda>slot. slot_id slot = cs_next s" "cs_local s @ cs_tcp s"]
    by (simp add: cs_slot_def cs_emplace_tcp_def)
  then show ?thesis
    using assms(2) cs_wf_fresh[OF assms(1)]
    by (simp add: never_made_def cs_makeRequest_tcp_def cs_emplace_tcp_def case_prod_beta)
qed

lemma never_made_events:
  assumes "never_made i (cn_client c)"
  shows "conn_onClient env ce handlers (EvConnect i er) c = c"
    and "conn_onClient env ce handlers (EvRead i er d) c = c"
    and "cs_qops (cn_client (conn_onClient env ce handlers (EvTimeout timer i) c)) = cs_qops (cn_client c)"
    and "cs_handled (cn_client (conn_onClient env ce handlers (EvTimeout timer i) c)) =
      cs_handled (cn_client c)"
  using assms by (cases er; auto simp: never_made_def conn_onClient_def cs_prepare_connect_def
      cs_prepare_read_def cs_prepare_timeout_def Let_def)+

section \<open>Properties\<close>

lemma conn_finish_client [simp]:
  fixes c :: "('l, 'r, 'x, 'f, 'h, 'k) connection"
  shows "cn_client (conn_finish env rid out c) = cn_client c"
    "queue_alive (conn_finish env rid out c) = queue_alive c"
  by (simp_all add: conn_finish_def responder_send_http_def conn_send_def queue_alive_def fun_eq_iff
      conn_fields Let_def case_prod_beta split: option.split)

text \<open>
  C32. A request over TCP to an address that does not parse, made by the request processor of a
  router. The client of the server gets the answer with status 500 and the exception is reported;
  but the request's queue, which still exists, has been suspended, and is never resumed: the
  connection that was stored for the request makes no call, and the timeout, which is running,
  calls no handler when it expires.
\<close>

theorem bad_address_suspends:
  assumes "xr_isValid (ve_response env) x"
    and "invoke_processor proc r = PMakeQueue (\<lambda>q. PSetQueue q (PClientTcp ip port rq k n p))"
    and "ve_make_endpoint env (sv_c_str ip) port = Inl e"
    and "cs_wf (cn_client c)"
    and "i = cs_next (cn_client c)" and "timer = length (tp_timers (cs_timers (cn_client c)))"
    and "c1 = conn_processRequest env proc r x c"
  shows "cn_answers c1 = cn_answers c @ [(ve_cgi env (ve_status env 500), [])]
    \<and> last (trace c1) = Report RequestProcessingError (ve_what env e)
    \<and> queue_alive c1 (cn_nextQueue c) \<and> cs_qops (cn_client c1) = cs_qops (cn_client c) @ [Stop]
    \<and> waits (tp_timers (cs_timers (cn_client c1)) ! timer) = [OnceHandler i]
    \<and> conn_onClient env ce handlers (EvConnect i er) c1 = c1
    \<and> conn_onClient env ce handlers (EvRead i er d) c1 = c1
    \<and> cs_qops (cn_client (conn_onClient env ce handlers (EvTimeout timer i) c1)) = cs_qops (cn_client c1)
    \<and> cs_handled (cn_client (conn_onClient env ce handlers (EvTimeout timer i) c1)) =
        cs_handled (cn_client c1)"
proof -
  let ?s = "cs_setRequestProcessorQueue (cn_nextQueue c) (cn_client c)"
  let ?rq = "\<lparr>params = fst rq, stdIn = snd rq\<rparr>"
  let ?made = "cs_makeRequest_tcp (ve_make_endpoint env) (ve_requester env) ip port ?rq k n ?s"
  let ?begun = "rc_setRequestProcessorQueue (cn_nextQueue c)
    ((conn_begin r x c)\<lparr>cn_nextQueue := Suc (cn_nextQueue c)\<rparr>)"
  let ?c = "?begun\<lparr>cn_client := fst ?made\<rparr>"
  obtain s1 err where made: "?made = (s1, err)" by fastforce
  have wf: "cs_wf ?s" using assms(4) by (simp add: cs_wf_setQueue)
  note bad = client_tcp_bad_address[where make_endpoint = "ve_make_endpoint env",
      OF wf cs_setQueue_simps(1) assms(3) made]
  have nm: "never_made i (fst ?made)"
    using bad_address_never_made[where make_endpoint = "ve_make_endpoint env", OF wf assms(3),
        of "ve_requester env" ?rq k n] assms(5) by (simp add: cs_setQueue_simps)
  have started: "cn_nextQueue (conn_begin r x c) = cn_nextQueue c" "conn_locked (cn_nextContext c) ?begun"
      "cn_client ?begun = ?s"
    by (simp_all add: conn_begin_def rc_setRequestProcessorQueue_def conn_locked_def)
  have c1: "c1 = conn_finish env (cn_nextContext c) (Threw (ve_what env e)) ?c"
    using started bad made assms(2,7) by (simp add: conn_processRequest_eq
        accessor_setRequestProcessorQueue_def conn_client_tcp_eq)
  have "cn_sender ?c = Some (rs_new x)" "cn_answers ?c = cn_answers c"
      "conn_locked (cn_nextContext c) ?c" "queue_alive ?c (cn_nextQueue c)"
    by (simp_all add: rc_setRequestProcessorQueue_def conn_begin_def conn_locked_def queue_alive_def)
  then have "cn_answers c1 = cn_answers c @ [(ve_cgi env (ve_status env 500), [])]"
      "last (trace c1) = Report RequestProcessingError (ve_what env e)"
      "queue_alive c1 (cn_nextQueue c)"
    using conn_send_answers(1)[of ?c "rs_new x" env "ve_cgi env (ve_status env 500)" "[]"] assms(1)
    by (simp_all add: c1) (simp_all add: conn_finish_def responder_send_http_def conn_fields rs_isSent_def
        rs_new_def emit_def)
  moreover have "cn_client c1 = s1" by (simp add: c1 made)
  ultimately show ?thesis
    using bad nm never_made_events[of i c1 env ce handlers] made assms(5,6)
    by (simp add: cs_setQueue_simps)
qed

definition asking_nowhere :: "(string, string, nat) request_processor" where
  "asking_nowhere = Handler (\<lambda>r. PMakeQueue (\<lambda>q. PSetQueue q
     (PClientTcp (sv_of_literal ''nowhere'') 80 (Map.empty, []) 7 3000 PDone)))"

theorem bad_address_suspends_witness:
  "cn_answers (conn_processRequest demo_env asking_nowhere ''r'' (True, [], []) demo_connection) =
      [(''Internal Server Error'', [])]
    \<and> cs_qops (cn_client (conn_processRequest demo_env asking_nowhere ''r'' (True, [], []) demo_connection)) =
      [Stop]"
proof -
  have c: "cs_wf (cn_client demo_connection)"
    "0 = cs_next (cn_client demo_connection)" "cs_qops (cn_client demo_connection) = []"
    "cn_answers demo_connection = []"
    using cs_wf_new by (simp_all add: demo_connection_def connection_new_def cs_new_def cs_qops_def)
  have env: "xr_isValid (ve_response demo_env) (True, [], [])"
    "ve_make_endpoint demo_env (sv_c_str (sv_of_literal ''nowhere'')) 80 = Inl InvalidArgument"
    "ve_cgi demo_env (ve_status demo_env 500) = ''Internal Server Error''"
    by (simp_all add: demo_env_def demo_response_api_def)
  have proc: "invoke_processor asking_nowhere ''r'' = PMakeQueue (\<lambda>q. PSetQueue q
      (PClientTcp (sv_of_literal ''nowhere'') 80 (Map.empty, []) 7 3000 PDone))"
    by (simp add: asking_nowhere_def)
  show ?thesis
    using bad_address_suspends[OF env(1) proc env(2) c(1,2) refl refl, of demo_client_env]
    by (simp add: c(3,4) env(3))
qed

end
