(* ===== verification/Routes.thy ===== *)
theory Routes
  imports Router
begin

text \<open>
  Route tables. An application registers routes on its router: a path or a regular expression,
  matchers, and a processor, a parametrized processor, or a fixed response. What a request does
  to a table is whaleroute's, a parameter \<open>rl\<close> of the theorems; \<open>documented_routing\<close> states the
  documented behaviour they rely on: routes are tried in the order of their registration, a route
  whose processor sends no response passes the request (and what it changed in the route context)
  on, and a capture that cannot be converted leads to the router's \<open>onRouteParametersError\<close>.
\<close>

section \<open>Responses and routes\<close>

text \<open>\<open>http::Response\<close> is a library class; these are the arguments it is constructed from.\<close>

datatype redirect_type = Found | OtherRedirect

datatype web_response =
    Page string
  | StatusResponse nat
  | StatusPage nat string
  | Redirect string
  | RedirectAs string redirect_type
  | RedirectWithCookie string string string

text \<open>
  A request as the processors see it: what the accessors of \<open>Request\<close> answer, which is what the
  view of the FastCGI request answers.
\<close>

datatype request_method = MethodGet | MethodPost | OtherMethod

record app_request =
  wr_path :: string
  wr_method :: request_method
  wr_query :: "string \<Rightarrow> string"
  wr_hasQuery :: "string \<Rightarrow> bool"
  wr_cookie :: "string \<Rightarrow> string"
  wr_formField :: "string \<Rightarrow> string"

definition app_request_of :: "('r, 'v, request_method) libs \<Rightarrow> 'r \<Rightarrow> app_request" where
  "app_request_of libs r =
     (let view = view_of libs r; http = lib_http libs
      in \<lparr>wr_path = hv_path http view, wr_method = hv_method http view,
          wr_query = hv_query http view, wr_hasQuery = hv_hasQuery http view,
          wr_cookie = hv_cookie http view, wr_formField = (\<lambda>name. hv_formField http view name 0)\<rparr>)"

datatype path_pattern =
    PathString string
  | PathRegex string
  | AnyPath

datatype route_outcome =
    Unanswered
  | Answered web_response
  | ParametersError route_parameter_error
  | Raised cpp_exception

datatype ('r, 'p, 'c, 's) route_processor =
    Process "'r \<Rightarrow> 'c \<Rightarrow> 's \<Rightarrow> route_outcome \<times> 'c \<times> 's"
  | ProcessParam "'p \<Rightarrow> 'r \<Rightarrow> 'c \<Rightarrow> 's \<Rightarrow> route_outcome \<times> 'c \<times> 's"
  | SetResponse web_response

record ('r, 'p, 'c, 's) app_route =
  ro_path :: path_pattern
  ro_matches :: "'r \<Rightarrow> 'c \<Rightarrow> bool"
  ro_processor :: "('r, 'p, 'c, 's) route_processor"

text \<open>
  What the library knows of the application: a request's path, the captures of a pattern on a
  path, and the conversion of a capture to the parameter of a processor, which may throw.
\<close>

record ('r, 'p) route_env =
  re_path :: "'r \<Rightarrow> string"
  re_match :: "path_pattern \<Rightarrow> string \<Rightarrow> string list option"
  re_convert :: "string \<Rightarrow> cpp_exception + 'p option"

type_synonym ('r, 'p, 'c, 's) route_library =
  "('r, 'p, 'c, 's) app_route list \<Rightarrow> 'r \<Rightarrow> 'c \<Rightarrow> 's \<Rightarrow> route_outcome \<times> 's"

text \<open>\<open>static_cast<int>\<close> of a size keeps the low 32 bits.\<close>

definition cast_int :: "nat \<Rightarrow> int" where
  "cast_int n = sint (of_nat n :: 32 word)"

lemma cast_int_small: "n < 2 ^ 31 \<Longrightarrow> cast_int n = int n"
  by (simp add: cast_int_def signed_of_nat signed_take_bit_int_eq_self)

section \<open>Documented behaviour\<close>

fun run_processor :: "('r, 'p) route_env \<Rightarrow> ('r, 'p, 'c, 's) route_processor \<Rightarrow> string list \<Rightarrow>
    'r \<Rightarrow> 'c \<Rightarrow> 's \<Rightarrow> route_outcome \<times> 'c \<times> 's" where
  "run_processor re (Process f) captures rq c s = f rq c s"
| "run_processor re (ProcessParam f) [x] rq c s =
     (case re_convert re x of
        Inl e \<Rightarrow> (Raised e, c, s)
      | Inr None \<Rightarrow> (ParametersError (RouteParameterReadError 0 x), c, s)
      | Inr (Some p) \<Rightarrow> f p rq c s)"
| "run_processor re (ProcessParam f) captures rq c s =
     (ParametersError (RouteParameterCountMismatch 1 (int (length captures))), c, s)"
| "run_processor re (SetResponse w) captures rq c s = (Answered w, c, s)"

definition route_captures :: "('r, 'p) route_env \<Rightarrow> ('r, 'p, 'c, 's) app_route \<Rightarrow> 'r \<Rightarrow> 'c \<Rightarrow>
    string list option" where
  "route_captures re r rq c = (if ro_matches r rq c then re_match re (ro_path r) (re_path re rq) else None)"

fun route_next :: "route_outcome \<times> 'c \<times> 's \<Rightarrow> ('c \<Rightarrow> 's \<Rightarrow> route_outcome \<times> 's) \<Rightarrow>
    route_outcome \<times> 's" where
  "route_next (Unanswered, c, s) k = k c s"
| "route_next (result, c, s) k = (result, s)"

definition documented_routing ::
    "('r, 'p) route_env \<Rightarrow> ('r, 'p, 'c, 's) route_library \<Rightarrow> bool" where
  "documented_routing re rl \<longleftrightarrow>
     (\<forall>rq c s. rl [] rq c s = (Unanswered, s))
   \<and> (\<forall>r rs rq c s. route_captures re r rq c = None \<longrightarrow> rl (r # rs) rq c s = rl rs rq c s)
   \<and> (\<forall>r rs rq c s captures. route_captures re r rq c = Some captures \<longrightarrow>
        rl (r # rs) rq c s = route_next (run_processor re (ro_processor r) captures rq c s) (rl rs rq))"

text \<open>The behaviour as a function, which exists and is the only one.\<close>

fun route_run :: "('r, 'p) route_env \<Rightarrow> ('r, 'p, 'c, 's) route_library" where
  "route_run re [] rq c s = (Unanswered, s)"
| "route_run re (r # rs) rq c s =
     (case route_captures re r rq c of
        None \<Rightarrow> route_run re rs rq c s
      | Some captures \<Rightarrow>
          route_next (run_processor re (ro_processor r) captures rq c s) (route_run re rs rq))"

lemma route_next_cong:
  "(\<And>c s. k c s = k' c s) \<Longrightarrow> route_next x k = route_next x k'"
proof -
  assume "\<And>c s. k c s = k' c s"
  then have "k = k'" by (intro ext)
  then show ?thesis by simp
qed

lemma documented_routing_run: "documented_routing re (route_run re)"
  by (auto simp: documented_routing_def)

lemma documented_routing_unique:
  assumes "documented_routing re rl"
  shows "rl rs rq c s = route_run re rs rq c s"
proof (induction rs arbitrary: c s)
  case Nil
  then show ?case using assms by (simp add: documented_routing_def)
next
  case (Cons r rs)
  then show ?case
    using assms route_next_cong[of "rl rs rq" "route_run re rs rq"]
    by (cases "route_captures re r rq c") (simp_all add: documented_routing_def)
qed

text \<open>Documented behaviour of the patterns the applications use.\<close>

definition documented_patterns :: "('r, 'p) route_env \<Rightarrow> bool" where
  "documented_patterns re \<longleftrightarrow>
     (\<forall>p path. re_match re (PathString p) path = (if path = p then Some [] else None))
   \<and> (\<forall>path. re_match re AnyPath path = Some [])
   \<and> (\<forall>path. CHR 0x0A \<notin> set path \<and> CHR 0x0D \<notin> set path \<longrightarrow>
        re_match re (PathRegex ''.*'') path = Some [])
   \<and> (\<forall>x. x \<noteq> [] \<and> CHR 0x0A \<notin> set x \<and> CHR 0x0D \<notin> set x \<longrightarrow>
        re_match re (PathRegex ''/delete/(.+)'') (''/delete/'' @ x) = Some [x])
   \<and> (\<forall>path. take 8 path \<noteq> ''/delete/'' \<longrightarrow>
        re_match re (PathRegex ''/delete/(.+)'') path = None)"

text \<open>
  A property of context and state that every route keeps when it runs is kept by the table.
\<close>

definition route_keeps :: "('c \<Rightarrow> 's \<Rightarrow> bool) \<Rightarrow> ('r, 'p) route_env \<Rightarrow> 'r \<Rightarrow>
    ('r, 'p, 'c, 's) app_route \<Rightarrow> bool" where
  "route_keeps P re rq r \<longleftrightarrow> (\<forall>captures c s. P c s \<and> ro_matches r rq c \<longrightarrow>
     P (fst (snd (run_processor re (ro_processor r) captures rq c s)))
       (snd (snd (run_processor re (ro_processor r) captures rq c s))))"

lemma route_run_keeps:
  assumes "list_all (route_keeps P re rq) rs" and "P c s"
  shows "\<exists>c'. P c' (snd (route_run re rs rq c s))"
  using assms
proof (induction rs arbitrary: c s)
  case Nil
  then show ?case by auto
next
  case (Cons r rs)
  show ?case
  proof (cases "route_captures re r rq c")
    case None
    with Cons show ?thesis by simp
  next
    case (Some captures)
    obtain o1 c1 s1 where run: "run_processor re (ro_processor r) captures rq c s = (o1, c1, s1)"
      by (metis prod_cases3)
    moreover have "ro_matches r rq c" using Some by (auto simp: route_captures_def split: if_splits)
    moreover have "route_keeps P re rq r" using Cons.prems(1) by simp
    ultimately have P: "P c1 s1" using Cons.prems(2) by (metis route_keeps_def fst_conv snd_conv)
    then show ?thesis using Cons.IH[OF _ P] Cons.prems(1) Some run by (cases o1) auto
  qed
qed

section \<open>A concrete environment\<close>

fun demo_match :: "path_pattern \<Rightarrow> string \<Rightarrow> string list option" where
  "demo_match (PathString p) path = (if path = p then Some [] else None)"
| "demo_match AnyPath path = Some []"
| "demo_match (PathRegex p) path =
     (if CHR 0x0A \<in> set path \<or> CHR 0x0D \<in> set path then None
      else if p = ''.*'' then Some []
      else if p = ''/delete/(.+)'' \<and> take 8 path = ''/delete/'' \<and> drop 8 path \<noteq> []
      then Some [drop 8 path] else None)"

definition demo_route_env :: "(app_request, int) route_env" where
  "demo_route_env = \<lparr>re_path = wr_path, re_match = demo_match,
     re_convert = (\<lambda>x. Inr (if x \<noteq> [] \<and> list_all (\<lambda>c. c \<in> set ''0123456789'') x
        then Some (parse_int x) else None))\<rparr>"

lemma demo_documented_patterns: "documented_patterns demo_route_env"
  by (simp add: documented_patterns_def demo_route_env_def)

definition demo_request :: "request_method \<Rightarrow> string \<Rightarrow> string \<Rightarrow> app_request" where
  "demo_request method path cookie = \<lparr>wr_path = path, wr_method = method, wr_query = (\<lambda>_. []),
     wr_hasQuery = (\<lambda>_. False), wr_cookie = (\<lambda>_. cookie), wr_formField = (\<lambda>_. ''x'')\<rparr>"

end
