(* ===== verification/Text_Replace.thy ===== *)
theory Text_Replace
  imports Prelude
begin

text \<open>
  \<open>std::regex_replace\<close> with a pattern that is a literal text, as the applications use it. The
  replacement is a format: \<open>$$\<close> is a dollar, \<open>$&\<close> the match, a dollar and a backquote the text between the
  previous match and this one, a dollar and a quote the text after the match, and \<open>$n\<close> or \<open>$nn\<close> a
  group. A literal pattern has no groups but the match itself, number 0; what a number without a
  group stands for is left to the implementation and is nothing here.
\<close>

section \<open>Formats\<close>

abbreviation dollar :: char where "dollar \<equiv> CHR ''$''"

definition is_digit :: "char \<Rightarrow> bool" where
  "is_digit c \<longleftrightarrow> 48 \<le> (of_char c :: nat) \<and> of_char c \<le> (57 :: nat)"

text \<open>\<open>std::isspace\<close> in the C locale.\<close>

definition isspace :: "char \<Rightarrow> bool" where
  "isspace c \<longleftrightarrow> c \<in> {CHR 0x20, CHR 0x09, CHR 0x0A, CHR 0x0B, CHR 0x0C, CHR 0x0D}"

definition digit_value :: "char \<Rightarrow> nat" where
  "digit_value c = of_char c - 48"

text \<open>The number after a dollar: at most two digits, and what follows them.\<close>

fun group_number :: "string \<Rightarrow> nat \<times> string" where
  "group_number (d # e # rest) =
     (if is_digit e then (10 * digit_value d + digit_value e, rest) else (digit_value d, e # rest))"
| "group_number [d] = (digit_value d, [])"
| "group_number [] = (0, [])"

lemma group_number_length: "length (snd (group_number (d # ds))) < Suc (Suc (length ds))"
  by (cases ds) simp_all

function expand_format :: "string \<Rightarrow> string \<Rightarrow> string \<Rightarrow> string \<Rightarrow> string" where
  "expand_format match before after [] = []"
| "expand_format match before after (c # cs) =
     (if c \<noteq> dollar then c # expand_format match before after cs
      else case cs of
        [] \<Rightarrow> [dollar]
      | d # ds \<Rightarrow>
          if d = dollar then dollar # expand_format match before after ds
          else if d = CHR ''&'' then match @ expand_format match before after ds
          else if d = CHR 0x60 then before @ expand_format match before after ds
          else if d = CHR 0x27 then after @ expand_format match before after ds
          else if is_digit d
          then (if fst (group_number cs) = 0 then match else []) @
            expand_format match before after (snd (group_number cs))
          else dollar # expand_format match before after cs)"
  by pat_completeness auto
termination
  by (relation "measure (\<lambda>(_, _, _, s). length s)") (auto simp: group_number_length)

lemma expand_format_plain: "dollar \<notin> set s \<Longrightarrow> expand_format match before after s = s"
  by (induction s) auto

section \<open>Replacing\<close>

fun replace_from :: "string \<Rightarrow> string \<Rightarrow> string \<Rightarrow> nat \<Rightarrow> string \<Rightarrow> string" where
  "replace_from pat format before skip [] = []"
| "replace_from pat format before (Suc n) (c # cs) = replace_from pat format before n cs"
| "replace_from pat format before 0 (c # cs) =
     (if take (length pat) (c # cs) = pat
      then expand_format pat before (drop (length pat) (c # cs)) format @
        replace_from pat format [] (length pat - 1) cs
      else c # replace_from pat format (before @ [c]) 0 cs)"

text \<open>\<open>skip\<close> counts the characters of a match that are still to be passed over.\<close>

definition regex_replace :: "string \<Rightarrow> string \<Rightarrow> string \<Rightarrow> string" where
  "regex_replace s pat format = replace_from pat format [] 0 s"

fun contains :: "string \<Rightarrow> string \<Rightarrow> bool" where
  "contains needle [] \<longleftrightarrow> needle = []"
| "contains needle (c # cs) \<longleftrightarrow>
     take (length needle) (c # cs) = needle \<or> contains needle cs"

lemma replace_from_skip:
  "replace_from pat format before n s = replace_from pat format before 0 (drop n s)"
  by (induction n arbitrary: s) (simp_all, case_tac s, simp_all)

lemma replace_from_absent:
  "\<not> contains pat s \<Longrightarrow> replace_from pat format before 0 s = s"
  by (induction s arbitrary: before) simp_all

lemma replace_from_match:
  "pat \<noteq> [] \<Longrightarrow> replace_from pat format before 0 (pat @ s) =
     expand_format pat before s format @ replace_from pat format [] 0 s"
  by (cases pat) (simp_all add: replace_from_skip[of _ _ _ "length _"])

text \<open>
  A text with no occurrence of the pattern that begins before the given one: the piece before it
  is copied.
\<close>

fun begins_in :: "string \<Rightarrow> string \<Rightarrow> string \<Rightarrow> bool" where
  "begins_in pat [] s \<longleftrightarrow> False"
| "begins_in pat (c # cs) s \<longleftrightarrow> take (length pat) (c # cs @ s) = pat \<or> begins_in pat cs s"

lemma replace_from_copy:
  "\<not> begins_in pat xs s \<Longrightarrow>
   replace_from pat format before 0 (xs @ s) = xs @ replace_from pat format (before @ xs) 0 s"
  by (induction xs arbitrary: before) simp_all

lemma contains_append:
  "pat \<noteq> [] \<Longrightarrow> contains pat (xs @ ys) \<longleftrightarrow> begins_in pat xs ys \<or> contains pat ys"
  by (induction xs) simp_all

text \<open>A pattern that begins with a character the text does not have does not begin in it.\<close>

lemma begins_in_hd: "pat \<noteq> [] \<Longrightarrow> hd pat \<notin> set xs \<Longrightarrow> \<not> begins_in pat xs s"
  by (induction xs) (auto simp: neq_Nil_conv)

lemma begins_in_append:
  "begins_in pat (xs @ ys) s \<longleftrightarrow> begins_in pat xs (ys @ s) \<or> begins_in pat ys s"
  by (induction xs) simp_all

text \<open>
  What follows the first characters of a piece does not matter when the piece ends with at least
  as many characters as the pattern has that are not the pattern's first.
\<close>

lemma begins_in_tail:
  assumes "pat \<noteq> []" and "hd pat \<notin> set ys" and "length pat \<le> Suc (length ys)"
  shows "begins_in pat (xs @ ys) s \<longleftrightarrow> begins_in pat xs ys"
proof (induction xs)
  case Nil
  then show ?case using begins_in_hd[OF assms(1,2)] by simp
next
  case (Cons x xs)
  have "take (length pat) (x # (xs @ ys) @ s) = take (length pat) (x # xs @ ys)"
    using assms(3) by (simp add: take_Cons' diff_le_self)
  with Cons show ?case by simp
qed

text \<open>One occurrence, surrounded by texts without it.\<close>

lemma regex_replace_once:
  assumes "pat \<noteq> []" and "\<not> begins_in pat xs (pat @ ys)" and "\<not> contains pat ys"
    and "dollar \<notin> set format"
  shows "regex_replace (xs @ pat @ ys) pat format = xs @ format @ ys"
  using assms
  by (simp add: regex_replace_def replace_from_copy replace_from_match replace_from_absent
      expand_format_plain)

lemma regex_replace_absent: "\<not> contains pat s \<Longrightarrow> regex_replace s pat format = s"
  by (simp add: regex_replace_def replace_from_absent)

text \<open>A pattern of one character replaces each of its occurrences.\<close>

lemma regex_replace_char:
  assumes "dollar \<notin> set format"
  shows "regex_replace s [c] format = concat (map (\<lambda>x. if x = c then format else [x]) s)"
proof -
  have "replace_from [c] format before 0 s = concat (map (\<lambda>x. if x = c then format else [x]) s)"
    for before
    using assms by (induction s arbitrary: before) (auto simp: expand_format_plain)
  then show ?thesis by (simp add: regex_replace_def)
qed

lemma expand_format_append:
  "dollar \<notin> set xs \<Longrightarrow> expand_format match before after (xs @ ys) = xs @ expand_format match before after ys"
  by (induction xs) auto

lemma regex_replace_first:
  "pat \<noteq> [] \<Longrightarrow> \<not> begins_in pat xs (pat @ ys) \<Longrightarrow>
   regex_replace (xs @ pat @ ys) pat format = xs @ expand_format pat xs ys format @ regex_replace ys pat format"
  by (simp add: regex_replace_def replace_from_copy replace_from_match)

text \<open>Texts that a placeholder in percent signs cannot begin in, and that are no format.\<close>

definition format_safe :: "string \<Rightarrow> bool" where
  "format_safe s \<longleftrightarrow> CHR ''%'' \<notin> set s \<and> dollar \<notin> set s"

lemma format_safe_simps [simp]:
  "format_safe []" "format_safe (xs @ ys) \<longleftrightarrow> format_safe xs \<and> format_safe ys"
  "format_safe (c # xs) \<longleftrightarrow> c \<noteq> CHR ''%'' \<and> c \<noteq> dollar \<and> format_safe xs"
  by (auto simp: format_safe_def)

lemma format_safe_begins:
  "format_safe xs \<Longrightarrow> pat \<noteq> [] \<Longrightarrow> hd pat = CHR ''%'' \<Longrightarrow> \<not> begins_in pat xs s"
  by (rule begins_in_hd) (simp_all add: format_safe_def)

end
