(* ===== verification/Guest_Book.thy ===== *)
theory Guest_Book
  imports Routes Text_Replace
begin

text \<open>
  The guest book application, \<^verbatim>\<open>examples/example_guestbook.cpp\<close>: its state, and the handlers that
  change it or decide about access. A handler sees its request through the accessors of
  \<^verbatim>\<open>Request_View\<close>; \<open>form_field\<close> and \<open>cookie\<close> are what they answer. The page and the routes are in
  \<^verbatim>\<open>Guest_Book_Page\<close>.
\<close>

section \<open>State\<close>

datatype access_role = Admin | Guest

record guest_book_message =
  gm_name :: string
  gm_text :: string

record guest_book_state =
  gb_messages :: "guest_book_message list"

definition gb_addMessage :: "string \<Rightarrow> string \<Rightarrow> guest_book_state \<Rightarrow> guest_book_state" where
  "gb_addMessage name msg state =
     (let name = regex_replace name ''<'' ''&lt;'';
          name = regex_replace name ''>'' ''&gt;'';
          msg = regex_replace msg ''<'' ''&lt;'';
          msg = regex_replace msg ''>'' ''&gt;''
      in state\<lparr>gb_messages := gb_messages state @
           [\<lparr>gm_name = (if name = [] then ''Guest'' else name), gm_text = msg\<rparr>]\<rparr>)"

definition gb_removeMessage :: "int \<Rightarrow> guest_book_state \<Rightarrow> guest_book_state" where
  "gb_removeMessage index state =
     (if index < 0 \<or> index \<ge> cast_int (length (gb_messages state)) then state
      else state\<lparr>gb_messages := remove_nth (nat index) (gb_messages state)\<rparr>)"

section \<open>Handlers\<close>

definition authorizeAdmin :: "(string \<Rightarrow> string) \<Rightarrow> access_role \<Rightarrow> web_response option \<times> access_role" where
  "authorizeAdmin cookie role =
     (None, if cookie ''admin_id'' = ''ADMIN_SECRET'' then Admin else role)"

definition loginAdmin :: "(string \<Rightarrow> string) \<Rightarrow> web_response" where
  "loginAdmin form_field =
     (if form_field ''login'' = ''admin'' \<and> form_field ''passwd'' = ''12345''
      then RedirectWithCookie ''/'' ''admin_id'' ''ADMIN_SECRET''
      else Redirect ''/login'')"

definition logoutAdmin :: web_response where
  "logoutAdmin = RedirectWithCookie ''/'' ''admin_id'' []"

definition addMessage :: "(string \<Rightarrow> string) \<Rightarrow> guest_book_state \<Rightarrow> web_response \<times> guest_book_state" where
  "addMessage form_field state =
     (if list_all isspace (form_field ''msg'') then (Redirect ''/?error=empty_msg'', state)
      else if contains ''http://'' (form_field ''msg'') \<or> contains ''https://'' (form_field ''msg'')
      then (Redirect ''/?error=urls_in_msg'', state)
      else (Redirect ''/'', gb_addMessage (form_field ''name'') (form_field ''msg'') state))"

definition removeMessage :: "int \<Rightarrow> guest_book_state \<Rightarrow> web_response \<times> guest_book_state" where
  "removeMessage index state = (Redirect ''/'', gb_removeMessage index state)"

section \<open>The list of messages\<close>

fun messages_loop :: "nat \<Rightarrow> access_role \<Rightarrow> guest_book_message list \<Rightarrow> string" where
  "messages_loop i role [] = []"
| "messages_loop i role (m # ms) =
     ''<h4>'' @ gm_name m @ '' says:</hr><pre>'' @ gm_text m @ ''</pre>'' @
     (if role = Admin
      then ''<form action=\"/delete/'' @ to_string (int i) @
           ''\" method=\"post\"> <input value=\"Delete\" type=\"submit\"></form>''
      else []) @
     messages_loop (Suc i) role ms"

definition makeMessagesDiv :: "guest_book_message list \<Rightarrow> access_role \<Rightarrow> string" where
  "makeMessagesDiv messages role =
     (if messages = [] then ''<div>No messages</div>'' else messages_loop 0 role messages)"

section \<open>Escaping\<close>

definition plain :: "string \<Rightarrow> bool" where
  "plain s \<longleftrightarrow> CHR ''<'' \<notin> set s \<and> CHR ''>'' \<notin> set s"

lemma set_regex_replace_char:
  "dollar \<notin> set r \<Longrightarrow> set (regex_replace s [c] r) = (set s - {c}) \<union> (if c \<in> set s then set r else {})"
  by (induction s) (auto simp: regex_replace_char)

lemma plain_escaped: "plain (regex_replace (regex_replace s ''<'' ''&lt;'') ''>'' ''&gt;'')"
  by (simp add: plain_def set_regex_replace_char)

definition messages_safe :: "guest_book_state \<Rightarrow> bool" where
  "messages_safe state \<longleftrightarrow>
     list_all (\<lambda>m. plain (gm_name m) \<and> plain (gm_text m) \<and> gm_name m \<noteq> []) (gb_messages state)"

lemma messages_safe_add: "messages_safe s \<Longrightarrow> messages_safe (gb_addMessage name msg s)"
  by (auto simp: messages_safe_def gb_addMessage_def Let_def plain_escaped) (simp add: plain_def)

lemma messages_safe_remove: "messages_safe s \<Longrightarrow> messages_safe (gb_removeMessage i s)"
  by (auto simp: messages_safe_def gb_removeMessage_def remove_nth_def list_all_iff
      dest: in_set_takeD in_set_dropD)

datatype guest_event =
    AddRequest "string \<Rightarrow> string"
  | RemoveRequest int

fun guest_step :: "guest_event \<Rightarrow> guest_book_state \<Rightarrow> guest_book_state" where
  "guest_step (AddRequest form_field) s = snd (addMessage form_field s)"
| "guest_step (RemoveRequest i) s = snd (removeMessage i s)"

lemma messages_safe_step: "messages_safe s \<Longrightarrow> messages_safe (guest_step e s)"
  by (cases e) (simp_all add: addMessage_def removeMessage_def messages_safe_add messages_safe_remove)

lemma messages_safe_run: "messages_safe s \<Longrightarrow> messages_safe (fold guest_step es s)"
  by (induction es arbitrary: s) (simp_all add: messages_safe_step)

text \<open>The markup characters of a list of messages are the page's own.\<close>

definition markup :: "string \<Rightarrow> string" where
  "markup s = filter (\<lambda>c. c = CHR ''<'' \<or> c = CHR ''>'') s"

lemma markup_simps [simp]:
  "markup [] = []" "markup (xs @ ys) = markup xs @ markup ys"
  "markup (c # xs) = (if c = CHR ''<'' \<or> c = CHR ''>'' then c # markup xs else markup xs)"
  by (simp_all add: markup_def)

lemma markup_plain: "plain s \<Longrightarrow> markup s = []"
  by (auto simp: markup_def plain_def filter_empty_conv)

lemma markup_to_string [simp]: "markup (to_string (int n)) = []"
  by (intro markup_plain) (simp add: plain_def to_string_other)

lemma markup_messages_loop:
  "list_all (\<lambda>m. plain (gm_name m) \<and> plain (gm_text m) \<and> gm_name m \<noteq> []) ms \<Longrightarrow>
   markup (messages_loop i role ms) =
   markup (messages_loop i role (replicate (length ms) \<lparr>gm_name = ''Guest'', gm_text = []\<rparr>))"
proof (induction ms arbitrary: i)
  case (Cons m ms)
  then show ?case by (simp add: markup_plain)
qed simp

lemma remove_in_range:
  assumes "length (gb_messages s) < 2 ^ 31"
  shows "gb_messages (gb_removeMessage i s) =
    (if 0 \<le> i \<and> nat i < length (gb_messages s)
     then take (nat i) (gb_messages s) @ drop (Suc (nat i)) (gb_messages s) else gb_messages s)"
proof -
  have "cast_int (length (gb_messages s)) = int (length (gb_messages s))"
    using assms by (rule cast_int_small)
  then show ?thesis
    by (auto simp: gb_removeMessage_def remove_nth_def)
qed

section \<open>Properties\<close>


text \<open>
  Adding a message. A text of white space, or one with a url, is refused with its error and
  changes nothing; any other is added at the end, and removing the last message undoes it.
\<close>

theorem guest_book_add_remove:
  assumes "length (gb_messages s) < 2 ^ 31 - 1" and "addMessage form_field s = (response, s')"
  shows "if list_all isspace (form_field ''msg'') \<or> contains ''http://'' (form_field ''msg'')
      \<or> contains ''https://'' (form_field ''msg'')
    then s' = s \<and> response \<in> {Redirect ''/?error=empty_msg'', Redirect ''/?error=urls_in_msg''}
    else response = Redirect ''/'' \<and> length (gb_messages s') = Suc (length (gb_messages s))
      \<and> gb_removeMessage (int (length (gb_messages s))) s' = s"
proof -
  have "gb_removeMessage (int (length (gb_messages s))) (gb_addMessage n t s) = s" for n t
    using assms(1) remove_in_range[of "gb_addMessage n t s" "int (length (gb_messages s))"]
    by (cases s) (simp add: gb_addMessage_def Let_def gb_removeMessage_def)
  moreover have "length (gb_messages (gb_addMessage n t s)) = Suc (length (gb_messages s))" for n t
    by (simp add: gb_addMessage_def Let_def)
  ultimately show ?thesis
    using assms(2) by (auto simp: addMessage_def split: if_splits)
qed

theorem guest_book_add_remove_witness:
  "gb_removeMessage 0 (snd (addMessage (\<lambda>f. if f = ''msg'' then ''<hi>'' else [])
     \<lparr>gb_messages = []\<rparr>)) = \<lparr>gb_messages = []\<rparr>"
  using guest_book_add_remove[of "\<lparr>gb_messages = []\<rparr>" "\<lambda>f. if f = ''msg'' then ''<hi>'' else []",
      OF _ prod.collapse[symmetric]]
  by (simp add: isspace_def)

end
