(* ===== verification/Guest_Book_Page.thy ===== *)
theory Guest_Book_Page
  imports Guest_Book "HOL-Library.Sublist"
begin

text \<open>
  The guest book application as a whole: the page and its template, the login page, the matcher
  for the role of a visitor and the table of routes.
\<close>

section \<open>The page\<close>

text \<open>
  The template, split at its three placeholders; \<open>showGuestBookPage\<close> replaces them one after the
  other.
\<close>

definition page_head :: string where
  "page_head =
     ''<head><link rel=\"stylesheet\" href=\"https://cdn.simplecss.org/simple.min.css\"></head>
                       <div style=\"display:flex; flex-direction: row; justify-content: flex-end\">''"

definition page_middle :: string where
  "page_middle =
     ''</div>
                       <div style=\"display:flex; flex-direction: column; height: calc(100vh - 5em);\">
                           <h1>asyncgi guest book</h1>
                           <div style=\"flex: 1; min-height: 0; display:flex; flex-direction: column;\">
                               <div style=\"flex:1; overflow-y: auto; row-gap: 60px\">
                                    ''"

definition page_form :: string where
  "page_form =
     ''
                               </div>
                           </div>
                           <hr>
                           <div>
                                ''"

definition page_foot :: string where
  "page_foot =
     ''
                               <form style=\"display:flex; flex-direction: column; width:66%;\" method=\"post\" enctype=\"multipart/form-data\">
                                   <label for=\"name\">Name:</label>
                                   <input id=\"name\" name=\"name\" style=\"width:50%\">
                                   <textarea style=\"min-height:5em; resize:none;\" name=\"msg\" id=\"msg\" maxlength=\"4192\" autocomplete=\"off\"></textarea>
                                   <div style=\"display:flex; flex-direction: row; justify-content: flex-end\">
                                      <input value=\"Submit\" data-popup=\"true\" type=\"submit\" style=\"width:33%\"></td>
                                   </div>
                               </form>
                           </div>
                       </div>''"

definition guest_book_template :: string where
  "guest_book_template = page_head @ ''%LINKS%'' @ page_middle @ ''%MESSAGES%'' @ page_form @
     ''%ERROR_MSG%'' @ page_foot"

definition makeLinksDiv :: "access_role \<Rightarrow> string" where
  "makeLinksDiv role =
     (if role = Admin then ''<a href=\"/logout\">logout</a>&nbsp;''
      else ''<a href=\"/login\">login</a>&nbsp;'') @
     ''<a href=\"https://github.com/kamchatka-volcano/asyncgi/blob/master/examples/example_guestbook.cpp\">source</a></div>''"

definition showGuestBookPage :: "guest_book_state \<Rightarrow> app_request \<Rightarrow> access_role \<Rightarrow> web_response" where
  "showGuestBookPage state request role =
     (let page = guest_book_template;
          page = regex_replace page ''%MESSAGES%'' (makeMessagesDiv (gb_messages state) role);
          page = regex_replace page ''%LINKS%'' (makeLinksDiv role);
          page =
            (if wr_hasQuery request ''error'' then
               (let page = (if wr_query request ''error'' = ''urls_in_msg''
                            then regex_replace page ''%ERROR_MSG%'' ''<mark>Messages can't contain urls</mark>''
                            else page)
                in if wr_query request ''error'' = ''empty_msg''
                   then regex_replace page ''%ERROR_MSG%'' ''<mark>Messages can't be empty</mark>''
                   else page)
             else regex_replace page ''%ERROR_MSG%'' [])
      in Page page)"

definition showLoginPage :: web_response where
  "showLoginPage =
     Page ''
            <head><link rel=\"stylesheet\" href=\"https://cdn.simplecss.org/simple.min.css\"></head>
            <form method=\"post\" enctype=\"multipart/form-data\">
                <label for=\"msg\">Login:</label>
                <input id=\"login\" name=\"login\" value=\"\">
                <label for=\"msg\">Password:</label>
                <input id=\"passwd\" name=\"passwd\" value=\"\">
                <input value=\"Submit\" data-popup=\"true\" type=\"submit\">
            </form>''"

section \<open>Routes\<close>

text \<open>\<open>RouteMatcher<AccessRole, RouteContext>\<close>.\<close>

definition match_role :: "access_role \<Rightarrow> app_request \<Rightarrow> access_role \<Rightarrow> bool" where
  "match_role value request context \<longleftrightarrow> value = context"

definition guest_book_routes :: "(app_request, int, access_role, guest_book_state) app_route list" where
  "guest_book_routes =
     [\<lparr>ro_path = PathRegex ''.*'', ro_matches = (\<lambda>rq c. True),
       ro_processor = Process (\<lambda>rq c s.
         let (response, c) = authorizeAdmin (wr_cookie rq) c
         in (case response of Some w \<Rightarrow> Answered w | None \<Rightarrow> Unanswered, c, s))\<rparr>,
      \<lparr>ro_path = PathString ''/'', ro_matches = (\<lambda>rq c. wr_method rq = MethodGet),
       ro_processor = Process (\<lambda>rq c s. (Answered (showGuestBookPage s rq c), c, s))\<rparr>,
      \<lparr>ro_path = PathString ''/'', ro_matches = (\<lambda>rq c. wr_method rq = MethodPost),
       ro_processor = Process (\<lambda>rq c s.
         let (w, s) = addMessage (wr_formField rq) s in (Answered w, c, s))\<rparr>,
      \<lparr>ro_path = PathRegex ''/delete/(.+)'',
       ro_matches = (\<lambda>rq c. wr_method rq = MethodPost \<and> match_role Admin rq c),
       ro_processor = ProcessParam (\<lambda>index rq c s.
         let (w, s) = removeMessage index s in (Answered w, c, s))\<rparr>,
      \<lparr>ro_path = PathRegex ''/delete/(.+)'',
       ro_matches = (\<lambda>rq c. wr_method rq = MethodPost \<and> match_role Guest rq c),
       ro_processor = SetResponse (StatusResponse 401)\<rparr>,
      \<lparr>ro_path = PathString ''/login'',
       ro_matches = (\<lambda>rq c. wr_method rq = MethodGet \<and> match_role Guest rq c),
       ro_processor = Process (\<lambda>rq c s. (Answered showLoginPage, c, s))\<rparr>,
      \<lparr>ro_path = PathString ''/login'',
       ro_matches = (\<lambda>rq c. wr_method rq = MethodPost \<and> match_role Guest rq c),
       ro_processor = Process (\<lambda>rq c s. (Answered (loginAdmin (wr_formField rq)), c, s))\<rparr>,
      \<lparr>ro_path = PathString ''/logout'', ro_matches = (\<lambda>rq c. True),
       ro_processor = Process (\<lambda>rq c s. (Answered logoutAdmin, c, s))\<rparr>,
      \<lparr>ro_path = AnyPath, ro_matches = (\<lambda>rq c. True),
       ro_processor = SetResponse (StatusPage 404 ''Page not found'')\<rparr>]"

section \<open>Facts about the page\<close>

lemma template_parts_safe [simp]:
  "format_safe page_head" "format_safe page_middle" "format_safe page_form"
  by (simp_all add: page_head_def page_middle_def page_form_def)

lemma template_foot:
  "\<not> contains ''%LINKS%'' page_foot" "\<not> contains ''%MESSAGES%'' page_foot"
  "\<not> contains ''%ERROR_MSG%'' page_foot" "\<exists>rest. page_foot = CHR 0x0A # rest"
  by (simp_all add: page_foot_def)

lemma links_safe [simp]: "format_safe (makeLinksDiv role)"
  by (simp add: makeLinksDiv_def)

lemma to_string_safe [simp]: "format_safe (to_string (int n))"
  by (simp add: format_safe_def to_string_other)

lemma messages_loop_safe:
  "list_all (\<lambda>m. format_safe (gm_name m) \<and> format_safe (gm_text m)) ms \<Longrightarrow>
   format_safe (messages_loop i role ms)"
  by (induction ms arbitrary: i) simp_all

lemma messages_div_safe:
  "list_all (\<lambda>m. format_safe (gm_name m) \<and> format_safe (gm_text m)) ms \<Longrightarrow>
   format_safe (makeMessagesDiv ms role)"
  by (simp add: makeMessagesDiv_def messages_loop_safe)

text \<open>Where the placeholders begin: nowhere in the safe texts, and not in one another.\<close>

lemmas template_begins = begins_in_append format_safe_begins contains_append template_foot

lemma foot_absent:
  "\<not> contains ''%LINKS%'' (''%ERROR_MSG%'' @ page_foot)"
  "\<not> contains ''%MESSAGES%'' (''%ERROR_MSG%'' @ page_foot)"
proof -
  obtain rest where r: "page_foot = CHR 0x0A # rest" using template_foot(4) by blast
  show "\<not> contains ''%LINKS%'' (''%ERROR_MSG%'' @ page_foot)"
    "\<not> contains ''%MESSAGES%'' (''%ERROR_MSG%'' @ page_foot)"
    using template_foot(1,2) by (simp_all add: r)
qed

text \<open>The page after the messages were filled in.\<close>

lemma fill_messages:
  "regex_replace guest_book_template ''%MESSAGES%'' format =
     page_head @ ''%LINKS%'' @ page_middle @
     expand_format ''%MESSAGES%'' (page_head @ ''%LINKS%'' @ page_middle)
       (page_form @ ''%ERROR_MSG%'' @ page_foot) format @ page_form @ ''%ERROR_MSG%'' @ page_foot"
proof -
  have "\<not> begins_in ''%MESSAGES%'' (page_head @ ''%LINKS%'' @ page_middle)
      (''%MESSAGES%'' @ page_form @ ''%ERROR_MSG%'' @ page_foot)"
    by (simp add: template_begins) (simp add: page_middle_def)
  moreover have "\<not> contains ''%MESSAGES%'' (page_form @ ''%ERROR_MSG%'' @ page_foot)"
    using foot_absent(2) by (simp add: contains_append[of _ page_form] format_safe_begins del: append_Cons)
  ultimately show ?thesis
    using regex_replace_first[of "''%MESSAGES%''" "page_head @ ''%LINKS%'' @ page_middle"
        "page_form @ ''%ERROR_MSG%'' @ page_foot" format]
    by (simp add: guest_book_template_def regex_replace_absent)
qed

text \<open>The links, on a page whose messages hold no placeholder.\<close>

lemma fill_links:
  assumes "format_safe ms"
  shows "regex_replace (page_head @ ''%LINKS%'' @ page_middle @ ms @ page_form @ ''%ERROR_MSG%'' @
      page_foot) ''%LINKS%'' (makeLinksDiv role) =
    page_head @ makeLinksDiv role @ page_middle @ ms @ page_form @ ''%ERROR_MSG%'' @ page_foot"
proof (rule regex_replace_once)
  show "\<not> contains ''%LINKS%'' (page_middle @ ms @ page_form @ ''%ERROR_MSG%'' @ page_foot)"
    using foot_absent(1) assms
    by (simp add: contains_append[of _ page_middle] contains_append[of _ ms]
        contains_append[of _ page_form] format_safe_begins del: append_Cons)
  show "\<not> begins_in ''%LINKS%'' page_head (''%LINKS%'' @ page_middle @ ms @ page_form @
      ''%ERROR_MSG%'' @ page_foot)"
    by (simp add: format_safe_begins del: append_Cons)
  show "dollar \<notin> set (makeLinksDiv role)"
    using links_safe[of role] by (simp add: format_safe_def)
qed simp

lemma fill_error:
  assumes "format_safe s" and "dollar \<notin> set format"
  shows "regex_replace (s @ ''%ERROR_MSG%'' @ page_foot) ''%ERROR_MSG%'' format =
    s @ format @ page_foot"
proof (rule regex_replace_once)
  show "\<not> begins_in ''%ERROR_MSG%'' s (''%ERROR_MSG%'' @ page_foot)"
    using assms(1) by (simp add: format_safe_begins del: append_Cons)
qed (use assms(2) template_foot in simp_all)

section \<open>Properties\<close>

text \<open>What stands in the place of the error message.\<close>

definition error_part :: "app_request \<Rightarrow> string" where
  "error_part request =
     (if \<not> wr_hasQuery request ''error'' then []
      else if wr_query request ''error'' = ''urls_in_msg'' then ''<mark>Messages can't contain urls</mark>''
      else if wr_query request ''error'' = ''empty_msg'' then ''<mark>Messages can't be empty</mark>''
      else ''%ERROR_MSG%'')"

text \<open>
  C25. The page is its template, filled in: for messages without dollar and percent signs the three
  replacements give the links, the messages and the error message in their places and change
  nothing else. An error the page does not know leaves the placeholder on the page.
\<close>

theorem guest_book_page_equals_template:
  assumes "list_all (\<lambda>m. format_safe (gm_name m) \<and> format_safe (gm_text m)) (gb_messages state)"
  shows "showGuestBookPage state request role =
    Page (page_head @ makeLinksDiv role @ page_middle @ makeMessagesDiv (gb_messages state) role @
      page_form @ error_part request @ page_foot)"
proof -
  let ?ms = "makeMessagesDiv (gb_messages state) role"
  have ms: "format_safe ?ms" using assms by (rule messages_div_safe)
  let ?s = "page_head @ makeLinksDiv role @ page_middle @ ?ms @ page_form"
  have page: "regex_replace (regex_replace guest_book_template ''%MESSAGES%'' ?ms) ''%LINKS%''
      (makeLinksDiv role) = ?s @ ''%ERROR_MSG%'' @ page_foot"
    using fill_links[OF ms, of role] ms
    by (simp add: fill_messages expand_format_plain format_safe_def del: append_Cons)
  have "format_safe ?s" using ms by simp
  note e = fill_error[OF this]
  have d: "dollar \<notin> set ''<mark>Messages can't contain urls</mark>''"
    "dollar \<notin> set ''<mark>Messages can't be empty</mark>''" "dollar \<notin> set ([] :: string)"
    by simp_all
  show ?thesis
    unfolding showGuestBookPage_def Let_def page error_part_def
    using e[OF d(1)] e[OF d(2)] e[OF d(3)] by (simp del: append_Cons)
qed

theorem guest_book_page_equals_template_witness:
  "showGuestBookPage \<lparr>gb_messages = [\<lparr>gm_name = ''Guest'', gm_text = ''hi''\<rparr>]\<rparr>
     (demo_request MethodGet ''/'' []) Guest =
    Page (page_head @ makeLinksDiv Guest @ page_middle @
      ''<h4>Guest says:</hr><pre>hi</pre>'' @ page_form @ page_foot)"
  using guest_book_page_equals_template[of "\<lparr>gb_messages = [\<lparr>gm_name = ''Guest'', gm_text = ''hi''\<rparr>]\<rparr>"
      "demo_request MethodGet ''/'' []" Guest]
  by (simp add: makeMessagesDiv_def error_part_def demo_request_def)

text \<open>
  C26. A message is a format. The two characters dollar and backquote, which \<open>addMessage\<close> stores as
  they are, stand on the page for everything that precedes the messages, with its markup: the
  head of the page, the links and the heading appear a second time inside the message.
\<close>

lemma guest_book_page_injection:
  assumes "gb_messages state = [\<lparr>gm_name = name, gm_text = ''$'' @ [CHR 0x60]\<rparr>]"
    and "format_safe name" and "\<not> wr_hasQuery request ''error''"
  shows "showGuestBookPage state request Guest =
    Page (page_head @ makeLinksDiv Guest @ page_middle @ ''<h4>'' @ name @ '' says:</hr><pre>'' @
      page_head @ makeLinksDiv Guest @ page_middle @ ''</pre>'' @ page_form @ page_foot)"
proof -
  let ?a = "''<h4>'' @ name @ '' says:</hr><pre>''" and ?links = "makeLinksDiv Guest"
  let ?r = "''</pre>'' @ page_form @ ''%ERROR_MSG%'' @ page_foot"
  have a: "format_safe ?a" using assms(2) by simp
  have messages: "makeMessagesDiv (gb_messages state) Guest = ?a @ [dollar, CHR 0x60] @ ''</pre>''"
    by (simp add: makeMessagesDiv_def assms(1))
  have "expand_format match before after (?a @ [dollar, CHR 0x60] @ ''</pre>'') =
      ?a @ before @ ''</pre>''" for match before after
    using a by (subst expand_format_append) (simp_all add: format_safe_def)
  then have filled: "regex_replace guest_book_template ''%MESSAGES%'' (?a @ [dollar, CHR 0x60] @ ''</pre>'') =
      page_head @ ''%LINKS%'' @ (page_middle @ ?a @ page_head) @ ''%LINKS%'' @ page_middle @ ?r"
    by (simp add: fill_messages del: append_Cons)
  have d: "expand_format match before after ?links = ?links" for match before after
    using links_safe[of Guest] by (intro expand_format_plain) (simp add: format_safe_def)
  have "\<not> contains ''%LINKS%'' (page_middle @ ?r)"
    using foot_absent(1) by (simp add: contains_append[of _ page_middle]
        contains_append[of _ page_form] format_safe_begins)
  then have links: "regex_replace (page_head @ ''%LINKS%'' @ (page_middle @ ?a @ page_head) @ ''%LINKS%'' @
      page_middle @ ?r) ''%LINKS%'' ?links =
      (page_head @ ?links @ (page_middle @ ?a @ page_head) @ ?links @ page_middle @ ''</pre>'' @ page_form) @
      ''%ERROR_MSG%'' @ page_foot"
    using a by (simp add: regex_replace_first format_safe_begins d regex_replace_absent
        del: append_assoc append_Cons)
  have "format_safe (page_head @ ?links @ (page_middle @ ?a @ page_head) @ ?links @ page_middle @
      ''</pre>'' @ page_form)"
    using a by simp
  from fill_error[OF this, of "[]"] show ?thesis
    unfolding showGuestBookPage_def Let_def messages filled links using assms(3) by simp
qed

lemma addMessage_keeps:
  "prefix old (gb_messages s) \<Longrightarrow> prefix old (gb_messages (snd (addMessage form_field s)))"
  by (simp add: addMessage_def gb_addMessage_def Let_def)

lemma guest_book_routes_keep:
  assumes "wr_cookie rq ''admin_id'' \<noteq> ''ADMIN_SECRET''"
  shows "list_all (route_keeps (\<lambda>c s. c = Guest \<and> prefix old (gb_messages s)) re rq) guest_book_routes"
  using assms
  by (simp add: guest_book_routes_def route_keeps_def authorizeAdmin_def match_role_def
      addMessage_keeps Let_def case_prod_beta)

text \<open>
  C22. Only an administrator removes messages. Whatever requests come, as long as none carries the
  administrator's cookie the messages are only ever added to.
\<close>

theorem guest_book_admin_only:
  assumes "documented_routing re rl"
    and "\<forall>rq \<in> set rqs. wr_cookie rq ''admin_id'' \<noteq> ''ADMIN_SECRET''"
  shows "prefix (gb_messages s)
    (gb_messages (fold (\<lambda>rq s. snd (rl guest_book_routes rq Guest s)) rqs s))"
  using assms(2)
proof (induction rqs arbitrary: s)
  case (Cons rq rqs)
  have "prefix (gb_messages s) (gb_messages (snd (rl guest_book_routes rq Guest s)))"
    using route_run_keeps[OF guest_book_routes_keep[of rq "gb_messages s" re], of Guest s] Cons.prems
    by (auto simp: documented_routing_unique[OF assms(1)])
  with Cons show ?case by (auto intro: prefix_order.trans)
qed simp

theorem guest_book_admin_only_witness:
  "prefix [\<lparr>gm_name = ''a'', gm_text = ''b''\<rparr>]
     (gb_messages (fold (\<lambda>rq s. snd (route_run demo_route_env guest_book_routes rq Guest s))
     [demo_request MethodPost ''/delete/0'' [], demo_request MethodPost ''/'' []]
     \<lparr>gb_messages = [\<lparr>gm_name = ''a'', gm_text = ''b''\<rparr>]\<rparr>))"
  using guest_book_admin_only[OF documented_routing_run,
      of "[demo_request MethodPost ''/delete/0'' [], demo_request MethodPost ''/'' []]"
        "\<lparr>gb_messages = [\<lparr>gm_name = ''a'', gm_text = ''b''\<rparr>]\<rparr>" demo_route_env]
  by (simp add: demo_request_def)

text \<open>
  Removing. A request to delete is refused with status 401 and changes nothing when it does not
  carry the administrator's cookie; with it, the message with the number in the path is removed
  and the browser sent back to the page, and a number that cannot be read is a parameter error.
\<close>

theorem guest_book_delete:
  assumes "documented_routing re rl" and "documented_patterns re"
    and "re_path re rq = ''/delete/'' @ x" and "x \<noteq> []" and "CHR 0x0A \<notin> set x" and "CHR 0x0D \<notin> set x"
    and "wr_method rq = MethodPost"
  shows "rl guest_book_routes rq Guest s =
    (if wr_cookie rq ''admin_id'' \<noteq> ''ADMIN_SECRET'' then (Answered (StatusResponse 401), s)
     else case re_convert re x of
       Inl e \<Rightarrow> (Raised e, s)
     | Inr None \<Rightarrow> (ParametersError (RouteParameterReadError 0 x), s)
     | Inr (Some i) \<Rightarrow> (Answered (Redirect ''/''), gb_removeMessage i s))"
proof -
  have any: "re_match re (PathRegex ''.*'') (''/delete/'' @ x) = Some []"
    and del: "re_match re (PathRegex ''/delete/(.+)'') (''/delete/'' @ x) = Some [x]"
    and str: "re_match re (PathString ''/'') (''/delete/'' @ x) = None"
    using assms(2,4-6) by (simp_all add: documented_patterns_def del: append_Cons)
  show ?thesis
    using any del str assms(3,7)
    by (simp add: documented_routing_unique[OF assms(1)] guest_book_routes_def route_captures_def
        authorizeAdmin_def match_role_def removeMessage_def Let_def
        split: sum.split option.split del: append_Cons)
qed

theorem guest_book_delete_witness:
  "route_run demo_route_env guest_book_routes (demo_request MethodPost ''/delete/0'' ''ADMIN_SECRET'')
     Guest \<lparr>gb_messages = [\<lparr>gm_name = ''a'', gm_text = ''b''\<rparr>]\<rparr>
   = (Answered (Redirect ''/''), \<lparr>gb_messages = []\<rparr>)"
proof -
  have "re_convert demo_route_env ''0'' = Inr (Some 0)"
    "gb_removeMessage 0 \<lparr>gb_messages = [\<lparr>gm_name = ''a'', gm_text = ''b''\<rparr>]\<rparr> = \<lparr>gb_messages = []\<rparr>"
    by code_simp+
  then show ?thesis
    using guest_book_delete[OF documented_routing_run demo_documented_patterns,
        of "demo_request MethodPost ''/delete/0'' ''ADMIN_SECRET''" "''0''"]
    by (simp add: demo_request_def demo_route_env_def)
qed

end
