(* ===== verification/Access_Examples.thy ===== *)
theory Access_Examples
  imports Guest_Book
begin

text \<open>
  Two examples of the same application: \<^verbatim>\<open>examples/example_route_context.cpp\<close> looks at the role of
  the visitor in its processors, \<^verbatim>\<open>examples/example_route_matcher.cpp\<close> registers the role as a
  matcher. Their \<open>AccessRole\<close> is that of the guest book.
\<close>

section \<open>Route context\<close>

definition context_AdminAuthorizer ::
    "app_request \<Rightarrow> access_role \<Rightarrow> web_response option \<times> access_role" where
  "context_AdminAuthorizer request role =
     (None, if wr_cookie request ''admin_id'' = ''ADMIN_SECRET'' then Admin else role)"

definition context_LoginPage :: "app_request \<Rightarrow> access_role \<Rightarrow> web_response" where
  "context_LoginPage request role =
     (if role = Guest then Page ''
                    <html>
                    <form method=\"post\" enctype=\"multipart/form-data\">
                    <label for=\"msg\">Login:</label>
                    <input id=\"login\" name=\"login\" value=\"\">
                    <label for=\"msg\">Password:</label>
                    <input id=\"passwd\" name=\"passwd\" value=\"\">
                    <input value=\"Submit\" data-popup=\"true\" type=\"submit\">
                    </form></html>''
      else Redirect ''/'')"

definition context_LoginPageAuthorize :: "app_request \<Rightarrow> access_role \<Rightarrow> web_response" where
  "context_LoginPageAuthorize request role =
     (if role = Guest then
        (if wr_formField request ''login'' = ''admin'' \<and> wr_formField request ''passwd'' = ''12345''
         then RedirectWithCookie ''/'' ''admin_id'' ''ADMIN_SECRET''
         else Redirect ''/login'')
      else Redirect ''/'')"

text \<open>The processor of the root sends through its responder.\<close>

definition context_index :: "app_request \<Rightarrow> access_role \<Rightarrow> web_response" where
  "context_index request role =
     (if role = Admin then Page ''<p>Hello admin</p>''
      else Page ''<p>Hello guest</p><p><a href=\"/login\">login</a>'')"

text \<open>A processor with the context and no state, and one that may send no response.\<close>

definition answering :: "(app_request \<Rightarrow> access_role \<Rightarrow> web_response) \<Rightarrow>
    (app_request, int, access_role, unit) route_processor" where
  "answering f = Process (\<lambda>rq c s. (Answered (f rq c), c, s))"

definition authorizing :: "(app_request \<Rightarrow> access_role \<Rightarrow> web_response option \<times> access_role) \<Rightarrow>
    (app_request, int, access_role, unit) route_processor" where
  "authorizing f = Process (\<lambda>rq c s.
     let (response, c) = f rq c
     in (case response of Some w \<Rightarrow> Answered w | None \<Rightarrow> Unanswered, c, s))"

definition context_routes :: "(app_request, int, access_role, unit) app_route list" where
  "context_routes =
     [\<lparr>ro_path = PathRegex ''.*'', ro_matches = (\<lambda>rq c. True),
       ro_processor = authorizing context_AdminAuthorizer\<rparr>,
      \<lparr>ro_path = PathString ''/'', ro_matches = (\<lambda>rq c. True),
       ro_processor = answering context_index\<rparr>,
      \<lparr>ro_path = PathString ''/login'', ro_matches = (\<lambda>rq c. wr_method rq = MethodGet),
       ro_processor = answering context_LoginPage\<rparr>,
      \<lparr>ro_path = PathString ''/login'', ro_matches = (\<lambda>rq c. wr_method rq = MethodPost),
       ro_processor = answering context_LoginPageAuthorize\<rparr>,
      \<lparr>ro_path = AnyPath, ro_matches = (\<lambda>rq c. True),
       ro_processor = SetResponse (StatusPage 404 ''Page not found'')\<rparr>]"

section \<open>Route matchers\<close>

definition matcher_AdminAuthorizer ::
    "app_request \<Rightarrow> access_role \<Rightarrow> web_response option \<times> access_role" where
  "matcher_AdminAuthorizer request role =
     (None, if wr_cookie request ''admin_id'' = ''ADMIN_SECRET'' then Admin else role)"

definition matcher_LoginPage :: "app_request \<Rightarrow> web_response" where
  "matcher_LoginPage request = Page ''
                <html>
                <form method=\"post\" enctype=\"multipart/form-data\">
                <label for=\"msg\">Login:</label>
                <input id=\"login\" name=\"login\" value=\"\">
                <label for=\"msg\">Password:</label>
                <input id=\"passwd\" name=\"passwd\" value=\"\">
                <input value=\"Submit\" data-popup=\"true\" type=\"submit\">
                </form></html>''"

definition matcher_LoginPageAuthorize :: "app_request \<Rightarrow> web_response" where
  "matcher_LoginPageAuthorize request =
     (if wr_formField request ''login'' = ''admin'' \<and> wr_formField request ''passwd'' = ''12345''
      then RedirectWithCookie ''/'' ''admin_id'' ''ADMIN_SECRET''
      else Redirect ''/login'')"

definition matcher_match_role :: "access_role \<Rightarrow> app_request \<Rightarrow> access_role \<Rightarrow> bool" where
  "matcher_match_role value request context \<longleftrightarrow> value = context"

definition matcher_index :: "app_request \<Rightarrow> access_role \<Rightarrow> web_response" where
  "matcher_index request role =
     (if role = Admin then Page ''<p>Hello admin</p>''
      else Page ''<p>Hello guest</p><p><a href=\"/login\">login</a>'')"

definition matcher_routes :: "(app_request, int, access_role, unit) app_route list" where
  "matcher_routes =
     [\<lparr>ro_path = PathRegex ''.*'', ro_matches = (\<lambda>rq c. True),
       ro_processor = authorizing matcher_AdminAuthorizer\<rparr>,
      \<lparr>ro_path = PathString ''/'', ro_matches = (\<lambda>rq c. True),
       ro_processor = answering matcher_index\<rparr>,
      \<lparr>ro_path = PathString ''/login'',
       ro_matches = (\<lambda>rq c. wr_method rq = MethodGet \<and> matcher_match_role Guest rq c),
       ro_processor = answering (\<lambda>rq c. matcher_LoginPage rq)\<rparr>,
      \<lparr>ro_path = PathString ''/login'',
       ro_matches = (\<lambda>rq c. wr_method rq = MethodPost \<and> matcher_match_role Guest rq c),
       ro_processor = answering (\<lambda>rq c. matcher_LoginPageAuthorize rq)\<rparr>,
      \<lparr>ro_path = PathString ''/login'',
       ro_matches = (\<lambda>rq c. wr_method rq = MethodGet \<and> matcher_match_role Admin rq c),
       ro_processor = SetResponse (RedirectAs ''/'' Found)\<rparr>,
      \<lparr>ro_path = PathString ''/login'',
       ro_matches = (\<lambda>rq c. wr_method rq = MethodPost \<and> matcher_match_role Admin rq c),
       ro_processor = SetResponse (RedirectAs ''/'' Found)\<rparr>,
      \<lparr>ro_path = AnyPath, ro_matches = (\<lambda>rq c. True),
       ro_processor = SetResponse (StatusPage 404 ''Page not found'')\<rparr>]"

section \<open>Equivalence\<close>

text \<open>
  Responses up to what does not matter: the indentation of a page, and whether a redirect names
  the type \<open>d\<close> that the library uses by default.
\<close>

fun normal_response :: "redirect_type \<Rightarrow> web_response \<Rightarrow> web_response" where
  "normal_response d (Page p) = Page (filter (\<lambda>c. c \<noteq> CHR '' '') p)"
| "normal_response d (Redirect p) = RedirectAs p d"
| "normal_response d w = w"

fun normal_outcome :: "redirect_type \<Rightarrow> route_outcome \<Rightarrow> route_outcome" where
  "normal_outcome d (Answered w) = Answered (normal_response d w)"
| "normal_outcome d out = out"



end
