(* ===== verification/Message_Boards.thy ===== *)
theory Message_Boards
  imports Guest_Book
begin

text \<open>
  Three versions of a guest book without escaping: \<^verbatim>\<open>examples/example_router.cpp\<close> (prefix \<open>rt\<close>),
  \<^verbatim>\<open>examples/example_route_params.cpp\<close> (\<open>rp\<close>), where messages can be removed by their number, and
  \<^verbatim>\<open>examples/example_route_params_user_defined_types.cpp\<close> (\<open>ud\<close>), where the number is a type of
  the application with its own conversion. The operations on the state hold its mutex, and each
  processor makes one of them.
\<close>

text \<open>The form that the three pages end with.\<close>

definition message_form :: string where
  "message_form =
     ''<form method=\"post\" enctype=\"multipart/form-data\">'' @
     ''<label for=\"msg\">Message:</label>'' @
     ''<input id=\"msg\" name=\"msg\" value=\"\">'' @
     ''<input value=\"Submit\" data-popup=\"true\" type=\"submit\">'' @
     ''</form>''"

section \<open>The router example\<close>

record rt_state =
  rt_list :: "string list"

definition rt_messages :: "rt_state \<Rightarrow> string list" where
  "rt_messages state = rt_list state"

definition rt_addMessage :: "string \<Rightarrow> rt_state \<Rightarrow> rt_state" where
  "rt_addMessage msg state = state\<lparr>rt_list := rt_list state @ [msg]\<rparr>"

fun rt_page_loop :: "string list \<Rightarrow> string" where
  "rt_page_loop [] = []"
| "rt_page_loop (msg # messages) = ''<p>'' @ msg @ ''</p>'' @ rt_page_loop messages"

definition rt_GuestBookPage :: "rt_state \<Rightarrow> web_response" where
  "rt_GuestBookPage state =
     (let messages = rt_messages state
      in Page (''<h1>Guest book</h1>'' @
           (if messages = [] then ''<p>No messages</p>'' else rt_page_loop messages) @
           ''<hr>'' @ message_form))"

definition rt_GuestBookAddMessage :: "app_request \<Rightarrow> rt_state \<Rightarrow> web_response \<times> rt_state" where
  "rt_GuestBookAddMessage request state =
     (Redirect ''/'', rt_addMessage (wr_formField request ''msg'') state)"

definition rt_routes :: "(app_request, int, unit, rt_state) app_route list" where
  "rt_routes =
     [\<lparr>ro_path = PathString ''/'', ro_matches = (\<lambda>rq c. wr_method rq = MethodGet),
       ro_processor = Process (\<lambda>rq c s. (Answered (rt_GuestBookPage s), c, s))\<rparr>,
      \<lparr>ro_path = PathString ''/'', ro_matches = (\<lambda>rq c. wr_method rq = MethodPost),
       ro_processor = Process (\<lambda>rq c s.
         let (w, s) = rt_GuestBookAddMessage rq s in (Answered w, c, s))\<rparr>,
      \<lparr>ro_path = AnyPath, ro_matches = (\<lambda>rq c. True),
       ro_processor = SetResponse (StatusPage 404 ''Page not found'')\<rparr>]"

section \<open>The example with a number as the parameter\<close>

record rp_state =
  rp_list :: "string list"

definition rp_messages :: "rp_state \<Rightarrow> string list" where
  "rp_messages state = rp_list state"

definition rp_addMessage :: "string \<Rightarrow> rp_state \<Rightarrow> rp_state" where
  "rp_addMessage msg state = state\<lparr>rp_list := rp_list state @ [msg]\<rparr>"

definition rp_removeMessage :: "int \<Rightarrow> rp_state \<Rightarrow> rp_state" where
  "rp_removeMessage index state =
     (if index < 0 \<or> index \<ge> cast_int (length (rp_list state)) then state
      else state\<lparr>rp_list := remove_nth (nat index) (rp_list state)\<rparr>)"

definition rp_makeMessage :: "int \<Rightarrow> string \<Rightarrow> string" where
  "rp_makeMessage index msg =
     msg @ ''<form action=\"/delete/'' @ to_string index @
     ''\" method=\"post\"> <input value=\"Delete\" type=\"submit\"> </form></div>''"

fun rp_page_loop :: "nat \<Rightarrow> string list \<Rightarrow> string" where
  "rp_page_loop i [] = []"
| "rp_page_loop i (msg # messages) =
     ''<p>'' @ rp_makeMessage (int i) msg @ ''</p>'' @ rp_page_loop (Suc i) messages"

definition rp_GuestBookPage :: "rp_state \<Rightarrow> web_response" where
  "rp_GuestBookPage state =
     (let messages = rp_messages state
      in Page (''<h1>Guest book</h1>'' @
           (if messages = [] then ''<p>No messages</p>''
            else rp_page_loop 0 (take (nat (cast_int (length messages))) messages)) @
           ''<hr>'' @ message_form))"

definition rp_GuestBookAddMessage :: "app_request \<Rightarrow> rp_state \<Rightarrow> web_response \<times> rp_state" where
  "rp_GuestBookAddMessage request state =
     (Redirect ''/'', rp_addMessage (wr_formField request ''msg'') state)"

definition rp_GuestBookRemoveMessage :: "int \<Rightarrow> rp_state \<Rightarrow> web_response \<times> rp_state" where
  "rp_GuestBookRemoveMessage index state =
     (Redirect ''/'', rp_removeMessage index state)"

definition rp_routes :: "(app_request, int, unit, rp_state) app_route list" where
  "rp_routes =
     [\<lparr>ro_path = PathString ''/'', ro_matches = (\<lambda>rq c. wr_method rq = MethodGet),
       ro_processor = Process (\<lambda>rq c s. (Answered (rp_GuestBookPage s), c, s))\<rparr>,
      \<lparr>ro_path = PathString ''/'', ro_matches = (\<lambda>rq c. wr_method rq = MethodPost),
       ro_processor = Process (\<lambda>rq c s.
         let (w, s) = rp_GuestBookAddMessage rq s in (Answered w, c, s))\<rparr>,
      \<lparr>ro_path = PathRegex ''/delete/(.+)'', ro_matches = (\<lambda>rq c. wr_method rq = MethodPost),
       ro_processor = ProcessParam (\<lambda>p rq c s.
         let (w, s) = rp_GuestBookRemoveMessage p s in (Answered w, c, s))\<rparr>,
      \<lparr>ro_path = AnyPath, ro_matches = (\<lambda>rq c. True),
       ro_processor = SetResponse (StatusPage 404 ''Page not found'')\<rparr>]"

section \<open>The example with a parameter type of its own\<close>

record message_number =
  mn_value :: int

text \<open>
  \<open>std::stoi\<close>: white space, a sign, digits, and the rest of the text is not looked at; it throws
  when there are no digits and when the number is not an \<open>int\<close>.
\<close>

definition strip_sign :: "string \<Rightarrow> bool \<times> string" where
  "strip_sign s =
     (case s of
        [] \<Rightarrow> (False, [])
      | c # cs \<Rightarrow> if c = CHR ''-'' then (True, cs) else if c = CHR ''+'' then (False, cs) else (False, s))"

definition stoi :: "string \<Rightarrow> cpp_exception + int" where
  "stoi s =
     (let (negative, s) = strip_sign (dropWhile isspace s);
          digits = takeWhile is_digit s;
          value = (if negative then - int (parse_nat digits) else int (parse_nat digits))
      in if digits = [] then Inl InvalidArgument
         else if value < - (2 ^ 31) \<or> value > 2 ^ 31 - 1 then Inl OutOfRange
         else Inr value)"

text \<open>\<open>StringConverter<MessageNumber>::fromString\<close>.\<close>

definition ud_fromString :: "string \<Rightarrow> cpp_exception + message_number option" where
  "ud_fromString data =
     (case stoi data of Inl e \<Rightarrow> Inl e | Inr n \<Rightarrow> Inr (Some \<lparr>mn_value = n\<rparr>))"

record ud_state =
  ud_list :: "string list"

definition ud_messages :: "ud_state \<Rightarrow> string list" where
  "ud_messages state = ud_list state"

definition ud_addMessage :: "string \<Rightarrow> ud_state \<Rightarrow> ud_state" where
  "ud_addMessage msg state = state\<lparr>ud_list := ud_list state @ [msg]\<rparr>"

definition ud_removeMessage :: "int \<Rightarrow> ud_state \<Rightarrow> ud_state" where
  "ud_removeMessage index state =
     (if index < 0 \<or> index \<ge> cast_int (length (ud_list state)) then state
      else state\<lparr>ud_list := remove_nth (nat index) (ud_list state)\<rparr>)"

definition ud_makeMessage :: "int \<Rightarrow> string \<Rightarrow> string" where
  "ud_makeMessage index msg =
     msg @ ''<form action=\"/delete/'' @ to_string index @
     ''\" method=\"post\"> <input value=\"Delete\" type=\"submit\"> </form></div>''"

fun ud_page_loop :: "nat \<Rightarrow> string list \<Rightarrow> string" where
  "ud_page_loop i [] = []"
| "ud_page_loop i (msg # messages) =
     ''<p>'' @ ud_makeMessage (int i) msg @ ''</p>'' @ ud_page_loop (Suc i) messages"

definition ud_GuestBookPage :: "ud_state \<Rightarrow> web_response" where
  "ud_GuestBookPage state =
     (let messages = ud_messages state
      in Page (''<h1>Guest book</h1>'' @
           (if messages = [] then ''<p>No messages</p>''
            else ud_page_loop 0 (take (nat (cast_int (length messages))) messages)) @
           ''<hr>'' @ message_form))"

definition ud_GuestBookAddMessage :: "app_request \<Rightarrow> ud_state \<Rightarrow> web_response \<times> ud_state" where
  "ud_GuestBookAddMessage request state =
     (Redirect ''/'', ud_addMessage (wr_formField request ''msg'') state)"

definition ud_GuestBookRemoveMessage :: "message_number \<Rightarrow> ud_state \<Rightarrow> web_response \<times> ud_state" where
  "ud_GuestBookRemoveMessage msgNumber state =
     (Redirect ''/'', ud_removeMessage (mn_value msgNumber) state)"

definition ud_routes :: "(app_request, message_number, unit, ud_state) app_route list" where
  "ud_routes =
     [\<lparr>ro_path = PathString ''/'', ro_matches = (\<lambda>rq c. wr_method rq = MethodGet),
       ro_processor = Process (\<lambda>rq c s. (Answered (ud_GuestBookPage s), c, s))\<rparr>,
      \<lparr>ro_path = PathString ''/'', ro_matches = (\<lambda>rq c. wr_method rq = MethodPost),
       ro_processor = Process (\<lambda>rq c s.
         let (w, s) = ud_GuestBookAddMessage rq s in (Answered w, c, s))\<rparr>,
      \<lparr>ro_path = PathRegex ''/delete/(.+)'', ro_matches = (\<lambda>rq c. wr_method rq = MethodPost),
       ro_processor = ProcessParam (\<lambda>p rq c s.
         let (w, s) = ud_GuestBookRemoveMessage p s in (Answered w, c, s))\<rparr>,
      \<lparr>ro_path = AnyPath, ro_matches = (\<lambda>rq c. True),
       ro_processor = SetResponse (StatusPage 404 ''Page not found'')\<rparr>]"

section \<open>Numbers\<close>

lemma is_digit_digit: "d < 10 \<Longrightarrow> is_digit (digit d)"
  by (simp add: is_digit_def of_char_digit)

lemma nat_to_string_is_digit: "c \<in> set (nat_to_string n) \<Longrightarrow> is_digit c"
  using nat_to_string_digits[of n] is_digit_digit by auto

lemma digit_not_space:
  assumes "is_digit c"
  shows "\<not> isspace c" "c \<noteq> CHR ''-''" "c \<noteq> CHR ''+''"
  using assms by (auto simp: is_digit_def isspace_def)

text \<open>A number in the range of \<open>int\<close>, printed, is read back.\<close>

lemma stoi_to_string:
  assumes "- (2 ^ 31) \<le> i" and "i < 2 ^ 31"
  shows "stoi (to_string i) = Inr i"
proof -
  have digits: "takeWhile is_digit (nat_to_string n) = nat_to_string n" for n
    using nat_to_string_is_digit by (intro takeWhile_eq_all_conv[THEN iffD2]) blast
  obtain c cs where c: "nat_to_string (nat i) = c # cs"
    using nat_to_string_not_Nil list.exhaust by metis
  then have "is_digit c" using nat_to_string_is_digit[of c "nat i"] by simp
  note c' = digit_not_space[OF this]
  show ?thesis
  proof (cases "i < 0")
    case True
    then show ?thesis
      using assms by (simp add: stoi_def to_string_def strip_sign_def isspace_def digits
          parse_nat_to_string del: parse_nat.simps)
  next
    case False
    then have "to_string i = c # cs" using c by (simp add: to_string_def)
    then show ?thesis
      using assms False c' c digits[of "nat i"] parse_nat_to_string[of "nat i"]
      by (simp add: stoi_def strip_sign_def del: parse_nat.simps)
  qed
qed

section \<open>Facts\<close>

lemma delete_route_matches:
  assumes "documented_patterns re" and "re_path re rq = ''/delete/'' @ x" and "x \<noteq> []"
    and "CHR 0x0A \<notin> set x" and "CHR 0x0D \<notin> set x"
  shows "re_match re (PathString ''/'') (re_path re rq) = None"
    and "re_match re (PathRegex ''/delete/(.+)'') (re_path re rq) = Some [x]"
  using assms by (simp_all add: documented_patterns_def del: append_Cons)

lemma ud_delete:
  assumes "documented_routing re rl" and "documented_patterns re" and "re_convert re = ud_fromString"
    and "re_path re rq = ''/delete/'' @ x" and "x \<noteq> []" and "CHR 0x0A \<notin> set x" and "CHR 0x0D \<notin> set x"
    and "wr_method rq = MethodPost"
  shows "rl ud_routes rq () s =
    (case stoi x of Inl e \<Rightarrow> (Raised e, s) | Inr i \<Rightarrow> (Answered (Redirect ''/''), ud_removeMessage i s))"
  using delete_route_matches[OF assms(2,4-7)] assms(3,8)
  by (simp add: documented_routing_unique[OF assms(1)] ud_routes_def route_captures_def
      ud_fromString_def ud_GuestBookRemoveMessage_def Let_def split: sum.split)

lemma rp_delete:
  assumes "documented_routing re rl" and "documented_patterns re"
    and "re_path re rq = ''/delete/'' @ x" and "x \<noteq> []" and "CHR 0x0A \<notin> set x" and "CHR 0x0D \<notin> set x"
    and "wr_method rq = MethodPost"
  shows "rl rp_routes rq () s =
    (case re_convert re x of
       Inl e \<Rightarrow> (Raised e, s)
     | Inr None \<Rightarrow> (ParametersError (RouteParameterReadError 0 x), s)
     | Inr (Some i) \<Rightarrow> (Answered (Redirect ''/''), rp_removeMessage i s))"
  using delete_route_matches[OF assms(2-6)] assms(7)
  by (simp add: documented_routing_unique[OF assms(1)] rp_routes_def route_captures_def
      rp_GuestBookRemoveMessage_def Let_def split: sum.split option.split)

lemma to_string_plain_path:
  "to_string (int n) \<noteq> []" "CHR 0x0A \<notin> set (to_string (int n))" "CHR 0x0D \<notin> set (to_string (int n))"
  by (simp_all add: to_string_other) (simp add: to_string_def)

lemma ud_page_loop_nth:
  "i < length ms \<Longrightarrow> ud_page_loop k ms =
     ud_page_loop k (take i ms) @ ''<p>'' @ ud_makeMessage (int (k + i)) (ms ! i) @ ''</p>'' @
     ud_page_loop (Suc (k + i)) (drop (Suc i) ms)"
proof (induction ms arbitrary: i k)
  case (Cons m ms)
  then show ?case by (cases i) (simp_all add: add.assoc del: append_Cons)
qed simp

lemma rt_page_loop_append: "rt_page_loop (xs @ ys) = rt_page_loop xs @ rt_page_loop ys"
  by (induction xs) simp_all

lemma set_strip_sign: "set (snd (strip_sign s)) \<subseteq> set s"
  by (cases s) (auto simp: strip_sign_def)

lemma stoi_no_digit:
  assumes "list_all (\<lambda>c. \<not> is_digit c) x"
  shows "stoi x = Inl InvalidArgument"
proof -
  let ?r = "snd (strip_sign (dropWhile isspace x))"
  have "set ?r \<subseteq> set x"
    using set_strip_sign set_dropWhileD by (metis subset_iff)
  then have "takeWhile is_digit ?r = []"
    using assms by (cases ?r) (auto simp: list_all_iff)
  then show ?thesis by (simp add: stoi_def case_prod_beta Let_def)
qed

lemma ud_makeMessage_text:
  "''<p>'' @ ud_makeMessage i m @ ''</p>'' @ t =
   ''<p>'' @ m @ ''<form action=\"/delete/'' @ to_string i @
     ''\" method=\"post\"> <input value=\"Delete\" type=\"submit\"> </form></div></p>'' @ t"
  by (simp add: ud_makeMessage_def)

section \<open>Properties\<close>

text \<open>
  C23. The delete button removes its message. The page shows every message with a form whose action
  holds the number of the message; when the browser posts to that path, the captured text is
  converted back to the same number and exactly that message is removed.
\<close>

theorem delete_button_roundtrip:
  assumes "documented_routing re rl" and "documented_patterns re" and "re_convert re = ud_fromString"
    and "i < length (ud_list s)" and "length (ud_list s) < 2 ^ 31"
    and "re_path re rq = ''/delete/'' @ to_string (int i)" and "wr_method rq = MethodPost"
  shows "(\<exists>before after. ud_GuestBookPage s = Page (before @ ''<p>'' @ ud_list s ! i @
      ''<form action=\"/delete/'' @ to_string (int i) @
      ''\" method=\"post\"> <input value=\"Delete\" type=\"submit\"> </form></div></p>'' @ after))
    \<and> rl ud_routes rq () s =
        (Answered (Redirect ''/''), s\<lparr>ud_list := take i (ud_list s) @ drop (Suc i) (ud_list s)\<rparr>)"
proof
  have len: "cast_int (length (ud_list s)) = int (length (ud_list s))"
    using assms(5) by (rule cast_int_small)
  have "ud_list s \<noteq> []" using assms(4) by auto
  then have "ud_GuestBookPage s = Page ((''<h1>Guest book</h1>'' @ ud_page_loop 0 (take i (ud_list s))) @
      ''<p>'' @ ud_list s ! i @ ''<form action=\"/delete/'' @ to_string (int i) @
      ''\" method=\"post\"> <input value=\"Delete\" type=\"submit\"> </form></div></p>'' @
      ud_page_loop (Suc i) (drop (Suc i) (ud_list s)) @ ''<hr>'' @ message_form)"
    using ud_page_loop_nth[OF assms(4), of 0] len
    by (simp add: ud_GuestBookPage_def ud_messages_def ud_makeMessage_text Let_def del: append_Cons)
  then show "\<exists>before after. ud_GuestBookPage s = Page (before @ ''<p>'' @ ud_list s ! i @
      ''<form action=\"/delete/'' @ to_string (int i) @
      ''\" method=\"post\"> <input value=\"Delete\" type=\"submit\"> </form></div></p>'' @ after)"
    by blast
  have "stoi (to_string (int i)) = Inr (int i)"
    using assms(4,5) by (intro stoi_to_string) simp_all
  then show "rl ud_routes rq () s =
      (Answered (Redirect ''/''), s\<lparr>ud_list := take i (ud_list s) @ drop (Suc i) (ud_list s)\<rparr>)"
    using ud_delete[OF assms(1-3,6) to_string_plain_path assms(7)] assms(4) len
    by (simp add: ud_removeMessage_def remove_nth_def)
qed

definition demo_ud_env :: "(app_request, message_number) route_env" where
  "demo_ud_env = \<lparr>re_path = wr_path, re_match = demo_match, re_convert = ud_fromString\<rparr>"

lemma demo_ud_patterns: "documented_patterns demo_ud_env"
  by (simp add: documented_patterns_def demo_ud_env_def)

theorem delete_button_roundtrip_witness:
  "route_run demo_ud_env ud_routes (demo_request MethodPost (''/delete/'' @ to_string (int 1)) []) ()
     \<lparr>ud_list = [''a'', ''b'', ''c'']\<rparr> = (Answered (Redirect ''/''), \<lparr>ud_list = [''a'', ''c'']\<rparr>)"
  using delete_button_roundtrip[OF documented_routing_run demo_ud_patterns,
      of 1 "\<lparr>ud_list = [''a'', ''b'', ''c'']\<rparr>"
        "demo_request MethodPost (''/delete/'' @ to_string (int 1)) []"]
  by (simp add: demo_ud_env_def demo_request_def)

text \<open>
  A number that cannot be read. The conversion of the application's own type answers with an
  exception instead of an empty optional: a path without any digit makes the request fail with
  it, where the same path in the example with a plain number is a route parameter error. Neither
  changes the messages.
\<close>

lemma bad_number_raises:
  assumes "documented_routing re rl" and "documented_patterns re" and "re_convert re = ud_fromString"
    and "documented_routing re' rl'" and "documented_patterns re'" and "re_convert re' x = Inr None"
    and "re_path re rq = ''/delete/'' @ x" and "re_path re' rq = ''/delete/'' @ x"
    and "x \<noteq> []" and "CHR 0x0A \<notin> set x" and "CHR 0x0D \<notin> set x" and "wr_method rq = MethodPost"
    and "list_all (\<lambda>c. \<not> is_digit c) x"
  shows "rl ud_routes rq () s = (Raised InvalidArgument, s)
    \<and> rl' rp_routes rq () s' = (ParametersError (RouteParameterReadError 0 x), s')"
proof -
  have "stoi x = Inl InvalidArgument"
    using assms(13) by (rule stoi_no_digit)
  then show ?thesis
    using ud_delete[OF assms(1-3,7,9-12), of s] rp_delete[OF assms(4,5,8-12), of s'] assms(6)
    by simp
qed

text \<open>
  What is posted is shown. A message posted to the example with a router is on the page that the
  next request gets, after all earlier ones and with every character as it was posted: markup in a
  message is markup of the page.
\<close>

theorem posted_message_shown:
  assumes "documented_routing re rl" and "documented_patterns re"
    and "re_path re post = ''/''" and "wr_method post = MethodPost"
    and "re_path re get = ''/''" and "wr_method get = MethodGet"
  shows "fst (rl rt_routes get () (snd (rl rt_routes post () s))) =
    Answered (Page (''<h1>Guest book</h1>'' @ rt_page_loop (rt_list s) @
      ''<p>'' @ wr_formField post ''msg'' @ ''</p><hr>'' @ message_form))"
  using assms(2-6)
  by (simp add: documented_routing_unique[OF assms(1)] documented_patterns_def rt_routes_def
      route_captures_def rt_GuestBookAddMessage_def rt_GuestBookPage_def rt_addMessage_def
      rt_messages_def rt_page_loop_append)

theorem posted_message_shown_witness:
  "fst (route_run demo_route_env rt_routes (demo_request MethodGet ''/'' []) ()
      (snd (route_run demo_route_env rt_routes (demo_request MethodPost ''/'' []) () \<lparr>rt_list = []\<rparr>))) =
    Answered (Page (''<h1>Guest book</h1><p>x</p><hr>'' @ message_form))"
  using posted_message_shown[OF documented_routing_run demo_documented_patterns,
      of "demo_request MethodPost ''/'' []" "demo_request MethodGet ''/'' []" "\<lparr>rt_list = []\<rparr>"]
  by (simp add: demo_route_env_def demo_request_def)

end
