(* ===== verification/Example_Programs.thy ===== *)
theory Example_Programs
  imports Server_System Guest_Book_Page Access_Examples Message_Boards
begin

text \<open>
  The example applications as programs: their remaining request processors, and every \<open>main\<close> of
  \<^verbatim>\<open>examples/\<close> and \<^verbatim>\<open>test_examples/\<close> that serves requests. A \<open>main\<close> makes the \<open>IO\<close>, the
  router with its routes and the server, listens on a socket file and runs the pool. The branch for
  Windows, which listens on a port instead, is left out.

  \<open>launch\<close> is whaleroute's: what launching the queue of a table of routes does on a request.
\<close>

section \<open>Programs\<close>

definition router_processor :: "('t \<Rightarrow> ('r, 'w, 'k) router_hooks \<Rightarrow> 'r \<Rightarrow> ('w, 'k) prog) \<Rightarrow>
    ('r, 'v, 'm) libs \<Rightarrow> (nat \<Rightarrow> 'w) \<Rightarrow> 't \<Rightarrow> ('r, 'w, 'k) request_processor" where
  "router_processor launch libs status routes =
     Handler (router_call (launch routes) (router_vtable libs status))"

text \<open>
  What the mains end with: a server is made, listens on the socket, and the pool runs. An exception
  leaves \<open>main\<close>.
\<close>

definition run_application :: "'l \<Rightarrow> os_api \<Rightarrow> 'u io_object \<Rightarrow> ('r, 'w, 'k) request_processor \<Rightarrow>
    string \<Rightarrow> cpp_exception + (('l, 'r, 'x, 'f, 'h, 'k, 'w) server \<times> run_action list)" where
  "run_application library os io requestProcessor socket =
     (case server_new (iob_ioService io) requestProcessor of
        Inl e \<Rightarrow> Inl e
      | Inr server \<Rightarrow>
          (case server_listen_local library os socket server of
             (server, Some e) \<Rightarrow> Inl e
           | (server, None) \<Rightarrow> Inr (server, IO_run (io\<lparr>iob_ioService := sv_io server\<rparr>))))"

definition new_io :: "int \<Rightarrow> cpp_exception + unit io_object" where
  "new_io threads = IO_new threads"

definition serve_routes :: "'l \<Rightarrow> os_api \<Rightarrow>
    ('t \<Rightarrow> ('r, 'w, 'k) router_hooks \<Rightarrow> 'r \<Rightarrow> ('w, 'k) prog) \<Rightarrow> ('r, 'v, 'm) libs \<Rightarrow>
    (nat \<Rightarrow> 'w) \<Rightarrow> int \<Rightarrow> 't \<Rightarrow>
    cpp_exception + (('l, 'r, 'x, 'f, 'h, 'k, 'w) server \<times> run_action list)" where
  "serve_routes library os launch libs status threads routes =
     (case new_io threads of
        Inl e \<Rightarrow> Inl e
      | Inr io \<Rightarrow>
          run_application library os io (router_processor launch libs status routes) ''/tmp/fcgi.sock'')"

section \<open>Hello world\<close>

definition hello_world_routes :: "(app_request, int, unit, unit) app_route list" where
  "hello_world_routes =
     [\<lparr>ro_path = PathString ''/'', ro_matches = (\<lambda>rq c. wr_method rq = MethodGet),
       ro_processor = Process (\<lambda>rq c s. (Answered (Page ''Hello world''), c, s))\<rparr>]"

definition hello_world_main where
  "hello_world_main library os launch libs status =
     serve_routes library os launch libs status 1 hello_world_routes"

section \<open>A function as the request processor\<close>

definition guestBookPage :: "app_request \<Rightarrow> web_response" where
  "guestBookPage request =
     (if wr_path request = ''/'' then Page ''
                <h1>Guest book</h1>
                <p>No messages</p>
            ''
      else StatusResponse 404)"

definition request_processor_main ::
    "'l \<Rightarrow> os_api \<Rightarrow> ('r, 'v, request_method) libs \<Rightarrow>
     cpp_exception + (('l, 'r, 'x, 'f, 'h, 'k, web_response) server \<times> run_action list)" where
  "request_processor_main library os libs =
     (case new_io 1 of
        Inl e \<Rightarrow> Inl e
      | Inr io \<Rightarrow>
          run_application library os io
            (Returning (\<lambda>request. ReturnHttp (guestBookPage (app_request_of libs request))))
            ''/tmp/fcgi.sock'')"

section \<open>A timer of the application\<close>

text \<open>
  \<open>Greeter\<close> keeps a pointer to the counter of \<open>main\<close>, which is the state of its routes. The timer
  is made from the \<open>IO\<close> and started before the server; its task is the name \<open>()\<close>.
\<close>

definition greeter :: "int \<Rightarrow> web_response" where
  "greeter secondsCounter = Page (''Hello world
(alive for '' @ to_string secondsCounter @ '' seconds)'')"

definition timer_routes :: "(app_request, int, unit, int) app_route list" where
  "timer_routes =
     [\<lparr>ro_path = PathString ''/'', ro_matches = (\<lambda>rq c. True),
       ro_processor = Process (\<lambda>rq c secondsCounter. (Answered (greeter secondsCounter), c, secondsCounter))\<rparr>,
      \<lparr>ro_path = AnyPath, ro_matches = (\<lambda>rq c. True),
       ro_processor = SetResponse (StatusResponse 404)\<rparr>]"

text \<open>The timer's service is the one of identity \<open>()\<close> in the store; the counter starts with 0.\<close>

record timer_example =
  te_timer :: "(unit, unit) timer_service"
  te_secondsCounter :: int

definition timer_example_start :: "(unit \<Rightarrow> (unit, unit) timer_service) \<Rightarrow> timer_example" where
  "timer_example_start store =
     (let (store, timer) = timer_of_io () store;
          store = timer_startPeriodic 1000 () timer store
      in \<lparr>te_timer = store (), te_secondsCounter = 0\<rparr>)"

definition timer_example_task :: "int \<Rightarrow> int" where
  "timer_example_task secondsCounter = secondsCounter + 1"

text \<open>asio completes the wait of the periodic timer: the task runs, and the timer starts again.\<close>

definition timer_example_expires :: "timer_example \<Rightarrow> timer_example" where
  "timer_example_expires s =
     (case waits (te_timer s) of
        [] \<Rightarrow> s
      | handler # _ \<Rightarrow>
          s\<lparr>te_timer := ts_fire (\<lambda>_. []) handler False (te_timer s),
            te_secondsCounter := timer_example_task (te_secondsCounter s)\<rparr>)"

definition timer_main where
  "timer_main library os launch libs status store =
     (timer_example_start store, serve_routes library os launch libs status 1 timer_routes)"

section \<open>Processors that answer through the responder\<close>

text \<open>A route to a processor that gets the responder, with the tree of its calls.\<close>

record ('r, 'w, 'k) responder_route =
  rr_path :: path_pattern
  rr_method :: "request_method option"
  rr_processor :: "'r \<Rightarrow> ('w, 'k) prog"

text \<open>
  \<open>DelayedPage\<close> of \<^verbatim>\<open>example_response_dispatching_asio_task.cpp\<close> posts a task; the task starts an
  asio timer whose handler keeps a copy of the task context and sends the response.
\<close>

definition delayed_page :: "'k \<Rightarrow> 'r \<Rightarrow> (web_response, 'k) prog" where
  "delayed_page task request = PPostTask task PDone"

definition delayed_page_copies :: nat where
  "delayed_page_copies = 1"

definition delayed_page_handler :: "(web_response, 'k) prog" where
  "delayed_page_handler = PSendHttp (Page ''Hello world'') PDone"

definition dispatching_routes :: "'k \<Rightarrow> ('r, web_response, 'k) responder_route list" where
  "dispatching_routes task =
     [\<lparr>rr_path = PathString ''/'', rr_method = Some MethodGet, rr_processor = delayed_page task\<rparr>,
      \<lparr>rr_path = AnyPath, rr_method = None, rr_processor = (\<lambda>_. PSendHttp (StatusResponse 404) PDone)\<rparr>]"

definition dispatching_main where
  "dispatching_main library os launch libs status task =
     serve_routes library os launch libs status 1 (dispatching_routes task)"

text \<open>
  \<open>DelayedPage\<close> of \<^verbatim>\<open>example_response_wait_future.cpp\<close> waits for a future with a timer made from the
  responder: \<open>waitFuture\<close> starts it periodically, every millisecond by default. The callback of
  the future sends the response.
\<close>

definition future_page :: "'k \<Rightarrow> 'r \<Rightarrow> (web_response, 'k) prog" where
  "future_page timerCallback request = PTimerPeriodic 1 timerCallback PDone"

definition future_page_handler :: "string \<Rightarrow> (web_response, 'k) prog" where
  "future_page_handler result = PSendHttp (Page (''Hello '' @ result)) PDone"

text \<open>
  Timer \<open>i\<close> of the connection expires: \<open>timerCallback\<close>, whose future is \<open>valid\<close> until its value was
  taken, and whose shared state holds \<open>promise\<close> now. \<open>None\<close> is undefined behaviour.
\<close>

definition future_page_tick :: "('l, 'x, web_response, 'f) conn_env \<Rightarrow> nat \<Rightarrow> nat \<Rightarrow> string option \<Rightarrow>
    bool \<times> ('l, 'r, 'x, 'f, 'h, 'k) connection \<Rightarrow>
    (bool \<times> ('l, 'r, 'x, 'f, 'h, 'k) connection) option" where
  "future_page_tick env i rid promise state =
     (let (valid, c) = state
      in case waitFuture_callback valid promise of
           None \<Rightarrow> None
         | Some (valid, results, cmds) \<Rightarrow>
             Some (valid, conn_onTimer env i rid
               (case results of [] \<Rightarrow> PDone | result # _ \<Rightarrow> future_page_handler result) cmds c))"

definition future_routes :: "'k \<Rightarrow> ('r, web_response, 'k) responder_route list" where
  "future_routes timerCallback =
     [\<lparr>rr_path = PathString ''/'', rr_method = Some MethodGet, rr_processor = future_page timerCallback\<rparr>,
      \<lparr>rr_path = AnyPath, rr_method = None, rr_processor = (\<lambda>_. PSendHttp (StatusResponse 404) PDone)\<rparr>]"

definition future_main where
  "future_main library os launch libs status timerCallback =
     serve_routes library os launch libs status 1 (future_routes timerCallback)"

text \<open>
  \<open>RequestPage\<close> of \<^verbatim>\<open>example_client_in_processor.cpp\<close> asks another application and shows its answer.
  \<open>http_request\<close> is the FastCGI data of the request for the page; \<open>http_body\<close> the body of the
  response that the library reads from a text, if it is one. The timeout is the default.
\<close>

definition request_page :: "(string \<rightharpoonup> string) \<times> string \<Rightarrow> 'k \<Rightarrow> 'r \<Rightarrow> (web_response, 'k) prog" where
  "request_page http_request responseHandler request =
     PClientHttp ''/tmp/fcgi.sock'' http_request responseHandler 3000 PDone"

definition request_page_handler :: "(string \<Rightarrow> string option) \<Rightarrow> client_result \<Rightarrow>
    (web_response, 'k) prog" where
  "request_page_handler http_body result =
     (let reqResponse = (case result of HttpResult d \<Rightarrow> http_body d | _ \<Rightarrow> None)
      in case reqResponse of
           Some body \<Rightarrow> PSendHttp (Page body) PDone
         | None \<Rightarrow> PSendHttp (Page ''No response'') PDone)"

definition requesting_routes :: "(string \<rightharpoonup> string) \<times> string \<Rightarrow> 'k \<Rightarrow>
    ('r, web_response, 'k) responder_route list" where
  "requesting_routes http_request responseHandler =
     [\<lparr>rr_path = PathString ''/'', rr_method = Some MethodGet,
       rr_processor = request_page http_request responseHandler\<rparr>,
      \<lparr>rr_path = AnyPath, rr_method = None, rr_processor = (\<lambda>_. PSendHttp (StatusResponse 404) PDone)\<rparr>]"

definition requesting_main where
  "requesting_main library os launch libs status http_request responseHandler =
     (case new_io 1 of
        Inl e \<Rightarrow> Inl e
      | Inr io \<Rightarrow>
          run_application library os io (router_processor launch libs status
            (requesting_routes http_request responseHandler)) ''/tmp/fcgi_client.sock'')"

text \<open>
  \<^verbatim>\<open>test_exception_in_request_handler.cpp\<close>: the event handler prints the message, and what was
  printed is its state.
\<close>

definition test_errorHandler :: "error_event \<Rightarrow> string \<Rightarrow> string list \<Rightarrow> string list" where
  "test_errorHandler event what printed = printed @ [what]"

definition throwing_routes :: "('r, web_response, 'k) responder_route list" where
  "throwing_routes =
     [\<lparr>rr_path = PathString ''/'', rr_method = Some MethodGet,
       rr_processor = (\<lambda>_. PThrow ''Can't send a response'')\<rparr>]"

definition test_exception_main where
  "test_exception_main library os launch libs status =
     (case IO_new_handler test_errorHandler of
        Inl e \<Rightarrow> Inl e
      | Inr io \<Rightarrow>
          (case run_application library os io
                  (router_processor launch libs status throwing_routes) ''/tmp/fcgi.sock'' of
             Inl e \<Rightarrow> Inl e
           | Inr (server, run) \<Rightarrow> Inr (iob_eventHandler io, server, run)))"

section \<open>The mains of the other examples\<close>

definition guest_book_main where
  "guest_book_main library os launch libs status =
     serve_routes library os launch libs status 4 guest_book_routes"

definition route_context_main where
  "route_context_main library os launch libs status =
     serve_routes library os launch libs status 4 context_routes"

definition route_matcher_main where
  "route_matcher_main library os launch libs status =
     serve_routes library os launch libs status 4 matcher_routes"

definition router_main where
  "router_main library os launch libs status =
     serve_routes library os launch libs status 4 rt_routes"

definition route_params_main where
  "route_params_main library os launch libs status =
     serve_routes library os launch libs status 4 rp_routes"

definition user_defined_types_main where
  "user_defined_types_main library os launch libs status =
     serve_routes library os launch libs status 4 ud_routes"

section \<open>Serving\<close>

text \<open>
  The result of a program that serves on a socket file: unless the acceptor cannot be opened, in
  which case the exception ends it, there is one listener, on the socket, waiting for its first
  connection, which has the program's request processor and the first context of the pool; and
  the pool runs: every context, one of them on the main thread, all other threads joined.
\<close>

definition socket_calls :: "string \<Rightarrow> os_call list" where
  "socket_calls socket = initUnixDomainSocket socket @ [OpenAcceptor (LocalEndpoint socket)]"

definition serves :: "os_api \<Rightarrow> 'l \<Rightarrow> ('r, 'w, 'k) request_processor \<Rightarrow> nat \<Rightarrow> string \<Rightarrow>
    cpp_exception + (('l, 'r, 'x, 'f, 'h, 'k, 'w) server \<times> run_action list) \<Rightarrow> bool" where
  "serves os library requestProcessor threads socket result \<longleftrightarrow>
     (case os_acceptor os (socket_calls socket) (LocalEndpoint socket) of
        Some e \<Rightarrow> result = Inl e
      | None \<Rightarrow> (\<exists>server l. result = Inr (server,
            map SpawnThread [1..<threads] @ [RunHere 0] @ map JoinThread [1..<threads])
          \<and> sv_local server = [l] \<and> sv_tcp server = [] \<and> sv_calls server = socket_calls socket
          \<and> ls_endpoint l = LocalEndpoint socket \<and> ls_processing l = [] \<and> ls_reports l = []
          \<and> ls_accepting l = [new_connection library requestProcessor 0]
          \<and> length (ioPool (sv_io server)) = threads
          \<and> list_all (\<lambda>c. \<not> ctx_stopped c) (ioPool (sv_io server))))"

lemma IO_new_io: "IO_new n = Inr io \<Longrightarrow> io_new n = Inr (iob_ioService io)"
  by (auto simp: IO_new_def split: sum.splits)

lemma IO_new_handler_io: "IO_new_handler h = Inr io \<Longrightarrow> io_new 1 = Inr (iob_ioService io)"
  by (auto simp: IO_new_handler_def IO_new_def split: sum.splits)

lemma run_application_serves:
  assumes "io_new n = Inr (iob_ioService io)" and "n < 2 ^ 31"
  shows "serves os library p (nat n) socket (run_application library os io p socket)"
proof -
  have io: "iob_ioService io = \<lparr>ioPool = replicate (nat n) \<lparr>ctx_stopped = False\<rparr>,
      ioGuardPool = [0..<nat n], signalWaits = 1, ioIndex = 0\<rparr>" and n: "0 < n"
    using assms(1) by (auto simp: io_new_pool split: if_splits)
  have "io_invar (iob_ioService io)" using assms by (rule io_new_invar)
  then show ?thesis
    using io n
    by (simp add: serves_def run_application_def server_new_def makeConnectionListenerFactory_def
        io_io_def server_service_new_def connection_factory_new_def connection_listener_factory_new_def
        server_listen_local_def service_listen_local_def makeConnectionListener_def socket_calls_def
        listener_new_def waitForConnection_Some IO_run_def io_run_def Let_def list_all_iff
        split: option.split)
qed

lemma serve_routes_serves:
  assumes "0 < n" and "n < 2 ^ 31"
  shows "serves os library (router_processor launch libs status routes) (nat n) ''/tmp/fcgi.sock''
    (serve_routes library os launch libs status n routes)"
proof -
  obtain io where io: "new_io n = Inr io"
    using assms(1) by (simp add: new_io_def IO_new_def io_new_pool)
  then show ?thesis
    using run_application_serves[OF IO_new_io assms(2), of io] by (simp add: serve_routes_def new_io_def)
qed

lemmas serve_one = serve_routes_serves[of 1, simplified]
lemmas serve_four = serve_routes_serves[of 4, simplified]

lemma run_application_one:
  "new_io 1 = Inr io \<Longrightarrow> serves os library p (Suc 0) socket (run_application library os io p socket)"
  using run_application_serves[of 1 io] by (simp add: new_io_def IO_new_io)

lemma run_application_handler:
  "IO_new_handler h = Inr io \<Longrightarrow>
     serves os library p (Suc 0) socket (run_application library os io p socket)"
  using run_application_serves[of 1 io] by (simp add: IO_new_handler_io)

lemma serves_opened:
  "serves os library p n socket result \<Longrightarrow>
     os_acceptor os (socket_calls socket) (LocalEndpoint socket) = None \<Longrightarrow>
     \<exists>server run. result = Inr (server, run)"
  by (auto simp: serves_def)

end
