(* ===== verification/Example_Runs.thy ===== *)
theory Example_Runs
  imports Example_Programs
begin

text \<open>
  What the example programs do when they run: they serve; the counter of the timer example; a
  response that is sent after a task of asio has run; an exception of a request processor.
\<close>

section \<open>Launching a route\<close>

text \<open>
  Documented behaviour of whaleroute for a table whose first route matches: its processor runs,
  and when that suspends the queue, throws, or has answered, launching the queue ends with it.
\<close>

primrec ends_queue :: "('w, 'k) prog \<Rightarrow> bool" where
  "ends_queue PDone = False"
| "ends_queue (PThrow what) = True"
| "ends_queue PThrowUnknown = True"
| "ends_queue (PSendHttp w p) = True"
| "ends_queue (PSendFastcgi d e p) = True"
| "ends_queue (PIsSent f) = (\<forall>b. ends_queue (f b))"
| "ends_queue (PTimer n k p) = True"
| "ends_queue (PTimerPeriodic n k p) = True"
| "ends_queue (PPostTask k p) = True"
| "ends_queue (PClientRequest path rq k n p) = True"
| "ends_queue (PClientHttp path rq k n p) = True"
| "ends_queue (PClientTcp ip port rq k n p) = True"
| "ends_queue (PClientHttpTcp ip port rq k n p) = True"
| "ends_queue (PClientDisconnect p) = ends_queue p"
| "ends_queue (PReport ev msg p) = ends_queue p"
| "ends_queue (PMakeQueue f) = (\<forall>q. ends_queue (f q))"
| "ends_queue (PSetQueue q p) = ends_queue p"

definition route_matches :: "('r, 'v, request_method) libs \<Rightarrow> ('r, 'w, 'k) responder_route \<Rightarrow>
    'r \<Rightarrow> bool" where
  "route_matches libs route request \<longleftrightarrow>
     (case rr_path route of PathString p \<Rightarrow> getRequestPath libs request = p | AnyPath \<Rightarrow> True | _ \<Rightarrow> False)
     \<and> (case rr_method route of Some m \<Rightarrow> match_method libs m request | None \<Rightarrow> True)"

definition documented_launch :: "('r, 'v, request_method) libs \<Rightarrow>
    (('r, 'w, 'k) responder_route list \<Rightarrow> ('r, 'w, 'k) router_hooks \<Rightarrow> 'r \<Rightarrow> ('w, 'k) prog) \<Rightarrow>
    bool" where
  "documented_launch libs launch \<longleftrightarrow> (\<forall>route routes hooks request.
     route_matches libs route request \<and> ends_queue (rr_processor route request) \<longrightarrow>
     launch (route # routes) hooks request = rr_processor route request)"

lemma documented_launch_first:
  assumes "documented_launch libs launch" and "route_matches libs route request"
    and "ends_queue (rr_processor route request)"
  shows "invoke_processor (router_processor launch libs status (route # routes)) request =
    PMakeQueue (\<lambda>q. PSetQueue q (rr_processor route request))"
  using assms by (simp add: documented_launch_def router_processor_def router_call_def)

text \<open>The connection when the first route's processor is called: a request with its queue.\<close>

definition routed :: "'r \<Rightarrow> 'x \<Rightarrow> ('l, 'r, 'x, 'f, 'h, 'k) connection \<Rightarrow>
    ('l, 'r, 'x, 'f, 'h, 'k) connection" where
  "routed r x c = rc_setRequestProcessorQueue (cn_nextQueue c)
     ((conn_begin r x c)\<lparr>cn_nextQueue := Suc (cn_nextQueue c)\<rparr>)"

lemma routed_simps [simp]:
  "conn_locked (cn_nextContext c) (routed r x c)" "queue_alive (routed r x c) (cn_nextQueue c)"
  "cn_answers (routed r x c) = cn_answers c" "cn_sender (routed r x c) = Some (rs_new x)"
  "cn_dispatcher (routed r x c) = ds_setRequestProcessorQueue (cn_nextQueue c) (cn_dispatcher c)"
  "cn_timers (routed r x c) = tp_setRequestProcessorQueue (cn_nextQueue c) (cn_timers c)"
  "cn_client (routed r x c) = cs_setRequestProcessorQueue (cn_nextQueue c) (cn_client c)"
  by (simp_all add: routed_def conn_locked_def queue_alive_def rc_setRequestProcessorQueue_def
      conn_begin_def)

lemma routed_request:
  assumes "documented_launch libs launch" and "getRequestPath libs r = ''/''"
    and "match_method libs MethodGet r"
    and "rr_path route = PathString ''/''" and "rr_method route = Some MethodGet"
    and "rr_processor route r = p" and "ends_queue p"
  shows "conn_processRequest env (router_processor launch libs status (route # routes)) r x c =
    (let (c', out) = run_prog env (cn_nextContext c) p (routed r x c)
     in conn_finish env (cn_nextContext c) out c')"
proof -
  have "cn_nextQueue (conn_begin r x c) = cn_nextQueue c" by (simp add: conn_begin_def)
  then show ?thesis
    using documented_launch_first[OF assms(1), of route r status routes] assms(2-7)
    by (simp add: route_matches_def conn_processRequest_eq routed_def
        accessor_setRequestProcessorQueue_def)
qed

lemma routed_send:
  assumes "cn_sender c = Some (rs_new x)" and "xr_isValid (ve_response env) x"
  shows "cn_answers (conn_send env d e c) = cn_answers c @ [(d, e)]"
  using conn_send_answers(1)[OF assms(1), of env d e] assms(2) by (simp add: rs_isSent_def rs_new_def)

section \<open>Frames\<close>

lemma queue_alive_dispatcher: "queue_alive (c\<lparr>cn_dispatcher := s\<rparr>) = queue_alive c"
  by (rule ext) (simp add: queue_alive_def)

lemma conn_locked_dispatcher: "conn_locked rid (c\<lparr>cn_dispatcher := s\<rparr>) = conn_locked rid c"
  by (simp add: conn_locked_def)

lemma conn_send_dispatcher:
  "cn_dispatcher (conn_send env d e c) = cn_dispatcher c"
  "queue_alive (conn_send env d e c) = queue_alive c"
proof -
  show "cn_dispatcher (conn_send env d e c) = cn_dispatcher c"
    by (simp add: conn_send_def conn_fields Let_def split: option.split prod.split)
  have "cn_context (conn_send env d e c) = cn_context c"
    by (simp add: conn_send_def conn_fields Let_def split: option.split prod.split)
  then show "queue_alive (conn_send env d e c) = queue_alive c"
    by (intro ext) (simp add: queue_alive_def)
qed

lemma conn_locked_client: "conn_locked rid (c\<lparr>cn_client := s\<rparr>) = conn_locked rid c"
  by (simp add: conn_locked_def)

lemma conn_locked_timers: "conn_locked rid (c\<lparr>cn_timers := t\<rparr>) = conn_locked rid c"
  by (simp add: conn_locked_def)

lemma conn_send_timers: "cn_timers (conn_send env d e c) = cn_timers c"
  by (simp add: conn_send_def conn_fields Let_def split: option.split prod.split)

section \<open>Properties\<close>


text \<open>
  The timer example counts. When its timer has expired \<open>n\<close> times the counter is \<open>n\<close>, exactly one
  wait is pending, for another second, and a request for the page is told the number, as long as
  it is an \<open>int\<close>.
\<close>

lemma timer_example_counts:
  assumes "documented_routing re rl" and "documented_patterns re" and "re_path re rq = ''/''"
    and "s = (timer_example_expires ^^ n) (timer_example_start store)" and "n < 2 ^ 31"
  shows "te_secondsCounter s = int n \<and> waits (te_timer s) = [PeriodicHandler 1000 ()]
    \<and> length (tasks_run (te_timer s)) = n
    \<and> rl timer_routes rq () (te_secondsCounter s) =
        (Answered (Page (''Hello world'' @ [CHR 0x0A] @ ''(alive for '' @ to_string (int n) @ '' seconds)'')), int n)"
proof -
  have "te_secondsCounter s = int n \<and> waits (te_timer s) = [PeriodicHandler 1000 ()]
      \<and> tasks_run (te_timer s) = replicate n ()"
    unfolding assms(4)
  proof (induction n)
    case 0
    show ?case
      by (simp add: timer_example_start_def timer_of_io_def timer_startPeriodic_def with_service_def
          ts_new_def tasks_run_def ts_startPeriodic_def ts_queue_stop_def ts_emit_def waits_def)
  next
    case (Suc n)
    then show ?case
      by (simp add: timer_example_expires_def timer_example_task_def ts_run_task_def
          replicate_append_same[symmetric])
  qed
  then show ?thesis
    using assms(2,3) by (simp add: documented_routing_unique[OF assms(1)] timer_routes_def
        route_captures_def documented_patterns_def greeter_def)
qed

text \<open>
  C12. A response dispatched to an asio task. The processor of the page answers nothing: it suspends
  the request's queue and posts its task. When the task has run, having given a copy of its context
  to the handler of an asio timer, there is still no answer and the queue still waits. The handler's
  run sends the page, the only answer to the request, and with the handler's copy of the context
  the queue is resumed.
\<close>

theorem delayed_page_answers:
  assumes "documented_launch libs launch" and "getRequestPath libs r = ''/''"
    and "match_method libs MethodGet r" and "xr_isValid (ve_response env) x"
    and "ds_posted (cn_dispatcher c) = []" and "n = length (ds_actions (cn_dispatcher c))"
    and "c1 = conn_processRequest env (router_processor launch libs (ve_status env)
      (dispatching_routes task)) r x c"
    and "c2 = conn_onPosted delayed_page_copies c1"
    and "c3 = fst (conn_callback env (cn_nextContext c) delayed_page_handler c2)"
    and "d = ctx_destroy (queue_alive c3) n (cn_dispatcher c3)"
  shows "cn_answers c1 = cn_answers c \<and> ds_posted (cn_dispatcher c1) = [(task, n)]
    \<and> cn_answers c2 = cn_answers c \<and> ds_posted (cn_dispatcher c2) = []
    \<and> ds_qops (cn_dispatcher c2) = ds_qops (cn_dispatcher c) @ [Stop]
    \<and> cn_answers c3 = cn_answers c @ [(ve_cgi env (Page ''Hello world''), [])]
    \<and> ds_qops (cn_dispatcher c3) = ds_qops (cn_dispatcher c) @ [Stop]
    \<and> ds_qops d = ds_qops (cn_dispatcher c) @ [Stop, Launch]"
proof -
  let ?q = "cn_nextQueue c" and ?rid = "cn_nextContext c" and ?b = "routed r x c"
  let ?ds = "ds_setRequestProcessorQueue ?q (cn_dispatcher c)"
  let ?s = "ds_postTask (queue_alive ?b) task ?ds"
  let ?s2 = "ds_run_posted (queue_alive ?b) 1 ?s"
  have c1: "c1 = ?b\<lparr>cn_dispatcher := ?s\<rparr>"
    by (simp add: assms(7) dispatching_routes_def delayed_page_def
        routed_request[OF assms(1-3), where p = "PPostTask task PDone"] conn_finish_def
        conn_post_task_def dispatcher_postTask_def dispatcher_of_responder_def
        getAsioDispatcherService_def with_service_def)
  have c2: "c2 = ?b\<lparr>cn_dispatcher := ?s2\<rparr>"
    by (simp add: assms(8) c1 conn_onPosted_def delayed_page_copies_def queue_alive_dispatcher)
  have s: "ds_queue ?ds = Some ?q" "ds_actions ?ds = ds_actions (cn_dispatcher c)"
    "ds_posted ?ds = []" "ds_qops ?ds = ds_qops (cn_dispatcher c)"
    using assms(5) by (simp_all add: ds_setRequestProcessorQueue_def ds_qops_def)
  have s2: "ds_posted ?s2 = []" "ds_qops ?s2 = ds_qops (cn_dispatcher c) @ [Stop]"
    "n < length (ds_actions ?s2)" "ds_actions ?s2 ! n = \<lparr>pa_refs = 1, pa_observer = Some ?q\<rparr>"
    using s assms(6)
    by (simp_all add: ds_run_posted_def ctx_copy_def ctx_destroy_def weak_lock_def Let_def nth_append)
  have c3: "c3 = conn_send env (ve_cgi env (Page ''Hello world'')) [] c2"
    by (simp add: assms(9) conn_callback_def delayed_page_handler_def responder_send_http_def c2
        conn_locked_dispatcher)
  have ans: "cn_answers c3 = cn_answers c @ [(ve_cgi env (Page ''Hello world''), [])]"
    using routed_send[of c2 x env] assms(4) by (simp add: c3 c2)
  have d3: "cn_dispatcher c3 = ?s2" "queue_alive c3 ?q"
    by (simp_all add: c3 c2 conn_send_dispatcher queue_alive_dispatcher)
  have "ds_qops d = ds_qops (cn_dispatcher c) @ [Stop, Launch]"
    using s2 d3 by (simp add: assms(10) ctx_destroy_def weak_lock_def Let_def)
  then show ?thesis
    using ans d3 s s2 assms(6) by (simp add: c1 c2)
qed

text \<open>A request is its path here, and every method is GET.\<close>

definition page_libs :: "(string, string, request_method) libs" where
  "page_libs = \<lparr>
     lib_fcgi = \<lparr>fr_hasParam = (\<lambda>r n. n = ''REQUEST_URI''),
       fr_param = (\<lambda>r n. r), fr_params = (\<lambda>r. [(''REQUEST_URI'', r)]), fr_stdIn = (\<lambda>r. [])\<rparr>,
     lib_http = \<lparr>hv_make = (\<lambda>me ip ho uri qs co ct body. uri),
       hv_ipAddress = (\<lambda>v. []), hv_domainName = (\<lambda>v. []), hv_path = (\<lambda>v. v),
       hv_method = (\<lambda>v. MethodGet), hv_query = (\<lambda>v n. []), hv_hasQuery = (\<lambda>v n. False),
       hv_cookie = (\<lambda>v n. []), hv_hasCookie = (\<lambda>v n. False), hv_formField = (\<lambda>v n i. []),
       hv_formFieldCount = (\<lambda>v n. 0), hv_hasFormField = (\<lambda>v n. False),
       hv_fileData = (\<lambda>v n i. []), hv_fileCount = (\<lambda>v n. 0), hv_hasFile = (\<lambda>v n. False),
       hv_fileName = (\<lambda>v n i. []), hv_fileType = (\<lambda>v n i. []), hv_queries = (\<lambda>v. []),
       hv_cookies = (\<lambda>v. []), hv_formFieldList = (\<lambda>v. []), hv_fileList = (\<lambda>v. []),
       hv_hasFiles = (\<lambda>v. False)\<rparr>\<rparr>"

definition page_env :: "(unit, bool \<times> string \<times> string, web_response, unit) conn_env" where
  "page_env = \<lparr>ve_asio = demo_asio, ve_response = demo_response_api,
     ve_cgi = (\<lambda>w. case w of Page s \<Rightarrow> s | StatusResponse n \<Rightarrow> to_string (int n) | _ \<Rightarrow> []),
     ve_status = StatusResponse, ve_requester = (),
     ve_make_endpoint = (\<lambda>_ _. Inl InvalidArgument),
     ve_what = (\<lambda>_. ''Invalid argument'')\<rparr>"

definition page_connection ::
    "(unit, string, bool \<times> string \<times> string, unit, unit, nat) connection" where
  "page_connection = connection_new ()"

fun page_launch :: "(string, web_response, nat) responder_route list \<Rightarrow>
    (string, web_response, nat) router_hooks \<Rightarrow> string \<Rightarrow> (web_response, nat) prog" where
  "page_launch [] hooks r = hk_processUnmatchedRequest hooks r PDone"
| "page_launch (route # routes) hooks r =
     (if route_matches page_libs route r then rr_processor route r else page_launch routes hooks r)"

lemma page_simps:
  "documented_launch page_libs page_launch" "getRequestPath page_libs ''/'' = ''/''"
  "match_method page_libs MethodGet ''/''" "xr_isValid (ve_response page_env) (True, [], [])"
  "ds_posted (cn_dispatcher page_connection) = []"
  "length (ds_actions (cn_dispatcher page_connection)) = 0"
  "cn_answers page_connection = []" "cn_nextContext page_connection = 0"
  by (simp_all add: documented_launch_def getRequestPath_def match_method_def page_libs_def
      view_of_def param_or_empty_def page_env_def demo_response_api_def page_connection_def
      connection_new_def ds_new_def)

lemma demo_os_acceptor: "os_acceptor demo_os calls ep = None"
  by (simp add: demo_os_def)

theorem delayed_page_answers_witness:
  "cn_answers (fst (conn_callback page_env 0 delayed_page_handler (conn_onPosted delayed_page_copies
     (conn_processRequest page_env (router_processor page_launch page_libs (ve_status page_env)
       (dispatching_routes 7)) ''/'' (True, [], []) page_connection)))) = [(''Hello world'', [])]"
  using delayed_page_answers[OF page_simps(1-5) refl refl refl refl refl, of 7] page_simps(7,8)
  by (simp add: page_env_def)

text \<open>
  The program that tests exceptions. A request for its page, whose processor throws, gets the
  response with status 500 as its only answer; the message of the exception is reported, and the
  event handler the program was given prints it.
\<close>

theorem test_exception_answered:
  assumes "documented_launch libs launch" and "getRequestPath libs r = ''/''"
    and "match_method libs MethodGet r" and "xr_isValid (ve_response env) x"
    and "test_exception_main library os launch libs (ve_status env) = Inr (eventHandler, server, run)"
    and "c1 = conn_processRequest env (conn_requestProcessor (hd (ls_accepting (hd (sv_local server))))) r x c"
  shows "cn_answers c1 = cn_answers c @ [(ve_cgi env (ve_status env 500), [])]
    \<and> last (trace c1) = Report RequestProcessingError ''Can't send a response''
    \<and> proxy_call eventHandler RequestProcessingError ''Can't send a response'' printed
        = printed @ [''Can't send a response'']"
proof -
  obtain io where io: "IO_new_handler test_errorHandler = Inr io"
    by (simp add: IO_new_handler_def IO_new_def io_new_pool)
  have run: "run_application library os io (router_processor launch libs (ve_status env) throwing_routes)
      ''/tmp/fcgi.sock'' = Inr (server, run)" and h: "eventHandler = iob_eventHandler io"
    using assms(5) io by (auto simp: test_exception_main_def split: sum.splits prod.splits)
  have "serves os library (router_processor launch libs (ve_status env) throwing_routes) (Suc 0)
      ''/tmp/fcgi.sock'' (Inr (server, run))"
    unfolding run[symmetric] by (rule run_application_handler[OF io])
  then have proc: "conn_requestProcessor (hd (ls_accepting (hd (sv_local server)))) =
      router_processor launch libs (ve_status env) throwing_routes"
    by (auto simp: serves_def new_connection_def split: option.splits)
  have c1: "c1 = conn_finish env (cn_nextContext c) (Threw ''Can't send a response'') (routed r x c)"
    by (simp add: assms(6) proc throwing_routes_def
        routed_request[OF assms(1-3), where p = "PThrow ''Can't send a response''"])
  have "cn_answers c1 = cn_answers c @ [(ve_cgi env (ve_status env 500), [])]"
    using routed_send[of "routed r x c" x env] assms(4)
    by (simp add: c1 conn_finish_def responder_send_http_def conn_fields)
  moreover have "last (trace c1) = Report RequestProcessingError ''Can't send a response''"
    by (simp add: c1 conn_finish_def emit_def)
  moreover have "proxy_call eventHandler RequestProcessingError ''Can't send a response'' printed
      = printed @ [''Can't send a response'']"
    using io by (auto simp: h IO_new_handler_def proxy_of_def proxy_call_def test_errorHandler_def
        split: sum.splits)
  ultimately show ?thesis by simp
qed

theorem test_exception_answered_witness:
  "\<exists>eventHandler server run. test_exception_main () demo_os page_launch page_libs (ve_status page_env)
      = Inr (eventHandler, server :: (unit, string, bool \<times> string \<times> string, unit, unit, nat, web_response) server, run)
    \<and> cn_answers (conn_processRequest page_env
        (conn_requestProcessor (hd (ls_accepting (hd (sv_local server))))) ''/'' (True, [], []) page_connection)
      = [(ve_cgi page_env (StatusResponse 500), [])]"
proof -
  obtain io where io: "IO_new_handler test_errorHandler = Inr io"
    by (simp add: IO_new_handler_def IO_new_def io_new_pool)
  have "\<exists>(server :: (unit, string, bool \<times> string \<times> string, unit, unit, nat, web_response) server) run.
      run_application () demo_os io (router_processor page_launch page_libs (ve_status page_env)
      throwing_routes) ''/tmp/fcgi.sock'' = Inr (server, run)"
    by (rule serves_opened[OF run_application_handler[OF io] demo_os_acceptor])
  then obtain server :: "(unit, string, bool \<times> string \<times> string, unit, unit, nat, web_response) server" and run
    where "run_application () demo_os io (router_processor page_launch page_libs (ve_status page_env)
      throwing_routes) ''/tmp/fcgi.sock'' = Inr (server, run)"
    by (elim exE)
  then have "test_exception_main () demo_os page_launch page_libs (ve_status page_env)
      = Inr (iob_eventHandler io, server, run)"
    by (simp add: test_exception_main_def io)
  then show ?thesis
    using test_exception_answered[OF page_simps(1-4) _ refl, of "()" demo_os _ server run page_connection]
      page_simps(7) by (auto simp: page_env_def)
qed

end
