(* ===== verification/Example_Waits.thy ===== *)
theory Example_Waits
  imports Example_Runs
begin

text \<open>
  The example programs that wait for something: \<^verbatim>\<open>example_response_wait_future.cpp\<close>,
  \<^verbatim>\<open>example_client_in_processor.cpp\<close>, \<^verbatim>\<open>example_client.cpp\<close>, which makes a request to another application
  and ends, and \<^verbatim>\<open>example_asio_dispatcher.cpp\<close>.
\<close>

section \<open>A future\<close>

text \<open>
  The connection while the page of the future example waits: its request is not answered, timer
  \<open>i\<close> has one wait pending and suspends the request's queue.
\<close>

definition future_waiting :: "nat \<Rightarrow> 'x \<Rightarrow> nat \<Rightarrow> 'k \<Rightarrow> (string \<times> string) list \<Rightarrow>
    ('l, 'r, 'x, 'f, 'h, 'k) connection \<Rightarrow> bool" where
  "future_waiting rid x i k answers c \<longleftrightarrow>
     cn_answers c = answers \<and> cn_sender c = Some (rs_new x) \<and> conn_locked rid c
     \<and> i < length (tp_timers (cn_timers c))
     \<and> waits (tp_timers (cn_timers c) ! i) = [PeriodicHandler 1 k]
     \<and> ts_queue (tp_timers (cn_timers c) ! i) \<noteq> None \<and> suspended (tp_timers (cn_timers c) ! i)"

lemma future_waiting_start:
  assumes "documented_launch libs launch" and "getRequestPath libs r = ''/''"
    and "match_method libs MethodGet r"
  shows "future_waiting (cn_nextContext c) x (length (tp_timers (cn_timers c))) k (cn_answers c)
    (conn_processRequest env (router_processor launch libs status (future_routes k)) r x c)"
proof -
  let ?p = "tp_setRequestProcessorQueue (cn_nextQueue c) (cn_timers c)"
  have "length (tp_timers ?p) = length (tp_timers (cn_timers c))"
      "tp_timers (fst (emplaceTimer ?p)) ! length (tp_timers (cn_timers c)) = ts_new (Some (cn_nextQueue c))"
    by (simp_all add: tp_setRequestProcessorQueue_def emplaceTimer_def nth_append)
  moreover have "conn_processRequest env (router_processor launch libs status (future_routes k)) r x c =
      (routed r x c)\<lparr>cn_timers := tp_update (length (tp_timers ?p)) (ts_startPeriodic 1 k)
        (fst (emplaceTimer ?p))\<rparr>"
    by (simp add: future_routes_def future_page_def conn_finish_def conn_timer_startPeriodic_def
        routed_request[OF assms, where p = "PTimerPeriodic 1 k PDone"] timer_of_responder_def
        getTimerService_def Let_def case_prod_beta)
  ultimately show ?thesis
    by (simp add: future_waiting_def conn_locked_timers ts_new_def)
qed

lemma future_waiting_tick:
  assumes "future_waiting rid x i k answers c"
  shows "\<exists>c'. future_page_tick env i rid None (True, c) = Some (True, c')
    \<and> future_waiting rid x i k answers c'"
  using assms
  by (simp add: future_waiting_def future_page_tick_def waitFuture_callback_def conn_onTimer_def
      conn_callback_def conn_locked_timers Let_def)

lemma future_waiting_get:
  assumes "future_waiting rid x i k answers c" and "xr_isValid (ve_response env) x"
  shows "\<exists>c'. future_page_tick env i rid (Some v) (True, c) = Some (False, c')
    \<and> cn_answers c' = answers @ [(ve_cgi env (Page (''Hello '' @ v)), [])]
    \<and> waits (tp_timers (cn_timers c') ! i) = [PeriodicHandler 1 k]
    \<and> suspended (tp_timers (cn_timers c') ! i)"
proof -
  let ?b = "c\<lparr>cn_timers := tp_update i (ts_emit (RunTask k)) (cn_timers c)\<rparr>"
  have "cn_answers (conn_send env (ve_cgi env (Page (''Hello '' @ v))) [] ?b) =
      answers @ [(ve_cgi env (Page (''Hello '' @ v)), [])]"
    using assms routed_send[of ?b x env] by (simp add: future_waiting_def)
  then show ?thesis
    using assms by (simp add: future_waiting_def future_page_tick_def waitFuture_callback_def
        conn_onTimer_def conn_callback_def future_page_handler_def responder_send_http_def
        conn_locked_timers conn_send_timers Let_def del: append_Cons)
qed

section \<open>A client in a processor\<close>

text \<open>A response arrives for the handler of the page: the page is sent, then the queue resumed.\<close>

definition request_page_text :: "(string \<Rightarrow> string option) \<Rightarrow> response_data option \<Rightarrow> string" where
  "request_page_text http_body r =
     (case r of
        Some d \<Rightarrow> (case http_body (rd_data d) of Some body \<Rightarrow> body | None \<Rightarrow> ''No response'')
      | None \<Rightarrow> ''No response'')"

lemma request_page_handler_text:
  "request_page_handler http_body (result_of True r) = PSendHttp (Page (request_page_text http_body r)) PDone"
  by (simp add: request_page_handler_def request_page_text_def result_of_def split: option.split)

lemma request_page_response:
  assumes "cn_sender c = Some (rs_new x)" and "xr_isValid (ve_response env) x" and "conn_locked rid c"
    and "rq_http cl" and "handlers (rq_handler cl) = (\<lambda>result. (rid, request_page_handler http_body result))"
  shows "cn_answers (fst (conn_responses env handlers [(cl, r)] c)) =
      cn_answers c @ [(ve_cgi env (Page (request_page_text http_body r)), [])]"
    and "cn_client (fst (conn_responses env handlers [(cl, r)] c)) = cs_onResponse cl r (cn_client c)"
    and "snd (conn_responses env handlers [(cl, r)] c) = Returned"
proof -
  let ?b = "c\<lparr>cn_client := cs_before_handler cl r (cn_client c)\<rparr>"
  have "conn_locked rid ?b" using assms(3) by (simp add: conn_locked_def)
  moreover have "cn_client (conn_send env d e ?b) = cn_client ?b" for d e
    by (simp add: conn_send_def conn_fields Let_def split: option.split prod.split)
  moreover have "cn_answers (conn_send env d e ?b) = cn_answers c @ [(d, e)]" for d e
    using routed_send[of ?b x env d e] assms(1,2) by simp
  ultimately show "cn_answers (fst (conn_responses env handlers [(cl, r)] c)) =
      cn_answers c @ [(ve_cgi env (Page (request_page_text http_body r)), [])]"
    "cn_client (fst (conn_responses env handlers [(cl, r)] c)) = cs_onResponse cl r (cn_client c)"
    "snd (conn_responses env handlers [(cl, r)] c) = Returned"
    using assms(4,5) by (simp_all add: conn_onResponse_def conn_callback_def request_page_handler_text
        responder_send_http_def cs_onResponse_split Let_def)
qed

text \<open>The connection when the processor of the page has returned.\<close>

definition request_page_client ::
    "'f \<Rightarrow> (string \<rightharpoonup> string) \<times> string \<Rightarrow> 'k \<Rightarrow> 'q \<Rightarrow>
     ('q, 'f, 'h, 'k) client_service \<Rightarrow> ('q, 'f, 'h, 'k) client_service" where
  "request_page_client f0 rq k q s = cs_makeHttpRequest_local (\<lambda>fcgiRequest. fcgiRequest) f0
     ''/tmp/fcgi.sock'' \<lparr>params = fst rq, stdIn = snd rq\<rparr> k 3000 (cs_setRequestProcessorQueue q s)"

definition request_page_closure :: "(string \<rightharpoonup> string) \<times> string \<Rightarrow> 'k \<Rightarrow>
    ('q, 'f, 'h, 'k) client_service \<Rightarrow> 'k request_closure" where
  "request_page_closure rq k s = \<lparr>rq_timer = length (tp_timers (cs_timers s)), rq_handler = k,
     rq_http = True, rq_request = \<lparr>params = fst rq, stdIn = snd rq\<rparr>\<rparr>"

lemma request_page_closure_simps [simp]:
  "rq_http (request_page_closure rq k s)" "rq_handler (request_page_closure rq k s) = k"
  "rq_request (request_page_closure rq k s) = \<lparr>params = fst rq, stdIn = snd rq\<rparr>"
  by (simp_all add: request_page_closure_def)

lemma request_page_client_simps:
  assumes "cs_wf s"
  shows "cs_slot (cs_next s) (request_page_client f0 rq k q s) = Some \<lparr>slot_id = cs_next s,
      slot_conn = cc_makeRequest ''/tmp/fcgi.sock'' (new_client_connection f0),
      slot_closure = Some (request_page_closure rq k s)\<rparr>"
    and "cs_qops (request_page_client f0 rq k q s) = cs_qops s @ [Stop]"
    and "cs_queue (request_page_client f0 rq k q s) = Some q"
proof -
  have "cs_wf (cs_setRequestProcessorQueue q s)" using assms
    by (simp add: cs_setRequestProcessorQueue_def cs_wf_def cs_ids_def cs_closures_def cs_slots_def)
  then show "cs_slot (cs_next s) (request_page_client f0 rq k q s) = Some \<lparr>slot_id = cs_next s,
      slot_conn = cc_makeRequest ''/tmp/fcgi.sock'' (new_client_connection f0),
      slot_closure = Some (request_page_closure rq k s)\<rparr>"
    using cs_made_http_local(1)[of "cs_setRequestProcessorQueue q s"]
    by (simp add: request_page_client_def request_page_closure_def cs_setRequestProcessorQueue_def)
  have "cs_qops (cs_setRequestProcessorQueue q s) = cs_qops s"
      "cs_queue (cs_setRequestProcessorQueue q s) = Some q"
    by (simp_all add: cs_setRequestProcessorQueue_def cs_qops_def)
  then show "cs_qops (request_page_client f0 rq k q s) = cs_qops s @ [Stop]"
    "cs_queue (request_page_client f0 rq k q s) = Some q"
    by (simp_all add: request_page_client_def)
qed

lemma requesting_start:
  assumes "documented_launch libs launch" and "getRequestPath libs r = ''/''"
    and "match_method libs MethodGet r"
  shows "conn_processRequest env (router_processor launch libs status (requesting_routes rq k)) r x c =
    (routed r x c)\<lparr>cn_client := request_page_client (ve_requester env) rq k (cn_nextQueue c) (cn_client c)\<rparr>"
  by (simp add: request_page_client_def requesting_routes_def request_page_def conn_finish_def conn_client_http_def
      routed_request[OF assms, where p = "PClientHttp ''/tmp/fcgi.sock'' rq k 3000 PDone"]
      client_makeHttpRequest_local_def client_of_responder_def getClientService_def with_service_def)

text \<open>The events of the request: it fails when connected, is sent, is answered.\<close>

lemma request_page_fails:
  assumes "cs_slot i (cn_client c) = Some slot" and "slot_closure slot = Some cl"
    and "cc_onConnect (ce_asio ce) (ce_api ce) (rq_request cl) e (slot_conn slot) = (conn, None, [None])"
    and "cn_sender c = Some (rs_new x)" and "xr_isValid (ve_response env) x" and "conn_locked rid c"
    and "rq_http cl" and "handlers (rq_handler cl) = (\<lambda>result. (rid, request_page_handler http_body result))"
  shows "cn_answers (conn_onClient env ce handlers (EvConnect i e) c) =
      cn_answers c @ [(ve_cgi env (Page ''No response''), [])]"
    and "cn_client (conn_onClient env ce handlers (EvConnect i e) c) =
      cs_onResponse cl None (cs_set_conn i conn (cn_client c))"
proof -
  let ?b = "c\<lparr>cn_client := cs_set_conn i conn (cn_client c)\<rparr>"
  have b: "cn_sender ?b = Some (rs_new x)" "conn_locked rid ?b"
    using assms(4,6) by (simp_all add: conn_locked_def)
  note response = request_page_response[where handlers = handlers and cl = cl and r = None
      and http_body = http_body, OF b(1) assms(5) b(2) assms(7,8)]
  have "conn_onClient env ce handlers (EvConnect i e) c = fst (conn_responses env handlers [(cl, None)] ?b)"
    using assms(1-3) response(3) by (simp add: conn_onClient_def cs_prepare_connect_def
        case_prod_beta Let_def del: conn_responses.simps)
  then show "cn_answers (conn_onClient env ce handlers (EvConnect i e) c) =
      cn_answers c @ [(ve_cgi env (Page ''No response''), [])]"
    "cn_client (conn_onClient env ce handlers (EvConnect i e) c) =
      cs_onResponse cl None (cs_set_conn i conn (cn_client c))"
    using response(1,2) by (simp_all add: request_page_text_def del: conn_responses.simps)
qed

lemma request_page_sent:
  assumes "cs_slot i (cn_client c) = Some slot" and "slot_closure slot = Some cl" and "slot_id slot = i"
    and "api_sendRequest (ce_api ce) (requester (slot_conn slot)) (params (rq_request cl))
      (stdIn (rq_request cl)) = (f1, calls, Some h)"
  obtains conn where "requester conn = f1"
    and "conn_onClient env ce handlers (EvConnect i None) c = c\<lparr>cn_client :=
      (cs_set_conn i conn (cn_client c))\<lparr>cs_cancel := (cs_cancel (cn_client c))(i := Some h)\<rparr>\<rparr>"
    and "cs_slot i ((cs_set_conn i conn (cn_client c))\<lparr>cs_cancel := f\<rparr>) = Some (slot\<lparr>slot_conn := conn\<rparr>)"
proof (rule that)
  let ?conn = "cc_calls (ce_asio ce) calls ((cc_processReading (ce_asio ce) (slot_conn slot))\<lparr>requester := f1\<rparr>)"
  show "requester ?conn = f1" by simp
  show "conn_onClient env ce handlers (EvConnect i None) c = c\<lparr>cn_client :=
      (cs_set_conn i ?conn (cn_client c))\<lparr>cs_cancel := (cs_cancel (cn_client c))(i := Some h)\<rparr>\<rparr>"
    using assms by (simp add: conn_onClient_def cs_prepare_connect_def cc_onConnect_def Let_def)
  show "cs_slot i ((cs_set_conn i ?conn (cn_client c))\<lparr>cs_cancel := f\<rparr>) = Some (slot\<lparr>slot_conn := ?conn\<rparr>)"
    using assms(1) by simp
qed

lemma request_page_answered:
  assumes "cs_slot i (cn_client c) = Some slot" and "slot_closure slot = Some cl"
    and "responses_of (snd (api_receiveData (ce_api ce) (requester (slot_conn slot)) data)) = [Some answer]"
    and "cn_sender c = Some (rs_new x)" and "xr_isValid (ve_response env) x" and "conn_locked rid c"
    and "rq_http cl" and "handlers (rq_handler cl) = (\<lambda>result. (rid, request_page_handler http_body result))"
  shows "cn_answers (conn_onClient env ce handlers (EvRead i None data) c) =
      cn_answers c @ [(ve_cgi env (Page (request_page_text http_body (Some answer))), [])]"
    and "\<exists>conn. cn_client (conn_onClient env ce handlers (EvRead i None data) c) =
      cs_onResponse cl (Some answer) (cs_set_conn i conn (cn_client c))"
proof -
  let ?conn = "fst (cc_receiveData (ce_asio ce) (ce_api ce) data (slot_conn slot))"
  let ?b = "c\<lparr>cn_client := cs_set_conn i ?conn (cn_client c)\<rparr>"
  have b: "cn_sender ?b = Some (rs_new x)" "conn_locked rid ?b"
    using assms(4,6) by (simp_all add: conn_locked_def)
  note response = request_page_response[where handlers = handlers and cl = cl and r = "Some answer"
      and http_body = http_body, OF b(1) assms(5) b(2) assms(7,8)]
  have "snd (cc_receiveData (ce_asio ce) (ce_api ce) data (slot_conn slot)) = [Some answer]"
    using assms(3) by (simp add: cc_receiveData_def Let_def case_prod_beta)
  then have ran: "conn_onClient env ce handlers (EvRead i None data) c =
      (fst (conn_responses env handlers [(cl, Some answer)] ?b))\<lparr>cn_client :=
        cs_set_conn i (cc_processReading (ce_asio ce) ?conn)
          (cs_onResponse cl (Some answer) (cn_client ?b))\<rparr>"
    using assms(1,2) response(2,3) by (simp add: conn_onClient_def cs_prepare_read_def
        cs_onResponse_slot case_prod_beta Let_def del: conn_responses.simps)
  then show "cn_answers (conn_onClient env ce handlers (EvRead i None data) c) =
      cn_answers c @ [(ve_cgi env (Page (request_page_text http_body (Some answer))), [])]"
    "\<exists>conn. cn_client (conn_onClient env ce handlers (EvRead i None data) c) =
      cs_onResponse cl (Some answer) (cs_set_conn i conn (cn_client c))"
    using response(1) unfolding ran
    by (auto simp: cs_response_set_conn simp del: conn_responses.simps)
qed

section \<open>The client example\<close>

text \<open>
  A client of the application's \<open>IO\<close> makes an HTTP request; its handler prints the body, or that
  there is none, and stops the \<open>IO\<close>. \<open>http_body\<close> is the body of the response that the library
  reads from a text, if it is one; the timeout is the default of three seconds.
\<close>

definition client_example_start :: "(request_method \<times> string \<Rightarrow> fastcgi_request) \<Rightarrow> 'f \<Rightarrow>
    (unit \<Rightarrow> (unit, 'f, 'h, unit) client_service) \<Rightarrow> (unit, 'f, 'h, unit) client_service" where
  "client_example_start toFcgiData f0 store =
     (let (store, client) = client_of_io () store
      in client_makeHttpRequest_local toFcgiData f0 ''/tmp/fcgi.sock'' (MethodGet, ''/'') () 3000
           client store ())"

definition client_example_handler :: "(string \<Rightarrow> string option) \<Rightarrow> client_result \<Rightarrow>
    string list \<times> unit io_object \<Rightarrow> string list \<times> unit io_object" where
  "client_example_handler http_body result state =
     (let (printed, io) = state;
          response = (case result of HttpResult d \<Rightarrow> http_body d | _ \<Rightarrow> None);
          printed = (case response of
                       Some body \<Rightarrow> printed @ [body]
                     | None \<Rightarrow> printed @ [''No response''])
      in (printed, IO_stop io))"

text \<open>What the program has printed and its \<open>IO\<close>, when the client has called the handler.\<close>

definition client_example_state :: "(string \<Rightarrow> string option) \<Rightarrow> unit io_object \<Rightarrow>
    (unit, 'f, 'h, unit) client_service \<Rightarrow> string list \<times> unit io_object" where
  "client_example_state http_body io s =
     fold (\<lambda>(_, result). client_example_handler http_body result) (cs_handled s) ([], io)"

lemma client_example_start_eq:
  "client_example_start toFcgiData f0 store =
     cs_makeHttpRequest_local toFcgiData f0 ''/tmp/fcgi.sock'' (MethodGet, ''/'') () 3000 cs_new"
  by (simp add: client_example_start_def client_of_io_def client_makeHttpRequest_local_def
      with_service_def)

lemma client_example_slot:
  "cs_slot 0 (client_example_start toFcgiData f0 store) = Some \<lparr>slot_id = 0,
     slot_conn = cc_makeRequest ''/tmp/fcgi.sock'' (new_client_connection f0),
     slot_closure = Some \<lparr>rq_timer = 0, rq_handler = (), rq_http = True,
       rq_request = toFcgiData (MethodGet, ''/'')\<rparr>\<rparr>"
  "cs_handled (client_example_start toFcgiData f0 store) = []"
  "cs_cancel (client_example_start toFcgiData f0 store) = (\<lambda>_. None)"
  by (simp_all add: client_example_start_eq cs_slot_def cs_makeHttpRequest_local_def cs_closure_def
      cs_new_def cs_arm_def cs_queue_stop_def tp_new_def emplaceTimer_def cs_handled_def Let_def
      case_prod_beta)

text \<open>
  The client example comes to an end. When the application it asks cannot be reached, or the
  requester does not take the request, it prints that there is no response; when it is answered, it
  prints the body of the response; either happens once, and all contexts of its \<open>IO\<close> are stopped
  then and not before.
\<close>

lemma client_example_ends:
  assumes "s = client_example_start toFcgiData f0 store"
    and "rq = toFcgiData (MethodGet, ''/'')"
    and "c = cs_onConnect env api 0 error_code s"
    and "s' = cs_onRead env api 0 None data c"
  shows "client_example_state http_body io s = ([], io)
    \<and> (error_code \<noteq> None \<or> snd (snd (api_sendRequest api f0 (params rq) (stdIn rq))) = None \<longrightarrow>
        client_example_state http_body io c = ([''No response''], IO_stop io))
    \<and> (\<forall>f1 calls h answer body. error_code = None
          \<and> api_sendRequest api f0 (params rq) (stdIn rq) = (f1, calls, Some h)
          \<and> responses_of (snd (api_receiveData api f1 data)) = [Some answer]
          \<and> http_body (rd_data answer) = Some body \<longrightarrow>
        client_example_state http_body io c = ([], io)
        \<and> client_example_state http_body io s' = ([body], IO_stop io))
    \<and> list_all ctx_stopped (ioPool (iob_ioService (IO_stop io)))"
proof (intro conjI allI impI)
  note slot = client_example_slot[of toFcgiData f0 store]
  show "client_example_state http_body io s = ([], io)"
    by (simp add: client_example_state_def assms(1) slot(2))
  show "list_all ctx_stopped (ioPool (iob_ioService (IO_stop io)))"
    by (simp add: IO_stop_def io_stop_def list_all_iff)
  show "client_example_state http_body io c = ([''No response''], IO_stop io)"
    if no: "error_code \<noteq> None \<or> snd (snd (api_sendRequest api f0 (params rq) (stdIn rq))) = None"
  proof -
    have "error_code = None \<Longrightarrow> snd (snd (api_sendRequest api
        (requester (cc_makeRequest ''/tmp/fcgi.sock'' (new_client_connection f0))) (params rq) (stdIn rq))) = None"
      using no by simp
    then obtain conn where "cc_onConnect env api rq error_code
        (cc_makeRequest ''/tmp/fcgi.sock'' (new_client_connection f0)) = (conn, None, [None])"
      by (rule cc_onConnect_fails)
    then have "cs_handled c = [((), NoResult)]"
      using slot assms(2) by (simp add: assms(3) assms(1) cs_onConnect_def result_of_def)
    then show ?thesis by (simp add: client_example_state_def client_example_handler_def)
  qed
  fix f1 calls h answer body
  assume a: "error_code = None \<and> api_sendRequest api f0 (params rq) (stdIn rq) = (f1, calls, Some h)
    \<and> responses_of (snd (api_receiveData api f1 data)) = [Some answer]
    \<and> http_body (rd_data answer) = Some body"
  let ?cl = "\<lparr>rq_timer = 0, rq_handler = (), rq_http = True, rq_request = rq\<rparr>"
  obtain conn1 where c: "c = (cs_set_conn 0 conn1 s)\<lparr>cs_cancel := (\<lambda>_. None)(0 := Some h)\<rparr>"
    and conn1: "requester conn1 = f1"
    and slot1: "cs_slot 0 c = Some \<lparr>slot_id = 0, slot_conn = conn1, slot_closure = Some ?cl\<rparr>"
    using a slot assms(2) by (simp add: assms(3) assms(1) cs_onConnect_def cc_onConnect_def Let_def)
  obtain conn2 where s': "s' = fold (cs_onResponse ?cl) [Some answer] (cs_set_conn 0 conn2 c)"
    using a slot1 conn1
    by (auto simp: assms(4) cs_onRead_def cc_onRead_def cc_readData_def cc_receiveData_def Let_def case_prod_beta)
  have "cs_handled c = []" using slot(2) by (simp add: c assms(1))
  then show "client_example_state http_body io c = ([], io)"
      "client_example_state http_body io s' = ([body], IO_stop io)"
    using a by (simp_all add: s' client_example_state_def client_example_handler_def result_of_def)
qed

section \<open>The dispatcher example\<close>

text \<open>
  \<^verbatim>\<open>example_asio_dispatcher.cpp\<close>: a task is posted from the application's \<open>IO\<close>. It waits for an
  asio timer of its own, whose handler, with a copy of the task's context, prints and stops the
  \<open>IO\<close>. The state: the dispatcher's service, the waits (milliseconds) of asio timers that are
  pending, what was printed, and the \<open>IO\<close>.
\<close>

record 'u dispatcher_example =
  de_service :: "(unit, unit) dispatcher_service"
  de_waits :: "int list"
  de_printed :: "string list"
  de_io :: "'u io_object"

definition dispatcher_example_start ::
    "'u io_object \<Rightarrow> (unit \<Rightarrow> (unit, unit) dispatcher_service) \<Rightarrow> 'u dispatcher_example" where
  "dispatcher_example_start io store =
     (let (store, disp) = dispatcher_of_io () store;
          store = dispatcher_postTask (\<lambda>_. False) () disp store
      in \<lparr>de_service = store (), de_waits = [], de_printed = [], de_io = io\<rparr>)"

definition dispatcher_example_task :: "'u dispatcher_example \<Rightarrow> 'u dispatcher_example" where
  "dispatcher_example_task s =
     (case ds_posted (de_service s) of
        [] \<Rightarrow> s
      | _ \<Rightarrow> s\<lparr>de_service := ds_run_posted (\<lambda>_. False) 1 (de_service s),
               de_waits := de_waits s @ [3000]\<rparr>)"

definition dispatcher_example_handler :: "'u dispatcher_example \<Rightarrow> 'u dispatcher_example" where
  "dispatcher_example_handler s =
     (case de_waits s of
        [] \<Rightarrow> s
      | _ # rest \<Rightarrow>
          s\<lparr>de_printed := de_printed s @ [''Hello world''], de_io := IO_stop (de_io s),
            de_waits := rest, de_service := ctx_destroy (\<lambda>_. False) 0 (de_service s)\<rparr>)"

text \<open>
  The task runs once; until its timer expires nothing is printed, the context lives on in the
  timer's handler, and the \<open>IO\<close> runs. Then the line is printed, the context is gone and every asio
  context is stopped.
\<close>

lemma dispatcher_example_ends:
  assumes "s1 = dispatcher_example_task (dispatcher_example_start io store)"
    and "s2 = dispatcher_example_handler s1"
  shows "dispatcher_example_task s1 = s1 \<and> de_printed s1 = [] \<and> de_io s1 = io \<and> de_waits s1 = [3000]
    \<and> map pa_refs (ds_actions (de_service s1)) = [1]
    \<and> de_printed s2 = [''Hello world''] \<and> de_waits s2 = []
    \<and> map pa_refs (ds_actions (de_service s2)) = [0] \<and> ds_qops (de_service s2) = []
    \<and> list_all ctx_stopped (ioPool (iob_ioService (de_io s2)))"
proof -
  have "ds_actions (de_service s1) = [\<lparr>pa_refs = 1, pa_observer = None\<rparr>]
      \<and> ds_posted (de_service s1) = [] \<and> ds_qops (de_service s1) = []"
    by (simp add: assms(1) dispatcher_example_start_def dispatcher_of_io_def dispatcher_postTask_def
        with_service_def dispatcher_example_task_def ds_new_def ds_qops_def ds_run_posted_def
        ds_postTask_def ctx_copy_def ctx_destroy_def pa_set_refs_def weak_lock_def Let_def)
  moreover have "de_printed s1 = [] \<and> de_io s1 = io \<and> de_waits s1 = [3000]"
    by (simp add: assms(1) dispatcher_example_start_def dispatcher_of_io_def dispatcher_postTask_def
        with_service_def dispatcher_example_task_def ds_new_def ds_postTask_def weak_lock_def Let_def)
  ultimately show ?thesis
    by (simp add: assms(2) dispatcher_example_task_def dispatcher_example_handler_def ctx_destroy_def
        pa_set_refs_def ds_postTaskAction_def weak_lock_def IO_stop_def io_stop_def list_all_iff
        ds_qops_def Let_def)
qed

section \<open>Properties\<close>

text \<open>
  C14. A response that waits for a future. The processor of the page answers nothing: it starts a
  timer that suspends the request's queue and expires every millisecond. However often the timer
  expires before the future is ready, nothing is sent and the timer is started again. With the
  expiry that finds the value, the page with the value is sent, the only answer to the request.
  But the handler starts the timer again after the callback has stopped it: the queue is suspended
  again, and the next expiry asks a future whose value was taken, which is undefined behaviour.
\<close>

theorem future_page_answers:
  assumes "documented_launch libs launch" and "getRequestPath libs r = ''/''"
    and "match_method libs MethodGet r" and "xr_isValid (ve_response env) x"
    and "i = length (tp_timers (cn_timers c))" and "rid = cn_nextContext c"
    and "c1 = conn_processRequest env (router_processor launch libs (ve_status env)
      (future_routes k)) r x c"
    and "waited = ((\<lambda>s. Option.bind s (future_page_tick env i rid None)) ^^ n) (Some (True, c1))"
  shows "cn_answers c1 = cn_answers c
    \<and> (\<exists>c2 c3. waited = Some (True, c2) \<and> cn_answers c2 = cn_answers c
        \<and> waits (tp_timers (cn_timers c2) ! i) = [PeriodicHandler 1 k]
        \<and> suspended (tp_timers (cn_timers c2) ! i)
        \<and> future_page_tick env i rid (Some v) (True, c2) = Some (False, c3)
        \<and> cn_answers c3 = cn_answers c @ [(ve_cgi env (Page (''Hello '' @ v)), [])]
        \<and> waits (tp_timers (cn_timers c3) ! i) = [PeriodicHandler 1 k]
        \<and> suspended (tp_timers (cn_timers c3) ! i)
        \<and> (\<forall>promise. future_page_tick env i rid promise (False, c3) = None))"
proof -
  have start: "future_waiting rid x i k (cn_answers c) c1"
    using future_waiting_start[OF assms(1-3)] by (simp add: assms(5-7))
  have "\<exists>c2. waited = Some (True, c2) \<and> future_waiting rid x i k (cn_answers c) c2"
    unfolding assms(8)
  proof (induction n)
    case (Suc n)
    then show ?case using future_waiting_tick by fastforce
  qed (simp add: start)
  then obtain c2 where c2: "waited = Some (True, c2)" "future_waiting rid x i k (cn_answers c) c2"
    by blast
  have "\<forall>promise. future_page_tick env i rid promise (False, c') = None" for c'
    by (simp add: future_page_tick_def waitFuture_callback_def)
  then show ?thesis
    using start c2 future_waiting_get[OF c2(2) assms(4), of v] by (auto simp: future_waiting_def)
qed

theorem future_page_answers_witness:
  "\<exists>c2 c3. ((\<lambda>s. Option.bind s (future_page_tick page_env 0 0 None)) ^^ 2)
      (Some (True, conn_processRequest page_env (router_processor page_launch page_libs
        (ve_status page_env) (future_routes 7)) ''/'' (True, [], []) page_connection)) = Some (True, c2)
    \<and> future_page_tick page_env 0 0 (Some ''you'') (True, c2) = Some (False, c3)
    \<and> cn_answers c3 = [(''Hello you'', [])]"
proof -
  have "length (tp_timers (cn_timers page_connection)) = 0"
    by (simp add: page_connection_def connection_new_def tp_new_def)
  then show ?thesis
    using future_page_answers[OF page_simps(1-4) refl refl refl refl, where c = page_connection
        and k = 7 and n = 2 and v = "''you''"] page_simps(7,8)
    by (auto simp: page_env_def)
qed

definition page_handlers :: "nat \<Rightarrow> client_result \<Rightarrow> nat \<times> (web_response, nat) prog" where
  "page_handlers k result = (0, request_page_handler Some result)"



end
